(* ===== verification/Drive_Prelude.thy ===== *)
theory Drive_Prelude
  imports Main "HOL-Library.Word"
begin

text \<open>
  Shared vocabulary of the GoreeCloud Drive development: Go's signed 64-bit integers, Go error
  values with the wrapping that \<^verbatim>\<open>fmt.Errorf("%w")\<close> performs and the search that
  \<^verbatim>\<open>errors.Is\<close> performs, and the collections of simplification rules the component theories
  add to.

  A Go function that returns \<^verbatim>\<open>(T, error)\<close> is modelled by a result of type \<open>goerr + 'a\<close>
  (\<open>Inl\<close> for a non-nil error) when the code ignores the value beside an error, and by a pair
  when it does not. Effects are explicit state passing.
\<close>

named_theorems os_frame \<open>what a system call leaves unchanged\<close>
named_theorems os_defs \<open>definitions of the system calls\<close>
named_theorems go_defs \<open>definitions of the Go library operations that evaluate on literals\<close>

section \<open>Signed 64-bit integers\<close>

type_synonym int64 = int

text \<open>
  An \<^verbatim>\<open>int64\<close> is an \<^typ>\<open>int\<close> in the range of 64-bit two's complement; every addition and
  subtraction of the source whose result can leave the range goes through \<open>wrap64\<close>.
\<close>

definition wrap64 :: "int \<Rightarrow> int64" where
  "wrap64 x = (x + 2 ^ 63) mod 2 ^ 64 - 2 ^ 63"

definition in_int64 :: "int \<Rightarrow> bool" where
  "in_int64 x \<longleftrightarrow> - (2 ^ 63) \<le> x \<and> x < 2 ^ 63"

definition maxInt64 :: int64 where
  "maxInt64 = 2 ^ 63 - 1"

lemma wrap64_id [simp]: "in_int64 x \<Longrightarrow> wrap64 x = x"
  by (simp add: in_int64_def wrap64_def)

lemma wrap64_range: "in_int64 (wrap64 x)"
  by (simp add: in_int64_def wrap64_def pos_mod_bound)

text \<open>\<open>wrap64\<close> is the signed reading of a 64-bit machine word.\<close>

lemma wrap64_word: "wrap64 x = sint (word_of_int x :: 64 word)"
  by (simp add: wrap64_def sint_uint uint_word_of_int signed_take_bit_eq_take_bit_shift
      take_bit_eq_mod mod_simps)

lemma wrap64_maxInt64_Suc: "wrap64 (maxInt64 + 1) = - (2 ^ 63)"
  by (simp add: wrap64_def maxInt64_def)

section \<open>Go error values\<close>

text \<open>The sentinel errors of the packages, and the two of package \<^verbatim>\<open>os\<close> the code tests for.\<close>

datatype sentinel =
    OsErrNotExist | OsErrExist | SqlErrNoRows
  | ErrUnauthenticated | ErrNotMember
  | NodesErrForbidden | NodesErrInvalid | NodesErrNotFound | NodesErrUnavailable
  | QuotaErrUnavailable | QuotaErrExceeded | QuotaErrInvalidSize
  | ErrQuarantineConflict | ErrQuarantineReconciliation
  | UploadsErrNotFound | UploadsErrForbidden | UploadsErrExpired | UploadsErrOffsetMismatch
  | UploadsErrCompleted | UploadsErrInvalidTarget | UploadsErrSecurityUnavailable
  | UploadsErrSecurityBlocked

text \<open>
  \<open>Sentinel\<close> is one of the variables above, \<open>ErrorString\<close> an error made by
  \<^verbatim>\<open>errors.New\<close> or by \<^verbatim>\<open>fmt.Errorf\<close> without a \<^verbatim>\<open>%w\<close>, \<open>Wrapped\<close> one
  made by \<^verbatim>\<open>fmt.Errorf\<close> with one. Message texts keep the constant part of the format.
\<close>

datatype goerr =
    Sentinel sentinel
  | ErrorString string
  | Wrapped string goerr

fun errors_Is :: "goerr \<Rightarrow> sentinel \<Rightarrow> bool" where
  "errors_Is (Sentinel t) s = (t = s)"
| "errors_Is (ErrorString m) s = False"
| "errors_Is (Wrapped m e) s = errors_Is e s"

section \<open>Results\<close>

fun is_ok :: "'e + 'a \<Rightarrow> bool" where
  "is_ok (Inl e) = False"
| "is_ok (Inr a) = True"

lemma is_ok_iff: "is_ok r \<longleftrightarrow> (\<exists>a. r = Inr a)"
  by (cases r) auto

lemma case_sum_InrE:
  assumes "(case x of Inl e \<Rightarrow> Inl e | Inr v \<Rightarrow> f v) = Inr y"
  obtains v where "x = Inr v" "f v = Inr y"
  using assms by (cases x) auto

text \<open>The same for a step that returns the next state as well.\<close>

lemma case_run_InrE:
  assumes "(case m of (r, t) \<Rightarrow> (case r of Inl e \<Rightarrow> F e t | Inr v \<Rightarrow> G v t)) = (Inr y, u)"
    and "\<And>e t. F e t \<noteq> (Inr y, u)"
  obtains v t where "m = (Inr v, t)" "G v t = (Inr y, u)"
  using assms by (cases m; cases "fst m") auto

end
