(* ===== verification/Go_Strings.thy ===== *)
theory Go_Strings
  imports Drive_Prelude
begin

text \<open>
  The parts of Go's \<^verbatim>\<open>strings\<close>, \<^verbatim>\<open>unicode\<close>, \<^verbatim>\<open>unicode/utf8\<close> and
  \<^verbatim>\<open>encoding/hex\<close> the program uses. A Go string is a sequence of bytes, as is a HOL
  \<^typ>\<open>string\<close> (a \<^typ>\<open>char\<close> is one byte), so \<open>length\<close> is Go's \<^verbatim>\<open>len\<close>. A
  \<^verbatim>\<open>range\<close> loop over a string walks its UTF-8 decoding, with U+FFFD for every byte that does
  not start a well-formed sequence.
\<close>

section \<open>UTF-8\<close>

type_synonym rune = nat

abbreviation byte_of :: "char \<Rightarrow> nat" where
  "byte_of c \<equiv> of_char c"

definition RuneError :: rune where
  "RuneError = 65533"

definition cont_byte :: "char \<Rightarrow> bool" where
  "cont_byte c \<longleftrightarrow> 128 \<le> byte_of c \<and> byte_of c \<le> 191"

text \<open>The range the second byte of a sequence must lie in, given the first.\<close>

definition second_byte_ok :: "nat \<Rightarrow> nat \<Rightarrow> bool" where
  "second_byte_ok b0 b1 \<longleftrightarrow>
     (if b0 = 224 then 160 \<le> b1 \<and> b1 \<le> 191
      else if b0 = 237 then 128 \<le> b1 \<and> b1 \<le> 159
      else if b0 = 240 then 144 \<le> b1 \<and> b1 \<le> 191
      else if b0 = 244 then 128 \<le> b1 \<and> b1 \<le> 143
      else 128 \<le> b1 \<and> b1 \<le> 191)"

text \<open>\<^verbatim>\<open>utf8.DecodeRuneInString\<close>: the first rune and its width in bytes.\<close>

definition decode_rune :: "string \<Rightarrow> rune \<times> nat" where
  "decode_rune s =
     (case s of
        [] \<Rightarrow> (RuneError, 0)
      | c0 # s1 \<Rightarrow>
          (let b0 = byte_of c0 in
           if b0 < 128 then (b0, 1)
           else if b0 < 194 \<or> 244 < b0 then (RuneError, 1)
           else (case s1 of
               [] \<Rightarrow> (RuneError, 1)
             | c1 # s2 \<Rightarrow>
                 if \<not> second_byte_ok b0 (byte_of c1) then (RuneError, 1)
                 else if b0 < 224 then ((b0 - 192) * 64 + (byte_of c1 - 128), 2)
                 else (case s2 of
                     [] \<Rightarrow> (RuneError, 1)
                   | c2 # s3 \<Rightarrow>
                       if \<not> cont_byte c2 then (RuneError, 1)
                       else if b0 < 240
                       then ((b0 - 224) * 4096 + (byte_of c1 - 128) * 64 + (byte_of c2 - 128), 3)
                       else (case s3 of
                           [] \<Rightarrow> (RuneError, 1)
                         | c3 # _ \<Rightarrow>
                             if \<not> cont_byte c3 then (RuneError, 1)
                             else ((b0 - 240) * 262144 + (byte_of c1 - 128) * 4096
                                   + (byte_of c2 - 128) * 64 + (byte_of c3 - 128), 4))))))"

lemma decode_rune_ascii [simp]: "byte_of c < 128 \<Longrightarrow> decode_rune (c # s) = (byte_of c, 1)"
  by (simp add: decode_rune_def)

lemma decode_rune_wide:
  assumes "128 \<le> byte_of c"
  shows "128 \<le> fst (decode_rune (c # s))"
  using assms
  by (auto simp: decode_rune_def Let_def RuneError_def second_byte_ok_def cont_byte_def
      split: list.splits if_splits)

lemma decode_rune_width: "0 < snd (decode_rune (c # s))"
  by (auto simp: decode_rune_def Let_def split: list.splits if_splits)

text \<open>\<^verbatim>\<open>for i, r := range s\<close>: the byte index and the rune of every iteration.\<close>

fun runes_from :: "nat \<Rightarrow> string \<Rightarrow> (nat \<times> rune) list" where
  "runes_from i [] = []"
| "runes_from i (c # s) =
     (i, fst (decode_rune (c # s))) #
     runes_from (i + snd (decode_rune (c # s))) (drop (snd (decode_rune (c # s)) - 1) s)"

definition runes :: "string \<Rightarrow> (nat \<times> rune) list" where
  "runes s = runes_from 0 s"

definition ascii :: "string \<Rightarrow> bool" where
  "ascii s \<longleftrightarrow> (\<forall>c \<in> set s. byte_of c < 128)"

lemma runes_from_ascii:
  "ascii s \<Longrightarrow> runes_from i s = zip [i..<i + length s] (map byte_of s)"
  by (induction s arbitrary: i) (auto simp: ascii_def upt_rec)

lemma runes_from_ascii_only:
  assumes "\<forall>(i, r) \<in> set (runes_from k s). r < 128"
  shows "ascii s"
  using assms
proof (induction k s rule: runes_from.induct)
  case (1 i)
  then show ?case by (simp add: ascii_def)
next
  case (2 i c s)
  have "byte_of c < 128"
    using 2(2) decode_rune_wide [of c s] by (cases "byte_of c < 128") auto
  with 2 show ?case by (auto simp: ascii_def)
qed

text \<open>
  A loop that accepts ASCII runes only accepts exactly the ASCII strings whose bytes it accepts:
  rune-wise and byte-wise checks agree.
\<close>

lemma runes_check:
  assumes P: "\<And>i r. P i r \<Longrightarrow> r < 128"
  shows "(\<forall>(i, r) \<in> set (runes s). P i r)
     \<longleftrightarrow> (\<forall>i < length s. P i (byte_of (s ! i)))"
proof (cases "ascii s")
  case True
  then have "runes s = zip [0..<length s] (map byte_of s)"
    by (simp add: runes_def runes_from_ascii)
  then have "set (runes s) = {(i, byte_of (s ! i)) | i. i < length s}"
    by (force simp: set_zip)
  then show ?thesis by auto
next
  case False
  then have "\<not> (\<forall>(i, r) \<in> set (runes s). P i r)"
    using P runes_from_ascii_only [of 0 s] unfolding runes_def by blast
  moreover from False obtain c where "c \<in> set s" "\<not> byte_of c < 128"
    by (auto simp: ascii_def)
  then have "\<not> (\<forall>i < length s. P i (byte_of (s ! i)))"
    using P by (metis in_set_conv_nth)
  ultimately show ?thesis by blast
qed

section \<open>Trimming\<close>

text \<open>\<^verbatim>\<open>unicode.IsSpace\<close> and \<^verbatim>\<open>unicode.IsControl\<close>.\<close>

definition is_space :: "rune \<Rightarrow> bool" where
  "is_space r \<longleftrightarrow> 9 \<le> r \<and> r \<le> 13 \<or> r = 32 \<or> r = 133 \<or> r = 160 \<or> r = 5760
     \<or> 8192 \<le> r \<and> r \<le> 8202 \<or> r = 8232 \<or> r = 8233 \<or> r = 8239 \<or> r = 8287 \<or> r = 12288"

definition is_control :: "rune \<Rightarrow> bool" where
  "is_control r \<longleftrightarrow> r \<le> 31 \<or> 127 \<le> r \<and> r < 160"

fun trim_left :: "string \<Rightarrow> string" where
  "trim_left [] = []"
| "trim_left (c # s) =
     (if is_space (fst (decode_rune (c # s)))
      then trim_left (drop (snd (decode_rune (c # s)) - 1) s) else c # s)"

text \<open>
  \<^verbatim>\<open>utf8.DecodeLastRuneInString\<close>: search back at most four bytes for a byte that can start a
  sequence, decode there, and report U+FFFD unless the sequence ends the string.
\<close>

definition rune_start :: "char \<Rightarrow> bool" where
  "rune_start c \<longleftrightarrow> \<not> cont_byte c"

definition last_start :: "string \<Rightarrow> nat" where
  "last_start s =
     (let n = length s in
      case find (\<lambda>k. k \<le> n \<and> rune_start (s ! (n - k))) [2, 3, 4] of
        Some k \<Rightarrow> n - k
      | None \<Rightarrow> n - 5)"

definition decode_last_rune :: "string \<Rightarrow> rune \<times> nat" where
  "decode_last_rune s =
     (if s = [] then (RuneError, 0)
      else if byte_of (last s) < 128 then (byte_of (last s), 1)
      else (let start = last_start s; (r, size) = decode_rune (drop start s) in
            if start + size \<noteq> length s then (RuneError, 1) else (r, size)))"

lemma decode_rune_width_le: "snd (decode_rune s) \<le> length s"
  by (auto simp: decode_rune_def Let_def split: list.splits if_splits)

lemma decode_rune_width_pos: "s \<noteq> [] \<Longrightarrow> 0 < snd (decode_rune s)"
  by (cases s) (simp_all add: decode_rune_width)

lemma last_start_less: "s \<noteq> [] \<Longrightarrow> last_start s < length s"
  by (auto simp: last_start_def Let_def split: option.splits)

lemma decode_last_rune_width: "s \<noteq> [] \<Longrightarrow> 0 < snd (decode_last_rune s)"
  using decode_rune_width_pos [of "drop (last_start s) s"] last_start_less [of s]
  by (auto simp: decode_last_rune_def Let_def split: prod.splits)

function trim_right :: "string \<Rightarrow> string" where
  "trim_right s =
     (if s \<noteq> [] \<and> is_space (fst (decode_last_rune s))
      then trim_right (take (length s - snd (decode_last_rune s)) s) else s)"
  by pat_completeness auto
termination
  by (relation "measure length") (use decode_last_rune_width in fastforce)+

declare trim_right.simps [simp del]

definition TrimSpace :: "string \<Rightarrow> string" where
  "TrimSpace s = trim_right (trim_left s)"

lemma trim_left_suffix: "\<exists>p. s = p @ trim_left s"
proof (induction s rule: trim_left.induct)
  case (2 c s)
  show ?case
  proof (cases "is_space (fst (decode_rune (c # s)))")
    case True
    let ?n = "snd (decode_rune (c # s)) - 1"
    from 2 [OF True] obtain p where "drop ?n s = p @ trim_left (drop ?n s)" by blast
    then have "c # s = (c # take ?n s @ p) @ trim_left (c # s)"
      using True by (metis append_Cons append_assoc append_take_drop_id trim_left.simps(2))
    then show ?thesis by blast
  qed auto
qed simp

lemma trim_right_prefix: "\<exists>q. s = trim_right s @ q"
proof (induction s rule: trim_right.induct)
  case (1 s)
  show ?case
  proof (cases "s \<noteq> [] \<and> is_space (fst (decode_last_rune s))")
    case True
    let ?n = "length s - snd (decode_last_rune s)"
    from 1 [OF True] obtain q where "take ?n s = trim_right (take ?n s) @ q" by blast
    then have "s = trim_right s @ (q @ drop ?n s)"
      using True by (metis append_assoc append_take_drop_id trim_right.simps)
    then show ?thesis by blast
  next
    case False
    then show ?thesis by (subst trim_right.simps) auto
  qed
qed

lemma set_TrimSpace: "set (TrimSpace s) \<subseteq> set s"
  unfolding TrimSpace_def
  by (metis (no_types, lifting) Un_iff set_append subsetI trim_left_suffix trim_right_prefix)

lemma length_TrimSpace: "length (TrimSpace s) \<le> length s"
  unfolding TrimSpace_def
  by (metis le_add1 le_add2 le_trans length_append trim_left_suffix trim_right_prefix)

text \<open>A string whose first and last bytes are printable ASCII is its own trimming.\<close>

definition printable :: "char \<Rightarrow> bool" where
  "printable c \<longleftrightarrow> 33 \<le> byte_of c \<and> byte_of c \<le> 126"

lemma TrimSpace_printable:
  assumes "s \<noteq> []" "printable (hd s)" "printable (last s)"
  shows "TrimSpace s = s"
proof -
  have "trim_left s = s"
    using assms(1,2) by (cases s) (auto simp: printable_def is_space_def)
  moreover have "trim_right s = s"
    using assms(1,3)
    by (subst trim_right.simps) (auto simp: decode_last_rune_def printable_def is_space_def)
  ultimately show ?thesis by (simp add: TrimSpace_def)
qed

lemma TrimSpace_Nil [simp]: "TrimSpace [] = []"
  by (simp add: TrimSpace_def trim_right.simps)

section \<open>Searching, splitting and joining\<close>

text \<open>\<^verbatim>\<open>strings.ContainsAny\<close> for a set of ASCII characters.\<close>

definition ContainsAny :: "string \<Rightarrow> string \<Rightarrow> bool" where
  "ContainsAny s chars \<longleftrightarrow> list_ex (\<lambda>c. c \<in> set chars) s"

lemma ContainsAny_iff: "ContainsAny s chars \<longleftrightarrow> (\<exists>c \<in> set s. c \<in> set chars)"
  by (simp add: ContainsAny_def list_ex_iff)

definition HasPrefix :: "string \<Rightarrow> string \<Rightarrow> bool" where
  "HasPrefix s p \<longleftrightarrow> take (length p) s = p"

text \<open>\<^verbatim>\<open>strings.Split\<close> with a one-character separator and \<^verbatim>\<open>strings.Join\<close>.\<close>

fun Split :: "char \<Rightarrow> string \<Rightarrow> string list" where
  "Split sep [] = [[]]"
| "Split sep (c # s) =
     (if c = sep then [] # Split sep s
      else (case Split sep s of p # ps \<Rightarrow> (c # p) # ps | [] \<Rightarrow> [[c]]))"

fun Join :: "string \<Rightarrow> string list \<Rightarrow> string" where
  "Join sep [] = []"
| "Join sep [p] = p"
| "Join sep (p # q # ps) = p @ sep @ Join sep (q # ps)"

lemma Split_not_Nil [simp]: "Split sep s \<noteq> []"
  by (induction s) (auto split: list.splits)

lemma Split_no_sep: "sep \<notin> set s \<Longrightarrow> Split sep s = [s]"
  by (induction s) auto

lemma Split_append: "sep \<notin> set p \<Longrightarrow> Split sep (p @ sep # s) = p # Split sep s"
  by (induction p) auto

lemma Join_Cons: "ps \<noteq> [] \<Longrightarrow> Join sep (p # ps) = p @ sep @ Join sep ps"
  by (cases ps) auto

lemma Split_Join:
  "ps \<noteq> [] \<Longrightarrow> \<forall>p \<in> set ps. sep \<notin> set p \<Longrightarrow> Split sep (Join [sep] ps) = ps"
proof (induction ps)
  case (Cons p ps)
  then show ?case
    by (cases "ps = []") (auto simp: Split_no_sep Split_append Join_Cons)
qed simp

lemma Split_sep_free: "p \<in> set (Split sep s) \<Longrightarrow> sep \<notin> set p"
proof (induction s arbitrary: p)
  case (Cons c s)
  then show ?case by (cases "Split sep s") (auto split: if_splits)
qed simp

lemma Join_Split: "Join [sep] (Split sep s) = s"
proof (induction s)
  case (Cons c s)
  then show ?case
    by (cases "Split sep s"; cases "tl (Split sep s)") (auto simp: Join_Cons)
qed simp

section \<open>Case folding\<close>

definition lower_rune :: "rune \<Rightarrow> rune" where
  "lower_rune r = (if 65 \<le> r \<and> r \<le> 90 then r + 32 else r)"

text \<open>
  \<^verbatim>\<open>strings.EqualFold\<close> where one side is ASCII, as at every call of the program: simple case
  folding joins upper and lower case ASCII letters, U+212A with \<^verbatim>\<open>k\<close> and U+017F with
  \<^verbatim>\<open>s\<close>.
\<close>

definition fold_rune :: "rune \<Rightarrow> rune" where
  "fold_rune r = (if r = 8490 then 107 else if r = 383 then 115 else lower_rune r)"

definition EqualFold :: "string \<Rightarrow> string \<Rightarrow> bool" where
  "EqualFold s t \<longleftrightarrow>
     map (\<lambda>(i, r). fold_rune r) (runes s) = map (\<lambda>(i, r). fold_rune r) (runes t)"

lemma EqualFold_refl [simp]: "EqualFold s s"
  by (simp add: EqualFold_def)

lemma EqualFold_sym: "EqualFold s t \<Longrightarrow> EqualFold t s"
  by (simp add: EqualFold_def)

text \<open>
  \<^verbatim>\<open>strings.ToLower\<close> as far as a comparison with ASCII text can tell: ASCII letters, and the two
  other characters whose lower case is ASCII (U+0130 and U+212A, in UTF-8). Other text is left alone.
\<close>

fun ToLower :: "string \<Rightarrow> string" where
  "ToLower [] = []"
| "ToLower (a # s) =
     (if byte_of a = 0xC4 \<and> s \<noteq> [] \<and> byte_of (hd s) = 0xB0 then CHR ''i'' # ToLower (tl s)
      else if byte_of a = 0xE2 \<and> map byte_of (take 2 s) = [0x84, 0xAA] then CHR ''k'' # ToLower (drop 2 s)
      else char_of (lower_rune (byte_of a)) # ToLower s)"

section \<open>Hexadecimal\<close>

definition hex_digit :: "nat \<Rightarrow> char" where
  "hex_digit n = (if n < 10 then char_of (48 + n) else char_of (87 + n))"

definition hex_byte :: "char \<Rightarrow> string" where
  "hex_byte c = [hex_digit (byte_of c div 16), hex_digit (byte_of c mod 16)]"

text \<open>\<^verbatim>\<open>hex.EncodeToString\<close>.\<close>

definition EncodeToString :: "string \<Rightarrow> string" where
  "EncodeToString bs = concat (map hex_byte bs)"

definition is_lower_hex :: "char \<Rightarrow> bool" where
  "is_lower_hex c \<longleftrightarrow>
     48 \<le> byte_of c \<and> byte_of c \<le> 57 \<or> 97 \<le> byte_of c \<and> byte_of c \<le> 102"

definition is_hex :: "char \<Rightarrow> bool" where
  "is_hex c \<longleftrightarrow> is_lower_hex c \<or> 65 \<le> byte_of c \<and> byte_of c \<le> 70"

text \<open>\<^verbatim>\<open>hex.DecodeString\<close> returns no error.\<close>

definition hex_decodes :: "string \<Rightarrow> bool" where
  "hex_decodes s \<longleftrightarrow> even (length s) \<and> list_all is_hex s"

lemma is_lower_hex_digit [simp]: "n < 16 \<Longrightarrow> is_lower_hex (hex_digit n)"
  by (auto simp: is_lower_hex_def hex_digit_def)

lemma hex_byte_lower: "c \<in> set (hex_byte b) \<Longrightarrow> is_lower_hex c"
  by (auto simp: hex_byte_def less_mult_imp_div_less)

lemma EncodeToString_lower: "c \<in> set (EncodeToString bs) \<Longrightarrow> is_lower_hex c"
  by (auto simp: EncodeToString_def dest: hex_byte_lower)

lemma length_hex_byte [simp]: "length (hex_byte b) = 2"
  by (simp add: hex_byte_def)

lemma length_EncodeToString [simp]: "length (EncodeToString bs) = 2 * length bs"
  by (induction bs) (auto simp: EncodeToString_def)

lemma is_lower_hex_printable: "is_lower_hex c \<Longrightarrow> printable c"
  by (auto simp: is_lower_hex_def printable_def)

end
