(* ===== verification/Go_Json.thy ===== *)
theory Go_Json
  imports Go_Strings
begin

text \<open>
  The parts of \<^verbatim>\<open>encoding/json\<close> the program uses: quoting of strings as \<^verbatim>\<open>Marshal\<close> writes
  them (HTML escaping on), a parser for JSON values, and the assignment of an object's members to
  the string fields of a struct as \<^verbatim>\<open>Unmarshal\<close> makes it. The parser carries fuel;
  \<open>json_value_fuel\<close> states that the length of the text is enough.
\<close>

section \<open>Writing strings\<close>

definition json_u :: "nat \<Rightarrow> string" where
  "json_u n = [CHR 0x5C, CHR ''u''] @ hex_byte (char_of (n div 256)) @ hex_byte (char_of (n mod 256))"

definition json_ascii :: "char \<Rightarrow> string" where
  "json_ascii c =
     (let b = byte_of c in
      if b = 34 \<or> b = 92 then [CHR 0x5C, c]
      else if b = 8 then [CHR 0x5C, CHR ''b'']
      else if b = 12 then [CHR 0x5C, CHR ''f'']
      else if b = 10 then [CHR 0x5C, CHR ''n'']
      else if b = 13 then [CHR 0x5C, CHR ''r'']
      else if b = 9 then [CHR 0x5C, CHR ''t'']
      else if b < 32 \<or> b = 60 \<or> b = 62 \<or> b = 38 then json_u b
      else [c])"

fun json_escape :: "string \<Rightarrow> string" where
  "json_escape [] = []"
| "json_escape (c # s) =
     (let (r, w) = decode_rune (c # s); rest = json_escape (drop (w - 1) s) in
      if byte_of c < 128 then json_ascii c @ rest
      else if r = RuneError \<and> w = 1 then json_u RuneError @ rest
      else if r = 8232 \<or> r = 8233 then json_u r @ rest
      else c # take (w - 1) s @ rest)"

definition json_quote :: "string \<Rightarrow> string" where
  "json_quote s = [CHR 0x22] @ json_escape s @ [CHR 0x22]"

section \<open>Reading strings\<close>

definition encode_rune :: "rune \<Rightarrow> string" where
  "encode_rune r =
     (if r < 128 then [char_of r]
      else if r < 2048 then [char_of (192 + r div 64), char_of (128 + r mod 64)]
      else if r < 65536
      then [char_of (224 + r div 4096), char_of (128 + r div 64 mod 64), char_of (128 + r mod 64)]
      else [char_of (240 + r div 262144), char_of (128 + r div 4096 mod 64),
            char_of (128 + r div 64 mod 64), char_of (128 + r mod 64)])"

definition hex_val :: "char \<Rightarrow> nat option" where
  "hex_val c =
     (let b = byte_of c in
      if 48 \<le> b \<and> b \<le> 57 then Some (b - 48)
      else if 97 \<le> b \<and> b \<le> 102 then Some (b - 87)
      else if 65 \<le> b \<and> b \<le> 70 then Some (b - 55)
      else None)"

fun hex4 :: "string \<Rightarrow> (nat \<times> string) option" where
  "hex4 (a # b # c # d # s) =
     (case (hex_val a, hex_val b, hex_val c, hex_val d) of
        (Some w, Some x, Some y, Some z) \<Rightarrow> Some (4096 * w + 256 * x + 16 * y + z, s)
      | _ \<Rightarrow> None)"
| "hex4 s = None"

text \<open>A \<^verbatim>\<open>uXXXX\<close> escape, with the second half of a surrogate pair when it is there.\<close>

definition low_surrogate :: "string \<Rightarrow> (nat \<times> string) option" where
  "low_surrogate s =
     (if take 2 s = [CHR 0x5C, CHR ''u''] then
        (case hex4 (drop 2 s) of
           Some (n, s') \<Rightarrow> if 56320 \<le> n \<and> n < 57344 then Some (n, s') else None
         | None \<Rightarrow> None)
      else None)"

definition unicode_escape :: "string \<Rightarrow> (string \<times> string) option" where
  "unicode_escape s =
     (case hex4 s of
        None \<Rightarrow> None
      | Some (n, s') \<Rightarrow>
          if 55296 \<le> n \<and> n < 57344 then
            (case (if n < 56320 then low_surrogate s' else None) of
               Some (m, s'') \<Rightarrow> Some (encode_rune (65536 + (n - 55296) * 1024 + (m - 56320)), s'')
             | None \<Rightarrow> Some (encode_rune RuneError, s'))
          else Some (encode_rune n, s'))"

definition json_unescape :: "string \<Rightarrow> (string \<times> string) option" where
  "json_unescape s =
     (case s of
        [] \<Rightarrow> None
      | e # s' \<Rightarrow>
          if e = CHR 0x22 \<or> e = CHR 0x5C \<or> e = CHR ''/'' then Some ([e], s')
          else if e = CHR ''b'' then Some ([char_of (8 :: nat)], s')
          else if e = CHR ''f'' then Some ([char_of (12 :: nat)], s')
          else if e = CHR ''n'' then Some ([char_of (10 :: nat)], s')
          else if e = CHR ''r'' then Some ([char_of (13 :: nat)], s')
          else if e = CHR ''t'' then Some ([char_of (9 :: nat)], s')
          else if e = CHR ''u'' then unicode_escape s'
          else None)"

lemma hex4_shorter: "hex4 s = Some (n, s') \<Longrightarrow> length s' < length s"
  by (induction s rule: hex4.induct) (auto split: option.splits)

lemma low_surrogate_shorter: "low_surrogate s = Some (n, s') \<Longrightarrow> length s' < length s"
  by (auto simp: low_surrogate_def split: if_splits option.splits dest!: hex4_shorter)

lemma unicode_escape_shorter: "unicode_escape s = Some (t, s') \<Longrightarrow> length s' < length s"
  by (auto simp: unicode_escape_def split: if_splits option.splits
      dest!: hex4_shorter low_surrogate_shorter)

lemma json_unescape_shorter: "json_unescape s = Some (t, s') \<Longrightarrow> length s' < length s"
  by (auto simp: json_unescape_def split: list.splits if_splits dest: unicode_escape_shorter)

text \<open>One character of a string, escaped or not: its bytes and what follows it.\<close>

definition json_char :: "string \<Rightarrow> (string \<times> string) option" where
  "json_char s =
     (case s of
        [] \<Rightarrow> None
      | c # s1 \<Rightarrow>
          if c = CHR 0x5C then json_unescape s1
          else if byte_of c < 32 then None
          else if byte_of c < 128 then Some ([c], s1)
          else
            (let w = snd (decode_rune s) in
             Some (if w = 1 then encode_rune RuneError else take w s, drop (w - 1) s1)))"

lemma json_char_shorter: "json_char s = Some (t, r) \<Longrightarrow> length r < length s"
  by (auto simp: json_char_def Let_def split: list.splits if_splits
      dest: json_unescape_shorter)

text \<open>The text after an opening quote: the string and what follows the closing quote.\<close>

function json_chars :: "string \<Rightarrow> (string \<times> string) option" where
  "json_chars s =
     (if s \<noteq> [] \<and> hd s = CHR 0x22 then Some ([], tl s)
      else (case json_char s of
              None \<Rightarrow> None
            | Some (out, s2) \<Rightarrow> map_option (\<lambda>(t, r). (out @ t, r)) (json_chars s2)))"
  by pat_completeness auto
termination
  by (relation "measure length") (auto dest: json_char_shorter)

declare json_chars.simps [simp del]

lemma json_chars_shorter: "json_chars s = Some (t, r) \<Longrightarrow> length r < length s"
proof (induction s arbitrary: t r rule: json_chars.induct)
  case (1 s)
  show ?case
  proof (cases "s \<noteq> [] \<and> hd s = CHR 0x22")
    case True
    with "1.prems" show ?thesis by (subst (asm) json_chars.simps) auto
  next
    case False
    with "1.prems" obtain out s2 t2 where *: "json_char s = Some (out, s2)"
      "json_chars s2 = Some (t2, r)"
      by (subst (asm) json_chars.simps) (auto split: option.splits)
    then have "length r < length s2" using "1.IH" [OF False *(1) refl] by blast
    with json_char_shorter [OF *(1)] show ?thesis by simp
  qed
qed

section \<open>Values\<close>

datatype json =
    JNull
  | JBool bool
  | JNum string
  | JStr string
  | JArr "json list"
  | JObj "(string \<times> json) list"

definition json_ws :: "char \<Rightarrow> bool" where
  "json_ws c \<longleftrightarrow> byte_of c = 32 \<or> byte_of c = 9 \<or> byte_of c = 10 \<or> byte_of c = 13"

abbreviation skip_ws :: "string \<Rightarrow> string" where
  "skip_ws s \<equiv> dropWhile json_ws s"

definition is_digit :: "char \<Rightarrow> bool" where
  "is_digit c \<longleftrightarrow> 48 \<le> byte_of c \<and> byte_of c \<le> 57"

definition json_int :: "string \<Rightarrow> (string \<times> string) option" where
  "json_int s =
     (let ds = takeWhile is_digit s in
      if ds = [] then None
      else if hd ds = CHR ''0'' then Some (''0'', tl s)
      else Some (ds, drop (length ds) s))"

definition json_frac :: "string \<Rightarrow> (string \<times> string) option" where
  "json_frac s =
     (case s of
        c # s1 \<Rightarrow>
          if c = CHR ''.'' then
            (let ds = takeWhile is_digit s1 in
             if ds = [] then None else Some (c # ds, drop (length ds) s1))
          else Some ([], s)
      | [] \<Rightarrow> Some ([], []))"

definition json_exp :: "string \<Rightarrow> (string \<times> string) option" where
  "json_exp s =
     (case s of
        c # s1 \<Rightarrow>
          if c = CHR ''e'' \<or> c = CHR ''E'' then
            (let sg = (if s1 \<noteq> [] \<and> (hd s1 = CHR ''+'' \<or> hd s1 = CHR ''-'') then [hd s1] else []);
                 s2 = drop (length sg) s1; ds = takeWhile is_digit s2 in
             if ds = [] then None else Some (c # sg @ ds, drop (length ds) s2))
          else Some ([], s)
      | [] \<Rightarrow> Some ([], []))"

definition json_number :: "string \<Rightarrow> (json \<times> string) option" where
  "json_number s =
     (let sg = (if s \<noteq> [] \<and> hd s = CHR ''-'' then ''-'' else []) in
      case json_int (drop (length sg) s) of
        None \<Rightarrow> None
      | Some (i, s1) \<Rightarrow>
          (case json_frac s1 of
             None \<Rightarrow> None
           | Some (f, s2) \<Rightarrow>
               (case json_exp s2 of
                  None \<Rightarrow> None
                | Some (e, s3) \<Rightarrow> Some (JNum (sg @ i @ f @ e), s3))))"

definition json_atom :: "string \<Rightarrow> (json \<times> string) option" where
  "json_atom s =
     (if HasPrefix s ''true'' then Some (JBool True, drop 4 s)
      else if HasPrefix s ''false'' then Some (JBool False, drop 5 s)
      else if HasPrefix s ''null'' then Some (JNull, drop 4 s)
      else json_number s)"

fun json_value :: "nat \<Rightarrow> string \<Rightarrow> (json \<times> string) option"
  and json_elems :: "nat \<Rightarrow> string \<Rightarrow> (json list \<times> string) option"
  and json_members :: "nat \<Rightarrow> string \<Rightarrow> ((string \<times> json) list \<times> string) option" where
  "json_value 0 s = None"
| "json_value (Suc n) s =
     (case skip_ws s of
        [] \<Rightarrow> None
      | c # s1 \<Rightarrow>
          if c = CHR ''{'' then
            (case skip_ws s1 of
               [] \<Rightarrow> None
             | d # s2 \<Rightarrow> if d = CHR ''}'' then Some (JObj [], s2)
                        else map_option (\<lambda>(ms, r). (JObj ms, r)) (json_members n s1))
          else if c = CHR ''['' then
            (case skip_ws s1 of
               [] \<Rightarrow> None
             | d # s2 \<Rightarrow> if d = CHR '']'' then Some (JArr [], s2)
                        else map_option (\<lambda>(vs, r). (JArr vs, r)) (json_elems n s1))
          else if c = CHR 0x22 then map_option (\<lambda>(t, r). (JStr t, r)) (json_chars s1)
          else json_atom (c # s1))"
| "json_elems 0 s = None"
| "json_elems (Suc n) s =
     (case json_value n s of
        None \<Rightarrow> None
      | Some (v, s1) \<Rightarrow>
          (case skip_ws s1 of
             [] \<Rightarrow> None
           | c # s2 \<Rightarrow>
               if c = CHR '']'' then Some ([v], s2)
               else if c = CHR '','' then map_option (\<lambda>(vs, r). (v # vs, r)) (json_elems n s2)
               else None))"
| "json_members 0 s = None"
| "json_members (Suc n) s =
     (case skip_ws s of
        [] \<Rightarrow> None
      | q # s1 \<Rightarrow>
          if q \<noteq> CHR 0x22 then None
          else (case json_chars s1 of
              None \<Rightarrow> None
            | Some (k, s2) \<Rightarrow>
                (case skip_ws s2 of
                   [] \<Rightarrow> None
                 | c # s3 \<Rightarrow>
                     if c \<noteq> CHR '':'' then None
                     else (case json_value n s3 of
                         None \<Rightarrow> None
                       | Some (v, s4) \<Rightarrow>
                           (case skip_ws s4 of
                              [] \<Rightarrow> None
                            | d # s5 \<Rightarrow>
                                if d = CHR ''}'' then Some ([(k, v)], s5)
                                else if d = CHR '',''
                                then map_option (\<lambda>(ms, r). ((k, v) # ms, r)) (json_members n s5)
                                else None)))))"

text \<open>\<^verbatim>\<open>json.Unmarshal\<close> accepts one value with white space around it.\<close>

definition json_text :: "string \<Rightarrow> json option" where
  "json_text s =
     (case json_value (2 * length s + 2) s of
        Some (v, rest) \<Rightarrow> if skip_ws rest = [] then Some v else None
      | None \<Rightarrow> None)"

section \<open>Structs with string fields\<close>

text \<open>
  A struct is described by its fields: the JSON name and the assignment. A member goes to the
  field of that exact name, else to the one equal under case folding; members that name no field
  are ignored; \<^verbatim>\<open>null\<close> leaves a string field alone; any other value is an error.
\<close>

type_synonym 'r fields = "(string \<times> (string \<Rightarrow> 'r \<Rightarrow> 'r)) list"

definition json_field :: "'r fields \<Rightarrow> string \<Rightarrow> (string \<Rightarrow> 'r \<Rightarrow> 'r) option" where
  "json_field fs k =
     (case map_of fs k of
        Some f \<Rightarrow> Some f
      | None \<Rightarrow> map_option snd (find (\<lambda>(name, f). EqualFold k name) fs))"

fun json_assign :: "'r fields \<Rightarrow> (string \<times> json) list \<Rightarrow> 'r \<Rightarrow> 'r option" where
  "json_assign fs [] r = Some r"
| "json_assign fs ((k, v) # ms) r =
     (case json_field fs k of
        None \<Rightarrow> json_assign fs ms r
      | Some f \<Rightarrow>
          (case v of
             JStr t \<Rightarrow> json_assign fs ms (f t r)
           | JNull \<Rightarrow> json_assign fs ms r
           | _ \<Rightarrow> None))"

definition json_Unmarshal :: "'r fields \<Rightarrow> 'r \<Rightarrow> string \<Rightarrow> 'r option" where
  "json_Unmarshal fs zero s =
     (case json_text s of
        Some (JObj ms) \<Rightarrow> json_assign fs ms zero
      | Some JNull \<Rightarrow> Some zero
      | _ \<Rightarrow> None)"

definition json_pair :: "string \<Rightarrow> string \<Rightarrow> string" where
  "json_pair k v = json_quote k @ '':'' @ json_quote v"

definition json_object :: "(string \<times> string) list \<Rightarrow> string" where
  "json_object kvs = ''{'' @ Join '','' (map (\<lambda>(k, v). json_pair k v) kvs) @ ''}''"

section \<open>Fuel\<close>

text \<open>A parsed value, element list or member list uses up at least one character.\<close>

lemma skip_ws_length: "skip_ws s = c # s1 \<Longrightarrow> length s1 < length s"
  by (metis dropWhile_eq_drop length_Cons length_drop less_eq_Suc_le diff_le_self)

lemma HasPrefix_drop_shorter:
  "HasPrefix s p \<Longrightarrow> p \<noteq> [] \<Longrightarrow> n = length p \<Longrightarrow> length (drop n s) < length s"
  by (cases s) (auto simp: HasPrefix_def)

lemma takeWhile_drop_shorter:
  "takeWhile P s \<noteq> [] \<Longrightarrow> length (drop (length (takeWhile P s)) s) < length s"
  by (cases s) auto

lemma json_int_shorter: "json_int s = Some (t, r) \<Longrightarrow> length r < length s"
  by (cases s) (auto simp: json_int_def Let_def split: if_splits)

lemma json_frac_length: "json_frac s = Some (t, r) \<Longrightarrow> length r \<le> length s"
  by (auto simp: json_frac_def Let_def split: list.splits if_splits)

lemma json_exp_length: "json_exp s = Some (t, r) \<Longrightarrow> length r \<le> length s"
  by (auto simp: json_exp_def Let_def split: list.splits if_splits)

lemma json_number_shorter: "json_number s = Some (v, r) \<Longrightarrow> length r < length s"
  by (fastforce simp: json_number_def Let_def split: option.splits prod.splits if_splits
      dest!: json_int_shorter json_frac_length json_exp_length)

lemma json_atom_shorter: "json_atom s = Some (v, r) \<Longrightarrow> length r < length s"
  using HasPrefix_drop_shorter [of s "''true''" 4] HasPrefix_drop_shorter [of s "''false''" 5]
    HasPrefix_drop_shorter [of s "''null''" 4] json_number_shorter [of s v r]
  by (auto simp: json_atom_def split: if_splits)

lemma json_shorter:
  "json_value n s = Some (v, r) \<Longrightarrow> length r < length s"
  "json_elems n s = Some (vs, r) \<Longrightarrow> length r < length s"
  "json_members n s = Some (ms, r) \<Longrightarrow> length r < length s"
proof (induction n arbitrary: s v r vs ms)
  case 0
  {
    case 1 then show ?case by simp
  next
    case 2 then show ?case by simp
  next
    case 3 then show ?case by simp
  }
next
  case (Suc n)
  {
    case 1
    then obtain c s1 where s1: "skip_ws s = c # s1" by (auto split: list.splits)
    note len = skip_ws_length [OF s1]
    have m: "length r < length s" if "json_members n s1 = Some (ms', r)" for ms'
      using Suc.IH(3) [OF that] len by simp
    have e: "length r < length s" if "json_elems n s1 = Some (vs', r)" for vs'
      using Suc.IH(2) [OF that] len by simp
    have q: "length r < length s" if "json_chars s1 = Some (t, r)" for t
      using json_chars_shorter [OF that] len by simp
    have a: "length r < length s" if "json_atom (c # s1) = Some (v, r)"
      using json_atom_shorter [OF that] len by simp
    have w: "length r < length s" if "skip_ws s1 = d # r" for d
      using skip_ws_length [OF that] len by simp
    from 1 s1 show ?case
      by (auto split: list.splits if_splits intro: m e q a w)
  next
    case 2
    then obtain w s1 d s2 where *: "json_value n s = Some (w, s1)" "skip_ws s1 = d # s2"
      by (auto split: list.splits option.splits)
    from 2 * show ?case
      using Suc.IH(1) [OF *(1)] skip_ws_length [OF *(2)] Suc.IH(2) [of s2]
      by (auto split: if_splits)
  next
    case 3
    then obtain q s1 k s2 c s3 w s4 d s5 where *: "skip_ws s = q # s1"
      "json_chars s1 = Some (k, s2)" "skip_ws s2 = c # s3" "json_value n s3 = Some (w, s4)"
      "skip_ws s4 = d # s5"
      by (auto split: list.splits option.splits if_splits)
    from 3 * show ?case
      using skip_ws_length [OF *(1)] json_chars_shorter [OF *(2)] skip_ws_length [OF *(3)]
        Suc.IH(1) [OF *(4)] skip_ws_length [OF *(5)] Suc.IH(3) [of s5]
      by (auto split: if_splits)
  }
qed

text \<open>One member: equal results on the value and on the members after it.\<close>

lemma json_members_cong:
  assumes v: "\<And>q s1 k s2 c s3. skip_ws s = q # s1 \<Longrightarrow> json_chars s1 = Some (k, s2) \<Longrightarrow> skip_ws s2 = c # s3 \<Longrightarrow>
      json_value n s3 = json_value m s3"
    and w: "\<And>q s1 k s2 c s3 w s4 d s5. skip_ws s = q # s1 \<Longrightarrow> json_chars s1 = Some (k, s2) \<Longrightarrow> skip_ws s2 = c # s3 \<Longrightarrow>
      json_value n s3 = Some (w, s4) \<Longrightarrow> skip_ws s4 = d # s5 \<Longrightarrow> json_members n s5 = json_members m s5"
  shows "json_members (Suc n) s = json_members (Suc m) s"
proof (cases "skip_ws s")
  case Nil
  then show ?thesis by (simp del: dropWhile_eq_Nil_conv)
next
  case s1: (Cons q s1)
  show ?thesis
  proof (cases "json_chars s1")
    case None
    with s1 show ?thesis by simp
  next
    case (Some ks)
    then obtain k s2 where ks: "json_chars s1 = Some (k, s2)" by (cases ks) auto
    show ?thesis
    proof (cases "skip_ws s2")
      case Nil
      with s1 ks show ?thesis by (simp del: dropWhile_eq_Nil_conv)
    next
      case s3: (Cons c s3)
      from s1 ks s3 v [OF s1 ks s3] w [OF s1 ks s3] show ?thesis
        by (auto simp del: dropWhile_eq_Nil_conv split: option.split list.split)
    qed
  qed
qed

text \<open>Twice the length of the text is enough fuel: more never changes the result.\<close>

lemma json_fuel:
  "2 * length s < n \<Longrightarrow> 2 * length s < m \<Longrightarrow> json_value n s = json_value m s"
  "2 * length s + 1 < n \<Longrightarrow> 2 * length s + 1 < m \<Longrightarrow> json_elems n s = json_elems m s"
  "2 * length s + 1 < n \<Longrightarrow> 2 * length s + 1 < m \<Longrightarrow> json_members n s = json_members m s"
proof (induction n arbitrary: m s)
  case 0
  {
    case 1 then show ?case by simp
  next
    case 2 then show ?case by simp
  next
    case 3 then show ?case by simp
  }
next
  case (Suc n)
  {
    case 1
    then obtain m' where m: "m = Suc m'" by (cases m) auto
    show ?case
    proof (cases "skip_ws s")
      case Nil
      then show ?thesis by (simp add: m del: dropWhile_eq_Nil_conv)
    next
      case (Cons c s1)
      have "json_members n s1 = json_members m' s1" "json_elems n s1 = json_elems m' s1"
        using skip_ws_length [OF Cons] 1 m by (auto intro!: Suc.IH(2,3))
      with Cons show ?thesis
        by (cases "skip_ws s1") (simp_all add: m del: dropWhile_eq_Nil_conv)
    qed
  next
    case 2
    then obtain m' where m: "m = Suc m'" by (cases m) auto
    have v: "json_value n s = json_value m' s" using 2 m by (auto intro!: Suc.IH(1))
    have "json_elems n s2 = json_elems m' s2"
      if "json_value n s = Some (w, s1)" "skip_ws s1 = d # s2" for w s1 d s2
      using json_shorter(1) [OF that(1)] skip_ws_length [OF that(2)] 2 m
      by (auto intro!: Suc.IH(2))
    then show ?case
      by (auto simp: m v [symmetric] simp del: dropWhile_eq_Nil_conv
          split: option.split list.split)
  next
    case 3
    then obtain m' where m: "m = Suc m'" by (cases m) auto
    have v: "json_value n s3 = json_value m' s3"
      if "skip_ws s = q # s1" "json_chars s1 = Some (k, s2)" "skip_ws s2 = c # s3" for q s1 k s2 c s3
      using skip_ws_length [OF that(1)] json_chars_shorter [OF that(2)] skip_ws_length [OF that(3)]
        3 m by (auto intro!: Suc.IH(1))
    have w: "json_members n s5 = json_members m' s5"
      if "skip_ws s = q # s1" "json_chars s1 = Some (k, s2)" "skip_ws s2 = c # s3"
        "json_value n s3 = Some (w, s4)" "skip_ws s4 = d # s5" for q s1 k s2 c s3 w s4 d s5
      using skip_ws_length [OF that(1)] json_chars_shorter [OF that(2)] skip_ws_length [OF that(3)]
        json_shorter(1) [OF that(4)] skip_ws_length [OF that(5)] 3 m
      by (auto intro!: Suc.IH(3))
    show ?case unfolding m using v w by (rule json_members_cong)
  }
qed

lemma json_value_fuel: "2 * length s < n \<Longrightarrow> json_value n s = json_value (2 * length s + 2) s"
  by (rule json_fuel(1)) auto

section \<open>Round trip of objects with plain strings\<close>

text \<open>The ASCII characters that \<^verbatim>\<open>Marshal\<close> copies into a string unchanged.\<close>

definition json_safe :: "char \<Rightarrow> bool" where
  "json_safe c \<longleftrightarrow> 32 \<le> byte_of c \<and> byte_of c < 128
     \<and> byte_of c \<notin> {34, 92, 60, 62, 38}"

definition json_plain :: "string \<Rightarrow> bool" where
  "json_plain s \<longleftrightarrow> list_all json_safe s"

lemma json_plain_simps [simp]:
  "json_plain []"
  "json_plain (c # s) \<longleftrightarrow> json_safe c \<and> json_plain s"
  "json_plain (s @ t) \<longleftrightarrow> json_plain s \<and> json_plain t"
  by (simp_all add: json_plain_def)

lemma json_escape_plain: "json_plain s \<Longrightarrow> json_escape s = s"
  by (induction s rule: json_escape.induct)
    (auto simp: json_safe_def json_ascii_def Let_def)

lemma json_quote_plain: "json_plain s \<Longrightarrow> json_quote s = CHR 0x22 # s @ [CHR 0x22]"
  by (simp add: json_quote_def json_escape_plain)

lemma json_chars_end [simp]: "json_chars (CHR 0x22 # rest) = Some ([], rest)"
  by (subst json_chars.simps) simp

lemma json_chars_safe:
  assumes "json_safe c"
  shows "json_chars (c # s) = map_option (\<lambda>(t, r). (c # t, r)) (json_chars s)"
proof -
  from assms have "c \<noteq> CHR 0x22" "c \<noteq> CHR 0x5C" by (auto simp: json_safe_def)
  moreover from this assms have "json_char (c # s) = Some ([c], s)"
    by (simp add: json_char_def json_safe_def)
  ultimately show ?thesis by (subst json_chars.simps) simp
qed

lemma json_chars_plain: "json_plain s \<Longrightarrow> json_chars (s @ CHR 0x22 # rest) = Some (s, rest)"
  by (induction s) (auto simp: json_chars_safe)

lemma json_value_plain:
  "json_plain v \<Longrightarrow> json_value (Suc n) (json_quote v @ rest) = Some (JStr v, rest)"
  by (simp add: json_quote_plain json_ws_def json_chars_plain)

lemma json_members_step:
  assumes "json_plain k" "json_plain v"
  shows "json_members (Suc (Suc n)) (json_pair k v @ CHR ''}'' # rest) = Some ([(k, JStr v)], rest)"
    and "json_members (Suc (Suc n)) (json_pair k v @ CHR '','' # rest)
       = map_option (\<lambda>(ms, r). ((k, JStr v) # ms, r)) (json_members (Suc n) rest)"
  using assms json_value_plain [OF assms(2), of n]
  by (simp_all add: json_pair_def json_quote_plain [OF assms(1)] json_ws_def json_chars_plain
      del: json_value.simps)

definition json_strs :: "(string \<times> string) list \<Rightarrow> (string \<times> json) list" where
  "json_strs kvs = map (\<lambda>(k, v). (k, JStr v)) kvs"

lemma json_members_object:
  assumes "\<forall>(k, v) \<in> set kvs. json_plain k \<and> json_plain v" "kvs \<noteq> []" "length kvs < n"
  shows "json_members n (Join '','' (map (\<lambda>(k, v). json_pair k v) kvs) @ CHR ''}'' # rest)
       = Some (json_strs kvs, rest)"
  using assms
proof (induction kvs arbitrary: n)
  case (Cons kv kvs)
  obtain k v where kv: "kv = (k, v)" by (cases kv)
  obtain n' where n: "n = Suc (Suc n')"
    using Cons.prems(3) by (cases n; cases "n - 1") auto
  show ?case
  proof (cases "kvs = []")
    case True
    then show ?thesis using Cons.prems kv n by (simp add: json_members_step json_strs_def del: json_members.simps)
  next
    case False
    then have "json_members (Suc n')
        (Join '','' (map (\<lambda>(k, v). json_pair k v) kvs) @ CHR ''}'' # rest)
        = Some (json_strs kvs, rest)"
      using False Cons.IH [of "Suc n'"] Cons.prems n by (auto simp del: json_members.simps)
    then show ?thesis
      using False Cons.prems kv n
      by (simp add: Join_Cons json_members_step json_strs_def del: json_members.simps)
  qed
qed simp

lemma json_pair_start: "json_plain k \<Longrightarrow> \<exists>t. json_pair k v = CHR 0x22 # t"
  by (simp add: json_pair_def json_quote_plain)

lemma json_text_object:
  assumes kvs: "\<forall>(k, v) \<in> set kvs. json_plain k \<and> json_plain v" "kvs \<noteq> []"
    and ws: "skip_ws rest = []"
  shows "json_text (json_object kvs @ rest) = Some (JObj (json_strs kvs))"
proof -
  let ?body = "Join '','' (map (\<lambda>(k, v). json_pair k v) kvs)"
  have "length kvs \<le> length ?body"
  proof -
    have "length ps \<le> length (Join '','' ps)" if "\<forall>p \<in> set ps. p \<noteq> []" for ps :: "string list"
      using that by (induction ps rule: induct_list012) (auto simp: Suc_le_eq)
    moreover have "\<forall>p \<in> set (map (\<lambda>(k, v). json_pair k v) kvs). p \<noteq> []"
      by (auto simp: json_pair_def json_quote_def)
    ultimately show ?thesis by (metis length_map)
  qed
  moreover obtain t where t: "?body = CHR 0x22 # t"
    using kvs by (cases kvs; cases "tl kvs")
      (auto dest!: json_pair_start [where v = "snd (hd kvs)"])
  ultimately show ?thesis
    using kvs ws json_members_object [OF kvs, of "2 * length (json_object kvs @ rest) + 1" rest]
    by (auto simp: json_text_def json_object_def json_ws_def t simp del: json_members.simps)
qed

end
