(* ===== verification/Go_Time.thy ===== *)
theory Go_Time
  imports Go_Strings
begin

text \<open>
  \<^verbatim>\<open>time.Time\<close> and \<^verbatim>\<open>time.Duration\<close>. An instant is the number of nanoseconds since Go's
  zero time, 1 January of year 1, 00:00 UTC; the location of a \<^verbatim>\<open>time.Time\<close> only matters for
  printing, and the program converts to UTC before it prints, so \<^verbatim>\<open>UTC()\<close> is the identity.
  \<open>format_RFC3339Nano\<close> is \<^verbatim>\<open>Format(time.RFC3339Nano)\<close> of a UTC instant.
\<close>

type_synonym time = int
type_synonym duration = int64

definition IsZero :: "time \<Rightarrow> bool" where
  "IsZero t \<longleftrightarrow> t = 0"

abbreviation second :: duration where
  "second \<equiv> 1000000000"

abbreviation minute :: duration where
  "minute \<equiv> 60000000000"

abbreviation hour :: duration where
  "hour \<equiv> 3600000000000"

text \<open>\<^verbatim>\<open>t.Sub(u)\<close> saturates at the ends of the \<^verbatim>\<open>Duration\<close> range.\<close>

definition time_Sub :: "time \<Rightarrow> time \<Rightarrow> duration" where
  "time_Sub t u = max (- (2 ^ 63)) (min maxInt64 (t - u))"

section \<open>Printing\<close>

fun decimal :: "nat \<Rightarrow> string" where
  "decimal n = (if n < 10 then [char_of (48 + n)] else decimal (n div 10) @ [char_of (48 + n mod 10)])"

declare decimal.simps [simp del]

definition zero_pad :: "nat \<Rightarrow> nat \<Rightarrow> string" where
  "zero_pad w n = replicate (w - length (decimal n)) (CHR ''0'') @ decimal n"

text \<open>\<^verbatim>\<open>strconv.FormatInt(n, 10)\<close>.\<close>

definition FormatInt :: "int \<Rightarrow> string" where
  "FormatInt n = (if n < 0 then CHR ''-'' # decimal (nat (- n)) else decimal (nat n))"

text \<open>Year, month and day of a day number (day 0 is 1 January of year 1).\<close>

definition civil :: "int \<Rightarrow> int \<times> int \<times> int" where
  "civil days =
     (let z = days + 306;
          era = z div 146097; doe = z mod 146097;
          yoe = (doe - doe div 1460 + doe div 36524 - doe div 146096) div 365;
          doy = doe - (365 * yoe + yoe div 4 - yoe div 100);
          mp = (5 * doy + 2) div 153;
          d = doy - (153 * mp + 2) div 5 + 1;
          m = (if mp < 10 then mp + 3 else mp - 9);
          y = yoe + era * 400 + (if m \<le> 2 then 1 else 0)
      in (y, m, d))"

definition year_string :: "int \<Rightarrow> string" where
  "year_string y = (if y < 0 then CHR ''-'' # zero_pad 4 (nat (- y)) else zero_pad 4 (nat y))"

text \<open>The fraction of \<^verbatim>\<open>.999999999\<close>: trailing zeros removed, nothing for a whole second.\<close>

definition fraction :: "nat \<Rightarrow> string" where
  "fraction ns =
     (if ns = 0 then []
      else CHR ''.'' # rev (dropWhile (\<lambda>c. c = CHR ''0'') (rev (zero_pad 9 ns))))"

definition format_RFC3339Nano :: "time \<Rightarrow> string" where
  "format_RFC3339Nano t =
     (let days = t div (24 * hour); tod = t mod (24 * hour); (y, m, d) = civil days;
          secs = nat (tod div second)
      in year_string y @ ''-'' @ zero_pad 2 (nat m) @ ''-'' @ zero_pad 2 (nat d) @ ''T''
         @ zero_pad 2 (secs div 3600) @ '':'' @ zero_pad 2 (secs div 60 mod 60) @ '':''
         @ zero_pad 2 (secs mod 60) @ fraction (nat (tod mod second)) @ ''Z'')"

text \<open>The characters of a printed instant.\<close>

definition time_char :: "char \<Rightarrow> bool" where
  "time_char c \<longleftrightarrow> 48 \<le> byte_of c \<and> byte_of c \<le> 57 \<or> c \<in> set ''-:.TZ''"

lemma decimal_chars: "c \<in> set (decimal n) \<Longrightarrow> 48 \<le> byte_of c \<and> byte_of c \<le> 57"
proof (induction n rule: decimal.induct)
  case (1 n)
  then show ?case by (subst (asm) decimal.simps) (auto split: if_splits)
qed

lemma decimal_not_Nil: "decimal n \<noteq> []"
  by (subst decimal.simps) simp

lemma zero_pad_chars: "c \<in> set (zero_pad w n) \<Longrightarrow> 48 \<le> byte_of c \<and> byte_of c \<le> 57"
  by (auto simp: zero_pad_def dest: decimal_chars split: if_splits)

lemma fraction_chars: "c \<in> set (fraction n) \<Longrightarrow> time_char c"
  by (auto simp: fraction_def time_char_def dest!: set_dropWhileD zero_pad_chars split: if_splits)

lemma year_string_chars: "c \<in> set (year_string y) \<Longrightarrow> time_char c"
  by (auto simp: year_string_def time_char_def dest: zero_pad_chars split: if_splits)

lemma format_RFC3339Nano_chars:
  assumes "c \<in> set (format_RFC3339Nano t)"
  shows "time_char c"
  using assms
  by (auto simp: format_RFC3339Nano_def Let_def time_char_def split: prod.splits
      dest: zero_pad_chars
      dest!: fraction_chars [unfolded time_char_def] year_string_chars [unfolded time_char_def])

end
