(* ===== verification/Go_Decode.thy ===== *)
theory Go_Decode
  imports Go_Json Go_Time
begin

text \<open>
  Decoding of JSON into typed structs as \<^verbatim>\<open>encoding/json\<close> does it, with or without
  \<^verbatim>\<open>DisallowUnknownFields\<close>: a struct is described by its fields, each with its JSON name and a
  setter that may refuse a value. Timestamps are read as \<^verbatim>\<open>time.Time.UnmarshalJSON\<close> reads them
  (strict RFC 3339; a timestamp is taken after unescaping, where Go looks at the raw literal).
  Also \<^verbatim>\<open>strconv.ParseInt(s, 10, 64)\<close> and \<^verbatim>\<open>strconv.ParseBool\<close>.
\<close>

section \<open>Timestamps\<close>

definition digits_val :: "string \<Rightarrow> int" where
  "digits_val s = foldl (\<lambda>n c. 10 * n + (of_char c - 48)) 0 s"

text \<open>A number of a fixed count of digits within bounds, and the rest of the text.\<close>

definition fixed_num :: "nat \<Rightarrow> int \<Rightarrow> int \<Rightarrow> string \<Rightarrow> (int \<times> string) option" where
  "fixed_num w lo hi s =
     (let ds = take w s in
      if length ds = w \<and> list_all is_digit ds \<and> lo \<le> digits_val ds \<and> digits_val ds \<le> hi
      then Some (digits_val ds, drop w s) else None)"

definition expect :: "char \<Rightarrow> string \<Rightarrow> string option" where
  "expect c s = (if s \<noteq> [] \<and> hd s = c then Some (tl s) else None)"

definition leap_year :: "int \<Rightarrow> bool" where
  "leap_year y \<longleftrightarrow> y mod 4 = 0 \<and> (y mod 100 \<noteq> 0 \<or> y mod 400 = 0)"

definition days_in :: "int \<Rightarrow> int \<Rightarrow> int" where
  "days_in y m =
     (if m = 2 then (if leap_year y then 29 else 28) else if m \<in> {4, 6, 9, 11} then 30 else 31)"

text \<open>The day number of a date (day 0 is 1 January of year 1), the inverse of \<open>civil\<close>.\<close>

definition day_number :: "int \<Rightarrow> int \<Rightarrow> int \<Rightarrow> int" where
  "day_number y m d =
     (let y' = (if m \<le> 2 then y - 1 else y); era = y' div 400; yoe = y' mod 400;
          doy = (153 * (if m > 2 then m - 3 else m + 9) + 2) div 5 + d - 1;
          doe = yoe * 365 + yoe div 4 - yoe div 100 + doy
      in era * 146097 + doe - 306)"

text \<open>An optional fraction: at most nine of its digits count.\<close>

definition second_fraction :: "string \<Rightarrow> int \<times> string" where
  "second_fraction s =
     (case s of
        c # s1 \<Rightarrow>
          (let ds = takeWhile is_digit s1 in
           if c = CHR ''.'' \<and> ds \<noteq> []
           then (digits_val (take 9 (ds @ replicate 9 (CHR ''0''))), drop (length ds) s1) else (0, s))
      | [] \<Rightarrow> (0, s))"

definition zone_offset :: "string \<Rightarrow> int option" where
  "zone_offset s =
     (if s = ''Z'' then Some 0
      else case s of
        [] \<Rightarrow> None
      | sg # s1 \<Rightarrow>
          if sg \<noteq> CHR ''+'' \<and> sg \<noteq> CHR ''-'' then None
          else Option.bind (fixed_num 2 0 23 s1) (\<lambda>(h, s2).
            Option.bind (expect (CHR '':'') s2) (\<lambda>s3.
            Option.bind (fixed_num 2 0 59 s3) (\<lambda>(m, s4).
              if s4 \<noteq> [] then None
              else Some ((if sg = CHR ''-'' then - 1 else 1) * (h * hour + m * minute))))))"

definition parse_RFC3339 :: "string \<Rightarrow> time option" where
  "parse_RFC3339 s =
     Option.bind (fixed_num 4 0 9999 s) (\<lambda>(y, s). Option.bind (expect (CHR ''-'') s) (\<lambda>s.
     Option.bind (fixed_num 2 1 12 s) (\<lambda>(mo, s). Option.bind (expect (CHR ''-'') s) (\<lambda>s.
     Option.bind (fixed_num 2 1 (days_in y mo) s) (\<lambda>(d, s). Option.bind (expect (CHR ''T'') s) (\<lambda>s.
     Option.bind (fixed_num 2 0 23 s) (\<lambda>(h, s). Option.bind (expect (CHR '':'') s) (\<lambda>s.
     Option.bind (fixed_num 2 0 59 s) (\<lambda>(mi, s). Option.bind (expect (CHR '':'') s) (\<lambda>s.
     Option.bind (fixed_num 2 0 59 s) (\<lambda>(sec, s).
       let (ns, rest) = second_fraction s in
       Option.bind (zone_offset rest) (\<lambda>off.
         Some (day_number y mo d * (24 * hour) + h * hour + mi * minute + sec * second + ns - off)))))))))))))"

section \<open>Structs\<close>

type_synonym 'r setters = "(string \<times> (json \<Rightarrow> 'r \<Rightarrow> 'r option)) list"

definition json_setter :: "'r setters \<Rightarrow> string \<Rightarrow> (json \<Rightarrow> 'r \<Rightarrow> 'r option) option" where
  "json_setter fs k =
     (case map_of fs k of
        Some f \<Rightarrow> Some f
      | None \<Rightarrow> map_option snd (find (\<lambda>(name, f). EqualFold k name) fs))"

fun json_fill :: "bool \<Rightarrow> 'r setters \<Rightarrow> (string \<times> json) list \<Rightarrow> 'r \<Rightarrow> 'r option" where
  "json_fill strict fs [] r = Some r"
| "json_fill strict fs ((k, v) # ms) r =
     (case json_setter fs k of
        None \<Rightarrow> if strict then None else json_fill strict fs ms r
      | Some f \<Rightarrow> Option.bind (f v r) (json_fill strict fs ms))"

definition set_string :: "(string \<Rightarrow> 'r \<Rightarrow> 'r) \<Rightarrow> json \<Rightarrow> 'r \<Rightarrow> 'r option" where
  "set_string upd v r = (case v of JStr t \<Rightarrow> Some (upd t r) | JNull \<Rightarrow> Some r | _ \<Rightarrow> None)"

definition set_bool :: "(bool \<Rightarrow> 'r \<Rightarrow> 'r) \<Rightarrow> json \<Rightarrow> 'r \<Rightarrow> 'r option" where
  "set_bool upd v r = (case v of JBool b \<Rightarrow> Some (upd b r) | JNull \<Rightarrow> Some r | _ \<Rightarrow> None)"

text \<open>A \<^verbatim>\<open>*string\<close>.\<close>

definition set_string_ptr :: "(string option \<Rightarrow> 'r \<Rightarrow> 'r) \<Rightarrow> json \<Rightarrow> 'r \<Rightarrow> 'r option" where
  "set_string_ptr upd v r =
     (case v of JStr t \<Rightarrow> Some (upd (Some t) r) | JNull \<Rightarrow> Some (upd None r) | _ \<Rightarrow> None)"

definition set_time :: "(time \<Rightarrow> 'r \<Rightarrow> 'r) \<Rightarrow> json \<Rightarrow> 'r \<Rightarrow> 'r option" where
  "set_time upd v r =
     (case v of JStr t \<Rightarrow> map_option (\<lambda>x. upd x r) (parse_RFC3339 t) | JNull \<Rightarrow> Some r | _ \<Rightarrow> None)"

text \<open>A \<^verbatim>\<open>[]string\<close>; a null element keeps the element that was there, if any.\<close>

fun json_strings :: "json list \<Rightarrow> string list \<Rightarrow> string list option" where
  "json_strings [] old = Some []"
| "json_strings (v # vs) old =
     (case v of
        JStr t \<Rightarrow> map_option ((#) t) (json_strings vs (tl old))
      | JNull \<Rightarrow> map_option ((#) (if old = [] then [] else hd old)) (json_strings vs (tl old))
      | _ \<Rightarrow> None)"

definition set_strings :: "('r \<Rightarrow> string list) \<Rightarrow> (string list \<Rightarrow> 'r \<Rightarrow> 'r) \<Rightarrow> json \<Rightarrow> 'r \<Rightarrow> 'r option" where
  "set_strings get upd v r =
     (case v of
        JArr vs \<Rightarrow> map_option (\<lambda>ts. upd ts r) (json_strings vs (get r))
      | JNull \<Rightarrow> Some (upd [] r)
      | _ \<Rightarrow> None)"

definition set_struct :: "bool \<Rightarrow> 'x setters \<Rightarrow> ('r \<Rightarrow> 'x) \<Rightarrow> ('x \<Rightarrow> 'r \<Rightarrow> 'r) \<Rightarrow> json \<Rightarrow> 'r \<Rightarrow> 'r option" where
  "set_struct strict fs get upd v r =
     (case v of
        JObj ms \<Rightarrow> map_option (\<lambda>x. upd x r) (json_fill strict fs ms (get r))
      | JNull \<Rightarrow> Some r
      | _ \<Rightarrow> None)"

text \<open>
  One value and nothing after it: \<^verbatim>\<open>Decode\<close> followed by a \<^verbatim>\<open>Decode\<close> that must report the end
  of the input.
\<close>

definition json_Decode_one :: "bool \<Rightarrow> 'r setters \<Rightarrow> 'r \<Rightarrow> string \<Rightarrow> 'r option" where
  "json_Decode_one strict fs zero s =
     (case json_text s of
        Some (JObj ms) \<Rightarrow> json_fill strict fs ms zero
      | Some JNull \<Rightarrow> Some zero
      | _ \<Rightarrow> None)"

section \<open>Numbers and truth values\<close>

definition ParseInt :: "string \<Rightarrow> int64 option" where
  "ParseInt s =
     (let neg = (s \<noteq> [] \<and> hd s = CHR ''-'');
          ds = (if s \<noteq> [] \<and> (hd s = CHR ''-'' \<or> hd s = CHR ''+'') then tl s else s);
          n = (if neg then - digits_val ds else digits_val ds) in
      if ds = [] \<or> \<not> list_all is_digit ds \<or> \<not> in_int64 n then None else Some n)"

definition ParseBool :: "string \<Rightarrow> bool option" where
  "ParseBool s =
     (if s \<in> set [''1'', ''t'', ''T'', ''TRUE'', ''true'', ''True''] then Some True
      else if s \<in> set [''0'', ''f'', ''F'', ''FALSE'', ''false'', ''False''] then Some False
      else None)"

lemma of_char_int: "n < 10 \<Longrightarrow> of_char (char_of (48 + n)) = (48 + int n :: int)"
  using of_nat_of_char [of "char_of (48 + n)", where ?'a = int] by simp

lemma digits_val_snoc: "digits_val (ds @ [c]) = 10 * digits_val ds + (of_char c - 48)"
  by (simp add: digits_val_def)

lemma digits_val_decimal: "digits_val (decimal n) = int n"
proof (induction n rule: decimal.induct)
  case (1 n)
  show ?case
  proof (cases "n < 10")
    case True
    then show ?thesis by (subst decimal.simps) (simp add: digits_val_def of_char_int)
  next
    case False
    then show ?thesis using 1 by (subst decimal.simps) (simp add: digits_val_snoc of_char_int zdiv_int zmod_int)
  qed
qed

text \<open>Printed 64-bit integers are read back.\<close>

lemma ParseInt_FormatInt:
  assumes "in_int64 n" shows "ParseInt (FormatInt n) = Some n"
proof -
  have d: "list_all is_digit (decimal m)" for m
    using decimal_chars [of _ m] by (auto simp: list_all_iff is_digit_def)
  have "hd (decimal m) \<noteq> CHR ''-''" "hd (decimal m) \<noteq> CHR ''+''" for m
    using decimal_chars [of "hd (decimal m)" m] decimal_not_Nil [of m] by auto
  then show ?thesis
    using assms d decimal_not_Nil by (simp add: ParseInt_def FormatInt_def digits_val_decimal)
qed

end
