(* ===== verification/Access_Control.thy ===== *)
theory Access_Control
  imports Drive_Prelude
begin

text \<open>
  Who may do what: \<^verbatim>\<open>internal/authn/principal.go\<close>, \<^verbatim>\<open>internal/authz/policy.go\<close> and
  \<^verbatim>\<open>internal/spaceaccess/service.go\<close>. Roles and actions are Go strings, so values outside the
  constants are possible and are treated. Resolvers are interfaces: functions over a state \<open>'s\<close>.
\<close>

section \<open>Principals\<close>

record Principal =
  AccountID :: string

type_synonym ('r, 's) Resolver = "'r \<Rightarrow> 's \<Rightarrow> (goerr + Principal) \<times> 's"

definition DenyAllResolver :: "('r, 's) Resolver" where
  "DenyAllResolver request s = (Inl (Sentinel ErrUnauthenticated), s)"

section \<open>Roles and capabilities\<close>

type_synonym Role = string
type_synonym authz_Action = string

definition RoleOwner :: Role where "RoleOwner = ''owner''"
definition RoleManager :: Role where "RoleManager = ''manager''"
definition RoleEditor :: Role where "RoleEditor = ''editor''"
definition RoleContributor :: Role where "RoleContributor = ''contributor''"
definition RoleCommenter :: Role where "RoleCommenter = ''commenter''"
definition RoleViewer :: Role where "RoleViewer = ''viewer''"
definition RoleDropOnly :: Role where "RoleDropOnly = ''drop_only''"

definition ActionRead :: authz_Action where "ActionRead = ''read''"
definition ActionList :: authz_Action where "ActionList = ''list''"
definition ActionCreateFile :: authz_Action where "ActionCreateFile = ''create_file''"
definition ActionCreateFolder :: authz_Action where "ActionCreateFolder = ''create_folder''"
definition ActionUpdate :: authz_Action where "ActionUpdate = ''update''"
definition ActionDelete :: authz_Action where "ActionDelete = ''delete''"
definition ActionComment :: authz_Action where "ActionComment = ''comment''"
definition authz_ActionShare :: authz_Action where "authz_ActionShare = ''share''"
definition ActionManageMembers :: authz_Action where "ActionManageMembers = ''manage_members''"
definition ActionManageSpace :: authz_Action where "ActionManageSpace = ''manage_space''"

lemmas role_defs = RoleOwner_def RoleManager_def RoleEditor_def RoleContributor_def
  RoleCommenter_def RoleViewer_def RoleDropOnly_def
lemmas authz_action_defs = ActionRead_def ActionList_def ActionCreateFile_def ActionCreateFolder_def
  ActionUpdate_def ActionDelete_def ActionComment_def authz_ActionShare_def ActionManageMembers_def
  ActionManageSpace_def

text \<open>\<^verbatim>\<open>map[Action]struct{}\<close> built by a loop.\<close>

definition capabilitySet :: "authz_Action list \<Rightarrow> (authz_Action \<rightharpoonup> unit)" where
  "capabilitySet actions = fold (\<lambda>action set. set(action \<mapsto> ())) actions Map.empty"

definition roleCapabilities :: "Role \<rightharpoonup> (authz_Action \<rightharpoonup> unit)" where
  "roleCapabilities =
     [RoleOwner \<mapsto> capabilitySet
        [ActionRead, ActionList, ActionCreateFile, ActionCreateFolder, ActionUpdate,
         ActionDelete, ActionComment, authz_ActionShare, ActionManageMembers, ActionManageSpace],
      RoleManager \<mapsto> capabilitySet
        [ActionRead, ActionList, ActionCreateFile, ActionCreateFolder, ActionUpdate,
         ActionDelete, ActionComment, authz_ActionShare, ActionManageMembers],
      RoleEditor \<mapsto> capabilitySet
        [ActionRead, ActionList, ActionCreateFile, ActionCreateFolder, ActionUpdate,
         ActionDelete, ActionComment, authz_ActionShare],
      RoleContributor \<mapsto> capabilitySet
        [ActionRead, ActionList, ActionCreateFile, ActionCreateFolder, ActionUpdate, ActionComment],
      RoleCommenter \<mapsto> capabilitySet [ActionRead, ActionList, ActionComment],
      RoleViewer \<mapsto> capabilitySet [ActionRead, ActionList],
      RoleDropOnly \<mapsto> capabilitySet [ActionCreateFile]]"

definition authz_Allows :: "Role \<Rightarrow> authz_Action \<Rightarrow> bool" where
  "authz_Allows role action =
     (case roleCapabilities role of
        None \<Rightarrow> False
      | Some capabilities \<Rightarrow> capabilities action \<noteq> None)"

section \<open>Membership\<close>

type_synonym 's MembershipResolver = "string \<Rightarrow> string \<Rightarrow> 's \<Rightarrow> (goerr + Role) \<times> 's"

definition spaceaccess_Allows ::
  "'s MembershipResolver option \<Rightarrow> string \<Rightarrow> string \<Rightarrow> authz_Action \<Rightarrow> 's \<Rightarrow> bool \<times> 's" where
  "spaceaccess_Allows memberships accountID spaceID action s =
     (case memberships of
        None \<Rightarrow> (False, s)
      | Some RoleForAccount \<Rightarrow>
          if accountID = [] \<or> spaceID = [] then (False, s)
          else (case RoleForAccount accountID spaceID s of
                  (Inl err, s1) \<Rightarrow> (False, s1)
                | (Inr role, s1) \<Rightarrow> (authz_Allows role action, s1)))"

section \<open>The policy as a ladder of levels\<close>

text \<open>
  A reference reading of the table: every role but drop-only has a level, every action the level it
  needs, and drop-only may create files and nothing else.
\<close>

fun role_level :: "Role \<Rightarrow> nat option" where
  "role_level r =
     map_of [(''viewer'', 1), (''commenter'', 2), (''contributor'', 3), (''editor'', 4),
             (''manager'', 5), (''owner'', 6)] r"

fun action_level :: "authz_Action \<Rightarrow> nat option" where
  "action_level a =
     map_of [(''read'', 1), (''list'', 1), (''comment'', 2), (''create_file'', 3),
             (''create_folder'', 3), (''update'', 3), (''delete'', 4), (''share'', 4),
             (''manage_members'', 5), (''manage_space'', 6)] a"

definition ladder_allows :: "Role \<Rightarrow> authz_Action \<Rightarrow> bool" where
  "ladder_allows r a =
     (case (role_level r, action_level a) of
        (Some have, Some need) \<Rightarrow> need \<le> have
      | _ \<Rightarrow> r = ''drop_only'' \<and> a = ''create_file'')"

lemma capabilitySet_dom: "capabilitySet as a = Some () \<longleftrightarrow> a \<in> set as"
proof -
  have "fold (\<lambda>action set. set(action \<mapsto> ())) as m a = Some () \<longleftrightarrow> a \<in> set as \<or> m a = Some ()" for m
    by (induction as arbitrary: m) (auto split: if_splits)
  then show ?thesis by (simp add: capabilitySet_def)
qed

lemma authz_Allows_cases:
  "authz_Allows r a \<longleftrightarrow>
     r = RoleOwner \<and> a \<in> {ActionRead, ActionList, ActionCreateFile, ActionCreateFolder, ActionUpdate,
       ActionDelete, ActionComment, authz_ActionShare, ActionManageMembers, ActionManageSpace}
     \<or> r = RoleManager \<and> a \<in> {ActionRead, ActionList, ActionCreateFile, ActionCreateFolder, ActionUpdate,
       ActionDelete, ActionComment, authz_ActionShare, ActionManageMembers}
     \<or> r = RoleEditor \<and> a \<in> {ActionRead, ActionList, ActionCreateFile, ActionCreateFolder, ActionUpdate,
       ActionDelete, ActionComment, authz_ActionShare}
     \<or> r = RoleContributor \<and> a \<in> {ActionRead, ActionList, ActionCreateFile, ActionCreateFolder,
       ActionUpdate, ActionComment}
     \<or> r = RoleCommenter \<and> a \<in> {ActionRead, ActionList, ActionComment}
     \<or> r = RoleViewer \<and> a \<in> {ActionRead, ActionList}
     \<or> r = RoleDropOnly \<and> a = ActionCreateFile"
  unfolding authz_Allows_def roleCapabilities_def
  by (simp add: capabilitySet_dom role_defs split: if_split)

text \<open>A resolver's error, a missing membership or an unknown role denies.\<close>

lemma spaceaccess_Allows_True:
  "spaceaccess_Allows m acct sp a s = (True, s') \<longleftrightarrow>
     (\<exists>f r. m = Some f \<and> acct \<noteq> [] \<and> sp \<noteq> [] \<and> f acct sp s = (Inr r, s') \<and> authz_Allows r a)"
  by (auto simp: spaceaccess_Allows_def split: option.splits sum.splits prod.splits)

end
