(* ===== verification/Go_Path.thy ===== *)
theory Go_Path
  imports Go_Strings
begin

text \<open>
  Go's \<^verbatim>\<open>path/filepath\<close> on a Unix system, at the level of path components: \<open>Clean\<close>,
  \<open>filepath_Join\<close>, \<open>filepath_Rel\<close>, \<open>filepath_Dir\<close> and \<open>IsAbs\<close>. The lemmas say that
  these operations are concatenation of components on rooted paths whose components are neither
  empty nor dots and hold no separator.
\<close>

section \<open>Operations\<close>

abbreviation slash :: char where
  "slash \<equiv> CHR ''/''"

text \<open>Process the components of a path; the accumulator holds the kept ones, last first.\<close>

fun clean_comps :: "bool \<Rightarrow> string list \<Rightarrow> string list \<Rightarrow> string list" where
  "clean_comps rooted acc [] = rev acc"
| "clean_comps rooted acc (c # cs) =
     (if c = [] \<or> c = ''.'' then clean_comps rooted acc cs
      else if c = ''..'' then
        (case acc of
           a # acc' \<Rightarrow> if a \<noteq> ''..'' then clean_comps rooted acc' cs
                      else clean_comps rooted (''..'' # acc) cs
         | [] \<Rightarrow> if rooted then clean_comps rooted [] cs else clean_comps rooted [''..''] cs)
      else clean_comps rooted (c # acc) cs)"

definition IsAbs :: "string \<Rightarrow> bool" where
  "IsAbs p \<longleftrightarrow> HasPrefix p ''/''"

definition path_comps :: "string \<Rightarrow> string list" where
  "path_comps p = clean_comps (IsAbs p) [] (Split slash p)"

definition rooted_path :: "string list \<Rightarrow> string" where
  "rooted_path cs = slash # Join ''/'' cs"

definition Clean :: "string \<Rightarrow> string" where
  "Clean p =
     (if IsAbs p then rooted_path (path_comps p)
      else if path_comps p = [] then ''.'' else Join ''/'' (path_comps p))"

definition filepath_Join :: "string list \<Rightarrow> string" where
  "filepath_Join elems =
     (let es = dropWhile (\<lambda>e. e = []) elems in if es = [] then [] else Clean (Join ''/'' es))"

definition filepath_Dir :: "string \<Rightarrow> string" where
  "filepath_Dir p = Clean (rev (dropWhile (\<lambda>c. c \<noteq> slash) (rev p)))"

fun strip_common :: "string list \<Rightarrow> string list \<Rightarrow> string list \<times> string list" where
  "strip_common (b # bs) (t # ts) = (if b = t then strip_common bs ts else (b # bs, t # ts))"
| "strip_common bs ts = (bs, ts)"

definition filepath_Rel :: "string \<Rightarrow> string \<Rightarrow> goerr + string" where
  "filepath_Rel base targ =
     (if Clean base = Clean targ then Inr ''.''
      else if IsAbs (Clean base) \<noteq> IsAbs (Clean targ)
      then Inl (ErrorString ''Rel: can't make target relative to base'')
      else (let (bs, ts) = strip_common (path_comps base) (path_comps targ) in
            if bs \<noteq> [] \<and> hd bs = ''..''
            then Inl (ErrorString ''Rel: can't make target relative to base'')
            else Inr (Join ''/'' (replicate (length bs) ''..'' @ ts))))"

section \<open>Paths made of plain components\<close>

definition plain_comp :: "string \<Rightarrow> bool" where
  "plain_comp c \<longleftrightarrow> c \<noteq> [] \<and> c \<noteq> ''.'' \<and> c \<noteq> ''..'' \<and> slash \<notin> set c"

definition plain_comps :: "string list \<Rightarrow> bool" where
  "plain_comps cs \<longleftrightarrow> (\<forall>c \<in> set cs. plain_comp c)"

lemma plain_comps_simps [simp]:
  "plain_comps []"
  "plain_comps (c # cs) \<longleftrightarrow> plain_comp c \<and> plain_comps cs"
  "plain_comps (cs @ ds) \<longleftrightarrow> plain_comps cs \<and> plain_comps ds"
  by (auto simp: plain_comps_def)

lemma plain_comp_not_Nil [simp]: "\<not> plain_comp []"
  by (simp add: plain_comp_def)

lemma clean_comps_plain [simp]:
  "plain_comps cs \<Longrightarrow> clean_comps rooted acc (cs @ ds) = clean_comps rooted (rev cs @ acc) ds"
  by (induction cs arbitrary: acc) (auto simp: plain_comp_def)

lemma clean_comps_plain_end [simp]:
  "plain_comps cs \<Longrightarrow> clean_comps rooted acc cs = rev acc @ cs"
  using clean_comps_plain [of cs rooted acc "[]"] by simp

text \<open>What \<open>clean_comps\<close> keeps of a rooted path is plain.\<close>

lemma clean_comps_rooted_plain:
  assumes "plain_comps acc" "\<forall>c \<in> set cs. slash \<notin> set c"
  shows "plain_comps (clean_comps True acc cs)"
  using assms
proof (induction cs arbitrary: acc)
  case Nil
  then show ?case by (simp add: plain_comps_def)
next
  case (Cons c cs)
  then show ?case
    by (cases acc) (auto simp: plain_comp_def)
qed

lemma path_comps_rooted_plain: "IsAbs p \<Longrightarrow> plain_comps (path_comps p)"
  unfolding path_comps_def
  using clean_comps_rooted_plain [of "[]" "Split slash p"] Split_sep_free by auto

lemma Clean_rooted_ex: "IsAbs p \<Longrightarrow> \<exists>cs. Clean p = rooted_path cs \<and> plain_comps cs"
  using path_comps_rooted_plain by (auto simp: Clean_def)

lemma Split_append_sep: "Split sep (x @ sep # y) = Split sep x @ Split sep y"
  by (induction x) (auto split: list.splits)

lemma Split_Join_plain:
  assumes "plain_comps cs"
  shows "Split slash (Join ''/'' cs) = (if cs = [] then [[]] else cs)"
  using assms Split_Join [of cs slash] by (auto simp: plain_comps_def plain_comp_def)

lemma IsAbs_rooted [simp]: "IsAbs (rooted_path cs)"
  by (simp add: IsAbs_def HasPrefix_def rooted_path_def)

lemma IsAbs_rooted_append [simp]: "IsAbs (rooted_path cs @ p)"
  by (simp add: IsAbs_def HasPrefix_def rooted_path_def)

lemma Split_rooted:
  "plain_comps cs \<Longrightarrow> Split slash (rooted_path cs) = [] # (if cs = [] then [[]] else cs)"
  by (simp add: rooted_path_def Split_Join_plain)

lemma path_comps_rooted [simp]: "plain_comps cs \<Longrightarrow> path_comps (rooted_path cs) = cs"
  by (simp add: path_comps_def Split_rooted)

lemma Clean_rooted [simp]: "plain_comps cs \<Longrightarrow> Clean (rooted_path cs) = rooted_path cs"
  by (simp add: Clean_def)

lemma Join_rooted:
  "cs \<noteq> [] \<Longrightarrow> Join ''/'' (rooted_path rc # cs) = rooted_path rc @ slash # Join ''/'' cs"
  by (simp add: Join_Cons)

text \<open>Joining plain components to a clean rooted path appends them.\<close>

lemma filepath_Join_rooted:
  assumes rc: "plain_comps rc" and cs: "plain_comps cs" "cs \<noteq> []"
  shows "filepath_Join (rooted_path rc # cs) = rooted_path (rc @ cs)"
proof -
  let ?p = "rooted_path rc @ slash # Join ''/'' cs"
  have "Split slash ?p = [] # (if rc = [] then [[]] else rc) @ cs"
    using assms by (simp add: Split_append_sep Split_rooted Split_Join_plain)
  then have "path_comps ?p = rc @ cs"
    using assms by (simp add: path_comps_def)
  then have "Clean ?p = rooted_path (rc @ cs)"
    by (simp add: Clean_def)
  moreover have "rooted_path rc \<noteq> []" by (simp add: rooted_path_def)
  ultimately show ?thesis
    using cs by (simp add: filepath_Join_def Join_rooted)
qed

lemma Join_inj:
  assumes "plain_comps cs" "plain_comps ds" "Join ''/'' cs = Join ''/'' ds"
  shows "cs = ds"
proof -
  have "(if cs = [] then [[]] else cs) = (if ds = [] then [[]] else ds)"
    using assms Split_Join_plain by metis
  then show ?thesis using assms(1,2) by (auto split: if_splits)
qed

lemma rooted_path_inj:
  "plain_comps cs \<Longrightarrow> plain_comps ds \<Longrightarrow> rooted_path cs = rooted_path ds \<longleftrightarrow> cs = ds"
  by (auto simp: rooted_path_def dest: Join_inj)

lemma Join_snoc: "cs \<noteq> [] \<Longrightarrow> Join ''/'' (cs @ [c]) = Join ''/'' cs @ slash # c"
  by (induction cs rule: induct_list012) auto

lemma rooted_path_snoc:
  "rooted_path (cs @ [c]) = (if cs = [] then [slash] else rooted_path cs @ [slash]) @ c"
  by (simp add: rooted_path_def Join_snoc)

lemma dropWhile_rev_last:
  "slash \<notin> set c \<Longrightarrow> rev (dropWhile (\<lambda>x. x \<noteq> slash) (rev (p @ [slash] @ c))) = p @ [slash]"
  by (induction c rule: rev_induct) (auto simp: dropWhile_append1)

lemma Clean_trailing:
  assumes "plain_comps cs"
  shows "Clean (rooted_path cs @ [slash]) = rooted_path cs"
proof -
  have "path_comps (rooted_path cs @ [slash]) = cs"
    using assms Split_append_sep [of slash "rooted_path cs" "[]"]
    by (simp add: path_comps_def Split_rooted)
  then show ?thesis by (simp add: Clean_def)
qed

lemma filepath_Dir_rooted:
  assumes "plain_comps cs" "plain_comp c"
  shows "filepath_Dir (rooted_path (cs @ [c])) = rooted_path cs"
proof (cases "cs = []")
  case True
  then show ?thesis
    using assms dropWhile_rev_last [of c "[]"] Clean_rooted [of "[]"]
    by (simp add: filepath_Dir_def rooted_path_def plain_comp_def)
next
  case False
  have "rev (dropWhile (\<lambda>x. x \<noteq> slash) (rev (rooted_path (cs @ [c])))) = rooted_path cs @ [slash]"
    using assms False dropWhile_rev_last [of c "rooted_path cs"]
    by (simp add: rooted_path_snoc plain_comp_def)
  then show ?thesis using assms by (simp add: filepath_Dir_def Clean_trailing)
qed

lemma strip_common_append [simp]: "strip_common bs (bs @ ts) = ([], ts)"
  by (induction bs) auto

lemma filepath_Rel_rooted:
  assumes "plain_comps bs" "plain_comps ts" "ts \<noteq> []"
  shows "filepath_Rel (rooted_path bs) (rooted_path (bs @ ts)) = Inr (Join ''/'' ts)"
  using assms by (simp add: filepath_Rel_def rooted_path_inj)

end
