(* ===== verification/Identifiers.thy ===== *)
theory Identifiers
  imports Go_Path
begin

text \<open>
  The identifier formats of the program: canonical UUIDs and their generation
  (\<^verbatim>\<open>newUUID\<close> of packages \<^verbatim>\<open>nodes\<close> and \<^verbatim>\<open>uploads\<close>,
  \<^verbatim>\<open>validStorageID\<close>), quarantine operation ids (\<^verbatim>\<open>validOperationID\<close>), Wardveil
  tokens (\<^verbatim>\<open>validScanToken\<close>) and digests (\<^verbatim>\<open>validSHA256\<close>). Random bytes are an
  argument: what \<^verbatim>\<open>rand.Read\<close> put into the array, or its error.
\<close>

unbundle bit_operations_syntax

section \<open>Generation of UUIDs\<close>

type_synonym byte = "8 word"

definition hex_word :: "byte \<Rightarrow> string" where
  "hex_word w = hex_byte (char_of (unat w))"

definition hex_words :: "byte list \<Rightarrow> string" where
  "hex_words ws = concat (map hex_word ws)"

definition uuid_of_bytes :: "byte list \<Rightarrow> string" where
  "uuid_of_bytes b0 =
     (let b1 = b0[6 := (b0 ! 6 AND 0x0f) OR 0x40];
          b = b1[8 := (b1 ! 8 AND 0x3f) OR 0x80]
      in hex_words (take 4 b) @ ''-'' @ hex_words (take 2 (drop 4 b)) @ ''-''
         @ hex_words (take 2 (drop 6 b)) @ ''-'' @ hex_words (take 2 (drop 8 b)) @ ''-''
         @ hex_words (take 6 (drop 10 b)))"

definition nodes_newUUID :: "goerr + byte list \<Rightarrow> goerr + string" where
  "nodes_newUUID rand =
     (case rand of Inl err \<Rightarrow> Inl err | Inr b \<Rightarrow> Inr (uuid_of_bytes b))"

definition uploads_newUUID :: "goerr + byte list \<Rightarrow> goerr + string" where
  "uploads_newUUID rand =
     (case rand of
        Inl err \<Rightarrow> Inl (Wrapped ''generate upload ID'' err)
      | Inr b \<Rightarrow> Inr (uuid_of_bytes b))"

section \<open>Validation\<close>

definition lower_hex_rune :: "rune \<Rightarrow> bool" where
  "lower_hex_rune r \<longleftrightarrow> 48 \<le> r \<and> r \<le> 57 \<or> 97 \<le> r \<and> r \<le> 102"

definition storage_rune_ok :: "nat \<Rightarrow> rune \<Rightarrow> bool" where
  "storage_rune_ok i r \<longleftrightarrow>
     (if i = 8 \<or> i = 13 \<or> i = 18 \<or> i = 23 then r = 45 else lower_hex_rune r)"

definition validStorageID :: "string \<Rightarrow> bool" where
  "validStorageID value \<longleftrightarrow>
     length value = 36 \<and> list_all (\<lambda>(i, r). storage_rune_ok i r) (runes value)"

definition alnum_rune :: "rune \<Rightarrow> bool" where
  "alnum_rune r \<longleftrightarrow>
     97 \<le> r \<and> r \<le> 122 \<or> 65 \<le> r \<and> r \<le> 90 \<or> 48 \<le> r \<and> r \<le> 57"

text \<open>The runes of \<^verbatim>\<open>"-_.:"\<close>.\<close>

definition punct_rune :: "rune \<Rightarrow> bool" where
  "punct_rune r \<longleftrightarrow> r = 45 \<or> r = 95 \<or> r = 46 \<or> r = 58"

definition validOperationID :: "string \<Rightarrow> bool" where
  "validOperationID value0 =
     (let value = TrimSpace value0 in
      value \<noteq> [] \<and> length value \<le> 160
      \<and> list_all (\<lambda>(i, r). alnum_rune r \<or> punct_rune r) (runes value))"

definition validScanToken :: "string \<Rightarrow> bool" where
  "validScanToken value \<longleftrightarrow>
     1 \<le> length value \<and> length value \<le> 256
     \<and> list_all (\<lambda>(i, r). (alnum_rune r \<or> punct_rune r) \<and> (i = 0 \<longrightarrow> alnum_rune r)) (runes value)"

definition validSHA256 :: "string \<Rightarrow> bool" where
  "validSHA256 value \<longleftrightarrow> length value = 64 \<and> hex_decodes value"

section \<open>Characters of valid identifiers\<close>

lemma storage_rune_ascii: "storage_rune_ok i r \<Longrightarrow> r < 128"
  by (auto simp: storage_rune_ok_def lower_hex_rune_def split: if_splits)

lemma validStorageID_iff:
  "validStorageID v \<longleftrightarrow> length v = 36 \<and> (\<forall>i < 36. storage_rune_ok i (byte_of (v ! i)))"
  using runes_check [of storage_rune_ok v, OF storage_rune_ascii]
  by (auto simp: validStorageID_def list_all_iff)

definition uuid_char :: "char \<Rightarrow> bool" where
  "uuid_char c \<longleftrightarrow> is_lower_hex c \<or> byte_of c = 45"

lemma validStorageID_chars: "validStorageID v \<Longrightarrow> c \<in> set v \<Longrightarrow> uuid_char c"
  by (auto simp: validStorageID_iff in_set_conv_nth storage_rune_ok_def lower_hex_rune_def
      uuid_char_def is_lower_hex_def split: if_splits)

lemma validStorageID_plain: "validStorageID v \<Longrightarrow> plain_comp v"
  using validStorageID_chars [of v slash]
  by (auto simp: plain_comp_def validStorageID_def uuid_char_def is_lower_hex_def)

lemma validStorageID_not_Nil [simp]: "\<not> validStorageID []"
  by (simp add: validStorageID_def)

lemma validSHA256_hex: "length bs = 32 \<Longrightarrow> validSHA256 (EncodeToString bs)"
  by (auto simp: validSHA256_def hex_decodes_def list_all_iff is_hex_def
      dest: EncodeToString_lower)

section \<open>Generated UUIDs are canonical\<close>

lemma length_hex_word [simp]: "length (hex_word w) = 2"
  by (simp add: hex_word_def)

lemma set_hex_word: "c \<in> set (hex_word w) \<Longrightarrow> is_lower_hex c"
  by (auto simp: hex_word_def dest: hex_byte_lower)

lemma hex_word_pair:
  "\<exists>c d. hex_word w = [c, d] \<and> lower_hex_rune (byte_of c) \<and> lower_hex_rune (byte_of d)"
proof -
  obtain c d where "hex_word w = [c, d]"
    by (simp add: hex_word_def hex_byte_def)
  moreover from this have "is_lower_hex c" "is_lower_hex d"
    using set_hex_word [of _ w] by auto
  ultimately show ?thesis by (auto simp: lower_hex_rune_def is_lower_hex_def)
qed

lemma uuid_layout:
  assumes "length ws = 16"
    and "u = hex_words (take 4 ws) @ ''-'' @ hex_words (take 2 (drop 4 ws)) @ ''-''
         @ hex_words (take 2 (drop 6 ws)) @ ''-'' @ hex_words (take 2 (drop 8 ws)) @ ''-''
         @ hex_words (take 6 (drop 10 ws))"
  shows "validStorageID u"
proof -
  obtain w0 w1 w2 w3 w4 w5 w6 w7 w8 w9 w10 w11 w12 w13 w14 w15
    where ws: "ws = [w0, w1, w2, w3, w4, w5, w6, w7, w8, w9, w10, w11, w12, w13, w14, w15]"
    using assms(1) by (auto simp: length_Suc_conv eval_nat_numeral)
  define D where "D = (\<lambda>w. hd (hex_word w))"
  define E where "E = (\<lambda>w. hd (tl (hex_word w)))"
  have hw: "hex_word w = [D w, E w]" and hd: "lower_hex_rune (byte_of (D w))"
    and he: "lower_hex_rune (byte_of (E w))" for w
    using hex_word_pair [of w] by (auto simp: D_def E_def)
  have u: "u = [D w0, E w0, D w1, E w1, D w2, E w2, D w3, E w3, CHR ''-'',
      D w4, E w4, D w5, E w5, CHR ''-'', D w6, E w6, D w7, E w7, CHR ''-'',
      D w8, E w8, D w9, E w9, CHR ''-'', D w10, E w10, D w11, E w11, D w12, E w12,
      D w13, E w13, D w14, E w14, D w15, E w15]"
    by (simp add: assms(2) ws hex_words_def hw)
  have "list_all2 (\<lambda>i c. storage_rune_ok i (byte_of c)) [0..<36] u"
    by (simp add: u storage_rune_ok_def hd he upt_conv_Cons)
  then show ?thesis
    by (auto simp: validStorageID_iff list_all2_conv_all_nth)
qed

lemma uuid_of_bytes_valid: "length b = 16 \<Longrightarrow> validStorageID (uuid_of_bytes b)"
  by (rule uuid_layout [of "b[6 := (b ! 6 AND 0x0f) OR 0x40,
        8 := (b[6 := (b ! 6 AND 0x0f) OR 0x40] ! 8 AND 0x3f) OR 0x80]"])
    (simp_all add: uuid_of_bytes_def Let_def)

end
