(* ===== verification/Nodes.thy ===== *)
theory Nodes
  imports Access_Control Identifiers
begin

text \<open>
  \<^verbatim>\<open>internal/nodes/service.go\<close>: the authorization-aware service for file and folder metadata.
  Its repository and its authorizer are interfaces, records of functions over a state \<open>'s\<close>; a
  pointer \<^verbatim>\<open>*string\<close> is an option. \<open>Postgres_Store\<close> provides the repository.
\<close>

section \<open>Nodes and interfaces\<close>

type_synonym Kind = string

definition KindFile :: Kind where "KindFile = ''file''"
definition KindFolder :: Kind where "KindFolder = ''folder''"

record Node =
  nd_ID :: string
  nd_SpaceID :: string
  nd_ParentID :: "string option"
  nd_Kind :: Kind
  nd_Name :: string
  nd_CreatedBy :: string
  nd_CreatedAt :: string
  nd_ModifiedAt :: string
  nd_TrashedAt :: "string option"

record 's NodeRepository =
  nr_List :: "string \<Rightarrow> string option \<Rightarrow> 's \<Rightarrow> (goerr + Node list) \<times> 's"
  nr_Get :: "string \<Rightarrow> string \<Rightarrow> 's \<Rightarrow> (goerr + Node) \<times> 's"
  nr_Create :: "Node \<Rightarrow> 's \<Rightarrow> (goerr + Node) \<times> 's"
  nr_Rename :: "string \<Rightarrow> string \<Rightarrow> string \<Rightarrow> 's \<Rightarrow> (goerr + Node) \<times> 's"
  nr_Trash :: "string \<Rightarrow> string \<Rightarrow> 's \<Rightarrow> (goerr + Node) \<times> 's"

type_synonym 's Authorizer = "string \<Rightarrow> string \<Rightarrow> authz_Action \<Rightarrow> 's \<Rightarrow> bool \<times> 's"

text \<open>\<open>ns_rand\<close> is the package's source of random bytes, \<^verbatim>\<open>crypto/rand\<close>.\<close>

record 's NodeService =
  ns_repo :: "'s NodeRepository option"
  ns_auth :: "'s Authorizer option"
  ns_rand :: "'s \<Rightarrow> (goerr + byte list) \<times> 's"

section \<open>Guards\<close>

definition allowed :: "'s NodeService \<Rightarrow> string \<Rightarrow> string \<Rightarrow> authz_Action \<Rightarrow> 's \<Rightarrow> bool \<times> 's" where
  "allowed svc accountID spaceID action s =
     (case ns_auth svc of
        None \<Rightarrow> (False, s)
      | Some auth \<Rightarrow>
          if accountID \<noteq> [] \<and> spaceID \<noteq> [] then auth accountID spaceID action s else (False, s))"

definition validName :: "string \<Rightarrow> bool" where
  "validName name0 =
     (let name = TrimSpace name0 in
      \<not> (name = [] \<or> length name > 255 \<or> name = ''.'' \<or> name = ''..''
          \<or> ContainsAny name [CHR ''/'', CHR 0x5C])
      \<and> list_all (\<lambda>(i, r). \<not> is_control r) (runes name))"

section \<open>Operations\<close>

text \<open>What every operation does once its guard has passed: fail without a repository.\<close>

definition with_repo :: "'s NodeService \<Rightarrow> ('s NodeRepository \<Rightarrow> 's \<Rightarrow> (goerr + 'a) \<times> 's) \<Rightarrow> 's \<Rightarrow> (goerr + 'a) \<times> 's"
  where
  "with_repo svc call s =
     (case ns_repo svc of
        None \<Rightarrow> (Inl (Sentinel NodesErrUnavailable), s)
      | Some repo \<Rightarrow> call repo s)"

definition nodes_List ::
  "'s NodeService \<Rightarrow> string \<Rightarrow> string \<Rightarrow> string option \<Rightarrow> 's \<Rightarrow> (goerr + Node list) \<times> 's" where
  "nodes_List svc accountID spaceID parentID s =
     (case allowed svc accountID spaceID ActionList s of
        (False, s1) \<Rightarrow> (Inl (Sentinel NodesErrForbidden), s1)
      | (True, s1) \<Rightarrow> with_repo svc (\<lambda>repo. nr_List repo spaceID parentID) s1)"

definition nodes_Get ::
  "'s NodeService \<Rightarrow> string \<Rightarrow> string \<Rightarrow> string \<Rightarrow> 's \<Rightarrow> (goerr + Node) \<times> 's" where
  "nodes_Get svc accountID spaceID nodeID s =
     (case allowed svc accountID spaceID ActionRead s of
        (False, s1) \<Rightarrow> (Inl (Sentinel NodesErrForbidden), s1)
      | (True, s1) \<Rightarrow> with_repo svc (\<lambda>repo. nr_Get repo spaceID nodeID) s1)"

definition nodes_Create ::
  "'s NodeService \<Rightarrow> string \<Rightarrow> string \<Rightarrow> string option \<Rightarrow> Kind \<Rightarrow> string \<Rightarrow> 's \<Rightarrow> (goerr + Node) \<times> 's" where
  "nodes_Create svc accountID spaceID parentID kind name s =
     (if kind \<noteq> KindFolder \<and> kind \<noteq> KindFile then (Inl (Sentinel NodesErrInvalid), s)
      else let action = (if kind = KindFolder then ActionCreateFolder else ActionCreateFile) in
      if \<not> validName name then (Inl (Sentinel NodesErrInvalid), s)
      else case allowed svc accountID spaceID action s of
        (False, s1) \<Rightarrow> (Inl (Sentinel NodesErrForbidden), s1)
      | (True, s1) \<Rightarrow> with_repo svc (\<lambda>repo s2.
          let (rand, s3) = ns_rand svc s2 in
          case nodes_newUUID rand of
            Inl err \<Rightarrow> (Inl (Wrapped ''generate node id'' err), s3)
          | Inr i \<Rightarrow> nr_Create repo
              \<lparr>nd_ID = i, nd_SpaceID = spaceID, nd_ParentID = parentID, nd_Kind = kind,
               nd_Name = TrimSpace name, nd_CreatedBy = accountID, nd_CreatedAt = [],
               nd_ModifiedAt = [], nd_TrashedAt = None\<rparr> s3) s1)"

definition nodes_Rename ::
  "'s NodeService \<Rightarrow> string \<Rightarrow> string \<Rightarrow> string \<Rightarrow> string \<Rightarrow> 's \<Rightarrow> (goerr + Node) \<times> 's" where
  "nodes_Rename svc accountID spaceID nodeID name s =
     (if \<not> validName name then (Inl (Sentinel NodesErrInvalid), s)
      else case allowed svc accountID spaceID ActionUpdate s of
        (False, s1) \<Rightarrow> (Inl (Sentinel NodesErrForbidden), s1)
      | (True, s1) \<Rightarrow> with_repo svc (\<lambda>repo. nr_Rename repo spaceID nodeID (TrimSpace name)) s1)"

definition nodes_Trash ::
  "'s NodeService \<Rightarrow> string \<Rightarrow> string \<Rightarrow> string \<Rightarrow> 's \<Rightarrow> (goerr + Node) \<times> 's" where
  "nodes_Trash svc accountID spaceID nodeID s =
     (case allowed svc accountID spaceID ActionDelete s of
        (False, s1) \<Rightarrow> (Inl (Sentinel NodesErrForbidden), s1)
      | (True, s1) \<Rightarrow> with_repo svc (\<lambda>repo. nr_Trash repo spaceID nodeID) s1)"

lemmas nodes_ops = nodes_List_def nodes_Get_def nodes_Create_def nodes_Rename_def nodes_Trash_def

text \<open>A valid name, once trimmed, is a file name: not empty, not a dot name, no separator.\<close>

lemma validName_plain:
  assumes "validName name"
  shows "TrimSpace name \<noteq> [] \<and> length (TrimSpace name) \<le> 255 \<and> plain_comp (TrimSpace name)"
  using assms by (auto simp: validName_def Let_def plain_comp_def ContainsAny_iff)

end
