(* ===== verification/Go_Crypto.thy ===== *)
theory Go_Crypto
  imports Go_Strings
begin

text \<open>
  \<^verbatim>\<open>crypto/sha256\<close> (FIPS 180-4) on byte strings, as an executable definition, and
  \<^verbatim>\<open>crypto/hmac\<close> over it (RFC 2104). The theorems of the development use that a digest has
  32 bytes and that it is a function of the bytes; no collision resistance is assumed anywhere.
\<close>

unbundle bit_operations_syntax

type_synonym w32 = "32 word"
type_synonym sha_state = "w32 \<times> w32 \<times> w32 \<times> w32 \<times> w32 \<times> w32 \<times> w32 \<times> w32"

definition rotr :: "nat \<Rightarrow> w32 \<Rightarrow> w32" where
  "rotr n x = drop_bit n x OR push_bit (32 - n) x"

definition sha_K :: "w32 list" where
  "sha_K =
    [1116352408, 1899447441, 3049323471, 3921009573, 961987163, 1508970993, 2453635748, 2870763221,
     3624381080, 310598401, 607225278, 1426881987, 1925078388, 2162078206, 2614888103, 3248222580,
     3835390401, 4022224774, 264347078, 604807628, 770255983, 1249150122, 1555081692, 1996064986,
     2554220882, 2821834349, 2952996808, 3210313671, 3336571891, 3584528711, 113926993, 338241895,
     666307205, 773529912, 1294757372, 1396182291, 1695183700, 1986661051, 2177026350, 2456956037,
     2730485921, 2820302411, 3259730800, 3345764771, 3516065817, 3600352804, 4094571909, 275423344,
     430227734, 506948616, 659060556, 883997877, 958139571, 1322822218, 1537002063, 1747873779,
     1955562222, 2024104815, 2227730452, 2361852424, 2428436474, 2756734187, 3204031479, 3329325298]"

definition sha_init :: sha_state where
  "sha_init = (1779033703, 3144134277, 1013904242, 2773480762,
               1359893119, 2600822924, 528734635, 1541459225)"

definition sha_pad :: "string \<Rightarrow> string" where
  "sha_pad bs =
     bs @ [char_of (128 :: nat)] @ replicate ((119 - length bs mod 64) mod 64) (char_of (0 :: nat))
     @ map (\<lambda>i. char_of (8 * length bs div 256 ^ i mod 256)) (rev [0..<8])"

definition word_of_bytes :: "string \<Rightarrow> w32" where
  "word_of_bytes bs = foldl (\<lambda>w b. push_bit 8 w OR of_char b) 0 bs"

text \<open>The message schedule: \<open>ws\<close> holds the words so far, last first.\<close>

definition sha_extend :: "w32 list \<Rightarrow> w32 list" where
  "sha_extend ws =
     (let x = ws ! 14; y = ws ! 1;
          s0 = rotr 7 x XOR rotr 18 x XOR drop_bit 3 x;
          s1 = rotr 17 y XOR rotr 19 y XOR drop_bit 10 y
      in (ws ! 15 + s0 + ws ! 6 + s1) # ws)"

definition sha_schedule :: "string \<Rightarrow> w32 list" where
  "sha_schedule block =
     rev ((sha_extend ^^ 48)
       (rev (map (\<lambda>i. word_of_bytes (take 4 (drop (4 * i) block))) [0..<16])))"

definition sha_round :: "sha_state \<Rightarrow> w32 \<times> w32 \<Rightarrow> sha_state" where
  "sha_round st kw =
     (let (a, b, c, d, e, f, g, h) = st; (k, w) = kw;
          S1 = rotr 6 e XOR rotr 11 e XOR rotr 25 e;
          ch = (e AND f) XOR (NOT e AND g);
          t1 = h + S1 + ch + k + w;
          S0 = rotr 2 a XOR rotr 13 a XOR rotr 22 a;
          maj = (a AND b) XOR (a AND c) XOR (b AND c);
          t2 = S0 + maj
      in (t1 + t2, a, b, c, d + t1, e, f, g))"

definition sha_block :: "sha_state \<Rightarrow> string \<Rightarrow> sha_state" where
  "sha_block st block =
     (let (a, b, c, d, e, f, g, h) = st;
          (a', b', c', d', e', f', g', h') = foldl sha_round st (zip sha_K (sha_schedule block))
      in (a + a', b + b', c + c', d + d', e + e', f + f', g + g', h + h'))"

fun sha_blocks :: "sha_state \<Rightarrow> string \<Rightarrow> sha_state" where
  "sha_blocks st bs =
     (if length bs < 64 then st else sha_blocks (sha_block st (take 64 bs)) (drop 64 bs))"

declare sha_blocks.simps [simp del]

definition bytes_of_word :: "w32 \<Rightarrow> string" where
  "bytes_of_word w = map (\<lambda>i. char_of (unat (drop_bit i w AND 255))) [24, 16, 8, 0]"

definition sha256_Sum256 :: "string \<Rightarrow> string" where
  "sha256_Sum256 bs =
     (let (a, b, c, d, e, f, g, h) = sha_blocks sha_init (sha_pad bs)
      in concat (map bytes_of_word [a, b, c, d, e, f, g, h]))"

lemma length_sha256 [simp]: "length (sha256_Sum256 bs) = 32"
  by (simp add: sha256_Sum256_def bytes_of_word_def split: prod.split)

definition hex_sha256 :: "string \<Rightarrow> string" where
  "hex_sha256 bs = EncodeToString (sha256_Sum256 bs)"

lemma length_hex_sha256 [simp]: "length (hex_sha256 bs) = 64"
  by (simp add: hex_sha256_def)

text \<open>\<^verbatim>\<open>hmac.New(sha256.New, key)\<close> applied to one message.\<close>

definition xor_byte :: "nat \<Rightarrow> char \<Rightarrow> char" where
  "xor_byte n c = char_of (n XOR byte_of c)"

definition hmac_sha256 :: "string \<Rightarrow> string \<Rightarrow> string" where
  "hmac_sha256 key0 msg =
     (let key1 = (if 64 < length key0 then sha256_Sum256 key0 else key0);
          key = key1 @ replicate (64 - length key1) (char_of (0 :: nat))
      in sha256_Sum256 (map (xor_byte 92) key @ sha256_Sum256 (map (xor_byte 54) key @ msg)))"

lemma length_hmac_sha256 [simp]: "length (hmac_sha256 key msg) = 32"
  by (simp add: hmac_sha256_def Let_def)

end
