(* ===== verification/Wardveil_Scan.thy ===== *)
theory Wardveil_Scan
  imports Go_Time Go_Crypto Identifiers
begin

text \<open>
  \<^verbatim>\<open>internal/wardveil/scan.go\<close>: the decision on a scan record and the gate that binds it to
  staged bytes. \<^verbatim>\<open>Action\<close>, \<^verbatim>\<open>Result\<close> and \<^verbatim>\<open>Disposition\<close> are Go
  strings, so values outside the constants are possible and are treated. The staging reader and the
  scanner are interfaces: records of functions over a state \<open>'s\<close> and a handle type \<open>'h\<close>.
\<close>

section \<open>Records\<close>

definition RuntimeContractVersion :: string where
  "RuntimeContractVersion = ''0.1.0''"

definition ScanRecordType :: string where
  "ScanRecordType = ''scan_finding''"

definition DriveFileResourceType :: string where
  "DriveFileResourceType = ''drive_file''"

type_synonym Action = string
type_synonym Result = string
type_synonym Disposition = string

definition ActionUploadFinalize :: Action where "ActionUploadFinalize = ''upload_finalize''"
definition ActionOpen :: Action where "ActionOpen = ''open''"
definition ActionDownload :: Action where "ActionDownload = ''download''"
definition ActionShare :: Action where "ActionShare = ''share''"
definition ActionRestoreRelease :: Action where "ActionRestoreRelease = ''restore_release''"

definition ResultClean :: Result where "ResultClean = ''clean''"
definition ResultSuspicious :: Result where "ResultSuspicious = ''suspicious''"
definition ResultMalicious :: Result where "ResultMalicious = ''malicious''"
definition ResultUnknown :: Result where "ResultUnknown = ''unknown''"
definition ResultUnsupported :: Result where "ResultUnsupported = ''unsupported''"

definition DispositionAllow :: Disposition where "DispositionAllow = ''allow''"
definition DispositionHoldReview :: Disposition where "DispositionHoldReview = ''hold_review''"
definition DispositionBlockQuarantine :: Disposition where
  "DispositionBlockQuarantine = ''block_quarantine''"
definition DispositionBlockedUnverified :: Disposition where
  "DispositionBlockedUnverified = ''blocked_unverified''"

lemmas result_defs = ResultClean_def ResultSuspicious_def ResultMalicious_def ResultUnknown_def
  ResultUnsupported_def
lemmas disposition_defs = DispositionAllow_def DispositionHoldReview_def
  DispositionBlockQuarantine_def DispositionBlockedUnverified_def

record Producer =
  pr_ID :: string
  pr_Authoritative :: bool

record ScanScope =
  sp_ResourceType :: string
  sp_ResourceID :: string

record ScanRecord =
  sr_ContractVersion :: string
  sr_RecordID :: string
  sr_RecordType :: string
  sr_Producer :: Producer
  sr_Scope :: ScanScope
  sr_ObservedAt :: time
  sr_ValidUntil :: time
  sr_Result :: Result
  sr_EvidenceRefs :: "string list"

record ScanEnvelope =
  se_ResourceID :: string
  se_ResourceDigestSHA256 :: string
  se_ScanRecord :: ScanRecord

record FileResource =
  fr_SpaceID :: string
  fr_NodeID :: string
  fr_DigestSHA256 :: string
  fr_SizeBytes :: int64

definition ResourceID :: "FileResource \<Rightarrow> string" where
  "ResourceID r = ''drive:'' @ fr_SpaceID r @ '':file:'' @ fr_NodeID r"

record ScanRequest =
  rq_ResourceType :: string
  rq_ResourceID :: string
  rq_DigestSHA256 :: string
  rq_SizeBytes :: int64
  rq_Action :: Action

record Decision =
  de_Action :: Action
  de_Disposition :: Disposition
  de_CanRelease :: bool
  de_QuarantineRequired :: bool
  de_ReasonCodes :: "string list"
  de_EvidenceRefs :: "string list"
  de_ScanRecordID :: string

record QuarantineHandoff =
  qh_ResourceType :: string
  qh_ResourceID :: string
  qh_DigestSHA256 :: string
  qh_EvidenceRefs :: "string list"
  qh_ScanRecordID :: string
  qh_RequiresExplicitExecutorAuthority :: bool
  qh_DestructiveAction :: bool

section \<open>The decision\<close>

definition decision_QuarantineHandoff :: "Decision \<Rightarrow> FileResource \<Rightarrow> QuarantineHandoff option" where
  "decision_QuarantineHandoff d resource =
     (if \<not> de_QuarantineRequired d then None
      else Some \<lparr>qh_ResourceType = DriveFileResourceType, qh_ResourceID = ResourceID resource,
        qh_DigestSHA256 = fr_DigestSHA256 resource, qh_EvidenceRefs = de_EvidenceRefs d,
        qh_ScanRecordID = de_ScanRecordID d, qh_RequiresExplicitExecutorAuthority = True,
        qh_DestructiveAction = False\<rparr>)"

definition validAction :: "Action \<Rightarrow> bool" where
  "validAction action \<longleftrightarrow>
     action \<in> {ActionUploadFinalize, ActionOpen, ActionDownload, ActionShare, ActionRestoreRelease}"

definition block :: "Action \<Rightarrow> string \<Rightarrow> Decision" where
  "block action reason =
     \<lparr>de_Action = action, de_Disposition = DispositionBlockedUnverified, de_CanRelease = False,
      de_QuarantineRequired = False, de_ReasonCodes = [reason], de_EvidenceRefs = [],
      de_ScanRecordID = []\<rparr>"

definition Evaluate :: "FileResource \<Rightarrow> Action \<Rightarrow> ScanEnvelope \<Rightarrow> time \<Rightarrow> Decision" where
  "Evaluate resource action envelope now =
     (if fr_SpaceID resource = [] \<or> fr_NodeID resource = [] \<or> fr_SizeBytes resource < 0
         \<or> \<not> validSHA256 (fr_DigestSHA256 resource)
      then block action ''drive_resource_invalid''
      else if \<not> validAction action then block action ''drive_action_invalid''
      else if se_ResourceID envelope \<noteq> ResourceID resource
      then block action ''wardveil_resource_id_mismatch''
      else if \<not> EqualFold (se_ResourceDigestSHA256 envelope) (fr_DigestSHA256 resource)
      then block action ''wardveil_digest_mismatch''
      else let record = se_ScanRecord envelope in
      if sr_ContractVersion record \<noteq> RuntimeContractVersion
      then block action ''wardveil_contract_version_mismatch''
      else if sr_RecordType record \<noteq> ScanRecordType
      then block action ''wardveil_record_type_invalid''
      else if \<not> pr_Authoritative (sr_Producer record) \<or> TrimSpace (pr_ID (sr_Producer record)) = []
      then block action ''wardveil_producer_not_authoritative''
      else if sp_ResourceType (sr_Scope record) \<noteq> DriveFileResourceType
              \<or> sp_ResourceID (sr_Scope record) \<noteq> ResourceID resource
      then block action ''wardveil_scope_mismatch''
      else if IsZero (sr_ObservedAt record) \<or> IsZero (sr_ValidUntil record)
              \<or> sr_ValidUntil record < sr_ObservedAt record
      then block action ''wardveil_evidence_window_invalid''
      else if sr_ObservedAt record > now then block action ''wardveil_evidence_future_dated''
      else if sr_Result record = ResultMalicious
      then \<lparr>de_Action = action, de_Disposition = DispositionBlockQuarantine, de_CanRelease = False,
            de_QuarantineRequired = True, de_ReasonCodes = [''wardveil_malicious_digest_match''],
            de_EvidenceRefs = sr_EvidenceRefs record, de_ScanRecordID = sr_RecordID record\<rparr>
      else if now > sr_ValidUntil record then block action ''wardveil_evidence_expired''
      else if sr_Result record = ResultClean
      then (if sr_EvidenceRefs record = [] then block action ''wardveil_clean_evidence_missing''
            else \<lparr>de_Action = action, de_Disposition = DispositionAllow, de_CanRelease = True,
                  de_QuarantineRequired = False, de_ReasonCodes = [''wardveil_clean_current''],
                  de_EvidenceRefs = sr_EvidenceRefs record, de_ScanRecordID = sr_RecordID record\<rparr>)
      else if sr_Result record = ResultSuspicious
      then \<lparr>de_Action = action, de_Disposition = DispositionHoldReview, de_CanRelease = False,
            de_QuarantineRequired = False, de_ReasonCodes = [''wardveil_suspicious_review_required''],
            de_EvidenceRefs = sr_EvidenceRefs record, de_ScanRecordID = sr_RecordID record\<rparr>
      else if sr_Result record = ResultUnknown then block action ''wardveil_result_unknown''
      else if sr_Result record = ResultUnsupported then block action ''wardveil_result_unsupported''
      else block action ''wardveil_result_invalid'')"

section \<open>The gate on staged content\<close>

text \<open>\<^verbatim>\<open>io.ReadCloser\<close> handles of the staging store: open, read to the end, close.\<close>

record ('s, 'h) StagingReader =
  rd_OpenStaging :: "string \<Rightarrow> string \<Rightarrow> 's \<Rightarrow> (goerr + 'h) \<times> 's"
  rd_ReadAll :: "'h \<Rightarrow> 's \<Rightarrow> (goerr + string) \<times> 's"
  rd_Close :: "'h \<Rightarrow> 's \<Rightarrow> (goerr + unit) \<times> 's"

type_synonym ('s, 'h) Scanner = "ScanRequest \<Rightarrow> 'h \<Rightarrow> 's \<Rightarrow> (goerr + ScanEnvelope) \<times> 's"

definition hashStaging ::
  "('s, 'h) StagingReader \<Rightarrow> string \<Rightarrow> string \<Rightarrow> 's \<Rightarrow> (goerr + string \<times> int64) \<times> 's" where
  "hashStaging store spaceID uploadID s =
     (case rd_OpenStaging store spaceID uploadID s of
        (Inl err, s1) \<Rightarrow> (Inl err, s1)
      | (Inr content, s1) \<Rightarrow>
     (case rd_ReadAll store content s1 of
        (copied, s2) \<Rightarrow>
     (case rd_Close store content s2 of
        (closed, s3) \<Rightarrow>
          (case (copied, closed) of
             (Inl copyErr, _) \<Rightarrow> (Inl copyErr, s3)
           | (Inr _, Inl closeErr) \<Rightarrow> (Inl closeErr, s3)
           | (Inr bytes, Inr _) \<Rightarrow> (Inr (hex_sha256 bytes, int (length bytes)), s3)))))"

text \<open>
  \<open>g_Now\<close> is \<^verbatim>\<open>Now\<close> when the field is set and \<^verbatim>\<open>time.Now\<close> when it is nil: either way a
  clock reading.
\<close>

record ('s, 'h) StagedFileGate =
  g_Store :: "('s, 'h) StagingReader option"
  g_Scanner :: "('s, 'h) Scanner option"
  g_Now :: "'s \<Rightarrow> time \<times> 's"

definition scan_request :: "FileResource \<Rightarrow> ScanRequest" where
  "scan_request resource =
     \<lparr>rq_ResourceType = DriveFileResourceType, rq_ResourceID = ResourceID resource,
      rq_DigestSHA256 = fr_DigestSHA256 resource, rq_SizeBytes = fr_SizeBytes resource,
      rq_Action = ActionUploadFinalize\<rparr>"

definition EvaluateUpload ::
  "('s, 'h) StagedFileGate \<Rightarrow> string \<Rightarrow> string \<Rightarrow> string \<Rightarrow> 's \<Rightarrow> (goerr + Decision) \<times> 's" where
  "EvaluateUpload g spaceID uploadID nodeID s =
     (case (g_Store g, g_Scanner g) of
        (Some store, Some scan) \<Rightarrow>
     (case hashStaging store spaceID uploadID s of
        (Inl err, s1) \<Rightarrow> (Inl (Wrapped ''hash staged Drive file'' err), s1)
      | (Inr (digest, size0), s1) \<Rightarrow>
     (let resource = \<lparr>fr_SpaceID = spaceID, fr_NodeID = nodeID, fr_DigestSHA256 = digest,
                      fr_SizeBytes = size0\<rparr> in
      case rd_OpenStaging store spaceID uploadID s1 of
        (Inl err, s2) \<Rightarrow> (Inl (Wrapped ''open staged Drive file for Wardveil Scan'' err), s2)
      | (Inr content, s2) \<Rightarrow>
     (case scan (scan_request resource) content s2 of
        (scanned, s3) \<Rightarrow>
     (case rd_Close store content s3 of
        (closed, s4) \<Rightarrow>
     (case (scanned, closed) of
        (Inl scanErr, _) \<Rightarrow> (Inl (Wrapped ''Wardveil Scan failed'' scanErr), s4)
      | (Inr _, Inl closeErr) \<Rightarrow>
          (Inl (Wrapped ''close staged Drive file after Wardveil Scan'' closeErr), s4)
      | (Inr envelope, Inr _) \<Rightarrow>
     (let (now, s5) = g_Now g s4; decision = Evaluate resource ActionUploadFinalize envelope now in
      if \<not> de_CanRelease decision then (Inr decision, s5)
      else case hashStaging store spaceID uploadID s5 of
        (Inl err, s6) \<Rightarrow> (Inl (Wrapped ''rehash staged Drive file after Wardveil Scan'' err), s6)
      | (Inr (afterDigest, afterSize), s6) \<Rightarrow>
          if afterSize \<noteq> size0 \<or> \<not> EqualFold afterDigest digest
          then (Inr (block ActionUploadFinalize ''drive_content_changed_during_scan''), s6)
          else (Inr decision, s6)))))))
      | _ \<Rightarrow> (Inl (ErrorString ''Wardveil scan gate unavailable''), s))"

section \<open>What a release requires\<close>

text \<open>An envelope that clears a resource for release at a time.\<close>

definition clears :: "FileResource \<Rightarrow> ScanEnvelope \<Rightarrow> time \<Rightarrow> bool" where
  "clears resource envelope now \<longleftrightarrow>
     (let record = se_ScanRecord envelope in
      fr_SpaceID resource \<noteq> [] \<and> fr_NodeID resource \<noteq> [] \<and> 0 \<le> fr_SizeBytes resource
      \<and> validSHA256 (fr_DigestSHA256 resource)
      \<and> se_ResourceID envelope = ResourceID resource
      \<and> EqualFold (se_ResourceDigestSHA256 envelope) (fr_DigestSHA256 resource)
      \<and> sr_ContractVersion record = RuntimeContractVersion \<and> sr_RecordType record = ScanRecordType
      \<and> pr_Authoritative (sr_Producer record) \<and> TrimSpace (pr_ID (sr_Producer record)) \<noteq> []
      \<and> sp_ResourceType (sr_Scope record) = DriveFileResourceType
      \<and> sp_ResourceID (sr_Scope record) = ResourceID resource
      \<and> sr_ObservedAt record \<noteq> 0 \<and> sr_ObservedAt record \<le> now \<and> now \<le> sr_ValidUntil record
      \<and> sr_ValidUntil record \<noteq> 0
      \<and> sr_Result record = ResultClean \<and> sr_EvidenceRefs record \<noteq> [])"

lemma block_simps [simp]:
  "de_CanRelease (block a r) = False" "de_QuarantineRequired (block a r) = False"
  "de_Disposition (block a r) = DispositionBlockedUnverified" "de_Action (block a r) = a"
  "de_EvidenceRefs (block a r) = []"
  by (simp_all add: block_def)

lemma Evaluate_CanRelease:
  "de_CanRelease (Evaluate resource action envelope now)
     \<longleftrightarrow> validAction action \<and> clears resource envelope now"
  by (auto simp: Evaluate_def clears_def Let_def IsZero_def result_defs)

lemma Evaluate_Action: "de_Action (Evaluate resource action envelope now) = action"
  by (simp add: Evaluate_def Let_def)

text \<open>The four dispositions with the flags that go with them.\<close>

lemma Evaluate_Disposition:
  "let d = Evaluate resource action envelope now in
   (de_Disposition d = DispositionAllow \<and> de_CanRelease d \<and> \<not> de_QuarantineRequired d)
   \<or> (de_Disposition d = DispositionBlockQuarantine \<and> \<not> de_CanRelease d \<and> de_QuarantineRequired d)
   \<or> (de_Disposition d \<in> {DispositionHoldReview, DispositionBlockedUnverified}
        \<and> \<not> de_CanRelease d \<and> \<not> de_QuarantineRequired d)"
  by (simp add: Evaluate_def Let_def)

section \<open>The gate binds the decision to the staged bytes\<close>

lemma map_case_zip: "length xs = length ys \<Longrightarrow> map (\<lambda>(x, y). f y) (zip xs ys) = map f ys"
  by (induction xs ys rule: list_induct2) auto

lemma EqualFold_lower_hex:
  assumes "list_all is_lower_hex s" "list_all is_lower_hex t" "EqualFold s t"
  shows "s = t"
proof -
  have asc: "ascii u" if "list_all is_lower_hex u" for u
    using that by (auto simp: ascii_def list_all_iff is_lower_hex_def)
  have f: "map (\<lambda>(i, r). fold_rune r) (runes u) = map byte_of u" if "list_all is_lower_hex u" for u
  proof -
    have "runes u = zip [0..<length u] (map byte_of u)"
      using asc [OF that] by (simp add: runes_def runes_from_ascii)
    then have "map (\<lambda>(i, r). fold_rune r) (runes u) = map fold_rune (map byte_of u)"
      using map_case_zip [of "[0..<length u]" "map byte_of u" fold_rune] by simp
    also have "\<dots> = map byte_of u"
      using that by (auto simp: list_all_iff fold_rune_def lower_rune_def is_lower_hex_def)
    finally show ?thesis .
  qed
  have "map byte_of s = map byte_of t"
    using assms(3) by (simp add: EqualFold_def f [OF assms(1)] f [OF assms(2)])
  then show ?thesis by (rule map_injective) (simp add: inj_on_def)
qed

lemma hex_sha256_lower: "list_all is_lower_hex (hex_sha256 bs)"
  by (auto simp: hex_sha256_def list_all_iff dest: EncodeToString_lower)

text \<open>
  A staging reader whose handles read the staged bytes and whose calls change nothing that
  \<open>same\<close> observes.
\<close>

locale staging_reader =
  fixes store :: "('s, 'h) StagingReader" and staged_bytes :: "'s \<Rightarrow> string \<Rightarrow> string \<Rightarrow> string option"
    and same :: "'s \<Rightarrow> 's \<Rightarrow> bool"
  assumes same_trans: "same s t \<Longrightarrow> same t u \<Longrightarrow> same s u"
    and same_staged: "same s t \<Longrightarrow> staged_bytes t = staged_bytes s"
    and open_same: "rd_OpenStaging store sp up s = (r, s') \<Longrightarrow> same s s'"
    and read_staged: "rd_OpenStaging store sp up s = (Inr h, s') \<Longrightarrow> rd_ReadAll store h s' = (Inr bs, s'')
      \<Longrightarrow> staged_bytes s sp up = Some bs"
    and read_same: "rd_ReadAll store h s = (r2, s') \<Longrightarrow> same s s'"
    and close_same: "rd_Close store h s = (r3, s') \<Longrightarrow> same s s'"
begin

lemma hashStaging_same: "hashStaging store sp up s = (r, s') \<Longrightarrow> same s s'"
  by (auto simp: hashStaging_def split: sum.splits prod.splits
      dest!: open_same read_same close_same intro: same_trans)

lemma hashStaging_sound:
  assumes "hashStaging store sp up s = (Inr (d, z), s')"
  shows "\<exists>bs. staged_bytes s' sp up = Some bs \<and> d = hex_sha256 bs \<and> z = int (length bs)"
proof -
  obtain bs where "staged_bytes s sp up = Some bs" "d = hex_sha256 bs" "z = int (length bs)"
    using assms read_staged by (fastforce simp: hashStaging_def split: sum.splits prod.splits)
  then show ?thesis using same_staged [OF hashStaging_same [OF assms]] by auto
qed

lemma EvaluateUpload_release:
  assumes "EvaluateUpload g sp up n s = (Inr d, s')" "de_CanRelease d"
    and "g_Store g = Some store" "g_Scanner g = Some scan"
  shows "\<exists>bs seen t0 h t env t' now.
    (let resource = \<lparr>fr_SpaceID = sp, fr_NodeID = n, fr_DigestSHA256 = hex_sha256 bs,
                     fr_SizeBytes = int (length bs)\<rparr>
     in staged_bytes s' sp up = Some bs \<and> staged_bytes t sp up = Some seen
        \<and> hex_sha256 seen = hex_sha256 bs \<and> length seen = length bs
        \<and> rd_OpenStaging store sp up t0 = (Inr h, t)
        \<and> scan (scan_request resource) h t = (Inr env, t') \<and> clears resource env now)"
proof -
  obtain digest z s1 where h1: "hashStaging store sp up s = (Inr (digest, z), s1)"
    using assms by (auto simp: EvaluateUpload_def Let_def split: sum.splits prod.splits if_splits)
  let ?res = "\<lparr>fr_SpaceID = sp, fr_NodeID = n, fr_DigestSHA256 = digest, fr_SizeBytes = z\<rparr>"
  obtain h s2 env s3 s4 u now s5 digest' z' where
    opn: "rd_OpenStaging store sp up s1 = (Inr h, s2)" and
    scan: "scan (scan_request ?res) h s2 = (Inr env, s3)" and
    rel: "de_CanRelease (Evaluate ?res ActionUploadFinalize env now)" and
    h2: "hashStaging store sp up s5 = (Inr (digest', z'), s')" and
    eq: "z' = z" "EqualFold digest' digest"
    using assms h1
    by (auto simp: EvaluateUpload_def Let_def split: sum.splits prod.splits if_splits)
  obtain bs where bs: "staged_bytes s' sp up = Some bs" "digest' = hex_sha256 bs" "z' = int (length bs)"
    using hashStaging_sound [OF h2] by blast
  obtain seen where seen: "staged_bytes s1 sp up = Some seen" "digest = hex_sha256 seen" "z = int (length seen)"
    using hashStaging_sound [OF h1] by blast
  have "digest' = digest" using eq(2) bs(2) seen(2) EqualFold_lower_hex hex_sha256_lower by metis
  moreover have "staged_bytes s2 sp up = Some seen" using same_staged [OF open_same [OF opn]] seen(1) by simp
  ultimately show ?thesis
    using bs eq scan rel opn seen
    by (intro exI [of _ bs] exI [of _ seen] exI [of _ s1] exI [of _ h] exI [of _ s2] exI [of _ env] exI [of _ s3]
        exI [of _ now]) (simp add: Evaluate_CanRelease)
qed

end

end
