(* ===== verification/Go_OS.thy ===== *)
theory Go_OS
  imports Go_Path Go_Time Identifiers
begin

text \<open>
  The operating system the storage code runs on: a file system with inodes (so that hard links
  alias), a clock and a random source, reached through the calls of packages \<^verbatim>\<open>os\<close> and
  \<^verbatim>\<open>io\<close>. Every call takes one tick. Whether the call at a tick fails is given by the
  schedule \<open>os_fault\<close>: \<open>None\<close> lets it run, \<open>Some k\<close> makes it report an input/output
  error, having written \<open>k\<close> bytes (a write) or made \<open>k\<close> directories (\<^verbatim>\<open>MkdirAll\<close>)
  and otherwise having changed nothing. The look-ups of \<^verbatim>\<open>os.Stat\<close> have a schedule of their
  own, \<open>os_stat_fault\<close>. A process that dies after tick \<open>n\<close> leaves what a schedule
  that fails every call after \<open>n\<close> leaves, so a statement for every schedule covers crashes.
  Permission bits and directory removal are not modelled: a directory is never removed.
\<close>

section \<open>State\<close>

datatype fsnode = Dir | File nat

record os =
  os_nodes :: "string \<rightharpoonup> fsnode"
  os_data :: "nat \<Rightarrow> string"
  os_next :: nat
  os_tick :: nat
  os_fault :: "nat \<Rightarrow> nat option"
  os_stat_fault :: "nat \<Rightarrow> bool"
  os_clock :: "nat \<Rightarrow> time"
  os_random :: "nat \<Rightarrow> byte list"
  os_suffix :: "nat \<Rightarrow> 32 word"
  os_cwd :: string

record file_info =
  fi_regular :: bool
  fi_size :: int64

text \<open>An \<^verbatim>\<open>io.Reader\<close>: the bytes it delivers, and whether it then fails instead of ending.\<close>

record reader =
  rd_data :: string
  rd_fail :: bool

definition file_at :: "os \<Rightarrow> string \<Rightarrow> nat option" where
  "file_at s p = (case os_nodes s p of Some (File i) \<Rightarrow> Some i | _ \<Rightarrow> None)"

definition content_at :: "os \<Rightarrow> string \<Rightarrow> string option" where
  "content_at s p = map_option (os_data s) (file_at s p)"

text \<open>Inodes in use were handed out before: a new file never aliases an old one.\<close>

definition os_wf :: "os \<Rightarrow> bool" where
  "os_wf s \<longleftrightarrow> (\<forall>p i. os_nodes s p = Some (File i) \<longrightarrow> i < os_next s)"

definition reliable :: "os \<Rightarrow> bool" where
  "reliable s \<longleftrightarrow> os_fault s = (\<lambda>_. None) \<and> os_stat_fault s = (\<lambda>_. False)"

definition stat_ok :: "os \<Rightarrow> bool" where
  "stat_ok s \<longleftrightarrow> os_stat_fault s = (\<lambda>_. False)"

text \<open>The same system once it has stopped failing.\<close>

definition repaired :: "os \<Rightarrow> os" where
  "repaired s = s\<lparr>os_fault := (\<lambda>_. None), os_stat_fault := (\<lambda>_. False)\<rparr>"

section \<open>Calls\<close>

definition tick :: "os \<Rightarrow> os" where
  "tick s = s\<lparr>os_tick := Suc (os_tick s)\<rparr>"

definition fault_now :: "os \<Rightarrow> nat option" where
  "fault_now s = os_fault s (os_tick s)"

abbreviation EIO :: goerr where
  "EIO \<equiv> ErrorString ''input/output error''"

abbreviation ENOENT :: goerr where
  "ENOENT \<equiv> Sentinel OsErrNotExist"

abbreviation EEXIST :: goerr where
  "EEXIST \<equiv> Sentinel OsErrExist"

definition node_info :: "os \<Rightarrow> fsnode \<Rightarrow> file_info" where
  "node_info s nd =
     (case nd of
        Dir \<Rightarrow> \<lparr>fi_regular = False, fi_size = 0\<rparr>
      | File i \<Rightarrow> \<lparr>fi_regular = True, fi_size = int (length (os_data s i))\<rparr>)"

definition sys_Stat :: "string \<Rightarrow> os \<Rightarrow> (goerr + file_info) \<times> os" where
  "sys_Stat p s =
     (if os_stat_fault s (os_tick s) then Inl EIO
      else case os_nodes s p of None \<Rightarrow> Inl ENOENT | Some nd \<Rightarrow> Inr (node_info s nd),
      tick s)"

definition sys_Open :: "string \<Rightarrow> os \<Rightarrow> (goerr + fsnode) \<times> os" where
  "sys_Open p s =
     (if fault_now s \<noteq> None then Inl EIO
      else case os_nodes s p of None \<Rightarrow> Inl ENOENT | Some nd \<Rightarrow> Inr nd,
      tick s)"

definition sys_Fstat :: "fsnode \<Rightarrow> os \<Rightarrow> (goerr + file_info) \<times> os" where
  "sys_Fstat nd s = (if fault_now s \<noteq> None then Inl EIO else Inr (node_info s nd), tick s)"

text \<open>Reading a whole open file; \<^verbatim>\<open>os.ReadFile\<close> opens and reads.\<close>

definition sys_ReadAll :: "fsnode \<Rightarrow> os \<Rightarrow> (goerr + string) \<times> os" where
  "sys_ReadAll nd s =
     (if fault_now s \<noteq> None then Inl EIO
      else case nd of Dir \<Rightarrow> Inl (ErrorString ''is a directory'') | File i \<Rightarrow> Inr (os_data s i),
      tick s)"

definition sys_ReadFile :: "string \<Rightarrow> os \<Rightarrow> (goerr + string) \<times> os" where
  "sys_ReadFile p s =
     (case sys_Open p s of (Inl e, s1) \<Rightarrow> (Inl e, s1) | (Inr nd, s1) \<Rightarrow> sys_ReadAll nd s1)"

text \<open>\<^verbatim>\<open>Sync\<close>, \<^verbatim>\<open>Close\<close>, \<^verbatim>\<open>Chmod\<close>, \<^verbatim>\<open>Seek\<close>: no effect on names or bytes.\<close>

definition sys_Quiet :: "os \<Rightarrow> (goerr + unit) \<times> os" where
  "sys_Quiet s = (if fault_now s \<noteq> None then Inl EIO else Inr (), tick s)"

definition sys_Now :: "os \<Rightarrow> time \<times> os" where
  "sys_Now s = (os_clock s (os_tick s), tick s)"

definition sys_RandRead :: "os \<Rightarrow> (goerr + byte list) \<times> os" where
  "sys_RandRead s = (if fault_now s \<noteq> None then Inl EIO else Inr (os_random s (os_tick s)), tick s)"

definition path_ancestors :: "string \<Rightarrow> string list" where
  "path_ancestors p =
     map (\<lambda>n. rooted_path (take n (path_comps p))) [0..<Suc (length (path_comps p))]"

definition not_file :: "os \<Rightarrow> string \<Rightarrow> bool" where
  "not_file s p = (case os_nodes s p of Some (File i) \<Rightarrow> False | _ \<Rightarrow> True)"

definition make_dirs :: "string list \<Rightarrow> os \<Rightarrow> os" where
  "make_dirs ds s =
     s\<lparr>os_nodes := (\<lambda>q. if q \<in> set ds then Some Dir else os_nodes s q)\<rparr>"

definition sys_MkdirAll :: "string \<Rightarrow> os \<Rightarrow> (goerr + unit) \<times> os" where
  "sys_MkdirAll dir s =
     (let ds = path_ancestors dir; good = takeWhile (not_file s) ds in
      case fault_now s of
        Some k \<Rightarrow> (Inl EIO, tick (make_dirs (take k good) s))
      | None \<Rightarrow>
          if length good = length ds then (Inr (), tick (make_dirs ds s))
          else (Inl (ErrorString ''not a directory''), tick (make_dirs good s)))"

text \<open>\<^verbatim>\<open>os.OpenFile\<close> with \<^verbatim>\<open>O_CREATE|O_WRONLY\<close>, and \<^verbatim>\<open>O_EXCL\<close> when \<open>excl\<close>.\<close>

definition sys_OpenCreate :: "bool \<Rightarrow> string \<Rightarrow> os \<Rightarrow> (goerr + nat) \<times> os" where
  "sys_OpenCreate excl p s =
     (if fault_now s \<noteq> None then (Inl EIO, tick s)
      else case os_nodes s p of
             Some Dir \<Rightarrow> (Inl (if excl then EEXIST else ErrorString ''is a directory''), tick s)
           | Some (File i) \<Rightarrow> (if excl then Inl EEXIST else Inr i, tick s)
           | None \<Rightarrow>
               if os_nodes s (filepath_Dir p) = Some Dir
               then (Inr (os_next s),
                     tick (s\<lparr>os_nodes := (os_nodes s)(p \<mapsto> File (os_next s)),
                             os_data := (os_data s)(os_next s := []),
                             os_next := Suc (os_next s)\<rparr>))
               else (Inl ENOENT, tick s))"

definition write_at :: "string \<Rightarrow> nat \<Rightarrow> string \<Rightarrow> string" where
  "write_at d off bs =
     take off d @ replicate (off - length d) (CHR 0x00) @ bs @ drop (off + length bs) d"

definition set_data :: "nat \<Rightarrow> string \<Rightarrow> os \<Rightarrow> os" where
  "set_data i d s = s\<lparr>os_data := (os_data s)(i := d)\<rparr>"

definition sys_Write :: "nat \<Rightarrow> nat \<Rightarrow> string \<Rightarrow> os \<Rightarrow> (goerr + unit) \<times> os" where
  "sys_Write i off bs s =
     (case fault_now s of
        Some k \<Rightarrow> (Inl EIO, tick (set_data i (write_at (os_data s i) off (take k bs)) s))
      | None \<Rightarrow> (Inr (), tick (set_data i (write_at (os_data s i) off bs) s)))"

text \<open>
  \<^verbatim>\<open>io.Copy(file, io.LimitReader(src, n))\<close> from offset \<open>off\<close>: the limit reader ends at once
  when \<open>n\<close> is not positive, and never sees the source's error once \<open>n\<close> bytes have come.
\<close>

definition limited :: "reader \<Rightarrow> int64 \<Rightarrow> string" where
  "limited rd n = (if n \<le> 0 then [] else take (nat n) (rd_data rd))"

definition limited_fails :: "reader \<Rightarrow> int64 \<Rightarrow> bool" where
  "limited_fails rd n \<longleftrightarrow> rd_fail rd \<and> 0 < n \<and> int (length (rd_data rd)) < n"

definition sys_Copy :: "nat \<Rightarrow> nat \<Rightarrow> reader \<Rightarrow> int64 \<Rightarrow> os \<Rightarrow> (goerr + int64) \<times> os" where
  "sys_Copy i off rd n s =
     (case sys_Write i off (limited rd n) s of
        (Inl e, s1) \<Rightarrow> (Inl e, s1)
      | (Inr _, s1) \<Rightarrow>
          (if limited_fails rd n then Inl (ErrorString ''unexpected EOF'')
           else Inr (int (length (limited rd n))), s1))"

definition sys_Truncate :: "nat \<Rightarrow> nat \<Rightarrow> os \<Rightarrow> (goerr + unit) \<times> os" where
  "sys_Truncate i n s =
     (if fault_now s \<noteq> None then (Inl EIO, tick s)
      else (Inr (), tick (set_data i (write_at (take n (os_data s i)) n []) s)))"

definition sys_Link :: "string \<Rightarrow> string \<Rightarrow> os \<Rightarrow> (goerr + unit) \<times> os" where
  "sys_Link old new s =
     (if fault_now s \<noteq> None then (Inl EIO, tick s)
      else case os_nodes s old of
             None \<Rightarrow> (Inl ENOENT, tick s)
           | Some Dir \<Rightarrow> (Inl (ErrorString ''operation not permitted''), tick s)
           | Some (File i) \<Rightarrow>
               if os_nodes s (filepath_Dir new) \<noteq> Some Dir then (Inl ENOENT, tick s)
               else if os_nodes s new \<noteq> None then (Inl EEXIST, tick s)
               else (Inr (), tick (s\<lparr>os_nodes := (os_nodes s)(new \<mapsto> File i)\<rparr>)))"

definition sys_Remove :: "string \<Rightarrow> os \<Rightarrow> (goerr + unit) \<times> os" where
  "sys_Remove p s =
     (if fault_now s \<noteq> None then (Inl EIO, tick s)
      else case os_nodes s p of
             None \<Rightarrow> (Inl ENOENT, tick s)
           | Some Dir \<Rightarrow> (Inl (ErrorString ''directory not empty''), tick s)
           | Some (File i) \<Rightarrow> (Inr (), tick (s\<lparr>os_nodes := (os_nodes s)(p := None)\<rparr>)))"

text \<open>Renaming replaces the target name; two names of one inode are left alone (POSIX).\<close>

definition sys_Rename :: "string \<Rightarrow> string \<Rightarrow> os \<Rightarrow> (goerr + unit) \<times> os" where
  "sys_Rename old new s =
     (if fault_now s \<noteq> None then (Inl EIO, tick s)
      else case os_nodes s old of
             None \<Rightarrow> (Inl ENOENT, tick s)
           | Some Dir \<Rightarrow> (Inl (ErrorString ''file exists''), tick s)
           | Some (File i) \<Rightarrow>
               if os_nodes s (filepath_Dir new) \<noteq> Some Dir then (Inl ENOENT, tick s)
               else if os_nodes s new = Some Dir then (Inl EEXIST, tick s)
               else if os_nodes s new = Some (File i) then (Inr (), tick s)
               else (Inr (), tick (s\<lparr>os_nodes := (os_nodes s)(old := None, new \<mapsto> File i)\<rparr>)))"

text \<open>\<^verbatim>\<open>os.CreateTemp\<close>: the first of at most ten thousand names, ending in a random 32-bit number in decimal, that is free.\<close>

fun create_temp :: "nat \<Rightarrow> string \<Rightarrow> os \<Rightarrow> (goerr + string \<times> nat) \<times> os" where
  "create_temp 0 prefix s = (Inl EEXIST, s)"
| "create_temp (Suc n) prefix s =
     (let p = prefix @ decimal (unat (os_suffix s (os_tick s))) in
      case sys_OpenCreate True p s of
        (Inr i, s1) \<Rightarrow> (Inr (p, i), s1)
      | (Inl e, s1) \<Rightarrow> if errors_Is e OsErrExist then create_temp n prefix s1 else (Inl e, s1))"

definition sys_CreateTemp :: "string \<Rightarrow> string \<Rightarrow> os \<Rightarrow> (goerr + string \<times> nat) \<times> os" where
  "sys_CreateTemp dir prefix s = create_temp 10000 (dir @ ''/'' @ prefix) s"

lemmas sys_defs = sys_Stat_def sys_Open_def sys_Fstat_def sys_ReadAll_def sys_ReadFile_def
  sys_Quiet_def sys_Now_def sys_RandRead_def sys_MkdirAll_def sys_OpenCreate_def sys_Write_def
  sys_Copy_def sys_Truncate_def sys_Link_def sys_Remove_def sys_Rename_def

section \<open>Ticks\<close>

lemma tick_simps [simp]:
  "os_nodes (tick s) = os_nodes s" "os_data (tick s) = os_data s" "os_next (tick s) = os_next s"
  "os_fault (tick s) = os_fault s" "os_clock (tick s) = os_clock s" "os_cwd (tick s) = os_cwd s"
  "os_random (tick s) = os_random s" "os_suffix (tick s) = os_suffix s"
  "os_stat_fault (tick s) = os_stat_fault s"
  "os_tick (tick s) = Suc (os_tick s)"
  by (simp_all add: tick_def)

lemma tick_observe [simp]:
  "file_at (tick s) = file_at s" "content_at (tick s) = content_at s"
  "os_wf (tick s) = os_wf s" "reliable (tick s) = reliable s" "stat_ok (tick s) = stat_ok s"
  by (simp_all add: file_at_def content_at_def os_wf_def reliable_def stat_ok_def fun_eq_iff)

lemma reliable_stat_ok [simp]: "reliable s \<Longrightarrow> stat_ok s"
  by (simp add: reliable_def stat_ok_def)

lemma repaired_simps [simp]:
  "os_nodes (repaired s) = os_nodes s" "os_data (repaired s) = os_data s"
  "os_next (repaired s) = os_next s" "file_at (repaired s) = file_at s"
  "content_at (repaired s) = content_at s" "os_wf (repaired s) = os_wf s" "reliable (repaired s)"
  "os_suffix (repaired s) = os_suffix s"
  by (simp_all add: repaired_def file_at_def content_at_def os_wf_def reliable_def fun_eq_iff)

lemma set_data_simps [simp]:
  "os_nodes (set_data i d s) = os_nodes s" "os_data (set_data i d s) = (os_data s)(i := d)"
  "os_next (set_data i d s) = os_next s" "os_fault (set_data i d s) = os_fault s"
  "os_stat_fault (set_data i d s) = os_stat_fault s" "os_suffix (set_data i d s) = os_suffix s"
  "file_at (set_data i d s) = file_at s" "os_wf (set_data i d s) = os_wf s"
  "reliable (set_data i d s) = reliable s"
  by (simp_all add: set_data_def file_at_def os_wf_def reliable_def fun_eq_iff)

lemma reliable_fault [simp]: "reliable s \<Longrightarrow> fault_now s = None"
  by (simp add: reliable_def fault_now_def)

lemma reliable_update [simp]:
  "reliable (s\<lparr>os_nodes := n\<rparr>) = reliable s" "reliable (s\<lparr>os_data := d\<rparr>) = reliable s"
  "reliable (s\<lparr>os_next := k\<rparr>) = reliable s"
  by (simp_all add: reliable_def)

section \<open>Calls that leave every file alone\<close>

definition same_files :: "os \<Rightarrow> os \<Rightarrow> bool" where
  "same_files s s' \<longleftrightarrow> file_at s' = file_at s \<and> os_data s' = os_data s
     \<and> os_next s' = os_next s \<and> os_fault s' = os_fault s \<and> os_stat_fault s' = os_stat_fault s
     \<and> os_suffix s' = os_suffix s
     \<and> (\<forall>p. os_nodes s p = Some Dir \<longrightarrow> os_nodes s' p = Some Dir)"

lemma same_files_refl [simp, intro]: "same_files s s"
  by (simp add: same_files_def)

lemma same_files_tick [simp, intro]: "same_files s (tick s)"
  by (simp add: same_files_def)

lemma same_files_trans [trans]: "same_files s t \<Longrightarrow> same_files t u \<Longrightarrow> same_files s u"
  by (simp add: same_files_def)

lemma same_files_tick_left [simp]: "same_files (tick s) t = same_files s t"
  by (simp add: same_files_def)

lemma same_filesD:
  assumes "same_files s s'"
  shows "file_at s' = file_at s" "os_data s' = os_data s" "content_at s' = content_at s"
    "os_next s' = os_next s" "reliable s' = reliable s"
  using assms by (auto simp: same_files_def reliable_def content_at_def [abs_def])

lemma os_wf_file_at: "os_wf s \<longleftrightarrow> (\<forall>p i. file_at s p = Some i \<longrightarrow> i < os_next s)"
  by (auto simp: os_wf_def file_at_def split: option.splits fsnode.splits)

lemma same_files_wf: "same_files s s' \<Longrightarrow> os_wf s' = os_wf s"
  by (simp add: os_wf_file_at same_files_def)

lemma file_at_iff: "file_at s p = Some i \<longleftrightarrow> os_nodes s p = Some (File i)"
  by (auto simp: file_at_def split: option.splits fsnode.splits)

lemma not_file_iff: "not_file s p \<longleftrightarrow> file_at s p = None"
  by (auto simp: not_file_def file_at_def split: option.splits fsnode.splits)

lemma sys_Stat_frame [os_frame]: "sys_Stat p s = (r, s') \<Longrightarrow> same_files s s'"
  by (auto simp: sys_Stat_def)

lemma sys_Open_frame [os_frame]: "sys_Open p s = (r, s') \<Longrightarrow> same_files s s'"
  by (auto simp: sys_Open_def)

lemma sys_Fstat_frame [os_frame]: "sys_Fstat nd s = (r, s') \<Longrightarrow> same_files s s'"
  by (auto simp: sys_Fstat_def)

lemma sys_ReadAll_frame [os_frame]: "sys_ReadAll nd s = (r, s') \<Longrightarrow> same_files s s'"
  by (auto simp: sys_ReadAll_def)

lemma sys_ReadFile_frame [os_frame]: "sys_ReadFile p s = (r, s') \<Longrightarrow> same_files s s'"
  by (auto simp: sys_ReadFile_def split: prod.splits sum.splits
      dest: sys_Open_frame sys_ReadAll_frame intro: same_files_trans)

lemma sys_Quiet_frame [os_frame]: "sys_Quiet s = (r, s') \<Longrightarrow> same_files s s'"
  by (auto simp: sys_Quiet_def)

lemma sys_Now_frame [os_frame]: "sys_Now s = (t, s') \<Longrightarrow> same_files s s'"
  by (auto simp: sys_Now_def)

lemma sys_RandRead_frame [os_frame]: "sys_RandRead s = (r, s') \<Longrightarrow> same_files s s'"
  by (auto simp: sys_RandRead_def)

lemma make_dirs_frame:
  assumes "\<forall>d \<in> set ds. not_file s d"
  shows "same_files s (tick (make_dirs ds s))"
proof -
  have "file_at (make_dirs ds s) q = file_at s q" for q
    using assms by (auto simp: make_dirs_def file_at_def not_file_def split: option.splits fsnode.splits)
  then have "file_at (make_dirs ds s) = file_at s" by (rule ext)
  then show ?thesis by (simp add: same_files_def) (simp add: make_dirs_def)
qed

lemma sys_MkdirAll_frame [os_frame]:
  assumes "sys_MkdirAll dir s = (r, s')"
  shows "same_files s s'"
proof -
  have tw: "\<forall>d \<in> set (takeWhile (not_file s) ds). not_file s d" for ds
    by (auto dest: set_takeWhileD)
  have all: "\<forall>d \<in> set ds. not_file s d" if "length (takeWhile (not_file s) ds) = length ds" for ds
    using that tw [of ds] by (metis le_refl take_all takeWhile_eq_take)
  have tk: "\<forall>d \<in> set (take k (takeWhile (not_file s) ds)). not_file s d" for k ds
    using tw by (auto dest: in_set_takeD)
  show ?thesis
    using assms make_dirs_frame [OF tw] make_dirs_frame [OF all] make_dirs_frame [OF tk]
    by (auto simp: sys_MkdirAll_def Let_def split: option.splits if_splits)
qed

lemma sys_MkdirAll_dir:
  assumes "sys_MkdirAll dir s = (Inr u, s')" "d \<in> set (path_ancestors dir)"
  shows "os_nodes s' d = Some Dir"
  using assms by (auto simp: sys_MkdirAll_def Let_def make_dirs_def split: option.splits if_splits)

lemma path_ancestors_self: "plain_comps cs \<Longrightarrow> rooted_path cs \<in> set (path_ancestors (rooted_path cs))"
  by (auto simp: path_ancestors_def image_iff intro!: bexI [of _ "length cs"])

section \<open>Calls that change names or bytes\<close>

definition add_name :: "string \<Rightarrow> nat \<Rightarrow> os \<Rightarrow> os" where
  "add_name p i s = s\<lparr>os_nodes := (os_nodes s)(p \<mapsto> File i)\<rparr>"

definition del_name :: "string \<Rightarrow> os \<Rightarrow> os" where
  "del_name p s = s\<lparr>os_nodes := (os_nodes s)(p := None)\<rparr>"

definition new_file :: "string \<Rightarrow> os \<Rightarrow> os" where
  "new_file p s =
     s\<lparr>os_nodes := (os_nodes s)(p \<mapsto> File (os_next s)),
       os_data := (os_data s)(os_next s := []), os_next := Suc (os_next s)\<rparr>"

lemma add_name_simps [simp]:
  "file_at (add_name p i s) = (file_at s)(p \<mapsto> i)" "os_data (add_name p i s) = os_data s"
  "os_next (add_name p i s) = os_next s" "os_fault (add_name p i s) = os_fault s"
  "os_stat_fault (add_name p i s) = os_stat_fault s" "os_suffix (add_name p i s) = os_suffix s"
  "os_nodes (add_name p i s) = (os_nodes s)(p \<mapsto> File i)"
  "reliable (add_name p i s) = reliable s"
  by (auto simp: add_name_def file_at_def fun_eq_iff)

lemma del_name_simps [simp]:
  "file_at (del_name p s) = (file_at s)(p := None)" "os_data (del_name p s) = os_data s"
  "os_next (del_name p s) = os_next s" "os_fault (del_name p s) = os_fault s"
  "os_stat_fault (del_name p s) = os_stat_fault s" "os_suffix (del_name p s) = os_suffix s"
  "os_nodes (del_name p s) = (os_nodes s)(p := None)"
  "reliable (del_name p s) = reliable s"
  by (auto simp: del_name_def file_at_def fun_eq_iff)

lemma new_file_simps [simp]:
  "file_at (new_file p s) = (file_at s)(p \<mapsto> os_next s)"
  "os_data (new_file p s) = (os_data s)(os_next s := [])"
  "os_next (new_file p s) = Suc (os_next s)" "os_fault (new_file p s) = os_fault s"
  "os_stat_fault (new_file p s) = os_stat_fault s" "os_suffix (new_file p s) = os_suffix s"
  "os_nodes (new_file p s) = (os_nodes s)(p \<mapsto> File (os_next s))"
  "reliable (new_file p s) = reliable s"
  by (auto simp: new_file_def file_at_def fun_eq_iff)

lemma os_wf_changes [simp, intro]:
  "os_wf s \<Longrightarrow> file_at s q = Some i \<Longrightarrow> os_wf (add_name p i s)"
  "os_wf s \<Longrightarrow> os_wf (del_name p s)"
  "os_wf s \<Longrightarrow> os_wf (new_file p s)"
  by (auto simp: os_wf_file_at split: if_splits intro: less_SucI)

lemma sys_LinkE:
  assumes "sys_Link old new s = (r, s')"
  obtains (fail) e where "r = Inl e" "s' = tick s"
  | (ok) i where "r = Inr ()" "file_at s old = Some i" "os_nodes s new = None"
      "s' = tick (add_name new i s)"
  using assms
  by (auto simp: sys_Link_def add_name_def file_at_iff split: option.splits fsnode.splits if_splits)

lemma sys_RemoveE:
  assumes "sys_Remove p s = (r, s')"
  obtains (fail) e where "r = Inl e" "s' = tick s"
  | (ok) i where "r = Inr ()" "file_at s p = Some i" "s' = tick (del_name p s)"
  using assms
  by (auto simp: sys_Remove_def del_name_def file_at_iff split: option.splits fsnode.splits if_splits)

lemma sys_OpenCreateE:
  assumes "sys_OpenCreate excl p s = (r, s')"
  obtains (fail) e where "r = Inl e" "s' = tick s"
  | (old) i where "r = Inr i" "\<not> excl" "file_at s p = Some i" "s' = tick s"
  | (new) "r = Inr (os_next s)" "os_nodes s p = None" "s' = tick (new_file p s)"
  using assms
  by (auto simp: sys_OpenCreate_def new_file_def file_at_iff
      split: option.splits fsnode.splits if_splits)

lemma sys_RenameE:
  assumes "sys_Rename old new s = (r, s')"
  obtains (fail) e where "r = Inl e" "s' = tick s"
  | (linked) i where "r = Inr ()" "file_at s old = Some i" "file_at s new = Some i" "s' = tick s"
  | (ok) i where "r = Inr ()" "file_at s old = Some i" "file_at s new \<noteq> Some i"
      "s' = tick (add_name new i (del_name old s))"
  using assms
  by (auto simp: sys_Rename_def add_name_def del_name_def file_at_iff
      split: option.splits fsnode.splits if_splits)

lemma sys_WriteE:
  assumes "sys_Write i off bs s = (r, s')"
  obtains (fail) k where "r = Inl EIO"
      "s' = tick (set_data i (write_at (os_data s i) off (take k bs)) s)"
  | (ok) "r = Inr ()" "s' = tick (set_data i (write_at (os_data s i) off bs) s)"
  using assms by (auto simp: sys_Write_def split: option.splits)

lemma sys_CopyE:
  assumes "sys_Copy i off rd n s = (r, s')"
  obtains (fail) e k where "r = Inl e"
      "s' = tick (set_data i (write_at (os_data s i) off (take k (limited rd n))) s)"
  | (ok) "r = Inr (int (length (limited rd n)))" "\<not> limited_fails rd n"
      "s' = tick (set_data i (write_at (os_data s i) off (limited rd n)) s)"
proof (cases "sys_Write i off (limited rd n) s")
  case (Pair w t)
  then show thesis
  proof (cases rule: sys_WriteE)
    case (fail k)
    then show thesis using assms Pair that(1) by (auto simp: sys_Copy_def)
  next
    case ok
    then have "r = Inr (int (length (limited rd n))) \<and> \<not> limited_fails rd n
      \<or> (\<exists>e. r = Inl e)" "s' = t"
      using assms Pair by (auto simp: sys_Copy_def split: if_splits)
    then show thesis
      using ok that(2) that(1) [of _ "length (limited rd n)"] by auto
  qed
qed

lemma sys_TruncateE:
  assumes "sys_Truncate i n s = (r, s')"
  obtains (fail) e where "r = Inl e" "s' = tick s"
  | (ok) "r = Inr ()" "s' = tick (set_data i (write_at (take n (os_data s i)) n []) s)"
  using assms by (auto simp: sys_Truncate_def split: if_splits)

lemma write_at_end: "write_at d (length d) bs = d @ bs"
  by (simp add: write_at_def)

lemma truncate_back: "write_at (take (length d) (d @ bs)) (length d) [] = d"
  by (simp add: write_at_def)

text \<open>Temporary files: a new name with a new inode, or nothing.\<close>

lemma create_tempE:
  assumes "create_temp n prefix s = (r, s')"
  obtains (fail) e where "r = Inl e" "same_files s s'" "os_nodes s' = os_nodes s"
  | (ok) w t where "r = Inr (prefix @ decimal (unat (w :: 32 word)), os_next s)" "same_files s t"
      "os_nodes t = os_nodes s" "os_nodes s (prefix @ decimal (unat w)) = None"
      "s' = tick (new_file (prefix @ decimal (unat w)) t)"
  using assms
proof (induction n prefix s arbitrary: thesis rule: create_temp.induct)
  case (1 prefix s)
  then show ?case by auto
next
  case (2 n prefix s)
  let ?p = "prefix @ decimal (unat (os_suffix s (os_tick s)))"
  obtain w t where w: "sys_OpenCreate True ?p s = (w, t)" by fastforce
  then show ?case
  proof (cases rule: sys_OpenCreateE)
    case (fail e)
    show ?thesis
    proof (cases "errors_Is e OsErrExist")
      case True
      with 2(4) w fail have rec: "create_temp n prefix t = (r, s')" by (simp add: Let_def)
      show ?thesis
      proof (rule 2(1) [OF refl w [symmetric] _ True _ _ rec])
        show "w = Inl e" using fail by simp
      next
        fix e' assume "r = Inl e'" "same_files t s'" "os_nodes s' = os_nodes t"
        then show ?thesis using 2(2) fail by (auto intro: same_files_trans)
      next
        fix x :: "32 word" and u assume "r = Inr (prefix @ decimal (unat x), os_next t)" "same_files t u"
          "os_nodes u = os_nodes t" "os_nodes t (prefix @ decimal (unat x)) = None"
          "s' = tick (new_file (prefix @ decimal (unat x)) u)"
        then show ?thesis using 2(3) [of x u] fail by (auto intro: same_files_trans)
      qed
    next
      case False
      with 2(4) w fail have "r = Inl e" "s' = t" by (auto simp: Let_def)
      then show ?thesis using 2(2) fail by auto
    qed
  next
    case (old i)
    then show ?thesis by simp
  next
    case new
    then show ?thesis using 2(3) [of "os_suffix s (os_tick s)" s] 2(4) w by (auto simp: Let_def)
  qed
qed

text \<open>The names a temporary file can get.\<close>

definition temp_name :: "string \<Rightarrow> string \<Rightarrow> 32 word \<Rightarrow> string" where
  "temp_name dir prefix w = dir @ ''/'' @ prefix @ decimal (unat w)"

definition temp_names :: "string \<Rightarrow> string \<Rightarrow> string set" where
  "temp_names dir prefix = range (temp_name dir prefix)"

lemmas os_elims = sys_LinkE sys_RemoveE sys_OpenCreateE sys_RenameE sys_WriteE sys_CopyE
  sys_TruncateE

section \<open>Calls on a reliable system\<close>

lemma reliable_calls:
  assumes "reliable s"
  shows "sys_Stat p s = (case os_nodes s p of None \<Rightarrow> Inl ENOENT | Some nd \<Rightarrow> Inr (node_info s nd), tick s)"
    and "sys_Open p s = (case os_nodes s p of None \<Rightarrow> Inl ENOENT | Some nd \<Rightarrow> Inr nd, tick s)"
    and "sys_Fstat nd s = (Inr (node_info s nd), tick s)"
    and "sys_Quiet s = (Inr (), tick s)"
    and "sys_Write i off bs s = (Inr (), tick (set_data i (write_at (os_data s i) off bs) s))"
    and "sys_Truncate i n s = (Inr (), tick (set_data i (write_at (take n (os_data s i)) n []) s))"
  using assms by (simp_all add: sys_defs) (simp add: reliable_def)

lemma reliable_Copy:
  "reliable s \<Longrightarrow> sys_Copy i off rd n s =
     (if limited_fails rd n then Inl (ErrorString ''unexpected EOF'') else Inr (int (length (limited rd n))),
      tick (set_data i (write_at (os_data s i) off (limited rd n)) s))"
  by (simp add: sys_Copy_def reliable_calls)

text \<open>The directories of a path can be made: no file is in the way.\<close>

definition mkdir_ok :: "os \<Rightarrow> string \<Rightarrow> bool" where
  "mkdir_ok s dir \<longleftrightarrow> list_all (not_file s) (path_ancestors dir)"

lemma takeWhile_list_all: "list_all P xs \<Longrightarrow> takeWhile P xs = xs"
  by (simp add: list_all_iff)

lemma reliable_MkdirAll:
  "reliable s \<Longrightarrow> mkdir_ok s dir \<Longrightarrow>
   sys_MkdirAll dir s = (Inr (), tick (make_dirs (path_ancestors dir) s))"
  by (simp add: sys_MkdirAll_def mkdir_ok_def takeWhile_list_all Let_def)

lemma mkdir_ok_same: "same_files s s' \<Longrightarrow> mkdir_ok s' dir = mkdir_ok s dir"
  by (simp add: mkdir_ok_def not_file_iff [abs_def] same_filesD)

section \<open>Calls that keep given names\<close>

text \<open>
  The names in \<open>A\<close> mean what they meant, directories stay, the bytes of the inodes in use stay,
  and the schedules are the same. New files and other names may have come and gone.
\<close>

definition keeps :: "string set \<Rightarrow> os \<Rightarrow> os \<Rightarrow> bool" where
  "keeps A s s' \<longleftrightarrow>
     (\<forall>z \<in> A. os_nodes s' z = os_nodes s z)
     \<and> (\<forall>d. os_nodes s d = Some Dir \<longrightarrow> os_nodes s' d = Some Dir)
     \<and> (\<forall>j < os_next s. os_data s' j = os_data s j) \<and> os_next s \<le> os_next s'
     \<and> os_fault s' = os_fault s \<and> os_stat_fault s' = os_stat_fault s \<and> os_suffix s' = os_suffix s
     \<and> (os_wf s \<longrightarrow> os_wf s')"

lemma keeps_refl [simp, intro]: "keeps A s s"
  by (simp add: keeps_def)

lemma keeps_tick [simp]: "keeps A s (tick t) = keeps A s t" "keeps A (tick s) t = keeps A s t"
  by (simp_all add: keeps_def)

lemma keeps_trans [trans]: "keeps A s t \<Longrightarrow> keeps A t u \<Longrightarrow> keeps A s u"
  unfolding keeps_def by (metis order_less_le_trans order_trans)

lemma keeps_mono: "keeps A s t \<Longrightarrow> B \<subseteq> A \<Longrightarrow> keeps B s t"
  by (auto simp: keeps_def)

lemma keepsD:
  assumes "keeps A s t"
  shows "z \<in> A \<Longrightarrow> os_nodes t z = os_nodes s z" "z \<in> A \<Longrightarrow> file_at t z = file_at s z"
    "j < os_next s \<Longrightarrow> os_data t j = os_data s j" "os_wf s \<Longrightarrow> os_wf t"
    "reliable t = reliable s" "stat_ok t = stat_ok s" "os_next s \<le> os_next t"
    "os_nodes s d = Some Dir \<Longrightarrow> os_nodes t d = Some Dir"
  using assms by (auto simp: keeps_def file_at_def reliable_def stat_ok_def)

lemma keeps_content:
  assumes "keeps A s t" "z \<in> A" "os_wf s"
  shows "content_at t z = content_at s z"
  using assms keepsD(2,3) [OF assms(1)]
  by (cases "file_at s z") (auto simp: content_at_def os_wf_file_at)

lemma sys_Stat_state: "snd (sys_Stat p s) = tick s"
  by (simp add: sys_Stat_def)

lemma sys_Quiet_keeps: "sys_Quiet s = (r, s') \<Longrightarrow> keeps A s s'"
  by (auto simp: sys_Quiet_def)

lemma sys_Stat_keeps: "sys_Stat p s = (r, s') \<Longrightarrow> keeps A s s'"
  by (auto simp: sys_Stat_def)

lemma sys_ReadFile_keeps: "sys_ReadFile p s = (r, s') \<Longrightarrow> keeps A s s'"
  by (auto simp: sys_ReadFile_def sys_Open_def sys_ReadAll_def split: sum.splits prod.splits)

lemma sys_Now_keeps: "sys_Now s = (t, s') \<Longrightarrow> keeps A s s'"
  by (auto simp: sys_Now_def)

lemma sys_MkdirAll_keeps:
  assumes "sys_MkdirAll dir s = (r, s')" "A \<inter> set (path_ancestors dir) = {}"
  shows "keeps A s s'"
proof -
  note sf = sys_MkdirAll_frame [OF assms(1)]
  have "os_nodes s' z = os_nodes s z" if "z \<in> A" for z
  proof -
    have z: "z \<notin> set (takeWhile P (path_ancestors dir))" "z \<notin> set (take k (takeWhile P (path_ancestors dir)))"
      "z \<notin> set (path_ancestors dir)" for P k
      using assms(2) that by (auto dest!: set_takeWhileD in_set_takeD)
    show ?thesis
      using assms(1) by (auto simp: sys_MkdirAll_def make_dirs_def Let_def z split: option.splits if_splits)
  qed
  then show ?thesis
    using sf same_files_wf [OF sf] by (auto simp: keeps_def same_files_def)
qed

lemma sys_Remove_keeps: "sys_Remove p s = (r, s') \<Longrightarrow> p \<notin> A \<Longrightarrow> keeps A s s'"
  by (erule sys_RemoveE) (auto simp: keeps_def file_at_iff)

lemma sys_OpenCreate_keeps: "sys_OpenCreate x p s = (r, s') \<Longrightarrow> p \<notin> A \<Longrightarrow> keeps A s s'"
  by (erule sys_OpenCreateE) (auto simp: keeps_def)

lemma set_data_keeps: "os_next s \<le> i \<Longrightarrow> keeps A s t \<Longrightarrow> keeps A s (set_data i d t)"
  by (auto simp: keeps_def)

lemma sys_Rename_keeps:
  "sys_Rename old new s = (r, s') \<Longrightarrow> old \<notin> A \<Longrightarrow> new \<notin> A \<Longrightarrow>
   os_nodes s new \<noteq> Some Dir \<Longrightarrow> keeps A s s'"
  by (erule sys_RenameE) (auto simp: keeps_def os_wf_file_at file_at_iff split: if_splits)

lemma same_files_new_file_keeps:
  assumes "same_files s t" "\<And>z. z \<in> A \<Longrightarrow> os_nodes t z = os_nodes s z" "os_nodes t p = None" "p \<notin> A"
  shows "keeps A s (new_file p t)"
  using assms same_files_wf [OF assms(1)] by (auto simp: keeps_def same_files_def)

lemma sys_CreateTempE:
  assumes "sys_CreateTemp dir prefix s = (r, s')" "A \<inter> temp_names dir prefix = {}"
  obtains (fail) e where "r = Inl e" "keeps A s s'"
  | (ok) p where "r = Inr (p, os_next s)" "keeps A s s'" "p \<in> temp_names dir prefix"
      "file_at s' p = Some (os_next s)" "os_data s' (os_next s) = []" "os_next s < os_next s'"
  using assms(1) [unfolded sys_CreateTemp_def]
proof (cases rule: create_tempE)
  case (fail e)
  then have "keeps A s s'"
    by (auto simp: keeps_def same_files_def same_files_wf [OF fail(2)])
  with fail that show thesis by blast
next
  case (ok w t)
  let ?p = "dir @ ''/'' @ prefix @ decimal (unat w)"
  have p: "?p \<in> temp_names dir prefix" by (auto simp: temp_names_def temp_name_def image_iff)
  have "keeps A s s'"
    using ok p assms(2) same_files_new_file_keeps [of s t A ?p] by auto
  with ok p that(2) [of ?p] show thesis by (simp add: same_filesD)
qed

lemma reliable_CreateTemp:
  assumes "reliable s" "os_nodes s dir = Some Dir"
    and "filepath_Dir (temp_name dir prefix (os_suffix s (os_tick s))) = dir"
    and "os_nodes s (temp_name dir prefix (os_suffix s (os_tick s))) = None"
  shows "\<exists>p i s'. sys_CreateTemp dir prefix s = (Inr (p, i), s')"
proof -
  have "create_temp (Suc n) (dir @ ''/'' @ prefix) s
      = (let p = temp_name dir prefix (os_suffix s (os_tick s))
         in (Inr (p, os_next s), tick (new_file p s)))" for n
    using assms by (simp add: sys_OpenCreate_def new_file_def Let_def temp_name_def)
  from this [of 9999] show ?thesis by (simp add: sys_CreateTemp_def Let_def del: create_temp.simps)
qed

lemma keeps_Quiet [simp]: "keeps A s t \<Longrightarrow> keeps A s (snd (sys_Quiet t))"
  by (simp add: sys_Quiet_def)

lemma keeps_now [simp]: "keeps A s t \<Longrightarrow> keeps A s (snd (sys_Now t))"
  by (simp add: sys_Now_def)

lemma deferRemove_keeps: "keeps A s t \<Longrightarrow> p \<notin> A \<Longrightarrow> keeps A s (snd (sys_Remove p t))"
  by (metis keeps_trans prod.collapse sys_Remove_keeps)

lemma sys_Remove_content: "p \<noteq> t \<Longrightarrow> content_at (snd (sys_Remove t u)) p = content_at u p"
  by (rule sys_RemoveE [of t u "fst (sys_Remove t u)" "snd (sys_Remove t u)"])
    (simp_all add: content_at_def)

text \<open>Filling a new file: its bytes are the text or a part of it, the rest is kept.\<close>

lemma fill_keeps:
  assumes "sys_Write i 0 bs t = (w, u)" "keeps A s t" "os_next s \<le> i"
  shows "keeps A s u"
  using assms(1) by (cases rule: sys_WriteE) (use assms in \<open>auto intro: set_data_keeps\<close>)

text \<open>
  Renaming a filled temporary file over a name: the name holds the new bytes, or it is untouched and the
  temporary file is still there.
\<close>

lemma rename_into_place:
  assumes run: "sys_Rename t p u = (r, s')" and k: "keeps (insert p A) s u"
    and p: "os_nodes s p \<noteq> Some Dir" "p \<notin> A" and t: "t \<notin> insert p A"
    and np: "file_at u p \<noteq> Some i" and filled: "ok \<Longrightarrow> file_at u t = Some i \<and> os_data u i = bs"
  shows "keeps A s s' \<and> (ok \<and> is_ok r \<longrightarrow> content_at s' p = Some bs) \<and> (\<not> is_ok r \<longrightarrow> keeps (insert p A) s s')"
  using run
proof (cases rule: sys_RenameE)
  case (fail e)
  then show ?thesis using k keeps_mono [OF k subset_insertI] by auto
next
  case (linked j)
  then show ?thesis using np filled t k keeps_mono [OF k subset_insertI] by (auto simp: content_at_def)
next
  case (ok j)
  have "keeps A u s'" using sys_Rename_keeps [OF run, of A] t p keepsD(1) [OF k, of p] by auto
  then have "keeps A s s'" using keeps_trans keeps_mono [OF k subset_insertI] by blast
  then show ?thesis using ok filled t by (auto simp: content_at_def)
qed

end
