(* ===== verification/Storage_Local.thy ===== *)
theory Storage_Local
  imports Go_OS Go_Crypto
begin

text \<open>
  \<^verbatim>\<open>internal/storage/local.go\<close>: the development storage backend. \<open>Local\<close> is the struct,
  a receiver \<^verbatim>\<open>*Local\<close> is a \<^typ>\<open>'a option\<close> because the methods test it for nil, and every
  method is a function of the operating-system state. Definitions first, then the paths the
  backend uses, then the contract \<open>link_move\<close> shared by \<^verbatim>\<open>Finalize\<close> and
  \<^verbatim>\<open>MoveToTrash\<close>, interpreted on both.
\<close>

section \<open>The backend\<close>

record Local =
  root :: string

definition filepath_Abs :: "string \<Rightarrow> os \<Rightarrow> (goerr + string) \<times> os" where
  "filepath_Abs p s =
     (if IsAbs p then (Inr (Clean p), s)
      else case sys_Quiet s of
             (Inl e, s1) \<Rightarrow> (Inl e, s1)
           | (Inr _, s1) \<Rightarrow> (Inr (filepath_Join [os_cwd s, p]), s1))"

definition NewLocal :: "string \<Rightarrow> os \<Rightarrow> (goerr + Local) \<times> os" where
  "NewLocal rt s =
     (if TrimSpace rt = [] then (Inl (ErrorString ''storage root must not be empty''), s)
      else case filepath_Abs rt s of
             (Inl err, s1) \<Rightarrow> (Inl (Wrapped ''resolve storage root'' err), s1)
           | (Inr absolute, s1) \<Rightarrow> (Inr \<lparr>root = Clean absolute\<rparr>, s1))"

fun ensure_dirs :: "string \<Rightarrow> string list \<Rightarrow> os \<Rightarrow> (goerr + unit) \<times> os" where
  "ensure_dirs rt [] s = (Inr (), s)"
| "ensure_dirs rt (name # names) s =
     (case sys_MkdirAll (filepath_Join [rt, name]) s of
        (Inl err, s1) \<Rightarrow> (Inl (Wrapped ''create directory'' err), s1)
      | (Inr _, s1) \<Rightarrow> ensure_dirs rt names s1)"

definition layout_names :: "string list" where
  "layout_names = [''objects'', ''staging'', ''trash'', ''quarantine'', ''quarantine-state'']"

definition EnsureLayout :: "Local option \<Rightarrow> os \<Rightarrow> (goerr + unit) \<times> os" where
  "EnsureLayout l s =
     (case l of
        None \<Rightarrow> (Inl (ErrorString ''storage backend is unavailable''), s)
      | Some lc \<Rightarrow>
          if root lc = [] then (Inl (ErrorString ''storage backend is unavailable''), s)
          else ensure_dirs (root lc) layout_names s)"

definition scopedPath :: "Local option \<Rightarrow> string \<Rightarrow> string \<Rightarrow> string \<Rightarrow> goerr + string" where
  "scopedPath l area scopeID objectID =
     (case l of
        None \<Rightarrow> Inl (ErrorString ''storage backend is unavailable'')
      | Some lc \<Rightarrow>
          if root lc = [] then Inl (ErrorString ''storage backend is unavailable'')
          else if \<not> validStorageID scopeID \<or> \<not> validStorageID objectID
          then Inl (ErrorString ''storage identifiers must be canonical UUIDs'')
          else (let path = filepath_Join [root lc, area, scopeID, objectID];
                    base = filepath_Join [root lc, area] in
                case filepath_Rel base path of
                  Inl err \<Rightarrow> Inl (Wrapped ''resolve storage path'' err)
                | Inr relative \<Rightarrow>
                    if relative = ''.'' \<or> HasPrefix relative ''../'' \<or> IsAbs relative
                    then Inl (ErrorString ''storage path escaped configured boundary'')
                    else Inr path))"

definition ObjectPath :: "Local option \<Rightarrow> string \<Rightarrow> string \<Rightarrow> goerr + string" where
  "ObjectPath l spaceID nodeID = scopedPath l ''objects'' spaceID nodeID"

definition StagingPath :: "Local option \<Rightarrow> string \<Rightarrow> string \<Rightarrow> goerr + string" where
  "StagingPath l spaceID uploadID = scopedPath l ''staging'' spaceID uploadID"

definition TrashPath :: "Local option \<Rightarrow> string \<Rightarrow> string \<Rightarrow> goerr + string" where
  "TrashPath l spaceID nodeID = scopedPath l ''trash'' spaceID nodeID"

section \<open>Writing a complete staging object\<close>

text \<open>The deferred clean-up of a temporary file that was not published.\<close>

definition drop_temp :: "string \<Rightarrow> os \<Rightarrow> os" where
  "drop_temp tempName s = snd (sys_Remove tempName (snd (sys_Quiet s)))"

definition WriteStaging ::
  "Local option \<Rightarrow> string \<Rightarrow> string \<Rightarrow> reader option \<Rightarrow> int64 \<Rightarrow> os \<Rightarrow> (goerr + int64 \<times> string) \<times> os"
  where
  "WriteStaging l spaceID uploadID src maxBytes s =
     (case src of
        None \<Rightarrow> (Inl (ErrorString ''upload source must not be nil''), s)
      | Some rd \<Rightarrow>
     if maxBytes \<le> 0 then (Inl (ErrorString ''maximum upload size must be positive''), s)
     else case StagingPath l spaceID uploadID of
        Inl err \<Rightarrow> (Inl err, s)
      | Inr path \<Rightarrow>
     (case sys_MkdirAll (filepath_Dir path) s of
        (Inl err, s1) \<Rightarrow> (Inl (Wrapped ''create staging scope'' err), s1)
      | (Inr _, s1) \<Rightarrow>
     (case sys_CreateTemp (filepath_Dir path) ''.upload-'' s1 of
        (Inl err, s2) \<Rightarrow> (Inl (Wrapped ''create staging temporary file'' err), s2)
      | (Inr (tempName, temp), s2) \<Rightarrow>
     (case sys_Quiet s2 of
        (Inl err, s3) \<Rightarrow> (Inl (Wrapped ''secure staging temporary file'' err), drop_temp tempName s3)
      | (Inr _, s3) \<Rightarrow>
     (case sys_Copy temp 0 rd (wrap64 (maxBytes + 1)) s3 of
        (Inl err, s4) \<Rightarrow> (Inl (Wrapped ''write staging object'' err), drop_temp tempName s4)
      | (Inr written, s4) \<Rightarrow>
     if written > maxBytes
     then (Inl (ErrorString ''upload exceeds configured maximum''), drop_temp tempName s4)
     else (case sys_Quiet s4 of
        (Inl err, s5) \<Rightarrow> (Inl (Wrapped ''sync staging object'' err), drop_temp tempName s5)
      | (Inr _, s5) \<Rightarrow>
     (case sys_Quiet s5 of
        (Inl err, s6) \<Rightarrow> (Inl (Wrapped ''close staging object'' err), drop_temp tempName s6)
      | (Inr _, s6) \<Rightarrow>
     (case sys_Rename tempName path s6 of
        (Inl err, s7) \<Rightarrow> (Inl (Wrapped ''publish staging object'' err), drop_temp tempName s7)
      | (Inr _, s7) \<Rightarrow>
          (Inr (written, hex_sha256 (limited rd (wrap64 (maxBytes + 1)))), s7)))))))))"

section \<open>Publishing, opening and trashing objects\<close>

definition Finalize :: "Local option \<Rightarrow> string \<Rightarrow> string \<Rightarrow> string \<Rightarrow> os \<Rightarrow> (goerr + unit) \<times> os" where
  "Finalize l spaceID uploadID nodeID s =
     (case StagingPath l spaceID uploadID of
        Inl err \<Rightarrow> (Inl err, s)
      | Inr staging \<Rightarrow>
     (case ObjectPath l spaceID nodeID of
        Inl err \<Rightarrow> (Inl err, s)
      | Inr object \<Rightarrow>
     (case sys_MkdirAll (filepath_Dir object) s of
        (Inl err, s1) \<Rightarrow> (Inl (Wrapped ''create object scope'' err), s1)
      | (Inr _, s1) \<Rightarrow>
     (case sys_Link staging object s1 of
        (Inl err, s2) \<Rightarrow>
          if errors_Is err OsErrExist then (Inl (ErrorString ''finalized object already exists''), s2)
          else (Inl (Wrapped ''publish finalized object'' err), s2)
      | (Inr _, s2) \<Rightarrow>
     (case sys_Remove staging s2 of
        (Inl err, s3) \<Rightarrow> (Inl (Wrapped ''remove finalized staging object'' err), s3)
      | (Inr _, s3) \<Rightarrow> (Inr (), s3))))))"

definition OpenObject :: "Local option \<Rightarrow> string \<Rightarrow> string \<Rightarrow> os \<Rightarrow> (goerr + fsnode) \<times> os" where
  "OpenObject l spaceID nodeID s =
     (case ObjectPath l spaceID nodeID of
        Inl err \<Rightarrow> (Inl err, s)
      | Inr path \<Rightarrow>
     (case sys_Open path s of
        (Inl err, s1) \<Rightarrow> (Inl (Wrapped ''open finalized object'' err), s1)
      | (Inr file, s1) \<Rightarrow> (Inr file, s1)))"

definition MoveToTrash :: "Local option \<Rightarrow> string \<Rightarrow> string \<Rightarrow> os \<Rightarrow> (goerr + unit) \<times> os" where
  "MoveToTrash l spaceID nodeID s =
     (case ObjectPath l spaceID nodeID of
        Inl err \<Rightarrow> (Inl err, s)
      | Inr object \<Rightarrow>
     (case TrashPath l spaceID nodeID of
        Inl err \<Rightarrow> (Inl err, s)
      | Inr trash \<Rightarrow>
     (case sys_MkdirAll (filepath_Dir trash) s of
        (Inl err, s1) \<Rightarrow> (Inl (Wrapped ''create trash scope'' err), s1)
      | (Inr _, s1) \<Rightarrow>
     (case sys_Link object trash s1 of
        (Inl err, s2) \<Rightarrow>
          if errors_Is err OsErrExist then (Inl (ErrorString ''trash object already exists''), s2)
          else (Inl (Wrapped ''publish trash object'' err), s2)
      | (Inr _, s2) \<Rightarrow>
     (case sys_Remove object s2 of
        (Inl err, s3) \<Rightarrow> (Inl (Wrapped ''remove active object after trash publish'' err), s3)
      | (Inr _, s3) \<Rightarrow> (Inr (), s3))))))"

section \<open>Paths\<close>

text \<open>A backend made by \<^verbatim>\<open>NewLocal\<close> has a clean absolute root.\<close>

definition wf_local :: "Local option \<Rightarrow> bool" where
  "wf_local l \<longleftrightarrow> (\<exists>rc. l = Some \<lparr>root = rooted_path rc\<rparr> \<and> plain_comps rc)"

definition local_comps :: "Local option \<Rightarrow> string list" where
  "local_comps l = (case l of None \<Rightarrow> [] | Some lc \<Rightarrow> path_comps (root lc))"

text \<open>The path of an object of an area, as components below the root.\<close>

definition area_path :: "Local option \<Rightarrow> string \<Rightarrow> string \<Rightarrow> string \<Rightarrow> string" where
  "area_path l area scope ob = rooted_path (local_comps l @ [area, scope, ob])"

lemma wf_local_root:
  "wf_local l \<Longrightarrow> l = Some \<lparr>root = rooted_path (local_comps l)\<rparr> \<and> plain_comps (local_comps l)"
  by (auto simp: wf_local_def local_comps_def)

lemma NewLocal_wf:
  assumes "NewLocal rt s = (Inr lc, s')" "IsAbs (os_cwd s)"
  shows "wf_local (Some lc)"
proof -
  have "IsAbs (Clean p)" if "IsAbs p" for p
    using that by (simp add: Clean_def)
  moreover have "IsAbs (filepath_Join [os_cwd s, p])" for p
    using assms(2)
    by (cases "os_cwd s")
      (auto simp: filepath_Join_def IsAbs_def HasPrefix_def Clean_def rooted_path_def Let_def)
  ultimately obtain p where "IsAbs p" "lc = \<lparr>root = Clean p\<rparr>"
    using assms(1)
    by (auto simp: NewLocal_def filepath_Abs_def split: if_splits prod.splits sum.splits)
  then show ?thesis
    using Clean_rooted_ex [of p] by (auto simp: wf_local_def)
qed

lemma HasPrefix_plain: "plain_comp c \<Longrightarrow> length c > 2 \<Longrightarrow> \<not> HasPrefix (c @ t) ''../''"
  by (cases c; cases "tl c"; cases "tl (tl c)") (auto simp: HasPrefix_def plain_comp_def)

lemma scopedPath_wf:
  assumes l: "wf_local l" and a: "plain_comp area"
    and s: "validStorageID scope" and b: "validStorageID ob"
  shows "scopedPath l area scope ob = Inr (area_path l area scope ob)"
proof -
  let ?rc = "local_comps l"
  obtain lc where lc: "l = Some lc" "root lc = rooted_path ?rc" and rc: "plain_comps ?rc"
    using wf_local_root [OF l] by fastforce
  have p: "plain_comp scope" "plain_comp ob" using s b by (simp_all add: validStorageID_plain)
  have "filepath_Join [root lc, area, scope, ob] = area_path l area scope ob"
    using lc rc p a filepath_Join_rooted [of ?rc "[area, scope, ob]"] by (simp add: area_path_def)
  moreover have "filepath_Join [root lc, area] = rooted_path (?rc @ [area])"
    using lc rc a filepath_Join_rooted [of ?rc "[area]"] by simp
  moreover have "filepath_Rel (rooted_path (?rc @ [area])) (area_path l area scope ob)
      = Inr (scope @ slash # ob)"
    using rc a p filepath_Rel_rooted [of "?rc @ [area]" "[scope, ob]"] by (simp add: area_path_def)
  moreover have "scope @ slash # ob \<noteq> ''.''" "\<not> HasPrefix (scope @ slash # ob) ''../''"
    "\<not> IsAbs (scope @ slash # ob)"
    using p s HasPrefix_plain [OF p(1)]
    by (cases scope; auto simp: validStorageID_def IsAbs_def HasPrefix_def plain_comp_def)+
  moreover have "root lc \<noteq> []" using lc by (simp add: rooted_path_def)
  ultimately show ?thesis using lc s b by (simp add: scopedPath_def)
qed

lemma scopedPath_invalid:
  "\<not> validStorageID scope \<or> \<not> validStorageID ob \<Longrightarrow> \<exists>e. scopedPath l area scope ob = Inl e"
  by (auto simp: scopedPath_def split: option.split)

lemma scopedPath_Inr:
  assumes "wf_local l" "plain_comp area" "scopedPath l area scope ob = Inr p"
  shows "validStorageID scope \<and> validStorageID ob \<and> p = area_path l area scope ob"
  using assms scopedPath_wf [of l area scope ob] scopedPath_invalid [of scope ob l area] by auto

definition areas :: "string list" where
  "areas = [''objects'', ''staging'', ''trash'', ''quarantine'', ''quarantine-state'']"

lemma areas_plain: "a \<in> set areas \<Longrightarrow> plain_comp a"
  by (auto simp: areas_def plain_comp_def)

lemma area_path_inj:
  assumes "wf_local l" "plain_comp a" "plain_comp a'" "validStorageID x" "validStorageID x'"
    "validStorageID y" "validStorageID y'"
  shows "area_path l a x y = area_path l a' x' y' \<longleftrightarrow> a = a' \<and> x = x' \<and> y = y'"
  using assms wf_local_root [OF assms(1)]
  by (simp add: area_path_def rooted_path_inj validStorageID_plain)

lemma area_path_Dir:
  assumes "wf_local l" "plain_comp a" "validStorageID x" "validStorageID y"
  shows "filepath_Dir (area_path l a x y) = rooted_path (local_comps l @ [a, x])"
  using assms wf_local_root [OF assms(1)] filepath_Dir_rooted [of "local_comps l @ [a, x]" y]
  by (simp add: area_path_def validStorageID_plain)

lemma area_plain [simp]:
  "plain_comp ''objects''" "plain_comp ''staging''" "plain_comp ''trash''"
  "plain_comp ''quarantine''" "plain_comp ''quarantine-state''"
  by (auto simp: plain_comp_def)

lemma area_path_not_ancestor:
  assumes "wf_local l" "plain_comp area" "validStorageID scope" "validStorageID ob"
    and "plain_comp area'" "validStorageID scope'"
  shows "area_path l area scope ob
    \<notin> set (path_ancestors (rooted_path (local_comps l @ [area', scope'])))"
proof
  define cs where "cs = local_comps l @ [area', scope']"
  define ds where "ds = local_comps l @ [area, scope, ob]"
  have plain: "plain_comps cs" "plain_comps ds"
    using assms wf_local_root [OF assms(1)] by (simp_all add: validStorageID_plain cs_def ds_def)
  assume "area_path l area scope ob
    \<in> set (path_ancestors (rooted_path (local_comps l @ [area', scope'])))"
  then have "rooted_path ds \<in> set (path_ancestors (rooted_path cs))"
    by (simp add: cs_def ds_def area_path_def)
  then obtain n where "rooted_path (take n cs) = rooted_path ds"
    unfolding path_ancestors_def path_comps_rooted [OF plain(1)] set_map
    by (elim imageE) (simp del: upt_Suc)
  moreover have "plain_comps (take n cs)"
    using plain(1) by (auto simp: plain_comps_def dest!: in_set_takeD)
  ultimately have "take n cs = ds"
    using plain(2) rooted_path_inj by blast
  then have "length (take n cs) = length ds" by simp
  then show False by (simp add: cs_def ds_def)
qed

text \<open>The names \<^verbatim>\<open>os.CreateTemp\<close> gives are no storage paths: their last component starts with a dot.\<close>

lemma temp_name_rooted:
  assumes "z \<in> temp_names (rooted_path (cs @ [c])) prefix" "plain_comp (prefix @ ''0'')"
  shows "\<exists>n. z = rooted_path (cs @ [c, prefix @ decimal n]) \<and> plain_comp (prefix @ decimal n)"
proof -
  obtain n where z: "z = rooted_path (cs @ [c]) @ ''/'' @ prefix @ decimal n"
    using assms(1) by (auto simp: temp_names_def temp_name_def)
  have "slash \<notin> set (decimal n)" using decimal_chars [of slash n] by auto
  then have "plain_comp (prefix @ decimal n)"
    using assms(2) decimal_chars [of _ n] decimal_not_Nil [of n]
    by (auto simp: plain_comp_def append_eq_Cons_conv)
  with z show ?thesis
    using rooted_path_snoc [of "cs @ [c]" "prefix @ decimal n"] by (intro exI [of _ n]) simp
qed

lemma area_not_temp:
  assumes "wf_local l" "plain_comp a" "validStorageID x" "validStorageID y"
    and "plain_comp a'" "validStorageID x'" and "plain_comp (CHR ''.'' # prefix @ ''0'')"
  shows "area_path l a x y \<notin> temp_names (rooted_path (local_comps l @ [a', x'])) (CHR ''.'' # prefix)"
proof
  assume "area_path l a x y \<in> temp_names (rooted_path (local_comps l @ [a', x'])) (CHR ''.'' # prefix)"
  then obtain n where n: "area_path l a x y
      = rooted_path ((local_comps l @ [a']) @ [x', (CHR ''.'' # prefix) @ decimal n])"
    "plain_comp ((CHR ''.'' # prefix) @ decimal n)"
    using temp_name_rooted [of _ "local_comps l @ [a']" x' "CHR ''.'' # prefix"] assms(7) by auto
  then have "local_comps l @ [a, x, y] = local_comps l @ [a', x', (CHR ''.'' # prefix) @ decimal n]"
    using assms wf_local_root [OF assms(1)]
    by (simp add: area_path_def rooted_path_inj validStorageID_plain)
  then have "CHR ''.'' \<in> set y" by simp
  then show False
    using validStorageID_chars [OF assms(4), of "CHR ''.''"] by (auto simp: uuid_char_def is_lower_hex_def)
qed

section \<open>Moving a payload by link and remove\<close>

text \<open>
  The three outcomes of publishing by hard link: every file is left alone; the source's inode
  has the target's formerly free name as well; or it has the target's name instead. Only the last
  is reported as success.
\<close>

definition move_outcome :: "string \<Rightarrow> string \<Rightarrow> os \<Rightarrow> goerr + unit \<Rightarrow> os \<Rightarrow> bool" where
  "move_outcome src dst s r s' \<longleftrightarrow>
     os_data s' = os_data s \<and> os_next s' = os_next s \<and>
     (\<not> is_ok r \<and> file_at s' = file_at s
      \<or> (\<exists>i. file_at s src = Some i \<and> file_at s dst = None
           \<and> (\<not> is_ok r \<and> file_at s' = (file_at s)(dst \<mapsto> i)
              \<or> is_ok r \<and> file_at s' = (file_at s)(dst \<mapsto> i, src := None))))"

locale link_move =
  fixes mv :: "'k \<Rightarrow> os \<Rightarrow> (goerr + unit) \<times> os"
    and paths :: "'k \<Rightarrow> (string \<times> string) option"
  assumes distinct: "paths k = Some (src, dst) \<Longrightarrow> src \<noteq> dst"
    and outcome: "paths k = Some (src, dst) \<Longrightarrow> mv k s = (r, s') \<Longrightarrow> move_outcome src dst s r s'"
begin

lemma never_overwrites:
  assumes "paths k = Some (src, dst)" "mv k s = (r, s')" "file_at s dst = Some i"
  shows "file_at s' dst = Some i \<and> content_at s' dst = content_at s dst"
  using outcome [OF assms(1,2)] assms(3) by (auto simp: move_outcome_def content_at_def)

lemma payload_kept:
  assumes "paths k = Some (src, dst)" "mv k s = (r, s')" "file_at s src = Some i"
  shows "(file_at s' src = Some i \<or> file_at s' dst = Some i) \<and> os_data s' = os_data s"
  using outcome [OF assms(1,2)] distinct [OF assms(1)] assms(3) by (auto simp: move_outcome_def)

lemma success_moves:
  assumes "paths k = Some (src, dst)" "mv k s = (Inr u, s')"
  shows "content_at s src \<noteq> None \<and> content_at s' dst = content_at s src
    \<and> file_at s' src = None \<and> file_at s dst = None"
  using outcome [OF assms] distinct [OF assms(1)]
  by (auto simp: move_outcome_def content_at_def)

lemma others_untouched:
  assumes "paths k = Some (src, dst)" "mv k s = (r, s')" "p \<noteq> src" "p \<noteq> dst"
  shows "file_at s' p = file_at s p \<and> content_at s' p = content_at s p"
  using outcome [OF assms(1,2)] assms(3,4) by (auto simp: move_outcome_def content_at_def)

lemma appears_from_source:
  assumes "paths k = Some (src, dst)" "mv k s = (r, s')" "file_at s dst = None"
    "file_at s' dst = Some i"
  shows "file_at s src = Some i \<and> content_at s' dst = content_at s src"
  using outcome [OF assms(1,2)] distinct [OF assms(1)] assms(3,4)
  by (auto simp: move_outcome_def content_at_def)

lemma keeps_wf:
  assumes "paths k = Some (src, dst)" "mv k s = (r, s')" "os_wf s"
  shows "os_wf s'"
  using outcome [OF assms(1,2)] assms(3)
  by (auto simp: move_outcome_def os_wf_file_at split: if_splits)

end

text \<open>The calls the two operations make, up to the texts of their errors.\<close>

definition link_remove :: "string \<Rightarrow> string \<Rightarrow> os \<Rightarrow> (goerr + unit) \<times> os" where
  "link_remove src dst s =
     (case sys_MkdirAll (filepath_Dir dst) s of
        (Inl e, s1) \<Rightarrow> (Inl e, s1)
      | (Inr _, s1) \<Rightarrow>
          (case sys_Link src dst s1 of
             (Inl e, s2) \<Rightarrow> (Inl e, s2)
           | (Inr _, s2) \<Rightarrow> sys_Remove src s2))"

lemma link_remove_outcome:
  assumes "link_remove src dst s = (r, s')" "src \<noteq> dst"
  shows "move_outcome src dst s r s'"
proof -
  obtain d s1 where d: "sys_MkdirAll (filepath_Dir dst) s = (d, s1)" by fastforce
  note same = same_filesD [OF sys_MkdirAll_frame [OF d]]
  obtain lk s2 where lk: "sys_Link src dst s1 = (lk, s2)" by fastforce
  show ?thesis
  proof (cases d)
    case (Inl e)
    then show ?thesis using assms d same by (auto simp: link_remove_def move_outcome_def)
  next
    case (Inr u)
    from lk show ?thesis
    proof (cases rule: sys_LinkE)
      case (fail e)
      then show ?thesis using Inr lk assms d same by (auto simp: link_remove_def move_outcome_def)
    next
      case (ok i)
      then have dst: "file_at s1 dst = None" by (simp add: file_at_def)
      have rm: "sys_Remove src s2 = (r, s')" using assms Inr lk d ok by (simp add: link_remove_def)
      then show ?thesis
        by (cases rule: sys_RemoveE)
          (use ok dst same assms(2) in \<open>auto simp: move_outcome_def fun_upd_twist\<close>)
    qed
  qed
qed

lemma move_outcome_result:
  "move_outcome src dst s r s' \<Longrightarrow> is_ok q = is_ok r \<Longrightarrow> move_outcome src dst s q s'"
  by (simp add: move_outcome_def)

lemma link_remove_same:
  assumes "snd x = snd (link_remove src dst s)" "is_ok (fst x) = is_ok (fst (link_remove src dst s))"
    and "x = (r, s')" "src \<noteq> dst"
  shows "move_outcome src dst s r s'"
  using assms link_remove_outcome [of src dst s "fst (link_remove src dst s)" s']
  by (cases "link_remove src dst s") (auto intro: move_outcome_result)

lemmas path_defs = StagingPath_def ObjectPath_def TrashPath_def

lemma Finalize_link_remove:
  assumes "StagingPath l sp u = Inr src" "ObjectPath l sp n = Inr dst"
  shows "snd (Finalize l sp u n s) = snd (link_remove src dst s)"
    "is_ok (fst (Finalize l sp u n s)) = is_ok (fst (link_remove src dst s))"
  using assms by (auto simp: Finalize_def link_remove_def split: prod.splits sum.splits if_splits)

lemma MoveToTrash_link_remove:
  assumes "ObjectPath l sp n = Inr src" "TrashPath l sp n = Inr dst"
  shows "snd (MoveToTrash l sp n s) = snd (link_remove src dst s)"
    "is_ok (fst (MoveToTrash l sp n s)) = is_ok (fst (link_remove src dst s))"
  using assms by (auto simp: MoveToTrash_def link_remove_def split: prod.splits sum.splits if_splits)

lemma Finalize_outcome:
  assumes "StagingPath l sp u = Inr src" "ObjectPath l sp n = Inr dst" "src \<noteq> dst"
    "Finalize l sp u n s = (r, s')"
  shows "move_outcome src dst s r s'"
  using link_remove_same [OF Finalize_link_remove [OF assms(1,2)] assms(4,3)] .

lemma MoveToTrash_outcome:
  assumes "ObjectPath l sp n = Inr src" "TrashPath l sp n = Inr dst" "src \<noteq> dst"
    "MoveToTrash l sp n s = (r, s')"
  shows "move_outcome src dst s r s'"
  using link_remove_same [OF MoveToTrash_link_remove [OF assms(1,2)] assms(4,3)] .

definition finalize_paths :: "Local option \<times> string \<times> string \<times> string \<Rightarrow> (string \<times> string) option" where
  "finalize_paths k =
     (case k of (l, spaceID, uploadID, nodeID) \<Rightarrow>
        if wf_local l \<and> validStorageID spaceID \<and> validStorageID uploadID \<and> validStorageID nodeID
        then Some (area_path l ''staging'' spaceID uploadID, area_path l ''objects'' spaceID nodeID)
        else None)"

definition trash_paths :: "Local option \<times> string \<times> string \<Rightarrow> (string \<times> string) option" where
  "trash_paths k =
     (case k of (l, spaceID, nodeID) \<Rightarrow>
        if wf_local l \<and> validStorageID spaceID \<and> validStorageID nodeID
        then Some (area_path l ''objects'' spaceID nodeID, area_path l ''trash'' spaceID nodeID)
        else None)"

interpretation fin: link_move "\<lambda>(l, sp, u, n). Finalize l sp u n" finalize_paths
proof
  fix k :: "Local option \<times> string \<times> string \<times> string" and src dst s r s'
  assume k: "finalize_paths k = Some (src, dst)"
  then show "src \<noteq> dst"
    by (auto simp: finalize_paths_def area_path_inj split: prod.splits if_splits)
  with k show "move_outcome src dst s r s'"
    if "(\<lambda>(l, sp, u, n). Finalize l sp u n) k s = (r, s')"
    using that
    by (auto simp: finalize_paths_def path_defs scopedPath_wf
        split: prod.splits if_splits intro!: Finalize_outcome)
qed

interpretation tra: link_move "\<lambda>(l, sp, n). MoveToTrash l sp n" trash_paths
proof
  fix k :: "Local option \<times> string \<times> string" and src dst s r s'
  assume k: "trash_paths k = Some (src, dst)"
  then show "src \<noteq> dst"
    by (auto simp: trash_paths_def area_path_inj split: prod.splits if_splits)
  with k show "move_outcome src dst s r s'"
    if "(\<lambda>(l, sp, n). MoveToTrash l sp n) k s = (r, s')"
    using that
    by (auto simp: trash_paths_def path_defs scopedPath_wf
        split: prod.splits if_splits intro!: MoveToTrash_outcome)
qed

section \<open>Writing a complete staging object under any schedule\<close>

lemma sys_Copy_keeps:
  assumes "sys_Copy i off rd n t = (w, u)" "keeps A s t" "os_next s \<le> i"
  shows "keeps A s u"
  using assms(1) by (cases rule: sys_CopyE) (use assms in \<open>auto intro: set_data_keeps\<close>)

lemma drop_temp_keeps: "keeps A s t \<Longrightarrow> p \<notin> A \<Longrightarrow> keeps A s (drop_temp p t)"
  by (simp add: drop_temp_def deferRemove_keeps)

text \<open>The staging object is replaced as a whole, by way of a temporary file, or not touched.\<close>

lemma WriteStaging_cases:
  fixes l sp u
  defines "p \<equiv> area_path l ''staging'' sp u"
  assumes run: "WriteStaging l sp u (Some rd) mx s = (r, s')" and wf: "wf_local l" "os_wf s"
    and ids: "validStorageID sp" "validStorageID u" and p: "os_nodes s p \<noteq> Some Dir"
    and A: "A \<inter> set (path_ancestors (filepath_Dir p)) = {}" "p \<notin> A"
      "A \<inter> temp_names (filepath_Dir p) ''.upload-'' = {}"
  shows "keeps A s s'
    \<and> (case r of
         Inl e \<Rightarrow> keeps (insert p A) s s'
       | Inr (written, digest) \<Rightarrow>
           (let bs = limited rd (wrap64 (mx + 1)) in
            content_at s' p = Some bs \<and> written = int (length bs) \<and> written \<le> mx
            \<and> digest = hex_sha256 bs))"
proof -
  let ?B = "insert p A" and ?n = "wrap64 (mx + 1)"
  have path: "StagingPath l sp u = Inr p"
    using wf ids by (simp add: StagingPath_def scopedPath_wf p_def)
  have dir: "filepath_Dir p = rooted_path (local_comps l @ [''staging'', sp])"
    using wf ids by (simp add: p_def area_path_Dir)
  obtain a s1 where a: "sys_MkdirAll (filepath_Dir p) s = (a, s1)" by fastforce
  have "p \<notin> set (path_ancestors (filepath_Dir p))"
    using area_path_not_ancestor [OF wf(1) _ ids _ ids(1), of "''staging''" "''staging''"]
    unfolding dir by (simp add: p_def)
  then have k1: "keeps ?B s s1" using sys_MkdirAll_keeps [OF a, of ?B] A(1) by auto
  have tmp: "?B \<inter> temp_names (filepath_Dir p) ''.upload-'' = {}"
    using area_not_temp [OF wf(1) _ ids _ ids(1), of _ _ "''upload-''"] A(3)
    unfolding dir by (auto simp: p_def plain_comp_def)
  obtain b s2 where b: "sys_CreateTemp (filepath_Dir p) ''.upload-'' s1 = (b, s2)" by fastforce
  show ?thesis
  proof (cases "0 < mx \<and> is_ok a \<and> is_ok b")
    case False
    from b tmp have "keeps ?B s s2" if "\<not> is_ok b"
      using that keeps_trans [OF k1] by (cases rule: sys_CreateTempE) auto
    then show ?thesis
      using False run path a b k1 keeps_mono [OF k1 subset_insertI] keeps_mono [of ?B s s2 A]
      by (auto simp: WriteStaging_def is_ok_iff split: sum.splits if_splits)
  next
    case True
    from b tmp obtain t where t: "b = Inr (t, os_next s1)" and k12: "keeps ?B s1 s2"
      and tn: "t \<in> temp_names (filepath_Dir p) ''.upload-''"
      and f2: "file_at s2 t = Some (os_next s1)" "os_data s2 (os_next s1) = []"
      using True by (cases rule: sys_CreateTempE) auto
    let ?i = "os_next s1"
    have tB: "t \<notin> ?B" using tn tmp by auto
    have i: "os_next s \<le> ?i" using keepsD(7) [OF k1] .
    note k2 = keeps_trans [OF k1 k12]
    obtain c s3 where c: "sys_Quiet s2 = (c, s3)" by fastforce
    obtain d s4 where d: "sys_Copy ?i 0 rd ?n s3 = (d, s4)" by fastforce
    obtain e s5 where e: "sys_Quiet s4 = (e, s5)" by fastforce
    obtain f s6 where f: "sys_Quiet s5 = (f, s6)" by fastforce
    obtain g s7 where g: "sys_Rename t p s6 = (g, s7)" by fastforce
    have k3: "keeps ?B s s3" using k2 c by (auto simp: sys_Quiet_def)
    have k4: "keeps ?B s s4" using sys_Copy_keeps [OF d k3 i] .
    have k6: "keeps ?B s s5" "keeps ?B s s6" using k4 e f by (auto simp: sys_Quiet_def)
    have f6: "file_at s6 t = Some ?i \<and> os_data s6 ?i = limited rd ?n \<and> d = Inr (int (length (limited rd ?n)))"
      if "is_ok d"
      using d that f2 c e f
      by (cases rule: sys_CopyE) (auto simp: sys_Quiet_def write_at_def)
    have np: "file_at s6 p \<noteq> Some ?i"
      using keepsD(2) [OF k6(2), of p] wf(2) i by (fastforce simp: os_wf_file_at)
    have k7: "keeps A s s7 \<and> (is_ok d \<and> is_ok g \<longrightarrow> content_at s7 p = Some (limited rd ?n))
        \<and> (\<not> is_ok g \<longrightarrow> keeps ?B s s7)"
      using rename_into_place [OF g k6(2) p A(2) tB np, of "is_ok d"] f6 by blast
    have dB: "keeps ?B s (drop_temp t u)" if "keeps ?B s u" for u
      using that tB by (rule drop_temp_keeps)
    have dA: "keeps A s (drop_temp t u)" if "keeps ?B s u" for u
      using dB [OF that] by (rule keeps_mono) auto
    show ?thesis
      using True t run path a b c d e f g k3 k4 k6 k7 f6
      by (auto simp: WriteStaging_def is_ok_iff Let_def intro!: dA dB split: sum.splits if_splits)
  qed
qed

end
