(* ===== verification/Storage_Session.thy ===== *)
theory Storage_Session
  imports Storage_Local
begin

text \<open>
  \<^verbatim>\<open>internal/storage/session.go\<close>: resumable staging. The lemmas give the effect of
  \<^verbatim>\<open>AppendStaging\<close> for every fault schedule (the bytes already staged stay a prefix of what is
  staged, no other file changes), its exact result on a reliable system, and what an interrupted
  or mis-configured append leaves behind.
\<close>

section \<open>Operations\<close>

record staging_session =
  ss_SpaceID :: string
  ss_UploadID :: string
  ss_Offset :: int64

definition Session :: "Local option \<Rightarrow> string \<Rightarrow> string \<Rightarrow> os \<Rightarrow> (goerr + staging_session) \<times> os" where
  "Session l spaceID uploadID s =
     (case StagingPath l spaceID uploadID of
        Inl err \<Rightarrow> (Inl err, s)
      | Inr path \<Rightarrow>
     (case sys_Stat path s of
        (Inl err, s1) \<Rightarrow>
          if errors_Is err OsErrNotExist
          then (Inr \<lparr>ss_SpaceID = spaceID, ss_UploadID = uploadID, ss_Offset = 0\<rparr>, s1)
          else (Inl (Wrapped ''stat upload session'' err), s1)
      | (Inr info, s1) \<Rightarrow>
          if \<not> fi_regular info
          then (Inl (ErrorString ''upload session is not a regular file''), s1)
          else (Inr \<lparr>ss_SpaceID = spaceID, ss_UploadID = uploadID, ss_Offset = fi_size info\<rparr>, s1)))"

definition OpenStaging :: "Local option \<Rightarrow> string \<Rightarrow> string \<Rightarrow> os \<Rightarrow> (goerr + fsnode) \<times> os" where
  "OpenStaging l spaceID uploadID s =
     (case StagingPath l spaceID uploadID of
        Inl err \<Rightarrow> (Inl err, s)
      | Inr path \<Rightarrow>
     (case sys_Open path s of
        (Inl err, s1) \<Rightarrow> (Inl (Wrapped ''open staged upload'' err), s1)
      | (Inr file, s1) \<Rightarrow>
     (case sys_Fstat file s1 of
        (Inl err, s2) \<Rightarrow> (Inl (Wrapped ''stat staged upload'' err), s2)
      | (Inr info, s2) \<Rightarrow>
          if \<not> fi_regular info then (Inl (ErrorString ''staged upload is not a regular file''), s2)
          else (Inr file, s2))))"

text \<open>The loop of \<^verbatim>\<open>filepathDir\<close>, from the last byte down.\<close>

fun dir_loop :: "string \<Rightarrow> nat \<Rightarrow> string" where
  "dir_loop path 0 = ''.''"
| "dir_loop path (Suc i) = (if path ! i = slash then take i path else dir_loop path i)"

definition filepathDir :: "string \<Rightarrow> string" where
  "filepathDir path = dir_loop path (length path)"

text \<open>The result pairs the returned offset with the error, as both are returned together.\<close>

definition AppendStaging ::
  "Local option \<Rightarrow> string \<Rightarrow> string \<Rightarrow> int64 \<Rightarrow> reader option \<Rightarrow> int64 \<Rightarrow> os
   \<Rightarrow> (int64 \<times> goerr option) \<times> os"
  where
  "AppendStaging l spaceID uploadID expectedOffset src maxChunkBytes s =
     (case src of
        None \<Rightarrow> ((0, Some (ErrorString ''upload source must not be nil'')), s)
      | Some rd \<Rightarrow>
     if expectedOffset < 0 \<or> maxChunkBytes \<le> 0
     then ((0, Some (ErrorString ''upload offset and chunk limit are invalid'')), s)
     else case StagingPath l spaceID uploadID of
        Inl err \<Rightarrow> ((0, Some err), s)
      | Inr path \<Rightarrow>
     (case sys_MkdirAll (filepathDir path) s of
        (Inl err, s1) \<Rightarrow> ((0, Some (Wrapped ''create staging scope'' err)), s1)
      | (Inr _, s1) \<Rightarrow>
     (case sys_OpenCreate False path s1 of
        (Inl err, s2) \<Rightarrow> ((0, Some (Wrapped ''open upload session'' err)), s2)
      | (Inr file, s2) \<Rightarrow>
     (case sys_Fstat (File file) s2 of
        (Inl err, s3) \<Rightarrow> ((0, Some (Wrapped ''stat upload session'' err)), s3)
      | (Inr info, s3) \<Rightarrow>
     if fi_size info \<noteq> expectedOffset
     then ((fi_size info, Some (ErrorString ''upload offset mismatch'')), s3)
     else (case sys_Quiet s3 of
        (Inl err, s4) \<Rightarrow> ((expectedOffset, Some (Wrapped ''seek upload session'' err)), s4)
      | (Inr _, s4) \<Rightarrow>
     (case sys_Copy file (nat expectedOffset) rd (wrap64 (maxChunkBytes + 1)) s4 of
        (Inl err, s5) \<Rightarrow> ((expectedOffset, Some (Wrapped ''append upload chunk'' err)), s5)
      | (Inr written, s5) \<Rightarrow>
     if written > maxChunkBytes
     then ((expectedOffset, Some (ErrorString ''upload chunk exceeds configured maximum'')),
           snd (sys_Truncate file (nat expectedOffset) s5))
     else (case sys_Quiet s5 of
        (Inl err, s6) \<Rightarrow> ((expectedOffset, Some (Wrapped ''sync upload chunk'' err)), s6)
      | (Inr _, s6) \<Rightarrow> ((wrap64 (expectedOffset + written), None), s6))))))))"

definition DiscardStaging :: "Local option \<Rightarrow> string \<Rightarrow> string \<Rightarrow> os \<Rightarrow> (goerr + unit) \<times> os" where
  "DiscardStaging l spaceID uploadID s =
     (case StagingPath l spaceID uploadID of
        Inl err \<Rightarrow> (Inl err, s)
      | Inr path \<Rightarrow>
     (case sys_Remove path s of
        (Inl err, s1) \<Rightarrow>
          if \<not> errors_Is err OsErrNotExist then (Inl (Wrapped ''discard staged upload'' err), s1)
          else (Inr (), s1)
      | (Inr _, s1) \<Rightarrow> (Inr (), s1)))"

section \<open>The directory of a staging path\<close>

lemma dir_loop_last:
  "slash \<notin> set c \<Longrightarrow> n \<le> length c \<Longrightarrow> dir_loop (p @ slash # c) (Suc (length p + n)) = p"
proof (induction n)
  case (Suc n)
  then have "c ! n \<noteq> slash" by (metis Suc_le_lessD nth_mem)
  with Suc show ?case by (simp add: nth_append)
qed (simp add: nth_append)

lemma filepathDir_snoc: "slash \<notin> set c \<Longrightarrow> filepathDir (p @ slash # c) = p"
  using dir_loop_last [of c "length c" p] by (simp add: filepathDir_def)

lemma area_path_filepathDir:
  assumes "validStorageID y"
  shows "filepathDir (area_path l a x y) = rooted_path (local_comps l @ [a, x])"
  using assms validStorageID_plain [OF assms] rooted_path_snoc [of "local_comps l @ [a, x]" y]
  by (simp add: area_path_def plain_comp_def filepathDir_snoc)

section \<open>What an append does under any schedule\<close>

definition staged :: "os \<Rightarrow> string \<Rightarrow> string" where
  "staged s p = (case content_at s p of None \<Rightarrow> [] | Some c \<Rightarrow> c)"

text \<open>The file at \<open>p\<close>, made if it was not there, has grown by \<open>bs\<close>; nothing else changed.\<close>

definition grown :: "string \<Rightarrow> string \<Rightarrow> os \<Rightarrow> os \<Rightarrow> bool" where
  "grown p bs s s' \<longleftrightarrow>
     (\<exists>i. (file_at s p = Some i \<and> os_next s' = os_next s
          \<or> os_nodes s p = None \<and> i = os_next s \<and> os_next s' = Suc (os_next s))
        \<and> file_at s' = (file_at s)(p \<mapsto> i) \<and> os_data s' = (os_data s)(i := staged s p @ bs))"

lemma grownI:
  assumes "sys_OpenCreate False p s = (Inr i, s1)" "os_data s' = (os_data s1)(i := staged s p @ bs)"
    "file_at s' = file_at s1" "os_next s' = os_next s1"
  shows "grown p bs s s'"
  using assms(1)
  by (cases rule: sys_OpenCreateE) (use assms in \<open>auto simp: grown_def\<close>)

lemma OpenCreate_size:
  assumes "sys_OpenCreate False p s = (Inr i, s1)"
  shows "os_data s1 i = staged s p"
  using assms
  by (cases rule: sys_OpenCreateE)
    (auto simp: staged_def content_at_def file_at_def split: option.splits fsnode.splits)

lemma staged_same: "same_files s s' \<Longrightarrow> staged s' p = staged s p"
  by (simp add: staged_def same_filesD)

lemma grown_same:
  assumes "same_files s t" "grown p bs t s'" "os_nodes t p = None \<Longrightarrow> os_nodes s p = None"
  shows "grown p bs s s'"
  using assms same_filesD [OF assms(1)] staged_same [OF assms(1)] by (auto simp: grown_def)

lemma sys_MkdirAll_None:
  "sys_MkdirAll dir s = (r, s') \<Longrightarrow> os_nodes s' p = None \<Longrightarrow> os_nodes s p = None"
  by (auto simp: sys_MkdirAll_def make_dirs_def Let_def split: option.splits if_splits)

text \<open>What the copy leaves in the file, and what taking it back leaves.\<close>

lemma copy_grows:
  assumes grow: "\<And>bs t. os_data t = (os_data s2)(i := c @ bs) \<Longrightarrow> file_at t = file_at s2 \<Longrightarrow> os_next t = os_next s2 \<Longrightarrow>
      grown p bs s t"
    and s4: "same_files s2 s4" "os_data s2 i = c"
    and y: "sys_Copy i (length c) rd w s4 = (y, s5)"
  shows "if is_ok y
    then y = Inr (int (length (limited rd w))) \<and> \<not> limited_fails rd w
      \<and> (\<forall>x s6. sys_Quiet s5 = (x, s6) \<longrightarrow> grown p (limited rd w) s s6)
      \<and> (\<forall>z s7. sys_Truncate i (length c) s5 = (z, s7) \<longrightarrow> grown p (limited rd w) s s7 \<or> grown p [] s s7)
    else \<exists>k. grown p (take k (limited rd w)) s s5"
proof -
  have d4: "os_data s4 i = c" using s4 same_filesD [OF s4(1)] by simp
  from y show ?thesis
  proof (cases rule: sys_CopyE)
    case (fail e k)
    then have "grown p (take k (limited rd w)) s s5"
      using d4 same_filesD [OF s4(1)] by (intro grow) (simp_all add: write_at_end)
    then show ?thesis using fail by auto
  next
    case copied: ok
    have g: "grown p (limited rd w) s t" if "same_files s5 t" for t
      using copied d4 same_filesD [OF s4(1)] same_filesD [OF that] by (intro grow) (simp_all add: write_at_end)
    have "grown p (limited rd w) s s7 \<or> grown p [] s s7" if z: "sys_Truncate i (length c) s5 = (z, s7)" for z s7
      using z
    proof (cases rule: sys_TruncateE)
      case (fail e)
      then show ?thesis using g [of s7] by simp
    next
      case ok
      then have "grown p [] s s7"
        using copied d4 same_filesD [OF s4(1)] by (intro grow) (simp_all add: write_at_end truncate_back)
      then show ?thesis ..
    qed
    moreover have "grown p (limited rd w) s s6" if "sys_Quiet s5 = (x, s6)" for x s6
      using g sys_Quiet_frame [OF that] .
    ultimately show ?thesis using copied(1,2) by simp
  qed
qed

lemma append_cases:
  assumes path: "StagingPath l sp u = Inr p"
    and run: "AppendStaging l sp u off (Some rd) mx s = ((n, err), s')"
  shows "err \<noteq> None \<and> same_files s s'
     \<or> (\<exists>bs. grown p bs s s' \<and>
          (err = None \<longrightarrow> off = int (length (staged s p)) \<and> bs = limited rd (wrap64 (mx + 1))
             \<and> int (length bs) \<le> mx \<and> \<not> limited_fails rd (wrap64 (mx + 1))
             \<and> n = wrap64 (off + int (length bs)))
          \<and> (off \<noteq> int (length (staged s p)) \<longrightarrow> bs = []))"
proof -
  obtain d s1 where d: "sys_MkdirAll (filepathDir p) s = (d, s1)" by fastforce
  note sf1 = sys_MkdirAll_frame [OF d]
  obtain w s2 where w: "sys_OpenCreate False p s1 = (w, s2)" by fastforce
  show ?thesis
  proof (cases "0 \<le> off \<and> 0 < mx \<and> is_ok d \<and> is_ok w")
    case False
    have "same_files s s2" if "\<not> is_ok w"
      using w that sf1 by (cases rule: sys_OpenCreateE) (auto intro: same_files_trans)
    then show ?thesis
      using False run path d w sf1
      by (auto simp: AppendStaging_def is_ok_iff split: sum.splits if_splits)
  next
    case True
    then obtain i where i: "w = Inr i" by (auto simp: is_ok_iff)
    let ?c = "staged s p"
    have data2: "os_data s2 i = ?c"
      using OpenCreate_size w i staged_same [OF sf1] by simp
    have grow: "grown p bs s t"
      if "os_data t = (os_data s2)(i := ?c @ bs)" "file_at t = file_at s2" "os_next t = os_next s2"
      for bs t
      using grown_same [OF sf1 grownI [OF w [unfolded i]], of t bs] that staged_same [OF sf1]
        sys_MkdirAll_None [OF d] by auto
    have nil: "grown p [] s t" if "same_files s2 t" for t
      using grow [of t "[]"] same_filesD [OF that] fun_upd_idem [of "os_data s2" i ?c] data2 by simp
    obtain f s3 where f: "sys_Fstat (File i) s2 = (f, s3)" by fastforce
    note sf3 = sys_Fstat_frame [OF f]
    obtain k s4 where k: "sys_Quiet s3 = (k, s4)" by fastforce
    note sf4 = same_files_trans [OF sf3 sys_Quiet_frame [OF k]]
    let ?w = "wrap64 (mx + 1)"
    obtain y s5 where y: "sys_Copy i (nat off) rd ?w s4 = (y, s5)" by fastforce
    show ?thesis
    proof (cases "\<exists>info. f = Inr info \<and> fi_size info = off \<and> is_ok k")
      case False
      then have "(s' = s3 \<or> s' = s4) \<and> err \<noteq> None"
        using True i run path d w f k
        by (auto simp: AppendStaging_def is_ok_iff split: sum.splits if_splits)
      then show ?thesis using nil [OF sf3] nil [OF sf4] by auto
    next
      case ok: True
      then have off: "off = int (length ?c)"
        using f data2 by (auto simp: sys_Fstat_def node_info_def split: if_splits)
      then have nat: "nat off = length ?c" by simp
      note Y = copy_grows [OF grow sf4 data2 y [unfolded nat]]
      obtain x s6 where x: "sys_Quiet s5 = (x, s6)" by fastforce
      obtain z s7 where z: "sys_Truncate i (nat off) s5 = (z, s7)" by fastforce
      show ?thesis
      proof (cases "is_ok y")
        case False
        then obtain e where e: "y = Inl e" by (cases y) auto
        then have "s' = s5 \<and> err \<noteq> None"
          using True i run path d w f k ok y
          by (auto simp: AppendStaging_def is_ok_iff split: sum.splits if_splits)
        moreover obtain k' where "grown p (take k' (limited rd ?w)) s s5" using Y unfolding if_not_P [OF False] by blast
        ultimately show ?thesis using off by blast
      next
        case copied: True
        have g: "grown p (limited rd ?w) s s6" "grown p (limited rd ?w) s s7 \<or> grown p [] s s7"
          "y = Inr (int (length (limited rd ?w)))" "\<not> limited_fails rd ?w"
          using Y x z [unfolded nat] unfolding if_P [OF copied] by blast+
        show ?thesis
          using True i run path d w f k ok y x z g off
          by (auto simp: AppendStaging_def is_ok_iff split: sum.splits if_splits)
      qed
    qed
  qed
qed

lemma grown_content: "grown p bs s s' \<Longrightarrow> content_at s' p = Some (staged s p @ bs)"
  by (auto simp: grown_def content_at_def)

lemma grown_others:
  assumes "grown p bs s s'" "q \<noteq> p" "os_wf s" "file_at s q \<noteq> None" "file_at s q \<noteq> file_at s p"
  shows "file_at s' q = file_at s q \<and> content_at s' q = content_at s q"
  using assms
  by (fastforce simp: grown_def content_at_def os_wf_file_at)

lemma grown_names: "grown p bs s s' \<Longrightarrow> q \<noteq> p \<Longrightarrow> file_at s' q = file_at s q"
  by (auto simp: grown_def)

lemma grown_wf: "grown p bs s s' \<Longrightarrow> os_wf s \<Longrightarrow> os_wf s'"
  by (fastforce simp: grown_def os_wf_file_at split: if_splits)

section \<open>Appending on a reliable system\<close>

text \<open>The directories of an area can be made and no directory has the name of the payload.\<close>

definition ready :: "Local option \<Rightarrow> string \<Rightarrow> string \<Rightarrow> string \<Rightarrow> os \<Rightarrow> bool" where
  "ready l area scope ob s \<longleftrightarrow>
     mkdir_ok s (rooted_path (local_comps l @ [area, scope]))
     \<and> os_nodes s (area_path l area scope ob) \<noteq> Some Dir"

lemma ready_open:
  assumes "wf_local l" "plain_comp area" "validStorageID scope" "validStorageID ob"
    and "reliable s" "ready l area scope ob s"
  shows "\<exists>s1 s2 i. sys_MkdirAll (rooted_path (local_comps l @ [area, scope])) s = (Inr (), s1)
    \<and> sys_OpenCreate False (area_path l area scope ob) s1 = (Inr i, s2) \<and> reliable s2"
proof -
  let ?dir = "rooted_path (local_comps l @ [area, scope])" and ?p = "area_path l area scope ob"
  let ?s1 = "tick (make_dirs (path_ancestors ?dir) s)"
  have mk: "sys_MkdirAll ?dir s = (Inr (), ?s1)"
    using assms by (simp add: reliable_MkdirAll ready_def)
  have "plain_comps (local_comps l @ [area, scope])"
    using assms wf_local_root [OF assms(1)] by (simp add: validStorageID_plain)
  then have dir: "os_nodes ?s1 (filepath_Dir ?p) = Some Dir"
    using sys_MkdirAll_dir [OF mk] path_ancestors_self area_path_Dir [OF assms(1-4)] by metis
  have p: "os_nodes ?s1 ?p = os_nodes s ?p"
    using area_path_not_ancestor [OF assms(1-4) assms(2,3)] by (simp add: make_dirs_def)
  have "reliable ?s1" using assms(5) by (simp add: make_dirs_def)
  then have "\<exists>i s2. sys_OpenCreate False ?p ?s1 = (Inr i, s2) \<and> reliable s2"
    using assms(6) dir p
    by (cases "os_nodes s ?p"; cases "the (os_nodes s ?p)")
      (auto simp: sys_OpenCreate_def ready_def simp flip: new_file_def)
  with mk show ?thesis by blast
qed

lemma append_reliable:
  fixes rd :: reader
  assumes wf: "wf_local l" and ids: "validStorageID sp" "validStorageID u"
    and rel: "reliable s" and rdy: "ready l ''staging'' sp u s" and "0 \<le> off" "0 < mx"
  defines "p \<equiv> area_path l ''staging'' sp u" and "bs \<equiv> limited rd (wrap64 (mx + 1))"
  shows "\<exists>s'. reliable s' \<and>
    AppendStaging l sp u off (Some rd) mx s =
      (if off \<noteq> int (length (staged s p))
       then (int (length (staged s p)), Some (ErrorString ''upload offset mismatch''))
       else if limited_fails rd (wrap64 (mx + 1))
       then (off, Some (Wrapped ''append upload chunk'' (ErrorString ''unexpected EOF'')))
       else if int (length bs) > mx
       then (off, Some (ErrorString ''upload chunk exceeds configured maximum''))
       else (wrap64 (off + int (length bs)), None), s')
    \<and> content_at s' p =
      Some (if off \<noteq> int (length (staged s p))
               \<or> \<not> limited_fails rd (wrap64 (mx + 1)) \<and> int (length bs) > mx
            then staged s p else staged s p @ bs)"
proof -
  have path: "StagingPath l sp u = Inr p"
    using wf ids by (simp add: StagingPath_def scopedPath_wf p_def)
  obtain s1 s2 i where mk: "sys_MkdirAll (filepathDir p) s = (Inr (), s1)"
    and op: "sys_OpenCreate False p s1 = (Inr i, s2)" and r2: "reliable s2"
    using ready_open [OF wf _ ids rel rdy] ids by (auto simp: p_def area_path_filepathDir)
  have d2: "os_data s2 i = staged s p"
    using OpenCreate_size [OF op] staged_same [OF sys_MkdirAll_frame [OF mk]] by simp
  have f2: "file_at s2 p = Some i"
    using op by (cases rule: sys_OpenCreateE) auto
  note rules = AppendStaging_def path mk op r2 d2 f2 reliable_calls reliable_Copy node_info_def
    content_at_def write_at_end truncate_back
  show ?thesis
    using \<open>0 \<le> off\<close> \<open>0 < mx\<close>
    by (cases "off = int (length (staged s p))") (auto simp: rules bs_def)
qed

section \<open>What an append leaves alone\<close>

lemma sys_clock:
  "sys_MkdirAll d s = (r1, s') \<Longrightarrow> os_clock s' = os_clock s"
  "sys_OpenCreate x p s = (r2, s') \<Longrightarrow> os_clock s' = os_clock s"
  "sys_Copy i off rd n s = (r3, s') \<Longrightarrow> os_clock s' = os_clock s"
  "sys_Fstat nd s = (r4, s') \<Longrightarrow> os_clock s' = os_clock s"
  "sys_Quiet s = (r5, s') \<Longrightarrow> os_clock s' = os_clock s"
  "sys_Truncate i k s = (r6, s') \<Longrightarrow> os_clock s' = os_clock s"
  by (auto simp: sys_defs make_dirs_def set_data_def Let_def split: option.splits if_splits sum.splits prod.splits fsnode.splits)

lemma AppendStaging_clock: "AppendStaging l sp u off src mx s = (r, s') \<Longrightarrow> os_clock s' = os_clock s"
proof -
  have "os_clock (snd (sys_Truncate i k t)) = os_clock t" for i k t by (metis prod.collapse sys_clock(6))
  then show "AppendStaging l sp u off src mx s = (r, s') \<Longrightarrow> os_clock s' = os_clock s"
    by (auto simp: AppendStaging_def split: option.splits sum.splits prod.splits if_splits dest!: sys_clock)
qed

text \<open>Names that are neither the staged file nor a directory above it.\<close>

lemma AppendStaging_names:
  assumes path: "StagingPath l sp u = Inr p" and run: "AppendStaging l sp u off src mx s = (r, s')"
    and z: "z \<noteq> p" "z \<notin> set (path_ancestors (filepathDir p))"
  shows "os_nodes s' z = os_nodes s z"
proof -
  have t: "os_nodes (snd (sys_Truncate i k t)) = os_nodes t" for i k t by (simp add: sys_Truncate_def)
  have m: "os_nodes t' z = os_nodes t z" if "sys_MkdirAll (filepathDir p) t = (a, t')" for a t t'
    using keepsD(1) [OF sys_MkdirAll_keeps [OF that, of "{z}"]] z(2) by simp
  have o: "os_nodes t' z = os_nodes t z" if "sys_OpenCreate x p t = (a, t')" for x a t t'
    using keepsD(1) [OF sys_OpenCreate_keeps [OF that, of "{z}"]] z(1) by simp
  have c: "os_nodes t' = os_nodes t" if "sys_Copy i k rd w t = (a, t')" for i k rd w a t t'
    using that by (cases rule: sys_CopyE) simp_all
  have f: "os_nodes t' = os_nodes t" if "sys_Fstat nd t = (a, t')" for nd a t t'
    using that by (auto simp: sys_Fstat_def)
  have q: "os_nodes t' = os_nodes t" if "sys_Quiet t = (a, t')" for a t t'
    using that by (auto simp: sys_Quiet_def)
  show ?thesis
    using run
    by (auto simp: AppendStaging_def path t split: option.splits sum.splits prod.splits if_splits dest!: m o c f q)
qed

end
