(* ===== verification/Uploads.thy ===== *)
theory Uploads
  imports Wardveil_Scan Storage_Session
begin

text \<open>
  \<^verbatim>\<open>internal/uploads/session.go\<close> and \<^verbatim>\<open>internal/uploads/memory.go\<close>: resumable upload
  sessions. The service's collaborators are interfaces, so they are records of functions over a
  state \<open>'s\<close>; the locale \<open>upload_environment\<close> states what the service relies on, and
  \<open>Upload_System\<close> satisfies it with the memory repository, the storage backend and the scan
  gate. \<^verbatim>\<open>StagingStore.OpenStaging\<close> is not called by this package and belongs to the scan gate.
\<close>

section \<open>Sessions and errors\<close>

definition StateActive :: string where "StateActive = ''active''"
definition StateCompleted :: string where "StateCompleted = ''completed''"

record UploadSession =
  us_ID :: string
  us_SpaceID :: string
  us_AccountID :: string
  us_ParentNodeID :: string
  us_TargetName :: string
  us_NodeID :: string
  us_Offset :: int64
  us_State :: string
  us_ExpiresAt :: time

definition zero_session :: UploadSession where
  "zero_session = \<lparr>us_ID = [], us_SpaceID = [], us_AccountID = [], us_ParentNodeID = [],
     us_TargetName = [], us_NodeID = [], us_Offset = 0, us_State = [], us_ExpiresAt = 0\<rparr>"

text \<open>The service returns ordinary errors or \<^verbatim>\<open>*SecurityBlockedError\<close>, which unwraps to
  \<^verbatim>\<open>ErrSecurityBlocked\<close>.\<close>

datatype uerr = UErr goerr | SecurityBlockedError Decision

fun uerr_Is :: "uerr \<Rightarrow> sentinel \<Rightarrow> bool" where
  "uerr_Is (UErr e) t = errors_Is e t"
| "uerr_Is (SecurityBlockedError d) t = (t = UploadsErrSecurityBlocked)"

section \<open>Interfaces\<close>

record 's UploadRepository =
  ur_Create :: "UploadSession \<Rightarrow> 's \<Rightarrow> (goerr + unit) \<times> 's"
  ur_Get :: "string \<Rightarrow> 's \<Rightarrow> (goerr + UploadSession) \<times> 's"
  ur_Update :: "UploadSession \<Rightarrow> 's \<Rightarrow> (goerr + unit) \<times> 's"

record 's StagingStore =
  st_AppendStaging ::
    "string \<Rightarrow> string \<Rightarrow> int64 \<Rightarrow> reader option \<Rightarrow> int64 \<Rightarrow> 's \<Rightarrow> (int64 \<times> goerr option) \<times> 's"
  st_DiscardStaging :: "string \<Rightarrow> string \<Rightarrow> 's \<Rightarrow> (goerr + unit) \<times> 's"
  st_Finalize :: "string \<Rightarrow> string \<Rightarrow> string \<Rightarrow> 's \<Rightarrow> (goerr + unit) \<times> 's"

type_synonym 's SecurityGate = "string \<Rightarrow> string \<Rightarrow> string \<Rightarrow> 's \<Rightarrow> (goerr + Decision) \<times> 's"

record 's UploadService =
  svc_repo :: "'s UploadRepository option"
  svc_store :: "'s StagingStore option"
  svc_security :: "'s SecurityGate option"
  svc_maxChunk :: int64
  svc_ttl :: duration
  svc_now :: "'s \<Rightarrow> time \<times> 's"
  svc_rand :: "'s \<Rightarrow> (goerr + byte list) \<times> 's"

section \<open>The memory repository\<close>

type_synonym MemoryRepository = "string \<rightharpoonup> UploadSession"

definition memory_Create :: "UploadSession \<Rightarrow> MemoryRepository \<Rightarrow> (goerr + unit) \<times> MemoryRepository" where
  "memory_Create session r =
     (if r (us_ID session) \<noteq> None then (Inl (ErrorString ''upload session already exists''), r)
      else (Inr (), r(us_ID session \<mapsto> session)))"

definition memory_Get :: "string \<Rightarrow> MemoryRepository \<Rightarrow> (goerr + UploadSession) \<times> MemoryRepository" where
  "memory_Get i r =
     (case r i of None \<Rightarrow> (Inl (Sentinel UploadsErrNotFound), r) | Some session \<Rightarrow> (Inr session, r))"

definition memory_Update :: "UploadSession \<Rightarrow> MemoryRepository \<Rightarrow> (goerr + unit) \<times> MemoryRepository" where
  "memory_Update session r =
     (if r (us_ID session) = None then (Inl (Sentinel UploadsErrNotFound), r)
      else (Inr (), r(us_ID session \<mapsto> session)))"

section \<open>Expiry\<close>

definition isExpired :: "'s UploadService \<Rightarrow> UploadSession \<Rightarrow> 's \<Rightarrow> bool \<times> 's" where
  "isExpired svc session s =
     (if IsZero (us_ExpiresAt session) then (True, s)
      else let (now, s1) = svc_now svc s in (\<not> now < us_ExpiresAt session, s1))"

definition rejectExpired :: "'s UploadService \<Rightarrow> UploadSession \<Rightarrow> 's \<Rightarrow> (goerr + unit) \<times> 's" where
  "rejectExpired svc session s =
     (let (expired, s1) = isExpired svc session s in
      if \<not> expired then (Inr (), s1)
      else case svc_store svc of
             None \<Rightarrow> (Inl (Sentinel UploadsErrExpired), s1)
           | Some store \<Rightarrow>
               (case st_DiscardStaging store (us_SpaceID session) (us_ID session) s1 of
                  (Inl err, s2) \<Rightarrow>
                    (Inl (Wrapped ''discard staged content'' (Sentinel UploadsErrExpired)), s2)
                | (Inr _, s2) \<Rightarrow> (Inl (Sentinel UploadsErrExpired), s2)))"

section \<open>Operations\<close>

text \<open>The session that comes with an error is part of the result, as the handlers use it.\<close>

type_synonym 's upload_result = "(UploadSession \<times> uerr option) \<times> 's"

definition fails :: "goerr \<Rightarrow> 's \<Rightarrow> 's upload_result" where
  "fails e s = ((zero_session, Some (UErr e)), s)"

definition uploads_Create ::
  "'s UploadService \<Rightarrow> string \<Rightarrow> string \<Rightarrow> string \<Rightarrow> string \<Rightarrow> string \<Rightarrow> 's \<Rightarrow> 's upload_result" where
  "uploads_Create svc accountID spaceID nodeID parentNodeID targetName0 s =
     (case (svc_repo svc, svc_store svc) of
        (Some repo, Some store) \<Rightarrow>
     (if svc_maxChunk svc \<le> 0 \<or> svc_ttl svc \<le> 0
      then fails (ErrorString ''upload service unavailable'') s
      else let targetName = TrimSpace targetName0 in
      if nodeID = [] \<or> targetName = [] \<or> length targetName > 255 \<or> targetName = ''.''
         \<or> targetName = ''..'' \<or> ContainsAny targetName [CHR ''/'', CHR 0x5C, CHR 0x00]
      then fails (Sentinel UploadsErrInvalidTarget) s
      else let (rand, s1) = svc_rand svc s in
      case uploads_newUUID rand of
        Inl err \<Rightarrow> fails err s1
      | Inr i \<Rightarrow>
     (let (now, s2) = svc_now svc s1;
          session = \<lparr>us_ID = i, us_SpaceID = spaceID, us_AccountID = accountID,
            us_ParentNodeID = parentNodeID, us_TargetName = targetName, us_NodeID = nodeID,
            us_Offset = 0, us_State = StateActive, us_ExpiresAt = now + svc_ttl svc\<rparr> in
      case ur_Create repo session s2 of
        (Inl err, s3) \<Rightarrow> fails err s3
      | (Inr _, s3) \<Rightarrow> ((session, None), s3)))
      | _ \<Rightarrow> fails (ErrorString ''upload service unavailable'') s)"

definition uploads_Get ::
  "'s UploadService \<Rightarrow> string \<Rightarrow> string \<Rightarrow> string \<Rightarrow> 's \<Rightarrow> (goerr + UploadSession) \<times> 's" where
  "uploads_Get svc accountID spaceID uploadID s =
     (case (svc_repo svc, svc_store svc) of
        (Some repo, Some store) \<Rightarrow>
     (case ur_Get repo uploadID s of
        (Inl err, s1) \<Rightarrow> (Inl err, s1)
      | (Inr session, s1) \<Rightarrow>
          if us_AccountID session \<noteq> accountID \<or> us_SpaceID session \<noteq> spaceID
          then (Inl (Sentinel UploadsErrForbidden), s1)
          else (case rejectExpired svc session s1 of
                  (Inl err, s2) \<Rightarrow> (Inl err, s2)
                | (Inr _, s2) \<Rightarrow> (Inr session, s2)))
      | _ \<Rightarrow> (Inl (ErrorString ''upload service unavailable''), s))"

definition uploads_Append ::
  "'s UploadService \<Rightarrow> string \<Rightarrow> string \<Rightarrow> string \<Rightarrow> int64 \<Rightarrow> reader option \<Rightarrow> 's \<Rightarrow> 's upload_result"
  where
  "uploads_Append svc accountID spaceID uploadID expectedOffset body s =
     (case uploads_Get svc accountID spaceID uploadID s of
        (Inl err, s1) \<Rightarrow> fails err s1
      | (Inr session, s1) \<Rightarrow>
     if us_State session \<noteq> StateActive then fails (Sentinel UploadsErrCompleted) s1
     else if us_Offset session \<noteq> expectedOffset
     then ((session, Some (UErr (Sentinel UploadsErrOffsetMismatch))), s1)
     else case (svc_repo svc, svc_store svc) of
        (Some repo, Some store) \<Rightarrow>
     (case st_AppendStaging store spaceID uploadID expectedOffset body (svc_maxChunk svc) s1 of
        ((nxt, Some err), s2) \<Rightarrow> ((session, Some (UErr err)), s2)
      | ((nxt, None), s2) \<Rightarrow>
     (let session' = session\<lparr>us_Offset := nxt\<rparr> in
      case ur_Update repo session' s2 of
        (Inl err, s3) \<Rightarrow> fails err s3
      | (Inr _, s3) \<Rightarrow> ((session', None), s3)))
      | _ \<Rightarrow> fails (ErrorString ''upload service unavailable'') s1)"

definition uploads_Complete ::
  "'s UploadService \<Rightarrow> string \<Rightarrow> string \<Rightarrow> string \<Rightarrow> 's \<Rightarrow> 's upload_result" where
  "uploads_Complete svc accountID spaceID uploadID s =
     (case uploads_Get svc accountID spaceID uploadID s of
        (Inl err, s1) \<Rightarrow> fails err s1
      | (Inr session, s1) \<Rightarrow>
     if us_State session \<noteq> StateActive then fails (Sentinel UploadsErrCompleted) s1
     else if us_NodeID session = []
     then ((session, Some (UErr (Wrapped ''final node is not assigned'' (Sentinel UploadsErrInvalidTarget)))), s1)
     else case svc_security svc of
        None \<Rightarrow> ((session, Some (UErr (Sentinel UploadsErrSecurityUnavailable))), s1)
      | Some security \<Rightarrow>
     (case security (us_SpaceID session) (us_ID session) (us_NodeID session) s1 of
        (Inl err, s2) \<Rightarrow>
          ((session, Some (UErr (Wrapped ''evaluate upload'' (Sentinel UploadsErrSecurityUnavailable)))), s2)
      | (Inr decision, s2) \<Rightarrow>
     if \<not> de_CanRelease decision then ((session, Some (SecurityBlockedError decision)), s2)
     else case rejectExpired svc session s2 of
        (Inl err, s3) \<Rightarrow> ((session, Some (UErr err)), s3)
      | (Inr _, s3) \<Rightarrow>
     (case (svc_repo svc, svc_store svc) of
        (Some repo, Some store) \<Rightarrow>
     (case st_Finalize store spaceID uploadID (us_NodeID session) s3 of
        (Inl err, s4) \<Rightarrow> fails err s4
      | (Inr _, s4) \<Rightarrow>
     (let session' = session\<lparr>us_State := StateCompleted\<rparr> in
      case ur_Update repo session' s4 of
        (Inl err, s5) \<Rightarrow> fails err s5
      | (Inr _, s5) \<Rightarrow> ((session', None), s5)))
      | _ \<Rightarrow> fails (ErrorString ''upload service unavailable'') s3)))"

section \<open>What the service relies on\<close>

text \<open>
  \<open>objects\<close> and \<open>stg\<close> are the published and the staged bytes, by space and node or upload;
  \<open>cleared\<close> is what the gate certifies of bytes; \<open>admissible\<close> is what the scanner must
  respect. Nothing is assumed about errors: any call may fail.
\<close>

locale upload_environment =
  fixes svc :: "'s UploadService" and repo :: "'s UploadRepository" and store :: "'s StagingStore"
    and gate :: "'s SecurityGate"
    and objects :: "'s \<Rightarrow> string \<times> string \<Rightarrow> string option"
    and stg :: "'s \<Rightarrow> string \<times> string \<Rightarrow> string option"
    and cleared :: "string \<Rightarrow> string \<Rightarrow> string \<Rightarrow> bool"
    and inv :: "'s \<Rightarrow> bool" and admissible :: bool
  assumes wiring: "svc_repo svc = Some repo" "svc_store svc = Some store" "svc_security svc = Some gate"
    and get_keeps: "inv s \<Longrightarrow> ur_Get repo i s = (r, s') \<Longrightarrow> inv s' \<and> objects s' = objects s"
    and get_id: "inv s \<Longrightarrow> ur_Get repo i s = (Inr x, s') \<Longrightarrow> us_ID x = i"
    and now_keeps: "inv s \<Longrightarrow> svc_now svc s = (t, s') \<Longrightarrow> inv s' \<and> objects s' = objects s \<and> stg s' = stg s"
    and discard_keeps: "inv s \<Longrightarrow> st_DiscardStaging store sp up s = (r2, s') \<Longrightarrow> inv s' \<and> objects s' = objects s"
    and gate_keeps: "admissible \<Longrightarrow> inv s \<Longrightarrow> gate sp up n s = (r3, s') \<Longrightarrow> inv s' \<and> objects s' = objects s"
    and gate_releases: "admissible \<Longrightarrow> inv s \<Longrightarrow> gate sp up n s = (Inr d, s') \<Longrightarrow> de_CanRelease d \<Longrightarrow>
      \<exists>bs. stg s' (sp, up) = Some bs \<and> cleared sp n bs"
    and finalize: "inv s \<Longrightarrow> st_Finalize store sp up n s = (r4, s') \<Longrightarrow>
      inv s' \<and> (objects s' = objects s
        \<or> objects s (sp, n) = None \<and> objects s' = (objects s)((sp, n) := stg s (sp, up)))"
    and finalize_ok: "inv s \<Longrightarrow> st_Finalize store sp up n s = (Inr u, s') \<Longrightarrow> objects s' (sp, n) = stg s (sp, up)"
    and update_keeps: "inv s \<Longrightarrow> ur_Update repo x s = (r5, s') \<Longrightarrow> objects s' = objects s"
begin

lemma isExpired_keeps:
  "inv s \<Longrightarrow> isExpired svc x s = (b, s') \<Longrightarrow> inv s' \<and> objects s' = objects s \<and> stg s' = stg s"
  using now_keeps [of s] by (auto simp: isExpired_def split: if_splits prod.splits)

lemma rejectExpired_keeps:
  assumes "inv s" "rejectExpired svc x s = (r, s')"
  shows "inv s' \<and> objects s' = objects s \<and> (is_ok r \<longrightarrow> stg s' = stg s)"
proof -
  obtain b s1 where b: "isExpired svc x s = (b, s1)" by fastforce
  note k = isExpired_keeps [OF assms(1) b]
  obtain d s2 where d: "st_DiscardStaging store (us_SpaceID x) (us_ID x) s1 = (d, s2)" by fastforce
  have "inv s2 \<and> objects s2 = objects s1" using discard_keeps [OF _ d] k by blast
  then show ?thesis
    using assms(2) b d k by (auto simp: rejectExpired_def wiring split: if_splits sum.splits)
qed

lemma Get_keeps:
  assumes "inv s" "uploads_Get svc acct sp up s = (r, s')"
  shows "inv s' \<and> objects s' = objects s
    \<and> (\<forall>x. r = Inr x \<longrightarrow> us_ID x = up \<and> us_SpaceID x = sp \<and> us_AccountID x = acct)"
proof -
  obtain g s1 where g: "ur_Get repo up s = (g, s1)" by fastforce
  note k = get_keeps [OF assms(1) g]
  show ?thesis
  proof (cases g)
    case (Inl e)
    then show ?thesis using assms(2) g k by (simp add: uploads_Get_def wiring) auto
  next
    case (Inr x)
    obtain e s2 where e: "rejectExpired svc x s1 = (e, s2)" by fastforce
    show ?thesis
      using assms(2) g k Inr e rejectExpired_keeps [OF _ e] get_id [OF assms(1), of up x s1]
      by (auto simp: uploads_Get_def wiring split: if_splits sum.splits)
  qed
qed

text \<open>Completing an upload publishes bytes only if the gate cleared exactly these bytes.\<close>

lemma Complete_publishes_cleared:
  assumes adm: "admissible" and inv: "inv s" and run: "uploads_Complete svc acct sp up s = (r, s')"
    and new: "objects s' k \<noteq> objects s k"
  shows "\<exists>n bs. k = (sp, n) \<and> objects s k = None \<and> objects s' k = Some bs \<and> cleared sp n bs"
proof -
  obtain g s1 where g: "uploads_Get svc acct sp up s = (g, s1)" by fastforce
  note G = Get_keeps [OF inv g]
  obtain x where x: "g = Inr x" using run new g G by (cases g) (auto simp: uploads_Complete_def fails_def)
  have ids: "us_ID x = up" "us_SpaceID x = sp" using G x by auto
  obtain d s2 where d: "gate sp up (us_NodeID x) s1 = (d, s2)" by fastforce
  have D: "inv s2" "objects s2 = objects s" using gate_keeps [OF adm _ d] G by auto
  obtain e s3 where e: "rejectExpired svc x s2 = (e, s3)" by fastforce
  note E = rejectExpired_keeps [OF D(1) e]
  obtain f s4 where f: "st_Finalize store sp up (us_NodeID x) s3 = (f, s4)" by fastforce
  have F: "inv s4" "objects s4 = objects s3
      \<or> objects s3 (sp, us_NodeID x) = None
        \<and> objects s4 = (objects s3)((sp, us_NodeID x) := stg s3 (sp, up))"
    using finalize [OF _ f] E by auto
  let ?x = "x\<lparr>us_State := StateCompleted\<rparr>"
  obtain u s5 where u: "ur_Update repo ?x s4 = (u, s5)" by fastforce
  have U: "objects s5 = objects s4" using update_keeps [OF F(1) u] .
  have s': "s' \<in> {s1, s2, s3, s4, s5}
      \<and> (s' \<in> {s4, s5} \<longrightarrow> s' \<in> {s1, s2, s3} \<or> is_ok e \<and> (\<exists>dec. d = Inr dec \<and> de_CanRelease dec))"
    using run g x ids d e f u
    by (auto simp: uploads_Complete_def fails_def wiring split: sum.splits if_splits)
  have "s' \<notin> {s1, s2, s3}" using new G D E by auto
  then have rel: "is_ok e" "\<exists>dec. d = Inr dec \<and> de_CanRelease dec" and o': "objects s' = objects s4"
    using s' U by auto
  obtain bs where bs: "stg s2 (sp, up) = Some bs" "cleared sp (us_NodeID x) bs"
    using gate_releases [OF adm _ _ , of s1 sp up "us_NodeID x"] G d rel(2) by blast
  have "k = (sp, us_NodeID x)" "objects s k = None" "objects s' k = Some bs"
    using F(2) o' new D E rel(1) bs(1) by (auto split: if_splits)
  with bs(2) show ?thesis by blast
qed

text \<open>A success means that cleared bytes are published under the session's node.\<close>

lemma Complete_success:
  assumes adm: "admissible" and inv: "inv s" and run: "uploads_Complete svc acct sp up s = ((x, None), s')"
  shows "us_ID x = up \<and> us_SpaceID x = sp \<and> us_AccountID x = acct \<and> us_State x = StateCompleted
    \<and> (\<exists>bs. objects s' (sp, us_NodeID x) = Some bs \<and> cleared sp (us_NodeID x) bs
         \<and> objects s' = (objects s)((sp, us_NodeID x) \<mapsto> bs))"
proof -
  obtain g s1 where g: "uploads_Get svc acct sp up s = (g, s1)" by fastforce
  note G = Get_keeps [OF inv g]
  obtain y where y: "g = Inr y" using run g by (cases g) (auto simp: uploads_Complete_def fails_def)
  have ids: "us_ID y = up" "us_SpaceID y = sp" "us_AccountID y = acct" using G y by auto
  obtain d s2 where d: "gate sp up (us_NodeID y) s1 = (d, s2)" by fastforce
  have D: "inv s2" "objects s2 = objects s" using gate_keeps [OF adm _ d] G by auto
  obtain e s3 where e: "rejectExpired svc y s2 = (e, s3)" by fastforce
  note E = rejectExpired_keeps [OF D(1) e]
  obtain f s4 where f: "st_Finalize store sp up (us_NodeID y) s3 = (f, s4)" by fastforce
  have F: "inv s4" "objects s4 = objects s3 \<or> (\<exists>v. objects s4 = (objects s3)((sp, us_NodeID y) := v))"
    using finalize [OF _ f] E by auto
  let ?y = "y\<lparr>us_State := StateCompleted\<rparr>"
  obtain u s5 where u: "ur_Update repo ?y s4 = (u, s5)" by fastforce
  have U: "objects s5 = objects s4" using update_keeps [OF F(1) u] .
  obtain dec where k: "d = Inr dec" "de_CanRelease dec" "is_ok e" "f = Inr ()" "s' = s5" "x = ?y"
    using run g y ids d e f u
    by (auto simp: uploads_Complete_def fails_def wiring split: sum.splits if_splits)
  obtain bs where bs: "stg s2 (sp, up) = Some bs" "cleared sp (us_NodeID y) bs"
    using gate_releases [OF adm _ _ k(2), of s1 sp up "us_NodeID y" s2] G d k(1) by blast
  have o4: "objects s4 (sp, us_NodeID y) = Some bs" using finalize_ok E f k(3,4) bs(1) by metis
  then have "objects s4 = (objects s)((sp, us_NodeID y) \<mapsto> bs)" using F(2) E D(2) by auto
  then show ?thesis using U k ids bs o4 by auto
qed

end

end
