(* ===== verification/Storage_Quarantine.thy ===== *)
theory Storage_Quarantine
  imports Storage_Session Go_Json
begin

text \<open>
  \<^verbatim>\<open>internal/storage/quarantine.go\<close>: moving a published object into quarantine with a durable
  operation record. \<open>ApplyQuarantine\<close> and \<open>ReadQuarantine\<close> are followed call by call over
  the operating-system state; the record is stored as the JSON text that
  \<^verbatim>\<open>encoding/json\<close> writes and is parsed back with the model of its decoder.
\<close>

section \<open>The operation record\<close>

record QuarantineState =
  SpaceID :: string
  NodeID :: string
  OperationID :: string
  CorrelationID :: string
  Status :: string
  StateRef :: string
  EvidenceRef :: string
  ObservedAt :: string

definition zero_state :: QuarantineState where
  "zero_state = \<lparr>SpaceID = [], NodeID = [], OperationID = [], CorrelationID = [], Status = [],
     StateRef = [], EvidenceRef = [], ObservedAt = []\<rparr>"

definition state_fields :: "QuarantineState fields" where
  "state_fields =
     [(''space_id'', \<lambda>v st. st\<lparr>SpaceID := v\<rparr>), (''node_id'', \<lambda>v st. st\<lparr>NodeID := v\<rparr>),
      (''operation_id'', \<lambda>v st. st\<lparr>OperationID := v\<rparr>),
      (''correlation_id'', \<lambda>v st. st\<lparr>CorrelationID := v\<rparr>), (''status'', \<lambda>v st. st\<lparr>Status := v\<rparr>),
      (''state_ref'', \<lambda>v st. st\<lparr>StateRef := v\<rparr>), (''evidence_ref'', \<lambda>v st. st\<lparr>EvidenceRef := v\<rparr>),
      (''observed_at'', \<lambda>v st. st\<lparr>ObservedAt := v\<rparr>)]"

definition state_members :: "QuarantineState \<Rightarrow> (string \<times> string) list" where
  "state_members st =
     [(''space_id'', SpaceID st), (''node_id'', NodeID st), (''operation_id'', OperationID st),
      (''correlation_id'', CorrelationID st), (''status'', Status st), (''state_ref'', StateRef st),
      (''evidence_ref'', EvidenceRef st), (''observed_at'', ObservedAt st)]"

text \<open>What both writers put into the file: the object and a newline.\<close>

definition state_file :: "QuarantineState \<Rightarrow> string" where
  "state_file st = json_object (state_members st) @ [CHR 0x0A]"

definition parse_state :: "string \<Rightarrow> goerr + QuarantineState" where
  "parse_state data =
     (case json_Unmarshal state_fields zero_state data of
        None \<Rightarrow> Inl (Sentinel ErrQuarantineReconciliation)
      | Some state \<Rightarrow>
          if SpaceID state = [] \<or> NodeID state = [] \<or> OperationID state = []
             \<or> CorrelationID state = [] \<or> StateRef state = [] \<or> EvidenceRef state = []
          then Inl (Sentinel ErrQuarantineReconciliation) else Inr state)"

section \<open>Operations\<close>

definition QuarantinePath :: "Local option \<Rightarrow> string \<Rightarrow> string \<Rightarrow> goerr + string" where
  "QuarantinePath l spaceID nodeID = scopedPath l ''quarantine'' spaceID nodeID"

definition QuarantineStatePath :: "Local option \<Rightarrow> string \<Rightarrow> string \<Rightarrow> goerr + string" where
  "QuarantineStatePath l spaceID nodeID = scopedPath l ''quarantine-state'' spaceID nodeID"

text \<open>Any error of \<^verbatim>\<open>os.Stat\<close> counts as absence.\<close>

definition exists :: "string \<Rightarrow> os \<Rightarrow> bool \<times> os" where
  "exists path s = (case sys_Stat path s of (r, s1) \<Rightarrow> (is_ok r, s1))"

definition readQuarantineState :: "string \<Rightarrow> os \<Rightarrow> (goerr + QuarantineState option) \<times> os" where
  "readQuarantineState path s =
     (case sys_ReadFile path s of
        (Inl err, s1) \<Rightarrow>
          if errors_Is err OsErrNotExist then (Inr None, s1)
          else (Inl (Wrapped ''read quarantine state'' err), s1)
      | (Inr data, s1) \<Rightarrow>
          (case parse_state data of Inl err \<Rightarrow> (Inl err, s1) | Inr state \<Rightarrow> (Inr (Some state), s1)))"

definition writeQuarantineStateExclusive ::
  "string \<Rightarrow> QuarantineState \<Rightarrow> os \<Rightarrow> (goerr + unit) \<times> os" where
  "writeQuarantineStateExclusive path state s =
     (case sys_OpenCreate True path s of
        (Inl err, s1) \<Rightarrow> (Inl err, s1)
      | (Inr file, s1) \<Rightarrow>
     (case sys_Write file 0 (state_file state) s1 of
        (Inl err, s2) \<Rightarrow> (Inl (Wrapped ''write quarantine state'' err), snd (sys_Quiet s2))
      | (Inr _, s2) \<Rightarrow>
     (case sys_Quiet s2 of
        (Inl err, s3) \<Rightarrow> (Inl (Wrapped ''sync quarantine state'' err), snd (sys_Quiet s3))
      | (Inr _, s3) \<Rightarrow> sys_Quiet s3)))"

text \<open>The deferred \<^verbatim>\<open>os.Remove(name)\<close> runs on every return after the file was made.\<close>

definition deferRemove :: "string \<Rightarrow> (goerr + unit) \<times> os \<Rightarrow> (goerr + unit) \<times> os" where
  "deferRemove name rs = (fst rs, snd (sys_Remove name (snd rs)))"

definition writeQuarantineStateAtomic ::
  "string \<Rightarrow> QuarantineState \<Rightarrow> os \<Rightarrow> (goerr + unit) \<times> os" where
  "writeQuarantineStateAtomic path state s =
     (case sys_CreateTemp (filepath_Dir path) ''.quarantine-state-'' s of
        (Inl err, s1) \<Rightarrow> (Inl (Wrapped ''create quarantine state temporary file'' err), s1)
      | (Inr (name, temp), s1) \<Rightarrow>
     deferRemove name
     (case sys_Quiet s1 of
        (Inl err, s2) \<Rightarrow> (Inl err, snd (sys_Quiet s2))
      | (Inr _, s2) \<Rightarrow>
     (case sys_Write temp 0 (state_file state) s2 of
        (Inl err, s3) \<Rightarrow> (Inl err, snd (sys_Quiet s3))
      | (Inr _, s3) \<Rightarrow>
     (case sys_Quiet s3 of
        (Inl err, s4) \<Rightarrow> (Inl err, snd (sys_Quiet s4))
      | (Inr _, s4) \<Rightarrow>
     (case sys_Quiet s4 of
        (Inl err, s5) \<Rightarrow> (Inl err, s5)
      | (Inr _, s5) \<Rightarrow> sys_Rename name path s5)))))"

text \<open>The publishing link of \<^verbatim>\<open>reconcileQuarantine\<close>, taken when no payload is in quarantine yet.\<close>

definition publishQuarantine :: "string \<Rightarrow> string \<Rightarrow> bool \<Rightarrow> bool \<Rightarrow> os \<Rightarrow> (goerr + unit) \<times> os" where
  "publishQuarantine object quarantine objectExists quarantineExists s =
     (if quarantineExists then (Inr (), s)
      else if \<not> objectExists then (Inl (Sentinel ErrQuarantineReconciliation), s)
      else case sys_Link object quarantine s of
             (Inl err, s1) \<Rightarrow>
               if errors_Is err OsErrExist then (Inr (), s1)
               else (Inl (Wrapped ''publish quarantine payload'' err), s1)
           | (Inr _, s1) \<Rightarrow> (Inr (), s1))"

definition removeActive :: "string \<Rightarrow> bool \<Rightarrow> os \<Rightarrow> (goerr + unit) \<times> os" where
  "removeActive object objectExists s =
     (if objectExists
      then case sys_Remove object s of
             (Inl err, s1) \<Rightarrow>
               (Inl (Wrapped ''remove active object after quarantine publish'' err), s1)
           | (Inr _, s1) \<Rightarrow> (Inr (), s1)
      else (Inr (), s))"

definition reconcileQuarantine ::
  "string \<Rightarrow> string \<Rightarrow> string \<Rightarrow> QuarantineState \<Rightarrow> os \<Rightarrow> (goerr + QuarantineState \<times> bool) \<times> os"
  where
  "reconcileQuarantine object quarantine statePath state s =
     (let (objectExists, s1) = exists object s; (quarantineExists, s2) = exists quarantine s1 in
      if Status state = ''quarantined'' then
        (if \<not> quarantineExists \<or> objectExists
         then (Inl (Sentinel ErrQuarantineReconciliation), s2) else (Inr (state, True), s2))
      else if Status state \<noteq> ''pending'' then (Inl (Sentinel ErrQuarantineReconciliation), s2)
      else case publishQuarantine object quarantine objectExists quarantineExists s2 of
        (Inl err, s3) \<Rightarrow> (Inl err, s3)
      | (Inr _, s3) \<Rightarrow>
     (case removeActive object objectExists s3 of
        (Inl err, s4) \<Rightarrow> (Inl err, s4)
      | (Inr _, s4) \<Rightarrow>
     (let (now, s5) = sys_Now s4;
          state' = state\<lparr>Status := ''quarantined'', ObservedAt := format_RFC3339Nano now\<rparr> in
      case writeQuarantineStateAtomic statePath state' s5 of
        (Inl err, s6) \<Rightarrow> (Inl (Wrapped ''finalize quarantine state'' err), s6)
      | (Inr _, s6) \<Rightarrow> (Inr (state', False), s6))))"

definition pending_state :: "string \<Rightarrow> string \<Rightarrow> string \<Rightarrow> string \<Rightarrow> time \<Rightarrow> QuarantineState" where
  "pending_state spaceID nodeID operationID correlationID now =
     \<lparr>SpaceID = spaceID, NodeID = nodeID, OperationID = operationID,
      CorrelationID = correlationID, Status = ''pending'',
      StateRef = ''drive-quarantine:'' @ spaceID @ '':'' @ nodeID,
      EvidenceRef = ''drive-quarantine-operation:'' @ operationID,
      ObservedAt = format_RFC3339Nano now\<rparr>"

text \<open>The record of another run: a conflict, or the same operation to reconcile.\<close>

definition resumeQuarantine ::
  "string \<Rightarrow> string \<Rightarrow> string \<Rightarrow> string \<Rightarrow> string \<Rightarrow> QuarantineState \<Rightarrow> os
   \<Rightarrow> (goerr + QuarantineState \<times> bool) \<times> os"
  where
  "resumeQuarantine object quarantine statePath operationID correlationID state s =
     (if OperationID state \<noteq> operationID \<or> CorrelationID state \<noteq> correlationID
      then (Inl (Sentinel ErrQuarantineConflict), s)
      else reconcileQuarantine object quarantine statePath state s)"

definition beginQuarantine ::
  "string \<Rightarrow> string \<Rightarrow> string \<Rightarrow> string \<Rightarrow> string \<Rightarrow> string \<Rightarrow> string \<Rightarrow> os
   \<Rightarrow> (goerr + QuarantineState \<times> bool) \<times> os"
  where
  "beginQuarantine spaceID nodeID operationID correlationID object quarantine statePath s =
     (let (quarantineExists, s1) = exists quarantine s in
      if quarantineExists then (Inl (Sentinel ErrQuarantineReconciliation), s1)
      else let (objectExists, s2) = exists object s1 in
      if \<not> objectExists then (Inl (Sentinel OsErrNotExist), s2)
      else let (now, s3) = sys_Now s2;
               state = pending_state spaceID nodeID operationID correlationID now in
      case writeQuarantineStateExclusive statePath state s3 of
        (Inl err, s4) \<Rightarrow>
          if errors_Is err OsErrExist
          then (case readQuarantineState statePath s4 of
                  (Inr (Some state), s5) \<Rightarrow>
                    resumeQuarantine object quarantine statePath operationID correlationID state s5
                | (_, s5) \<Rightarrow> (Inl (Sentinel ErrQuarantineReconciliation), s5))
          else (Inl err, s4)
      | (Inr _, s4) \<Rightarrow> reconcileQuarantine object quarantine statePath state s4)"

definition ApplyQuarantine ::
  "Local option \<Rightarrow> string \<Rightarrow> string \<Rightarrow> string \<Rightarrow> string \<Rightarrow> os
   \<Rightarrow> (goerr + QuarantineState \<times> bool) \<times> os"
  where
  "ApplyQuarantine l spaceID nodeID operationID correlationID s =
     (if \<not> validOperationID operationID \<or> \<not> validOperationID correlationID
      then (Inl (ErrorString ''quarantine operation identifiers are invalid''), s)
      else case ObjectPath l spaceID nodeID of
        Inl err \<Rightarrow> (Inl err, s)
      | Inr object \<Rightarrow>
     (case QuarantinePath l spaceID nodeID of
        Inl err \<Rightarrow> (Inl err, s)
      | Inr quarantine \<Rightarrow>
     (case QuarantineStatePath l spaceID nodeID of
        Inl err \<Rightarrow> (Inl err, s)
      | Inr statePath \<Rightarrow>
     (case sys_MkdirAll (filepath_Dir quarantine) s of
        (Inl err, s1) \<Rightarrow> (Inl (Wrapped ''create quarantine scope'' err), s1)
      | (Inr _, s1) \<Rightarrow>
     (case sys_MkdirAll (filepath_Dir statePath) s1 of
        (Inl err, s2) \<Rightarrow> (Inl (Wrapped ''create quarantine state scope'' err), s2)
      | (Inr _, s2) \<Rightarrow>
     (case readQuarantineState statePath s2 of
        (Inl err, s3) \<Rightarrow> (Inl err, s3)
      | (Inr (Some state), s3) \<Rightarrow>
          resumeQuarantine object quarantine statePath operationID correlationID state s3
      | (Inr None, s3) \<Rightarrow>
          beginQuarantine spaceID nodeID operationID correlationID object quarantine statePath s3))))))"

definition ReadQuarantine ::
  "Local option \<Rightarrow> string \<Rightarrow> string \<Rightarrow> os \<Rightarrow> (goerr + QuarantineState option) \<times> os" where
  "ReadQuarantine l spaceID nodeID s =
     (case ObjectPath l spaceID nodeID of
        Inl err \<Rightarrow> (Inl err, s)
      | Inr object \<Rightarrow>
     (case QuarantinePath l spaceID nodeID of
        Inl err \<Rightarrow> (Inl err, s)
      | Inr quarantine \<Rightarrow>
     (case QuarantineStatePath l spaceID nodeID of
        Inl err \<Rightarrow> (Inl err, s)
      | Inr statePath \<Rightarrow>
     (case readQuarantineState statePath s of
        (Inl err, s1) \<Rightarrow> (Inl err, s1)
      | (Inr None, s1) \<Rightarrow>
          (let (quarantineExists, s2) = exists quarantine s1 in
           if quarantineExists then (Inl (Sentinel ErrQuarantineReconciliation), s2)
           else (Inr None, s2))
      | (Inr (Some state), s1) \<Rightarrow>
     (if Status state \<noteq> ''quarantined'' then (Inl (Sentinel ErrQuarantineReconciliation), s1)
      else let (quarantineExists, s2) = exists quarantine s1 in
      if \<not> quarantineExists then (Inl (Sentinel ErrQuarantineReconciliation), s2)
      else let (objectExists, s3) = exists object s2 in
      if objectExists then (Inl (Sentinel ErrQuarantineReconciliation), s3)
      else (Inr (Some state), s3))))))"

section \<open>What the calls do under any schedule\<close>

lemma exists_state [simp]: "snd (exists p s) = tick s"
  by (simp add: exists_def sys_Stat_def)

lemma exists_ok: "stat_ok s \<Longrightarrow> fst (exists p s) \<longleftrightarrow> os_nodes s p \<noteq> None"
  by (auto simp: exists_def sys_Stat_def stat_ok_def split: option.splits)

lemma exists_True: "fst (exists p s) \<Longrightarrow> os_nodes s p \<noteq> None"
  by (auto simp: exists_def sys_Stat_def split: if_splits option.splits)

lemma exists_stat_ok: "stat_ok s \<Longrightarrow> exists p s = (os_nodes s p \<noteq> None, tick s)"
  by (simp add: prod_eq_iff exists_ok)

lemma readQuarantineState_keeps: "readQuarantineState p s = (r, s') \<Longrightarrow> keeps A s s'"
  by (auto simp: readQuarantineState_def split: prod.splits sum.splits if_splits
      dest: sys_ReadFile_keeps)

lemma writeQuarantineStateExclusive_cases:
  assumes run: "writeQuarantineStateExclusive p st s = (r, s')" and p: "p \<notin> A"
  shows "keeps A s s' \<and> (is_ok r \<longrightarrow> os_nodes s p = None \<and> content_at s' p = Some (state_file st))
    \<and> (os_nodes s p = None \<longrightarrow> os_nodes s' p \<noteq> Some Dir)"
proof -
  obtain w s1 where w: "sys_OpenCreate True p s = (w, s1)" by fastforce
  then show ?thesis
  proof (cases rule: sys_OpenCreateE)
    case (fail e)
    then show ?thesis using run w by (simp add: writeQuarantineStateExclusive_def) auto
  next
    case (old i)
    then show ?thesis by simp
  next
    case new
    note k1 = sys_OpenCreate_keeps [OF w p]
    let ?i = "os_next s"
    obtain x s2 where x: "sys_Write ?i 0 (state_file st) s1 = (x, s2)" by fastforce
    have k2: "keeps A s s2" using fill_keeps [OF x k1] by simp
    have n2: "os_nodes s2 p = Some (File ?i)" using x new by (cases rule: sys_WriteE) auto
    have c: "content_at s2 p = Some (state_file st)" if "is_ok x"
      using x that new by (cases rule: sys_WriteE) (auto simp: content_at_def write_at_def)
    show ?thesis
      using run w new x k2 n2 c
      by (auto simp: writeQuarantineStateExclusive_def sys_Quiet_def split: sum.splits if_splits)
  qed
qed

text \<open>Replacing a record by way of a temporary file: either the new record is there or the name is
  untouched, whatever fails.\<close>

lemma writeQuarantineStateAtomic_cases:
  assumes run: "writeQuarantineStateAtomic p st s = (r, s')" and wf: "os_wf s"
    and p: "os_nodes s p \<noteq> Some Dir" "p \<notin> A"
    and tmp: "insert p A \<inter> temp_names (filepath_Dir p) ''.quarantine-state-'' = {}"
  shows "keeps A s s' \<and> (if is_ok r then content_at s' p = Some (state_file st)
    else keeps (insert p A) s s')"
proof -
  let ?B = "insert p A"
  obtain w s1 where w: "sys_CreateTemp (filepath_Dir p) ''.quarantine-state-'' s = (w, s1)"
    by fastforce
  from w tmp show ?thesis
  proof (cases rule: sys_CreateTempE)
    case (fail e)
    then show ?thesis
      using run w keeps_mono [of ?B s s1 A] by (auto simp: writeQuarantineStateAtomic_def)
  next
    case (ok t)
    let ?i = "os_next s"
    have t: "t \<notin> ?B" using ok tmp by auto
    obtain a s2 where a: "sys_Quiet s1 = (a, s2)" by fastforce
    obtain b s3 where b: "sys_Write ?i 0 (state_file st) s2 = (b, s3)" by fastforce
    obtain c s4 where c: "sys_Quiet s3 = (c, s4)" by fastforce
    obtain d s5 where d: "sys_Quiet s4 = (d, s5)" by fastforce
    obtain e s6 where e: "sys_Rename t p s5 = (e, s6)" by fastforce
    have k2: "keeps ?B s s2" using ok(2) a by (auto simp: sys_Quiet_def)
    have k3: "keeps ?B s s3" using fill_keeps [OF b k2] by simp
    have k5: "keeps ?B s s4" "keeps ?B s s5" using k3 c d by (auto simp: sys_Quiet_def)
    have f5: "file_at s5 t = Some ?i" "os_data s5 ?i = state_file st" if "is_ok b"
      using b a c d ok that
      by (cases rule: sys_WriteE; auto simp: sys_Quiet_def write_at_def)+
    have np: "file_at s5 p \<noteq> Some ?i"
      using keepsD(2) [OF k5(2), of p] wf by (auto simp: os_wf_file_at)
    have k6: "keeps A s s6 \<and> (is_ok b \<and> is_ok e \<longrightarrow> content_at s6 p = Some (state_file st))
        \<and> (\<not> is_ok e \<longrightarrow> keeps ?B s s6)"
      using rename_into_place [OF e k5(2) p t np, of "is_ok b"] f5 by blast
    have rm: "keeps A s (snd (sys_Remove t u))" if "keeps A s u" for u
      using deferRemove_keeps that t by auto
    have rmB: "keeps ?B s (snd (sys_Remove t u))" if "keeps ?B s u" for u
      using deferRemove_keeps that t by auto
    have other: "content_at (snd (sys_Remove t u)) p = content_at u p" for u
      using t sys_Remove_content [of p t u] by auto
    show ?thesis
      using run w ok(1) a b c d e k2 k3 k5 k6 keeps_mono [OF k2 subset_insertI] keeps_mono [OF k3 subset_insertI]
        keeps_mono [OF k5(1) subset_insertI] keeps_mono [OF k5(2) subset_insertI]
      by (auto simp: writeQuarantineStateAtomic_def deferRemove_def other
          intro!: rm rmB split: sum.splits)
  qed
qed

text \<open>The names one operation works on, apart from each other and from the temporary files.\<close>

definition qpaths :: "string \<Rightarrow> string \<Rightarrow> string \<Rightarrow> bool" where
  "qpaths object quarantine statePath \<longleftrightarrow>
     object \<noteq> quarantine \<and> object \<noteq> statePath \<and> quarantine \<noteq> statePath
     \<and> {object, quarantine, statePath} \<inter> temp_names (filepath_Dir statePath) ''.quarantine-state-'' = {}"

lemma keeps_insert: "keeps (insert z A) s t \<longleftrightarrow> keeps A s t \<and> os_nodes t z = os_nodes s z"
  by (auto simp: keeps_def)

lemma publishQuarantine_cases:
  assumes run: "publishQuarantine ob q oe qe s = (r, s')" and ne: "ob \<noteq> q" "q \<noteq> st"
    and qe: "qe \<Longrightarrow> os_nodes s q \<noteq> None"
  shows "keeps {ob, st} s s'
    \<and> (os_nodes s' q = os_nodes s q
       \<or> (\<exists>i. is_ok r \<and> file_at s ob = Some i \<and> os_nodes s q = None \<and> os_nodes s' q = Some (File i)))
    \<and> (is_ok r \<longrightarrow> os_nodes s' q \<noteq> None)"
proof -
  have "keeps {ob, st} s (tick (s\<lparr>os_nodes := (os_nodes s)(q \<mapsto> File i)\<rparr>))"
    if "os_nodes s q = None" "os_nodes s ob = Some (File i)" for i
    using that ne os_wf_changes(1) [of s ob i q]
    by (auto simp: keeps_def file_at_iff simp flip: add_name_def)
  then show ?thesis
    using assms
    by (auto simp: publishQuarantine_def sys_Link_def file_at_iff
        split: if_splits option.splits fsnode.splits sum.splits)
qed

lemma removeActive_cases:
  assumes run: "removeActive ob oe s = (r, s')" and ne: "ob \<noteq> q" "ob \<noteq> st"
  shows "keeps {q, st} s s'
    \<and> (if is_ok r then (if oe then os_nodes s' ob = None \<and> file_at s ob \<noteq> None else s' = s)
       else os_nodes s' ob = os_nodes s ob)"
proof -
  obtain w t where w: "sys_Remove ob s = (w, t)" by fastforce
  have k: "keeps {q, st} s t" using sys_Remove_keeps [OF w] ne by auto
  from w show ?thesis
    by (cases rule: sys_RemoveE)
      (use run k w in \<open>auto simp: removeActive_def split: if_splits\<close>)
qed

definition done_state :: "QuarantineState \<Rightarrow> time \<Rightarrow> QuarantineState" where
  "done_state state now = state\<lparr>Status := ''quarantined'', ObservedAt := format_RFC3339Nano now\<rparr>"

text \<open>The three changes of a reconciliation, one after the other.\<close>

lemma reconcile_steps:
  assumes qp: "qpaths ob q st" and wf: "os_wf s" and std: "os_nodes s st \<noteq> Some Dir"
    and qe: "qe \<Longrightarrow> os_nodes s q \<noteq> None"
    and a: "publishQuarantine ob q oe qe s = (a, s3)" and b: "removeActive ob oe s3 = (b, s4)"
    and c: "writeQuarantineStateAtomic st state (tick s4) = (c, s5)"
  shows "keeps {ob, st} s s3"
    and "os_nodes s3 q \<noteq> os_nodes s q \<Longrightarrow>
       \<exists>i. is_ok a \<and> file_at s ob = Some i \<and> os_nodes s q = None \<and> os_nodes s3 q = Some (File i)"
    and "is_ok a \<Longrightarrow> os_nodes s3 q \<noteq> None"
    and "keeps {st} s s4" "os_nodes s4 q = os_nodes s3 q"
    and "if is_ok b then (if oe then os_nodes s4 ob = None \<and> file_at s ob \<noteq> None else s4 = s3)
       else os_nodes s4 ob = os_nodes s ob"
    and "keeps {} s s5" "os_nodes s5 q = os_nodes s3 q" "os_nodes s5 ob = os_nodes s4 ob"
    and "if is_ok c then content_at s5 st = Some (state_file state) else os_nodes s5 st = os_nodes s st"
proof -
  have ne: "ob \<noteq> q" "ob \<noteq> st" "q \<noteq> st" and tmp: "insert st {ob, q} \<inter>
      temp_names (filepath_Dir st) ''.quarantine-state-'' = {}"
    using qp by (auto simp: qpaths_def)
  note A = publishQuarantine_cases [OF a ne(1,3) qe] and B = removeActive_cases [OF b ne(1,2)]
  show k3: "keeps {ob, st} s s3" using A by simp
  show "os_nodes s3 q \<noteq> os_nodes s q \<Longrightarrow>
       \<exists>i. is_ok a \<and> file_at s ob = Some i \<and> os_nodes s q = None \<and> os_nodes s3 q = Some (File i)"
    using A by auto
  show "is_ok a \<Longrightarrow> os_nodes s3 q \<noteq> None" using A by auto
  show k4: "keeps {st} s s4" "os_nodes s4 q = os_nodes s3 q"
    using keeps_trans [of "{st}" s s3 s4] keeps_mono [OF k3] B keepsD(1) [of "{q, st}" s3 s4 q]
    by (auto intro: keeps_mono)
  show "if is_ok b then (if oe then os_nodes s4 ob = None \<and> file_at s ob \<noteq> None else s4 = s3)
       else os_nodes s4 ob = os_nodes s ob"
    using B keepsD(1,2) [OF k3, of ob] by auto
  have C: "keeps {ob, q} s4 s5 \<and> (if is_ok c
      then content_at s5 st = Some (state_file state) else os_nodes s5 st = os_nodes s4 st)"
    using writeQuarantineStateAtomic_cases [OF c, of "{ob, q}"] tmp ne std wf keepsD(1,4) [OF k4(1)]
    by (auto simp: keeps_def)
  then show "keeps {} s s5" "os_nodes s5 q = os_nodes s3 q" "os_nodes s5 ob = os_nodes s4 ob"
    using keeps_trans [of "{}" s s4 s5] keeps_mono [OF k4(1)] keepsD(1) [of "{ob, q}" s4 s5] k4(2)
    by (auto intro: keeps_mono)
  show "if is_ok c then content_at s5 st = Some (state_file state) else os_nodes s5 st = os_nodes s st"
    using C keepsD(1) [OF k4(1), of st] by simp
qed

lemma reconcileQuarantine_eq:
  assumes "exists ob s = (oe, tick s)" "exists q (tick s) = (qe, tick (tick s))"
    and "publishQuarantine ob q oe qe (tick (tick s)) = (a, s3)" "removeActive ob oe s3 = (b, s4)"
    and "writeQuarantineStateAtomic st (done_state state (os_clock s4 (os_tick s4))) (tick s4) = (c, s5)"
  shows "reconcileQuarantine ob q st state s =
     (if Status state = ''quarantined'' then
        (if \<not> qe \<or> oe then (Inl (Sentinel ErrQuarantineReconciliation), tick (tick s)) else (Inr (state, True), tick (tick s)))
      else if Status state \<noteq> ''pending'' then (Inl (Sentinel ErrQuarantineReconciliation), tick (tick s))
      else case a of Inl err \<Rightarrow> (Inl err, s3) | Inr _ \<Rightarrow>
        (case b of Inl err \<Rightarrow> (Inl err, s4) | Inr _ \<Rightarrow>
          (case c of Inl err \<Rightarrow> (Inl (Wrapped ''finalize quarantine state'' err), s5)
           | Inr _ \<Rightarrow> (Inr (done_state state (os_clock s4 (os_tick s4)), False), s5))))"
  using assms by (simp add: reconcileQuarantine_def sys_Now_def flip: done_state_def split: sum.split)

lemma reconcileQuarantine_cases:
  assumes run: "reconcileQuarantine ob q st state s = (r, s')" and qp: "qpaths ob q st"
    and wf: "os_wf s" and std: "os_nodes s st \<noteq> Some Dir"
  obtains (refused) e where "r = Inl e" "keeps {ob, q, st} s s'"
  | (replay) "r = Inr (state, True)" "Status state = ''quarantined''" "keeps {ob, q, st} s s'"
      "os_nodes s q \<noteq> None" "\<not> fst (exists ob s)"
  | (linked) e i where "r = Inl e" "keeps {ob, st} s s'" "file_at s ob = Some i"
      "os_nodes s q = None" "os_nodes s' q = Some (File i)"
  | (moved) now where "Status state = ''pending''" "keeps {} s s'"
      "os_nodes s' q = (if os_nodes s q = None then os_nodes s ob else os_nodes s q)"
      "os_nodes s' q \<noteq> None"
      "if fst (exists ob s) then os_nodes s' ob = None \<and> file_at s ob \<noteq> None
       else os_nodes s' ob = os_nodes s ob"
      "if is_ok r then r = Inr (done_state state now, False)
          \<and> content_at s' st = Some (state_file (done_state state now))
       else os_nodes s' st = os_nodes s st"
proof -
  let ?oe = "fst (exists ob s)" and ?qe = "fst (exists q (tick s))" and ?s2 = "tick (tick s)"
  have ex: "exists ob s = (?oe, tick s)" "exists q (tick s) = (?qe, tick (tick s))" by (simp_all add: prod_eq_iff)
  have q2: "os_nodes ?s2 q \<noteq> None" if ?qe using exists_True [of q "tick s"] that by simp
  obtain a s3 where a: "publishQuarantine ob q ?oe ?qe ?s2 = (a, s3)" by fastforce
  obtain b s4 where b: "removeActive ob ?oe s3 = (b, s4)" by fastforce
  let ?n = "os_clock s4 (os_tick s4)"
  obtain c s5 where c: "writeQuarantineStateAtomic st (done_state state ?n) (tick s4) = (c, s5)"
    by fastforce
  note eq = reconcileQuarantine_eq [OF ex a b c]
  have wf2: "os_wf ?s2" "os_nodes ?s2 st \<noteq> Some Dir" using wf std by simp_all
  note S = reconcile_steps [OF qp wf2 q2 a b c, simplified]
  consider (status) "Status state \<noteq> ''pending''" | (a) "Status state = ''pending''" "\<not> is_ok a"
    | (b) "Status state = ''pending''" "is_ok a" "\<not> is_ok b"
    | (c) "Status state = ''pending''" "is_ok a" "is_ok b" by blast
  then show thesis
  proof cases
    case status
    then show thesis
      using run eq refused replay q2 by (auto split: if_splits)
  next
    case a
    moreover have "os_nodes s3 q = os_nodes s q" using S(2) a by blast
    ultimately show thesis using run eq refused S(1) by (auto simp: keeps_insert split: sum.splits)
  next
    case b
    then have r: "\<exists>e. r = Inl e" "s' = s4" using run eq by (auto simp: is_ok_iff split: sum.splits)
    have k: "keeps {ob, st} s s4" using S(4,6) b by (simp add: keeps_insert)
    show thesis
    proof (cases "os_nodes s3 q = os_nodes s q")
      case True
      then show thesis using r refused k S(5) by (auto simp: keeps_insert)
    next
      case False
      then show thesis using r linked k S(2,5) by auto
    qed
  next
    case c
    have st5: "if is_ok r then r = Inr (done_state state ?n, False)
        \<and> content_at s' st = Some (state_file (done_state state ?n)) else os_nodes s' st = os_nodes s st"
      "s' = s5"
      using run eq c S(10) by (auto simp: is_ok_iff split: sum.splits)
    have q5: "os_nodes s5 q = (if os_nodes s q = None then os_nodes s ob else os_nodes s q)"
      by (cases "os_nodes s3 q = os_nodes s q") (use S(2,3,8) c in \<open>auto simp: file_at_iff\<close>)
    have ob5: "if ?oe then os_nodes s5 ob = None \<and> file_at s ob \<noteq> None else os_nodes s5 ob = os_nodes s ob"
      using S(6,9) keepsD(1) [OF S(1), of ob] c by (auto split: if_splits)
    show thesis
      by (rule moved [of ?n]) (use c st5 S(3,7,8) q5 ob5 in simp_all)
  qed
qed

section \<open>The names of one operation\<close>

lemma area_qpaths:
  assumes "wf_local l" "validStorageID sp" "validStorageID n"
  shows "qpaths (area_path l ''objects'' sp n) (area_path l ''quarantine'' sp n)
    (area_path l ''quarantine-state'' sp n)"
  using assms area_not_temp [OF assms(1) _ assms(2,3) _ assms(2), of _ "''quarantine-state''"]
  by (auto simp: qpaths_def area_path_inj area_path_Dir plain_comp_def)

section \<open>The whole operation under any schedule\<close>

lemma readQuarantineState_cases:
  assumes "readQuarantineState p s = (r, s')"
  shows "case r of Inl e \<Rightarrow> True
    | Inr None \<Rightarrow> os_nodes s p = None
    | Inr (Some state) \<Rightarrow> (\<exists>c. content_at s p = Some c \<and> parse_state c = Inr state)"
  using assms
  by (auto simp: readQuarantineState_def sys_ReadFile_def sys_Open_def sys_ReadAll_def content_at_def
      file_at_def split: sum.splits prod.splits if_splits option.splits fsnode.splits)

lemma exclusive_not_exist:
  assumes "os_nodes s p = None" "writeQuarantineStateExclusive p st s = (Inl e, s')"
  shows "\<not> errors_Is e OsErrExist"
  using assms
  by (auto simp: writeQuarantineStateExclusive_def sys_OpenCreate_def sys_Write_def sys_Quiet_def
      split: sum.splits prod.splits if_splits option.splits)

lemma beginQuarantine_cases:
  assumes run: "beginQuarantine sp n oid cid ob q st s = (r, s')"
    and free: "os_nodes s st = None" and st: "st \<notin> A"
  obtains (refused) e where "r = Inl e" "keeps (insert st A) s s'"
  | (record_failed) e where "r = Inl e" "keeps A s s'" "os_nodes s' st \<noteq> Some Dir"
  | (begun) now t where "keeps A s t" "\<not> fst (exists q s)" "os_nodes s ob \<noteq> None"
      "content_at t st = Some (state_file (pending_state sp n oid cid now))"
      "reconcileQuarantine ob q st (pending_state sp n oid cid now) t = (r, s')"
proof -
  define oe qe where "oe = fst (exists ob (tick s))" and "qe = fst (exists q s)"
  have ex: "exists ob (tick s) = (oe, tick (tick s))" "exists q s = (qe, tick s)"
    by (simp_all add: prod_eq_iff oe_def qe_def)
  define now where "now = os_clock s (os_tick (tick (tick s)))"
  let ?state = "pending_state sp n oid cid now" and ?s3 = "tick (tick (tick s))"
  have clock: "sys_Now (tick (tick s)) = (now, ?s3)" by (simp add: sys_Now_def now_def)
  obtain w s4 where w: "writeQuarantineStateExclusive st ?state ?s3 = (w, s4)" by fastforce
  have W: "keeps A s s4" "os_nodes s4 st \<noteq> Some Dir" "is_ok w \<Longrightarrow> content_at s4 st = Some (state_file ?state)"
    using writeQuarantineStateExclusive_cases [OF w st] free by auto
  show thesis
  proof (cases "qe \<or> \<not> oe")
    case True
    then show thesis
      using run ex refused by (cases qe) (auto simp: beginQuarantine_def)
  next
    case False
    then have ob: "os_nodes s ob \<noteq> None" using exists_True [of ob "tick s"] by (simp add: oe_def)
    have eq: "beginQuarantine sp n oid cid ob q st s =
       (case w of Inl err \<Rightarrow>
          if errors_Is err OsErrExist
          then (case readQuarantineState st s4 of
                  (Inr (Some state), s5) \<Rightarrow> resumeQuarantine ob q st oid cid state s5
                | (_, s5) \<Rightarrow> (Inl (Sentinel ErrQuarantineReconciliation), s5))
          else (Inl err, s4)
        | Inr _ \<Rightarrow> reconcileQuarantine ob q st ?state s4)"
      using False w by (simp add: beginQuarantine_def ex clock)
    show thesis
    proof (cases w)
      case (Inl e)
      then have "\<not> errors_Is e OsErrExist" using exclusive_not_exist [of ?s3 st] w free by simp
      then have "r = Inl e" "s' = s4" using run eq Inl by auto
      then show thesis using record_failed W by blast
    next
      case (Inr u)
      then show thesis
        using run eq W begun [of s4 now] ob False by (simp add: qe_def)
    qed
  qed
qed

definition qobject :: "Local option \<Rightarrow> string \<Rightarrow> string \<Rightarrow> string" where
  "qobject l sp n = area_path l ''objects'' sp n"

definition qpayload :: "Local option \<Rightarrow> string \<Rightarrow> string \<Rightarrow> string" where
  "qpayload l sp n = area_path l ''quarantine'' sp n"

definition qrecord :: "Local option \<Rightarrow> string \<Rightarrow> string \<Rightarrow> string" where
  "qrecord l sp n = area_path l ''quarantine-state'' sp n"

lemmas qdefs = qobject_def qpayload_def qrecord_def

definition qtemps :: "Local option \<Rightarrow> string \<Rightarrow> string \<Rightarrow> string set" where
  "qtemps l sp n = temp_names (filepath_Dir (qrecord l sp n)) ''.quarantine-state-''"

text \<open>The directories of the payload and of the record are there.\<close>

definition qdirs :: "Local option \<Rightarrow> string \<Rightarrow> string \<Rightarrow> os \<Rightarrow> bool" where
  "qdirs l sp n s \<longleftrightarrow>
     (\<forall>d \<in> set (path_ancestors (filepath_Dir (qpayload l sp n)))
          \<union> set (path_ancestors (filepath_Dir (qrecord l sp n))). os_nodes s d = Some Dir)"

lemma qdirs_keeps: "keeps A s t \<Longrightarrow> qdirs l sp n s \<Longrightarrow> qdirs l sp n t"
  by (auto simp: qdirs_def keepsD(8))

lemma temp_not_ancestor:
  assumes "wf_local l" "validStorageID sp" "validStorageID n" "plain_comp a"
  shows "qtemps l sp n \<inter> set (path_ancestors (filepath_Dir (area_path l a sp n))) = {}"
proof -
  define cs where "cs = local_comps l @ [a, sp]"
  have plain: "plain_comps cs" "plain_comps (local_comps l @ [''quarantine-state'', sp])"
    using assms wf_local_root [OF assms(1)] by (simp_all add: validStorageID_plain cs_def)
  have dir: "filepath_Dir (area_path l a sp n) = rooted_path cs"
    "filepath_Dir (qrecord l sp n) = rooted_path ((local_comps l @ [''quarantine-state'']) @ [sp])"
    using assms by (simp_all add: area_path_Dir cs_def qrecord_def)
  have False if z: "z \<in> qtemps l sp n" "z \<in> set (path_ancestors (rooted_path cs))" for z
  proof -
    obtain x where x: "z = rooted_path (local_comps l @ [''quarantine-state'', sp, x])" "plain_comp x"
      using temp_name_rooted [of z "local_comps l @ [''quarantine-state'']" sp "''.quarantine-state-''"]
        z(1) dir by (auto simp: qtemps_def plain_comp_def)
    obtain m where "z = rooted_path (take m cs)"
      using z(2) unfolding path_ancestors_def path_comps_rooted [OF plain(1)] set_map
      by (elim imageE) (simp del: upt_Suc)
    moreover have "plain_comps (take m cs)"
      using plain(1) by (auto simp: plain_comps_def dest!: in_set_takeD)
    ultimately have "take m cs = local_comps l @ [''quarantine-state'', sp, x]"
      using x plain(2) rooted_path_inj [of "take m cs" "local_comps l @ [''quarantine-state'', sp, x]"]
      by simp
    then have "length (take m cs) = length (local_comps l @ [''quarantine-state'', sp, x])" by simp
    then show False by (simp add: cs_def)
  qed
  then show ?thesis using dir by auto
qed

lemma qnames_MkdirAll_keeps:
  assumes "wf_local l" "validStorageID sp" "validStorageID n" "plain_comp a"
    and "sys_MkdirAll (filepath_Dir (area_path l a sp n)) s = (r, s')"
  shows "keeps ({qobject l sp n, qpayload l sp n, qrecord l sp n} \<union> qtemps l sp n) s s'"
  using assms area_path_not_ancestor [OF assms(1) _ assms(2,3,4,2)] temp_not_ancestor [OF assms(1-4)]
  by (intro sys_MkdirAll_keeps [OF assms(5)]) (auto simp: area_path_Dir qdefs)

text \<open>An operation up to the point where it has looked for a record.\<close>

lemma ApplyQuarantine_start:
  fixes l sp n
  defines "ob \<equiv> qobject l sp n" and "q \<equiv> qpayload l sp n" and "st \<equiv> qrecord l sp n"
    and "A \<equiv> {qobject l sp n, qpayload l sp n, qrecord l sp n} \<union> qtemps l sp n"
  assumes run: "ApplyQuarantine l sp n oid cid s = (r, s')" and wf: "wf_local l"
    and ids: "validStorageID sp" "validStorageID n" and os: "os_wf s"
  obtains (refused) e where "r = Inl e" "keeps A s s'"
  | (fresh) t where "keeps A s t" "qdirs l sp n t" "os_nodes t st = None"
      "beginQuarantine sp n oid cid ob q st t = (r, s')"
  | (recorded) state c t where "keeps A s t" "qdirs l sp n t" "content_at s st = Some c" "parse_state c = Inr state"
      "resumeQuarantine ob q st oid cid state t = (r, s')"
proof -
  have paths: "ObjectPath l sp n = Inr ob" "QuarantinePath l sp n = Inr q"
    "QuarantineStatePath l sp n = Inr st"
    using wf ids by (simp_all add: path_defs QuarantinePath_def QuarantineStatePath_def scopedPath_wf
        ob_def q_def st_def qdefs)
  obtain a s1 where a: "sys_MkdirAll (filepath_Dir q) s = (a, s1)" by fastforce
  obtain b s2 where b: "sys_MkdirAll (filepath_Dir st) s1 = (b, s2)" by fastforce
  obtain c s3 where c: "readQuarantineState st s2 = (c, s3)" by fastforce
  have k1: "keeps A s s1" and k12: "keeps A s1 s2"
    using qnames_MkdirAll_keeps [OF wf ids, of "''quarantine''" s a s1] a
      qnames_MkdirAll_keeps [OF wf ids, of "''quarantine-state''" s1 b s2] b
    by (simp_all add: A_def q_def st_def qpayload_def qrecord_def)
  note k2 = keeps_trans [OF k1 k12] and k23 = readQuarantineState_keeps [OF c, of A]
  note k3 = keeps_trans [OF k2 k23] and C = readQuarantineState_cases [OF c]
  have st: "st \<in> A" by (simp add: A_def st_def)
  show thesis
  proof (cases "validOperationID oid \<and> validOperationID cid \<and> is_ok a \<and> is_ok b \<and> is_ok c")
    case False
    then show thesis
      using run refused a b c paths k1 k2 k3
      by (auto simp: ApplyQuarantine_def is_ok_iff split: sum.splits if_splits)
  next
    case True
    then obtain f where f: "c = Inr f" by (auto simp: is_ok_iff)
    have dirs: "qdirs l sp n s3"
      using True a b sys_MkdirAll_dir [of "filepath_Dir q" s "()" s1]
        sys_MkdirAll_dir [of "filepath_Dir st" s1 "()" s2] keepsD(8) [OF k12] keepsD(8) [OF k23]
      by (auto simp: qdirs_def is_ok_iff q_def st_def)
    show thesis
    proof (cases f)
      case None
      have "os_nodes s3 st = None" using C f None keepsD(1) [OF k23 st] by simp
      then show thesis
        using fresh [OF k3 dirs] run True a b c paths f None by (auto simp: ApplyQuarantine_def is_ok_iff)
    next
      case (Some state)
      obtain d where d: "content_at s2 st = Some d" "parse_state d = Inr state" using C f Some by auto
      have "content_at s st = Some d" using keeps_content [OF k2 st os] d by simp
      then show thesis
        using recorded [OF k3 dirs] d(2) run True a b c paths f Some by (auto simp: ApplyQuarantine_def is_ok_iff)
    qed
  qed
qed

lemma ApplyQuarantine_cases:
  fixes l sp n
  defines "ob \<equiv> qobject l sp n" and "q \<equiv> qpayload l sp n" and "st \<equiv> qrecord l sp n"
    and "A \<equiv> {qobject l sp n, qpayload l sp n} \<union> qtemps l sp n"
  assumes run: "ApplyQuarantine l sp n oid cid s = (r, s')" and wf: "wf_local l"
    and ids: "validStorageID sp" "validStorageID n" and os: "os_wf s"
  obtains (refused) e where "r = Inl e" "keeps (insert st A) s s'"
  | (record_failed) e where "r = Inl e" "keeps A s s'" "os_nodes s st = None"
      "os_nodes s' st \<noteq> Some Dir"
  | (resumed) state c t where "keeps (insert st A) s t" "qdirs l sp n t" "content_at s st = Some c"
      "parse_state c = Inr state" "OperationID state = oid" "CorrelationID state = cid"
      "reconcileQuarantine ob q st state t = (r, s')"
  | (begun) now t where "keeps A s t" "qdirs l sp n t" "os_nodes s st = None" "os_nodes s ob \<noteq> None"
      "stat_ok s \<Longrightarrow> os_nodes s q = None"
      "content_at t st = Some (state_file (pending_state sp n oid cid now))"
      "reconcileQuarantine ob q st (pending_state sp n oid cid now) t = (r, s')"
proof -
  have A': "insert st A = {qobject l sp n, qpayload l sp n, qrecord l sp n} \<union> qtemps l sp n"
    by (auto simp: A_def st_def)
  have st: "st \<notin> A" and mem: "ob \<in> A" "q \<in> A"
    using area_qpaths [OF wf ids]
    by (auto simp: qpaths_def A_def ob_def q_def st_def qdefs qtemps_def)
  from run wf ids os show thesis
  proof (cases rule: ApplyQuarantine_start)
    case (refused e)
    then show thesis using that(1) by (simp add: A')
  next
    case (recorded state c t)
    then show thesis
      using that(1,3) unfolding A' by (auto simp: resumeQuarantine_def ob_def q_def st_def split: if_splits)
  next
    case (fresh t0)
    have kA: "keeps (insert st A) s t0" and beg: "beginQuarantine sp n oid cid ob q st t0 = (r, s')"
      and free: "os_nodes t0 st = None" using fresh unfolding A' by (simp_all add: ob_def q_def st_def)
    have k: "keeps A s t0" using kA by (rule keeps_mono) auto
    have free': "os_nodes s st = None" using free keepsD(1) [OF kA, of st] by simp
    from beg free st show thesis
    proof (cases rule: beginQuarantine_cases)
      case (refused e)
      then show thesis using that(1) keeps_trans [OF kA] by blast
    next
      case (record_failed e)
      then show thesis using that(2) keeps_trans [OF k] free' by blast
    next
      case (begun now t)
      have "os_nodes s q = None" if "stat_ok s"
        using that begun exists_ok [of t0 q] keepsD(1,6) [OF k] mem by auto
      moreover have "os_nodes s ob \<noteq> None" using begun keepsD(1) [OF k, of ob] mem by auto
      ultimately show thesis
        using that(4) keeps_trans [OF k begun(1)] free' begun qdirs_keeps [OF begun(1) fresh(2)] by blast
    qed
  qed
qed

section \<open>The payload is never lost\<close>

lemma qnames_qpaths:
  "wf_local l \<Longrightarrow> validStorageID sp \<Longrightarrow> validStorageID n \<Longrightarrow>
   qpaths (qobject l sp n) (qpayload l sp n) (qrecord l sp n)"
  using area_qpaths by (simp add: qdefs)

text \<open>A payload \<open>i\<close> has one of the two names, and nothing else has the quarantine name.\<close>

definition payload_at :: "string \<Rightarrow> string \<Rightarrow> nat \<Rightarrow> os \<Rightarrow> bool" where
  "payload_at ob q i s \<longleftrightarrow>
     (file_at s ob = Some i \<or> file_at s q = Some i)
     \<and> (os_nodes s q = None \<or> file_at s q = Some i)"

lemma payload_at_keeps: "keeps A s t \<Longrightarrow> ob \<in> A \<Longrightarrow> q \<in> A \<Longrightarrow> payload_at ob q i s \<Longrightarrow> payload_at ob q i t"
  by (simp add: payload_at_def keepsD)

lemma reconcileQuarantine_payload:
  assumes "reconcileQuarantine ob q st state s = (r, s')" "qpaths ob q st"
    and "os_wf s" "os_nodes s st \<noteq> Some Dir" and p: "payload_at ob q i s" and ob: "file_at s ob = Some i \<or> os_nodes s ob = None"
  shows "payload_at ob q i s' \<and> keeps {} s s'"
  using assms(1-4)
proof (cases rule: reconcileQuarantine_cases)
  case (refused e)
  then show ?thesis using payload_at_keeps [OF refused(2) _ _ p] keeps_mono [OF refused(2)] by auto
next
  case replay
  then show ?thesis using payload_at_keeps [OF replay(3) _ _ p] keeps_mono [OF replay(3)] by auto
next
  case (linked e j)
  then show ?thesis
    using p keepsD(2) [OF linked(2), of ob] keeps_mono [OF linked(2)]
    by (auto simp: payload_at_def file_at_iff)
next
  case (moved now)
  then show ?thesis
    using p ob by (auto simp: payload_at_def file_at_iff split: if_splits)
qed

lemma ApplyQuarantine_payload:
  fixes l sp n
  defines "ob \<equiv> qobject l sp n" and "q \<equiv> qpayload l sp n"
  assumes run: "ApplyQuarantine l sp n oid cid s = (r, s')" and wf: "wf_local l"
    and ids: "validStorageID sp" "validStorageID n" and os: "os_wf s"
    and st: "os_nodes s (qrecord l sp n) \<noteq> Some Dir"
    and p: "payload_at ob q i s" and ob: "file_at s ob = Some i \<or> os_nodes s ob = None"
  shows "payload_at ob q i s' \<and> (\<forall>j < os_next s. os_data s' j = os_data s j)"
proof -
  let ?st = "qrecord l sp n" and ?A = "{qobject l sp n, qpayload l sp n} \<union> qtemps l sp n"
  have mem: "ob \<in> ?A" "q \<in> ?A" by (simp_all add: ob_def q_def)
  have rec: ?thesis
    if r: "reconcileQuarantine ob q ?st state t = (r, s')" and k: "keeps ?A s t"
      and t: "os_nodes t ?st \<noteq> Some Dir" for state t
  proof -
    have "payload_at ob q i s' \<and> keeps {} t s'"
      using reconcileQuarantine_payload [OF r _ _ t] qnames_qpaths [OF wf ids] keepsD(1,2,4) [OF k] os p ob
        payload_at_keeps [OF k _ _ p] mem by (simp add: ob_def q_def)
    then show ?thesis using keepsD(3,7) [OF k] keepsD(3) [of "{}" t s'] by (metis order_less_le_trans)
  qed
  from run wf ids os show ?thesis
  proof (cases rule: ApplyQuarantine_cases)
    case (refused e)
    then show ?thesis
      using payload_at_keeps [OF refused(2) _ _ p] keepsD(3) [OF refused(2)] mem by auto
  next
    case (record_failed e)
    then show ?thesis
      using payload_at_keeps [OF record_failed(2) _ _ p] keepsD(3) [OF record_failed(2)] mem by auto
  next
    case (resumed state c t)
    then show ?thesis
      using rec [of state t] keeps_mono [OF resumed(1), of ?A] st keepsD(1) [OF resumed(1), of ?st]
      by (auto simp: ob_def q_def)
  next
    case (begun now t)
    moreover from begun have "os_nodes t ?st \<noteq> Some Dir" by (auto simp: content_at_def file_at_def)
    ultimately show ?thesis using rec by (auto simp: ob_def q_def)
  qed
qed

section \<open>Success isolates the payload\<close>

lemma reconcileQuarantine_isolates:
  assumes "reconcileQuarantine ob q st state s = (Inr (state', replay), s')" "qpaths ob q st"
    and "os_wf s" "os_nodes s st \<noteq> Some Dir" and so: "stat_ok s"
  shows "os_nodes s' ob = None \<and> os_nodes s' q \<noteq> None \<and> Status state' = ''quarantined''
    \<and> OperationID state' = OperationID state \<and> CorrelationID state' = CorrelationID state
    \<and> content_at s' st = (if replay then content_at s st else Some (state_file state'))"
  using assms(1-4)
proof (cases rule: reconcileQuarantine_cases)
  case replay
  then show ?thesis
    using keepsD(1) [OF replay(3)] keeps_content [OF replay(3) _ assms(3)] exists_ok [OF so] by auto
next
  case (moved now)
  then show ?thesis using exists_ok [OF so] by (auto simp: done_state_def split: if_splits)
qed auto

lemma ApplyQuarantine_isolates:
  assumes run: "ApplyQuarantine l sp n oid cid s = (Inr (state, replay), s')" and wf: "wf_local l"
    and ids: "validStorageID sp" "validStorageID n" and os: "os_wf s" and so: "stat_ok s"
    and st: "os_nodes s (qrecord l sp n) \<noteq> Some Dir"
  shows "os_nodes s' (qobject l sp n) = None \<and> os_nodes s' (qpayload l sp n) \<noteq> None
    \<and> Status state = ''quarantined'' \<and> OperationID state = oid \<and> CorrelationID state = cid
    \<and> (if replay then \<exists>c. content_at s' (qrecord l sp n) = Some c \<and> parse_state c = Inr state
       else content_at s' (qrecord l sp n) = Some (state_file state))"
  using run wf ids os
proof (cases rule: ApplyQuarantine_cases)
  case (resumed old c t)
  have t: "os_wf t" "stat_ok t" "os_nodes t (qrecord l sp n) \<noteq> Some Dir"
    "content_at t (qrecord l sp n) = Some c"
    using keepsD(1,4,6) [OF resumed(1)] keeps_content [OF resumed(1) _ os] os so st resumed(3) by auto
  have "replay \<longrightarrow> state = old"
    using resumed(7) qnames_qpaths [OF wf ids] t(1,3)
    by (cases rule: reconcileQuarantine_cases) (auto split: if_splits)
  with reconcileQuarantine_isolates [OF resumed(7) qnames_qpaths [OF wf ids] t(1,3,2)] resumed t
  show ?thesis by auto
next
  case (begun now t)
  have t: "os_wf t" "stat_ok t" "os_nodes t (qrecord l sp n) \<noteq> Some Dir"
    using keepsD(4,6) [OF begun(1)] os so begun(6) by (auto simp: content_at_def file_at_def)
  have "\<not> replay"
    using begun(7) qnames_qpaths [OF wf ids] t(1,3)
    by (cases rule: reconcileQuarantine_cases) (auto simp: pending_state_def split: if_splits)
  with reconcileQuarantine_isolates [OF begun(7) qnames_qpaths [OF wf ids] t(1,3,2)]
  show ?thesis by (auto simp: pending_state_def)
qed auto

end
