(* ===== verification/Quarantine_Recovery.thy ===== *)
theory Quarantine_Recovery
  imports Storage_Quarantine
begin

text \<open>
  What \<^verbatim>\<open>internal/storage/quarantine.go\<close> promises across failures: the operation record survives
  its encoding, a run on a reliable system completes or leaves the object active, and a run that
  was interrupted at any call is completed by the next one. Reading back, replaying and conflicting
  operations are treated at the end.
\<close>

section \<open>The record survives its encoding\<close>

text \<open>Every field is text that \<^verbatim>\<open>json.Marshal\<close> copies unchanged, and the required ones are set.\<close>

definition wf_state :: "QuarantineState \<Rightarrow> bool" where
  "wf_state st \<longleftrightarrow>
     list_all json_plain [SpaceID st, NodeID st, OperationID st, CorrelationID st, Status st,
       StateRef st, EvidenceRef st, ObservedAt st]
     \<and> SpaceID st \<noteq> [] \<and> NodeID st \<noteq> [] \<and> OperationID st \<noteq> [] \<and> CorrelationID st \<noteq> []
     \<and> StateRef st \<noteq> [] \<and> EvidenceRef st \<noteq> []"

lemma parse_state_file: "wf_state st \<Longrightarrow> parse_state (state_file st) = Inr st"
proof -
  assume wf: "wf_state st"
  have "json_text (state_file st) = Some (JObj (json_strs (state_members st)))"
    unfolding state_file_def
    using wf by (intro json_text_object)
      (auto simp: state_members_def wf_state_def json_plain_def json_safe_def json_ws_def)
  then have "json_Unmarshal state_fields zero_state (state_file st) = Some st"
    by (simp add: json_Unmarshal_def json_strs_def state_members_def json_field_def state_fields_def
        zero_state_def)
  with wf show ?thesis by (auto simp: parse_state_def wf_state_def)
qed

lemma json_plain_uuid: "validStorageID v \<Longrightarrow> json_plain v"
  by (auto simp: json_plain_def list_all_iff json_safe_def uuid_char_def is_lower_hex_def
      dest!: validStorageID_chars)

lemma json_plain_time: "json_plain (format_RFC3339Nano t)"
  by (auto simp: json_plain_def list_all_iff json_safe_def time_char_def
      dest!: format_RFC3339Nano_chars)

lemma validOperationID_plain:
  assumes "validOperationID v" "TrimSpace v = v"
  shows "json_plain v \<and> v \<noteq> []"
proof -
  have "r < 128" if "alnum_rune r \<or> punct_rune r" for r
    using that by (auto simp: alnum_rune_def punct_rune_def)
  from runes_check [of "\<lambda>_ r. alnum_rune r \<or> punct_rune r" v, OF this] assms
  have "\<forall>i < length v. alnum_rune (byte_of (v ! i)) \<or> punct_rune (byte_of (v ! i))"
    by (simp add: validOperationID_def Let_def list_all_iff case_prod_unfold)
  then show ?thesis
    using assms
    by (auto simp: json_plain_def list_all_length json_safe_def alnum_rune_def punct_rune_def
        validOperationID_def Let_def)
qed

lemma pending_state_wf:
  assumes "validStorageID sp" "validStorageID n" "validOperationID oid" "validOperationID cid"
    "TrimSpace oid = oid" "TrimSpace cid = cid"
  shows "wf_state (pending_state sp n oid cid now)"
  using assms json_plain_uuid [of sp] json_plain_uuid [of n] validOperationID_plain [of oid]
    validOperationID_plain [of cid] json_plain_time [of now]
  by (auto simp: wf_state_def pending_state_def json_safe_def)

lemma done_state_wf: "wf_state st \<Longrightarrow> wf_state (done_state st now)"
  by (simp add: wf_state_def done_state_def json_plain_time json_safe_def)

section \<open>A reliable system completes the operation\<close>

text \<open>The temporary names the random source will give are free.\<close>

definition fresh_temps :: "Local option \<Rightarrow> string \<Rightarrow> string \<Rightarrow> os \<Rightarrow> bool" where
  "fresh_temps l sp n s \<longleftrightarrow>
     (\<forall>k. os_nodes s (temp_name (filepath_Dir (qrecord l sp n)) ''.quarantine-state-''
            (os_suffix s k)) = None)"

lemma fresh_temps_keeps:
  "keeps A s t \<Longrightarrow> qtemps l sp n \<subseteq> A \<Longrightarrow> fresh_temps l sp n t = fresh_temps l sp n s"
  by (auto simp: fresh_temps_def keeps_def qtemps_def temp_names_def image_subset_iff)

lemma qrecord_temp_dir:
  assumes "wf_local l" "validStorageID sp" "validStorageID n"
  shows "filepath_Dir (temp_name (filepath_Dir (qrecord l sp n)) ''.quarantine-state-'' w)
    = filepath_Dir (qrecord l sp n)"
proof -
  let ?cs = "local_comps l @ [''quarantine-state'', sp]"
  have dir: "filepath_Dir (qrecord l sp n) = rooted_path ?cs"
    using assms by (simp add: qrecord_def area_path_Dir)
  have "plain_comps ?cs"
    using assms wf_local_root [OF assms(1)] by (simp add: validStorageID_plain)
  moreover obtain x where
    "temp_name (rooted_path ?cs) ''.quarantine-state-'' w = rooted_path (?cs @ [x])" "plain_comp x"
    using temp_name_rooted [of "temp_name (rooted_path ?cs) ''.quarantine-state-'' w"
        "local_comps l @ [''quarantine-state'']" sp "''.quarantine-state-''"]
    by (auto simp: temp_names_def plain_comp_def)
  ultimately show ?thesis
    using dir filepath_Dir_rooted [of ?cs x] by simp
qed

lemma atomic_reliable:
  assumes wf: "wf_local l" "validStorageID sp" "validStorageID n" and rel: "reliable s"
    and dir: "os_nodes s (filepath_Dir (qrecord l sp n)) = Some Dir"
    and st: "os_nodes s (qrecord l sp n) \<noteq> Some Dir" and fresh: "fresh_temps l sp n s"
  shows "is_ok (fst (writeQuarantineStateAtomic (qrecord l sp n) state s))"
proof -
  let ?st = "qrecord l sp n"
  have tmp: "{?st} \<inter> temp_names (filepath_Dir ?st) ''.quarantine-state-'' = {}"
    using qnames_qpaths [OF wf] by (auto simp: qpaths_def)
  obtain p i s1 where c: "sys_CreateTemp (filepath_Dir ?st) ''.quarantine-state-'' s = (Inr (p, i), s1)"
    using reliable_CreateTemp [OF rel dir] qrecord_temp_dir [OF wf] fresh
    unfolding fresh_temps_def by metis
  from c tmp show ?thesis
  proof (cases rule: sys_CreateTempE)
    case (ok t)
    then have r1: "reliable s1" "os_nodes s1 (filepath_Dir ?st) = Some Dir" "os_nodes s1 ?st \<noteq> Some Dir"
      using keepsD(1,5,8) [OF ok(2)] rel dir st by auto
    then show ?thesis
      using c ok
      by (auto simp: writeQuarantineStateAtomic_def reliable_calls deferRemove_def sys_Rename_def
          file_at_iff set_data_def[symmetric])
  qed simp
qed

lemma temp_name_mem: "temp_name dir prefix w \<in> temp_names dir prefix"
  by (simp add: temp_names_def)

lemma qdirs_dir:
  assumes "wf_local l" "validStorageID sp" "validStorageID n" "qdirs l sp n s"
  shows "os_nodes s (filepath_Dir (qpayload l sp n)) = Some Dir"
    "os_nodes s (filepath_Dir (qrecord l sp n)) = Some Dir"
proof -
  have "plain_comps (local_comps l @ [a, sp])" if "plain_comp a" for a
    using assms that wf_local_root [OF assms(1)] by (simp add: validStorageID_plain)
  then have "filepath_Dir (area_path l a sp n) \<in> set (path_ancestors (filepath_Dir (area_path l a sp n)))"
    if "plain_comp a" for a
    using that assms path_ancestors_self by (simp add: area_path_Dir)
  then show "os_nodes s (filepath_Dir (qpayload l sp n)) = Some Dir"
    "os_nodes s (filepath_Dir (qrecord l sp n)) = Some Dir"
    using assms(4) by (simp_all add: qdirs_def qdefs)
qed

lemma area_neq_Dir:
  assumes "wf_local l" "validStorageID sp" "validStorageID n" "plain_comp a" "plain_comp b"
  shows "area_path l a sp n \<noteq> filepath_Dir (area_path l b sp n)"
  using assms wf_local_root [OF assms(1)] area_path_Dir [OF assms(1,5,2,3)]
  by (simp add: area_path_def rooted_path_inj validStorageID_plain)

lemma reconcileQuarantine_reliable:
  assumes wf: "wf_local l" "validStorageID sp" "validStorageID n" and rel: "reliable s"
    and dirs: "qdirs l sp n s" and st: "os_nodes s (qrecord l sp n) \<noteq> Some Dir"
    and fresh: "fresh_temps l sp n s" and status: "Status state = ''pending''"
    and ob: "os_nodes s (qobject l sp n) \<noteq> Some Dir"
    and q: "os_nodes s (qpayload l sp n) \<noteq> None \<or> file_at s (qobject l sp n) \<noteq> None"
  shows "is_ok (fst (reconcileQuarantine (qobject l sp n) (qpayload l sp n) (qrecord l sp n) state s))"
proof -
  let ?ob = "qobject l sp n" and ?q = "qpayload l sp n" and ?st = "qrecord l sp n"
  have ne: "?ob \<noteq> ?q" "?ob \<noteq> ?st" "?q \<noteq> ?st"
    using qnames_qpaths [OF wf] by (simp_all add: qpaths_def)
  have tmp: "temp_name (filepath_Dir ?st) ''.quarantine-state-'' w \<notin> {?ob, ?q}" for w
    using qnames_qpaths [OF wf] temp_name_mem [of "filepath_Dir ?st" "''.quarantine-state-''" w]
    unfolding qpaths_def by blast
  have dne: "?ob \<noteq> filepath_Dir ?st" "?q \<noteq> filepath_Dir ?st" "?ob \<noteq> filepath_Dir ?q"
    using area_neq_Dir [OF wf] by (simp_all add: qdefs)
  note d = qdirs_dir [OF wf dirs]
  have last: "is_ok (fst (case writeQuarantineStateAtomic ?st z (tick t) of
        (Inl e, u) \<Rightarrow> (Inl (f e), u) | (Inr _, u) \<Rightarrow> (Inr g, u)))"
    if "reliable t" "os_suffix t = os_suffix s"
      "\<And>x. x \<notin> {?ob, ?q} \<Longrightarrow> os_nodes t x = os_nodes s x" for t z f and g :: "'b"
  proof -
    have "fresh_temps l sp n t"
      unfolding fresh_temps_def using fresh that(2,3) tmp by (simp add: fresh_temps_def)
    then have "fresh_temps l sp n (tick t)" by (simp add: fresh_temps_def)
    then have "is_ok (fst (writeQuarantineStateAtomic ?st z (tick t)))"
      using that d(2) dne st ne by (intro atomic_reliable [OF wf]) auto
    then show ?thesis by (auto simp: is_ok_iff split: prod.splits sum.splits)
  qed
  have link: "sys_Link ?ob ?q (tick (tick s)) = (Inr (), tick (add_name ?q i (tick (tick s))))"
    if "os_nodes s ?q = None" "os_nodes s ?ob = Some (File i)" for i
    using rel that d by (simp add: sys_Link_def add_name_def)
  have rm: "sys_Remove ?ob t = (Inr (), tick (del_name ?ob t))"
    if "reliable t" "os_nodes t ?ob = Some (File i)" for i t
    using that by (simp add: sys_Remove_def del_name_def)
  obtain i where "os_nodes s ?ob = None \<and> os_nodes s ?q \<noteq> None \<or> os_nodes s ?ob = Some (File i)"
    using ob q by (cases "os_nodes s ?ob"; cases "the (os_nodes s ?ob)") (auto simp: file_at_iff)
  then show ?thesis
  proof
    assume "os_nodes s ?ob = None \<and> os_nodes s ?q \<noteq> None"
    then show ?thesis
      using rel status last [of "tick (tick s)"]
      by (auto simp: reconcileQuarantine_def exists_def reliable_calls publishQuarantine_def
          removeActive_def sys_Now_def Let_def)
  next
    assume f: "os_nodes s ?ob = Some (File i)"
    show ?thesis
    proof (cases "os_nodes s ?q = None")
      case True
      let ?t = "tick (add_name ?q i (tick (tick s)))"
      show ?thesis
        using f True rel status last [of "tick (del_name ?ob ?t)"] link [OF True f] rm [of ?t i] ne
        by (auto simp: reconcileQuarantine_def exists_def reliable_calls publishQuarantine_def
            removeActive_def sys_Now_def Let_def)
    next
      case False
      then show ?thesis
        using f rel status last [of "tick (del_name ?ob (tick (tick s)))"] rm [of "tick (tick s)" i]
        by (auto simp: reconcileQuarantine_def exists_def reliable_calls publishQuarantine_def
            removeActive_def sys_Now_def Let_def)
    qed
  qed
qed

lemma ApplyQuarantine_reliable_start:
  fixes l sp n
  defines "ob \<equiv> qobject l sp n" and "q \<equiv> qpayload l sp n" and "st \<equiv> qrecord l sp n"
  assumes wf: "wf_local l" "validStorageID sp" "validStorageID n" and rel: "reliable s"
    and op: "validOperationID oid" "validOperationID cid"
    and mk: "mkdir_ok s (filepath_Dir q)" "mkdir_ok s (filepath_Dir st)"
  shows "\<exists>t. keeps ({ob, q, st} \<union> qtemps l sp n) s t \<and> qdirs l sp n t \<and> reliable t
    \<and> ApplyQuarantine l sp n oid cid s =
       (case readQuarantineState st t of
          (Inl err, t1) \<Rightarrow> (Inl err, t1)
        | (Inr (Some state), t1) \<Rightarrow> resumeQuarantine ob q st oid cid state t1
        | (Inr None, t1) \<Rightarrow> beginQuarantine sp n oid cid ob q st t1)"
proof -
  have paths: "ObjectPath l sp n = Inr ob" "QuarantinePath l sp n = Inr q"
    "QuarantineStatePath l sp n = Inr st"
    using wf by (simp_all add: path_defs QuarantinePath_def QuarantineStatePath_def scopedPath_wf
        ob_def q_def st_def qdefs)
  obtain s1 where a: "sys_MkdirAll (filepath_Dir q) s = (Inr (), s1)"
    using reliable_MkdirAll [OF rel mk(1)] by blast
  note f1 = sys_MkdirAll_frame [OF a]
  have "reliable s1" "mkdir_ok s1 (filepath_Dir st)"
    using rel mk(2) mkdir_ok_same [OF f1] same_filesD [OF f1] by simp_all
  then obtain s2 where b: "sys_MkdirAll (filepath_Dir st) s1 = (Inr (), s2)"
    using reliable_MkdirAll by blast
  have k1: "keeps ({ob, q, st} \<union> qtemps l sp n) s s1"
    using qnames_MkdirAll_keeps [OF wf, of "''quarantine''"] a
    by (simp add: ob_def q_def st_def qpayload_def)
  have k2: "keeps ({ob, q, st} \<union> qtemps l sp n) s1 s2"
    using qnames_MkdirAll_keeps [OF wf, of "''quarantine-state''"] b
    by (simp add: ob_def q_def st_def qrecord_def)
  have "qdirs l sp n s2"
    using sys_MkdirAll_dir [OF a] sys_MkdirAll_dir [OF b] keepsD(8) [OF k2]
    by (auto simp: qdirs_def q_def st_def)
  moreover have "keeps ({ob, q, st} \<union> qtemps l sp n) s s2" by (rule keeps_trans [OF k1 k2])
  moreover have "reliable s2" using rel keepsD(5) [OF calculation(2)] by simp
  ultimately show ?thesis
    using op paths a b by (intro exI [of _ s2]) (simp add: ApplyQuarantine_def)
qed

lemma qdirs_mkdir_ok:
  "qdirs l sp n s \<Longrightarrow> mkdir_ok s (filepath_Dir (qpayload l sp n)) \<and> mkdir_ok s (filepath_Dir (qrecord l sp n))"
  by (auto simp: qdirs_def mkdir_ok_def list_all_iff not_file_def)

lemma readQuarantineState_reliable:
  assumes "reliable s"
  shows "os_nodes s p = None \<Longrightarrow> readQuarantineState p s = (Inr None, tick s)"
    and "content_at s p = Some c \<Longrightarrow> parse_state c = Inr state \<Longrightarrow>
      readQuarantineState p s = (Inr (Some state), tick (tick s))"
  using assms
  by (auto simp: readQuarantineState_def sys_ReadFile_def sys_Open_def sys_ReadAll_def content_at_def
      file_at_iff split: option.splits)

lemma exclusive_reliable:
  assumes "reliable s" "os_nodes s p = None" "os_nodes s (filepath_Dir p) = Some Dir"
  shows "is_ok (fst (writeQuarantineStateExclusive p st s))"
  using assms
  by (simp add: writeQuarantineStateExclusive_def sys_OpenCreate_def reliable_calls
      flip: new_file_def)

text \<open>A recorded operation is resumed to its end.\<close>

lemma ApplyQuarantine_resumes:
  assumes wf: "wf_local l" "validStorageID sp" "validStorageID n" and rel: "reliable s" and os: "os_wf s"
    and op: "validOperationID oid" "validOperationID cid"
    and mk: "mkdir_ok s (filepath_Dir (qpayload l sp n))" "mkdir_ok s (filepath_Dir (qrecord l sp n))"
    and rec: "content_at s (qrecord l sp n) = Some c" "parse_state c = Inr state"
      "OperationID state = oid" "CorrelationID state = cid" "Status state = ''pending''"
    and fresh: "fresh_temps l sp n s" and ob: "os_nodes s (qobject l sp n) \<noteq> Some Dir"
    and q: "os_nodes s (qpayload l sp n) \<noteq> None \<or> file_at s (qobject l sp n) \<noteq> None"
  shows "is_ok (fst (ApplyQuarantine l sp n oid cid s))"
proof -
  let ?ob = "qobject l sp n" and ?q = "qpayload l sp n" and ?st = "qrecord l sp n"
  obtain t where k: "keeps ({?ob, ?q, ?st} \<union> qtemps l sp n) s t" and d: "qdirs l sp n t" "reliable t"
    and eq: "ApplyQuarantine l sp n oid cid s =
       (case readQuarantineState ?st t of
          (Inl err, t1) \<Rightarrow> (Inl err, t1)
        | (Inr (Some state), t1) \<Rightarrow> resumeQuarantine ?ob ?q ?st oid cid state t1
        | (Inr None, t1) \<Rightarrow> beginQuarantine sp n oid cid ?ob ?q ?st t1)"
    using ApplyQuarantine_reliable_start [OF wf rel op mk] by blast
  let ?t = "tick (tick t)"
  have "content_at t ?st = Some c" using keeps_content [OF k _ os, of ?st] rec by simp
  then have "ApplyQuarantine l sp n oid cid s = reconcileQuarantine ?ob ?q ?st state ?t"
    using eq readQuarantineState_reliable(2) [OF d(2)] rec by (simp add: resumeQuarantine_def)
  moreover have "fresh_temps l sp n ?t"
    using fresh_temps_keeps [of _ s ?t] k fresh by (metis keeps_tick(1) sup_ge2)
  moreover have "os_nodes t ?st \<noteq> Some Dir"
    using rec(1) keepsD(1) [OF k, of ?st] by (auto simp: content_at_def file_at_def)
  ultimately show ?thesis
    using reconcileQuarantine_reliable [OF wf, of ?t state] d rec ob q keepsD(1,2) [OF k]
    by (auto simp: qdirs_def)
qed

lemma ApplyQuarantine_completes:
  assumes wf: "wf_local l" "validStorageID sp" "validStorageID n" and rel: "reliable s" and os: "os_wf s"
    and op: "validOperationID oid" "validOperationID cid"
    and mk: "mkdir_ok s (filepath_Dir (qpayload l sp n))" "mkdir_ok s (filepath_Dir (qrecord l sp n))"
    and free: "os_nodes s (qrecord l sp n) = None" "os_nodes s (qpayload l sp n) = None"
    and fresh: "fresh_temps l sp n s" and ob: "file_at s (qobject l sp n) = Some i"
  shows "is_ok (fst (ApplyQuarantine l sp n oid cid s))"
proof -
  let ?ob = "qobject l sp n" and ?q = "qpayload l sp n" and ?st = "qrecord l sp n"
  let ?A = "{?ob, ?q} \<union> qtemps l sp n"
  obtain t where k: "keeps ({?ob, ?q, ?st} \<union> qtemps l sp n) s t" and d: "qdirs l sp n t" "reliable t"
    and eq: "ApplyQuarantine l sp n oid cid s =
       (case readQuarantineState ?st t of
          (Inl err, t1) \<Rightarrow> (Inl err, t1)
        | (Inr (Some state), t1) \<Rightarrow> resumeQuarantine ?ob ?q ?st oid cid state t1
        | (Inr None, t1) \<Rightarrow> beginQuarantine sp n oid cid ?ob ?q ?st t1)"
    using ApplyQuarantine_reliable_start [OF wf rel op mk] by blast
  have t: "os_nodes t ?st = None" "os_nodes t ?q = None" "file_at t ?ob = Some i" "os_wf t"
    using keepsD(1,2,4) [OF k] free ob os by auto
  have "st \<notin> ?A" if "st = ?st" for st
    using qnames_qpaths [OF wf] that by (auto simp: qpaths_def qtemps_def)
  then have stA: "?st \<notin> ?A" by simp
  let ?t = "tick (tick (tick (tick t)))"
  define now where "now = os_clock t (os_tick (tick (tick (tick t))))"
  let ?state = "pending_state sp n oid cid now"
  obtain w u where w: "writeQuarantineStateExclusive ?st ?state ?t = (w, u)" by fastforce
  have "is_ok w" using exclusive_reliable [of ?t ?st ?state] w d t qdirs_dir [OF wf d(1)] by simp
  then obtain x where x: "w = Inr x" by (auto simp: is_ok_iff)
  have eq2: "ApplyQuarantine l sp n oid cid s = reconcileQuarantine ?ob ?q ?st ?state u"
    using eq readQuarantineState_reliable(1) [OF d(2) t(1)] w x t(2,3) d(2)
    by (simp add: beginQuarantine_def exists_def reliable_calls sys_Now_def now_def file_at_iff)
  have ku: "keeps ?A t u" and cu: "content_at u ?st = Some (state_file ?state)"
    using writeQuarantineStateExclusive_cases [OF w stA] x by auto
  have "fresh_temps l sp n u"
    using fresh_temps_keeps [OF ku, of l sp n] fresh_temps_keeps [OF k, of l sp n] fresh by auto
  moreover have "os_nodes u ?st \<noteq> Some Dir" using cu by (auto simp: content_at_def file_at_def)
  moreover have "os_nodes u ?ob \<noteq> Some Dir" "file_at u ?ob \<noteq> None"
    using keepsD(1,2) [OF ku, of ?ob] t by (auto simp: file_at_iff)
  ultimately show ?thesis
    using eq2 reconcileQuarantine_reliable [OF wf, of u ?state] qdirs_keeps [OF ku d(1)] keepsD(5) [OF ku] d(2)
    by (simp add: pending_state_def)
qed

section \<open>Crash and retry\<close>

text \<open>What a run leaves behind, at whatever call it stopped: the object is still active, or it is
  in quarantine with a record from which the operation can be resumed.\<close>

definition resumable :: "Local option \<Rightarrow> string \<Rightarrow> string \<Rightarrow> string \<Rightarrow> string \<Rightarrow> os \<Rightarrow> bool" where
  "resumable l sp n oid cid s \<longleftrightarrow>
     qdirs l sp n s \<and> os_nodes s (qobject l sp n) = None
     \<and> (\<exists>state. content_at s (qrecord l sp n) = Some (state_file state) \<and> wf_state state
          \<and> OperationID state = oid \<and> CorrelationID state = cid
          \<and> Status state \<in> {''pending'', ''quarantined''})"

lemma ApplyQuarantine_crash:
  assumes run: "ApplyQuarantine l sp n oid cid s = (r, s')" and wf: "wf_local l"
    and ids: "validStorageID sp" "validStorageID n" and os: "os_wf s"
    and op: "validOperationID oid" "validOperationID cid" "TrimSpace oid = oid" "TrimSpace cid = cid"
    and free: "os_nodes s (qrecord l sp n) = None" and ob: "file_at s (qobject l sp n) = Some i"
  shows "os_wf s' \<and> os_nodes s' (qrecord l sp n) \<noteq> Some Dir
    \<and> (file_at s' (qobject l sp n) = Some i \<or> resumable l sp n oid cid s')"
  using run wf ids os
proof (cases rule: ApplyQuarantine_cases)
  case (refused e)
  then show ?thesis using keepsD(1,2,4) [OF refused(2)] os free ob by auto
next
  case (record_failed e)
  then show ?thesis using keepsD(2,4) [OF record_failed(2)] os ob by auto
next
  case (resumed state c t)
  then show ?thesis using free by (simp add: content_at_def file_at_def)
next
  case (begun now t)
  let ?ob = "qobject l sp n" and ?st = "qrecord l sp n" and ?state = "pending_state sp n oid cid now"
  have t: "os_wf t" "file_at t ?ob = Some i" "os_nodes t ?st \<noteq> Some Dir"
    using keepsD(2,4) [OF begun(1)] os ob begun(6) by (auto simp: content_at_def file_at_def)
  have pend: "wf_state ?state" using pending_state_wf ids op by simp
  from begun(7) qnames_qpaths [OF wf ids] t(1,3) show ?thesis
  proof (cases rule: reconcileQuarantine_cases)
    case (refused e)
    then show ?thesis using keepsD(1,2,4) [OF refused(2)] t by auto
  next
    case replay
    then show ?thesis by (simp add: pending_state_def)
  next
    case (linked e j)
    then show ?thesis using keepsD(1,2,4) [OF linked(2)] t by auto
  next
    case (moved now')
    have k: "os_wf s'" "qdirs l sp n s'"
      using keepsD(4) [OF moved(2)] t(1) qdirs_keeps [OF moved(2) begun(2)] by auto
    obtain state where st: "content_at s' ?st = Some (state_file state)"
      "state = ?state \<or> state = done_state ?state now'"
    proof (cases "is_ok r")
      case False
      then have "content_at s' ?st = content_at t ?st"
        using moved(6) keepsD(3) [OF moved(2)] t(1)
        by (cases "file_at t ?st") (auto simp: content_at_def file_at_def os_wf_def split: option.splits fsnode.splits)
      then show thesis using that begun(6) by simp
    qed (use moved(6) that in auto)
    then have "wf_state state" "OperationID state = oid" "CorrelationID state = cid"
      "Status state \<in> {''pending'', ''quarantined''}"
      using pend done_state_wf [OF pend] by (auto simp: pending_state_def done_state_def)
    with st k moved(5) t(2) show ?thesis
      by (auto simp: resumable_def content_at_def file_at_def split: if_splits)
  qed
qed

text \<open>A run on a reliable system never leaves an operation half done: the payload is in
  quarantine and success is reported, or an error is reported and the object is still active.\<close>

lemma ApplyQuarantine_all_or_nothing:
  assumes run: "ApplyQuarantine l sp n oid cid s = (r, s')" and wf: "wf_local l"
    and ids: "validStorageID sp" "validStorageID n" and os: "os_wf s" and rel: "reliable s"
    and fresh: "fresh_temps l sp n s" and st: "os_nodes s (qrecord l sp n) \<noteq> Some Dir"
    and ob: "file_at s (qobject l sp n) = Some i"
  shows "if is_ok r then os_nodes s' (qobject l sp n) = None \<and> os_nodes s' (qpayload l sp n) \<noteq> None
    else file_at s' (qobject l sp n) = Some i"
proof -
  let ?ob = "qobject l sp n" and ?q = "qpayload l sp n" and ?st = "qrecord l sp n"
  have iso: "os_nodes s' ?ob = None \<and> os_nodes s' ?q \<noteq> None" if "is_ok r"
    using that ApplyQuarantine_isolates [of l sp n oid cid s _ _ s'] run wf ids os rel st
    by (auto simp: is_ok_iff)
  have rec: "file_at s' ?ob = Some i"
    if r: "reconcileQuarantine ?ob ?q ?st state t = (r, s')" and k: "keeps ({?ob, ?q} \<union> qtemps l sp n) s t"
      and d: "qdirs l sp n t" and t: "os_nodes t ?st \<noteq> Some Dir" and no: "\<not> is_ok r" for state t
  proof -
    have t': "os_wf t" "reliable t" "file_at t ?ob = Some i" "fresh_temps l sp n t"
      using keepsD(2,4,5) [OF k] os rel ob fresh fresh_temps_keeps [OF k, of l sp n] by auto
    from r qnames_qpaths [OF wf ids] t'(1) t show ?thesis
    proof (cases rule: reconcileQuarantine_cases)
      case (refused e)
      then show ?thesis using keepsD(2) [OF refused(2), of ?ob] t' by simp
    next
      case replay
      then show ?thesis using no by simp
    next
      case (linked e j)
      then show ?thesis using keepsD(2) [OF linked(2), of ?ob] t' by simp
    next
      case (moved now)
      have "is_ok (fst (reconcileQuarantine ?ob ?q ?st state t))"
        using reconcileQuarantine_reliable [OF wf ids t'(2) d t t'(4) moved(1)] t'(3)
        by (auto simp: file_at_iff)
      then show ?thesis using r no by simp
    qed
  qed
  from run wf ids os have "file_at s' ?ob = Some i" if "\<not> is_ok r"
  proof (cases rule: ApplyQuarantine_cases)
    case (refused e)
    then show ?thesis using keepsD(2) [OF refused(2), of ?ob] ob by simp
  next
    case (record_failed e)
    then show ?thesis using keepsD(2) [OF record_failed(2), of ?ob] ob by simp
  next
    case (resumed state c t)
    then show ?thesis
      using rec [of state t] keeps_mono [OF resumed(1)] st keepsD(1) [OF resumed(1), of ?st] that by auto
  next
    case (begun now t)
    moreover from begun(6) have "os_nodes t ?st \<noteq> Some Dir" by (auto simp: content_at_def file_at_def)
    ultimately show ?thesis using rec that by blast
  qed
  with iso show ?thesis by simp
qed

text \<open>The system after a restart: nothing fails any more and the random source starts afresh.\<close>

definition restarted :: "(nat \<Rightarrow> 32 word) \<Rightarrow> os \<Rightarrow> os" where
  "restarted sfx s = (repaired s)\<lparr>os_suffix := sfx\<rparr>"

lemma restarted_simps [simp]:
  "os_nodes (restarted sfx s) = os_nodes s" "os_data (restarted sfx s) = os_data s"
  "os_next (restarted sfx s) = os_next s" "file_at (restarted sfx s) = file_at s"
  "content_at (restarted sfx s) = content_at s" "os_wf (restarted sfx s) = os_wf s"
  "reliable (restarted sfx s)" "os_suffix (restarted sfx s) = sfx"
  by (simp_all add: restarted_def repaired_def file_at_def content_at_def os_wf_def reliable_def
      fun_eq_iff)

lemma ApplyQuarantine_resumable:
  assumes wf: "wf_local l" "validStorageID sp" "validStorageID n" and rel: "reliable s" and os: "os_wf s"
    and op: "validOperationID oid" "validOperationID cid" and fresh: "fresh_temps l sp n s"
    and res: "resumable l sp n oid cid s" and q: "os_nodes s (qpayload l sp n) \<noteq> None"
  shows "is_ok (fst (ApplyQuarantine l sp n oid cid s))"
proof -
  let ?ob = "qobject l sp n" and ?q = "qpayload l sp n" and ?st = "qrecord l sp n"
  from res obtain state where d: "qdirs l sp n s" and ob: "os_nodes s ?ob = None"
    and c: "content_at s ?st = Some (state_file state)" and ws: "wf_state state"
    and i: "OperationID state = oid" "CorrelationID state = cid"
    and stat: "Status state = ''pending'' \<or> Status state = ''quarantined''"
    by (auto simp: resumable_def)
  note p = parse_state_file [OF ws]
  show ?thesis
  proof (cases "Status state = ''pending''")
    case True
    then show ?thesis
      using ApplyQuarantine_resumes [OF wf rel os op _ _ c p i True fresh] qdirs_mkdir_ok [OF d] ob q by simp
  next
    case False
    obtain t where k: "keeps ({?ob, ?q, ?st} \<union> qtemps l sp n) s t" and t: "reliable t"
      and eq: "ApplyQuarantine l sp n oid cid s =
       (case readQuarantineState ?st t of
          (Inl err, t1) \<Rightarrow> (Inl err, t1)
        | (Inr (Some state), t1) \<Rightarrow> resumeQuarantine ?ob ?q ?st oid cid state t1
        | (Inr None, t1) \<Rightarrow> beginQuarantine sp n oid cid ?ob ?q ?st t1)"
      using ApplyQuarantine_reliable_start [OF wf rel op] qdirs_mkdir_ok [OF d] by blast
    have "content_at t ?st = Some (state_file state)" using keeps_content [OF k _ os, of ?st] c by simp
    then show ?thesis
      using eq readQuarantineState_reliable(2) [OF t _ p] i False stat keepsD(1) [OF k] ob q t
      by (auto simp: resumeQuarantine_def reconcileQuarantine_def exists_def reliable_calls)
  qed
qed

lemma ApplyQuarantine_retry:
  fixes l sp n
  defines "ob \<equiv> qobject l sp n" and "q \<equiv> qpayload l sp n"
  assumes run1: "ApplyQuarantine l sp n oid cid s = (r1, s1)"
    and run2: "ApplyQuarantine l sp n oid cid (restarted sfx s1) = (r2, s2)"
    and wf: "wf_local l" and ids: "validStorageID sp" "validStorageID n" and os: "os_wf s"
    and op: "validOperationID oid" "validOperationID cid" "TrimSpace oid = oid" "TrimSpace cid = cid"
    and free: "os_nodes s (qrecord l sp n) = None" "os_nodes s q = None"
    and obj: "file_at s ob = Some i" and fresh: "fresh_temps l sp n (restarted sfx s1)"
  shows "os_data s2 i = os_data s i
    \<and> (if is_ok r2 then os_nodes s2 ob = None \<and> file_at s2 q = Some i else file_at s2 ob = Some i)"
proof -
  note crash = ApplyQuarantine_crash [OF run1 wf ids os op free(1) obj [unfolded ob_def]]
  let ?s = "restarted sfx s1"
  have "payload_at ob q i s" using obj free by (simp add: payload_at_def)
  then have p1: "payload_at ob q i s1" and d1: "os_data s1 i = os_data s i"
    using ApplyQuarantine_payload [OF run1 wf ids os, of i] free obj os
    by (auto simp: ob_def q_def os_wf_file_at)
  have obs: "file_at s1 ob = Some i \<or> os_nodes s1 ob = None"
    using crash by (auto simp: resumable_def ob_def)
  have i: "i < os_next s1"
    using p1 crash by (auto simp: payload_at_def os_wf_file_at)
  have p2: "payload_at ob q i s2" and d2: "os_data s2 i = os_data s i"
    using ApplyQuarantine_payload [OF run2 wf ids, of i] crash p1 obs i d1
    by (auto simp: ob_def q_def payload_at_def)
  have ok: "os_nodes s2 ob = None \<and> os_nodes s2 q \<noteq> None" if "is_ok r2"
    using that ApplyQuarantine_isolates [of l sp n oid cid ?s _ _ s2] run2 wf ids crash
    by (auto simp: is_ok_iff ob_def q_def)
  have bad: "file_at s2 ob = Some i" if no: "\<not> is_ok r2"
  proof (cases "file_at s1 ob = Some i")
    case True
    then show ?thesis
      using ApplyQuarantine_all_or_nothing [OF run2 wf ids _ _ fresh, of i] crash no
      by (simp add: ob_def)
  next
    case False
    then have "resumable l sp n oid cid s1" "os_nodes s1 q \<noteq> None"
      using crash p1 by (auto simp: ob_def payload_at_def file_at_iff)
    then show ?thesis
      using ApplyQuarantine_resumable [OF wf ids _ _ op(1,2) fresh] crash run2 no
      by (simp add: q_def resumable_def qdirs_def)
  qed
  show ?thesis
    using d2 ok bad p2 by (auto simp: payload_at_def file_at_iff)
qed

section \<open>Conflicts and reading back\<close>

lemma ApplyQuarantine_conflict:
  assumes wf: "wf_local l" "validStorageID sp" "validStorageID n" and rel: "reliable s" and os: "os_wf s"
    and op: "validOperationID oid" "validOperationID cid"
    and mk: "mkdir_ok s (filepath_Dir (qpayload l sp n))" "mkdir_ok s (filepath_Dir (qrecord l sp n))"
    and rec: "content_at s (qrecord l sp n) = Some c" "parse_state c = Inr state"
      "OperationID state \<noteq> oid \<or> CorrelationID state \<noteq> cid"
  shows "\<exists>s'. ApplyQuarantine l sp n oid cid s = (Inl (Sentinel ErrQuarantineConflict), s')
    \<and> content_at s' (qobject l sp n) = content_at s (qobject l sp n)
    \<and> content_at s' (qpayload l sp n) = content_at s (qpayload l sp n)
    \<and> content_at s' (qrecord l sp n) = Some c"
proof -
  let ?ob = "qobject l sp n" and ?q = "qpayload l sp n" and ?st = "qrecord l sp n"
  obtain t where k: "keeps ({?ob, ?q, ?st} \<union> qtemps l sp n) s t" and t: "reliable t"
    and eq: "ApplyQuarantine l sp n oid cid s =
     (case readQuarantineState ?st t of
        (Inl err, t1) \<Rightarrow> (Inl err, t1)
      | (Inr (Some state), t1) \<Rightarrow> resumeQuarantine ?ob ?q ?st oid cid state t1
      | (Inr None, t1) \<Rightarrow> beginQuarantine sp n oid cid ?ob ?q ?st t1)"
    using ApplyQuarantine_reliable_start [OF wf rel op mk] by blast
  have "content_at t ?st = Some c" using keeps_content [OF k _ os, of ?st] rec by simp
  then show ?thesis
    using eq readQuarantineState_reliable(2) [OF t _ rec(2)] rec keeps_content [OF k _ os]
    by (auto simp: resumeQuarantine_def)
qed

lemma ReadQuarantine_reliable:
  assumes wf: "wf_local l" "validStorageID sp" "validStorageID n" and rel: "reliable s"
    and rec: "content_at s (qrecord l sp n) = Some c" "parse_state c = Inr state"
    and "Status state = ''quarantined''" "os_nodes s (qobject l sp n) = None"
      "os_nodes s (qpayload l sp n) \<noteq> None"
  shows "fst (ReadQuarantine l sp n s) = Inr (Some state)"
proof -
  have paths: "ObjectPath l sp n = Inr (qobject l sp n)" "QuarantinePath l sp n = Inr (qpayload l sp n)"
    "QuarantineStatePath l sp n = Inr (qrecord l sp n)"
    using wf by (simp_all add: path_defs QuarantinePath_def QuarantineStatePath_def scopedPath_wf qdefs)
  show ?thesis
    using assms readQuarantineState_reliable(2) [OF rel rec]
    by (auto simp: ReadQuarantine_def paths exists_def reliable_calls)
qed

text \<open>The first run of an operation reports no replay and a record that can be stored and read back.\<close>

lemma ApplyQuarantine_first:
  assumes run: "ApplyQuarantine l sp n oid cid s = (Inr (state, replay), s')"
    and wf: "wf_local l" "validStorageID sp" "validStorageID n" and os: "os_wf s"
    and op: "validOperationID oid" "validOperationID cid" "TrimSpace oid = oid" "TrimSpace cid = cid"
    and free: "os_nodes s (qrecord l sp n) = None"
  shows "\<not> replay \<and> wf_state state \<and> reliable s' = reliable s \<and> os_wf s' \<and> qdirs l sp n s'"
  using run wf os
proof (cases rule: ApplyQuarantine_cases)
  case (resumed old c t)
  then show ?thesis using free by (simp add: content_at_def file_at_def)
next
  case (begun now t)
  have t: "os_wf t" "os_nodes t (qrecord l sp n) \<noteq> Some Dir" "reliable t = reliable s"
    using keepsD(4,5) [OF begun(1)] os begun(6) by (auto simp: content_at_def file_at_def)
  from begun(7) qnames_qpaths [OF wf] t(1,2) show ?thesis
  proof (cases rule: reconcileQuarantine_cases)
    case (moved now')
    then show ?thesis
      using keepsD(4,5) [OF moved(2)] qdirs_keeps [OF moved(2) begun(2)] t
        done_state_wf [OF pending_state_wf [OF wf(2,3) op]] by simp
  qed (auto simp: pending_state_def)
qed auto

end
