(* ===== verification/Quarantine_Service.thy ===== *)
theory Quarantine_Service
  imports Quarantine_Recovery
begin

text \<open>
  \<^verbatim>\<open>internal/quarantine/service.go\<close>: the quarantine target that the Wardveil platform calls.
  The \<^verbatim>\<open>Store\<close> interface is a record of functions over a state; the locale
  \<open>quarantine_store\<close> states what the service relies on, and the storage backend satisfies it.
\<close>

section \<open>Requests, results and the store interface\<close>

record Scope =
  sc_ResourceType :: string
  sc_ResourceID :: string

record ApplyRequest =
  aq_OperationID :: string
  aq_CorrelationID :: string
  aq_Scope :: Scope

record ApplyResult =
  ar_Status :: string
  ar_OperationID :: string
  ar_StateRef :: string
  ar_EvidenceRef :: string
  ar_Reason :: string

record ReadResult =
  rr_Status :: string
  rr_OperationID :: string
  rr_StateRef :: string
  rr_EvidenceRef :: string

record 's Store =
  store_ApplyQuarantine ::
    "string \<Rightarrow> string \<Rightarrow> string \<Rightarrow> string \<Rightarrow> 's \<Rightarrow> (goerr + QuarantineState \<times> bool) \<times> 's"
  store_ReadQuarantine :: "string \<Rightarrow> string \<Rightarrow> 's \<Rightarrow> (goerr + QuarantineState option) \<times> 's"

text \<open>The storage backend as a store.\<close>

definition local_store :: "Local option \<Rightarrow> os Store" where
  "local_store l =
     \<lparr>store_ApplyQuarantine = ApplyQuarantine l, store_ReadQuarantine = ReadQuarantine l\<rparr>"

section \<open>Operations\<close>

definition ResourceType :: string where
  "ResourceType = ''drive_file''"

definition parseScope :: "Scope \<Rightarrow> (string \<times> string) option" where
  "parseScope scope =
     (if sc_ResourceType scope \<noteq> ResourceType then None
      else case Split (CHR '':'') (sc_ResourceID scope) of
             [p0, p1, p2, p3] \<Rightarrow>
               if p0 \<noteq> ''drive'' \<or> p2 \<noteq> ''file'' \<or> p1 = [] \<or> p3 = [] then None else Some (p1, p3)
           | _ \<Rightarrow> None)"

definition failure :: "string \<Rightarrow> ApplyRequest \<Rightarrow> string \<Rightarrow> ApplyResult" where
  "failure status request reason =
     \<lparr>ar_Status = status, ar_OperationID = aq_OperationID request, ar_StateRef = [],
      ar_EvidenceRef = [], ar_Reason = reason\<rparr>"

text \<open>The receiver is a pointer that may be nil, and so may its store.\<close>

definition quarantine_Apply ::
  "'s Store option option \<Rightarrow> ApplyRequest \<Rightarrow> 's \<Rightarrow> ApplyResult \<times> 's" where
  "quarantine_Apply svc request s =
     (case (parseScope (aq_Scope request), svc) of
        (Some (spaceID, nodeID), Some (Some store)) \<Rightarrow>
          (case store_ApplyQuarantine store spaceID nodeID (aq_OperationID request) (aq_CorrelationID request) s of
             (Inl err, s1) \<Rightarrow>
               (if errors_Is err ErrQuarantineConflict
                then failure ''failed'' request ''drive_quarantine_conflict''
                else if errors_Is err ErrQuarantineReconciliation
                then failure ''unknown'' request ''drive_quarantine_reconciliation_required''
                else if errors_Is err OsErrNotExist
                then failure ''failed'' request ''drive_object_not_found''
                else failure ''unknown'' request ''drive_quarantine_storage_error'', s1)
           | (Inr (state, alreadyApplied), s1) \<Rightarrow>
               (\<lparr>ar_Status = (if alreadyApplied then ''already_applied'' else ''applied''),
                 ar_OperationID = OperationID state, ar_StateRef = StateRef state,
                 ar_EvidenceRef = EvidenceRef state, ar_Reason = ''drive_object_quarantined''\<rparr>, s1))
      | _ \<Rightarrow> (failure ''failed'' request ''invalid_drive_quarantine_scope'', s))"

definition status_only :: "string \<Rightarrow> ReadResult" where
  "status_only st = \<lparr>rr_Status = st, rr_OperationID = [], rr_StateRef = [], rr_EvidenceRef = []\<rparr>"

definition quarantine_Read :: "'s Store option option \<Rightarrow> Scope \<Rightarrow> 's \<Rightarrow> ReadResult \<times> 's" where
  "quarantine_Read svc scope s =
     (case (parseScope scope, svc) of
        (Some (spaceID, nodeID), Some (Some store)) \<Rightarrow>
          (case store_ReadQuarantine store spaceID nodeID s of
             (Inl err, s1) \<Rightarrow> (status_only ''unknown'', s1)
           | (Inr None, s1) \<Rightarrow> (status_only ''not_quarantined'', s1)
           | (Inr (Some state), s1) \<Rightarrow>
               (\<lparr>rr_Status = ''quarantined'', rr_OperationID = OperationID state,
                 rr_StateRef = StateRef state, rr_EvidenceRef = EvidenceRef state\<rparr>, s1))
      | _ \<Rightarrow> (status_only ''unknown'', s))"

section \<open>Scopes\<close>

text \<open>The resource identifier of a file, as the platform writes it.\<close>

definition file_resource :: "string \<Rightarrow> string \<Rightarrow> string" where
  "file_resource spaceID nodeID = ''drive:'' @ spaceID @ '':file:'' @ nodeID"

lemma file_resource_Join: "file_resource sp n = Join '':'' [''drive'', sp, ''file'', n]"
  by (simp add: file_resource_def)

lemma parseScope_file:
  assumes "sp \<noteq> []" "n \<noteq> []" "CHR '':'' \<notin> set sp" "CHR '':'' \<notin> set n"
  shows "parseScope \<lparr>sc_ResourceType = ResourceType, sc_ResourceID = file_resource sp n\<rparr> = Some (sp, n)"
proof -
  have "Split (CHR '':'') (file_resource sp n) = [''drive'', sp, ''file'', n]"
    unfolding file_resource_Join using assms by (subst Split_Join) auto
  then show ?thesis using assms by (simp add: parseScope_def)
qed

lemma parseScope_Some:
  assumes "parseScope sc = Some (sp, n)"
  shows "sc_ResourceType sc = ResourceType \<and> sc_ResourceID sc = file_resource sp n \<and> sp \<noteq> [] \<and> n \<noteq> []
    \<and> CHR '':'' \<notin> set sp \<and> CHR '':'' \<notin> set n"
proof -
  have p: "sc_ResourceType sc = ResourceType" "Split (CHR '':'') (sc_ResourceID sc) = [''drive'', sp, ''file'', n]"
    "sp \<noteq> []" "n \<noteq> []"
    using assms by (auto simp: parseScope_def split: if_splits list.splits)
  moreover have "sc_ResourceID sc = file_resource sp n"
    using Join_Split [of "CHR '':''" "sc_ResourceID sc"] p(2) by (simp add: file_resource_Join)
  moreover have "CHR '':'' \<notin> set sp \<and> CHR '':'' \<notin> set n"
    using Split_sep_free [of _ "CHR '':''" "sc_ResourceID sc"] p(2) by auto
  ultimately show ?thesis by simp
qed

section \<open>What the service relies on\<close>

text \<open>
  A store whose successes isolate the object, whose answer names the operation, and whose read-back
  answers \<open>Some\<close> only for an isolated object; \<open>inv\<close> is what the store needs of the state.
\<close>

locale quarantine_store =
  fixes store :: "'s Store" and inv :: "string \<Rightarrow> string \<Rightarrow> 's \<Rightarrow> bool"
    and isolated :: "string \<Rightarrow> string \<Rightarrow> 's \<Rightarrow> bool"
  assumes apply_isolates:
      "inv sp n s \<Longrightarrow> store_ApplyQuarantine store sp n oid cid s = (Inr (state, replay), s') \<Longrightarrow>
       isolated sp n s' \<and> OperationID state = oid \<and> CorrelationID state = cid"
    and read_isolated:
      "inv sp n s \<Longrightarrow> store_ReadQuarantine store sp n s = (Inr (Some state), s') \<Longrightarrow> isolated sp n s'"
begin

lemma Apply_isolates:
  assumes "parseScope (aq_Scope request) = Some (sp, n)" "inv sp n s"
    and "quarantine_Apply (Some (Some store)) request s = (result, s')"
    and "ar_Status result \<in> {''applied'', ''already_applied''}"
  shows "isolated sp n s' \<and> ar_OperationID result = aq_OperationID request"
  using assms apply_isolates [OF assms(2)]
  by (auto simp: quarantine_Apply_def failure_def split: sum.splits prod.splits if_splits)

lemma Read_isolated:
  assumes "parseScope scope = Some (sp, n)" "inv sp n s"
    and "quarantine_Read (Some (Some store)) scope s = (result, s')" "rr_Status result = ''quarantined''"
  shows "isolated sp n s'"
  using assms read_isolated [OF assms(2)]
  by (auto simp: quarantine_Read_def status_only_def split: sum.splits prod.splits option.splits if_splits)

end

text \<open>The storage backend is such a store as long as look-ups work.\<close>

definition store_inv :: "Local option \<Rightarrow> string \<Rightarrow> string \<Rightarrow> os \<Rightarrow> bool" where
  "store_inv l sp n s \<longleftrightarrow> wf_local l \<and> os_wf s \<and> stat_ok s \<and> os_nodes s (qrecord l sp n) \<noteq> Some Dir"

definition store_isolated :: "Local option \<Rightarrow> string \<Rightarrow> string \<Rightarrow> os \<Rightarrow> bool" where
  "store_isolated l sp n s \<longleftrightarrow>
     os_nodes s (qobject l sp n) = None \<and> os_nodes s (qpayload l sp n) \<noteq> None"

lemma ApplyQuarantine_ids:
  assumes "wf_local l" "ApplyQuarantine l sp n oid cid s = (Inr x, s')"
  shows "validStorageID sp \<and> validStorageID n"
proof (rule ccontr)
  assume "\<not> (validStorageID sp \<and> validStorageID n)"
  then obtain e where "ObjectPath l sp n = Inl e"
    using scopedPath_invalid [of sp n l "''objects''"] by (auto simp: ObjectPath_def)
  then show False using assms(2) by (simp add: ApplyQuarantine_def split: if_splits)
qed

lemma ReadQuarantine_isolated:
  assumes "ReadQuarantine l sp n s = (Inr (Some state), s')" "wf_local l" "stat_ok s"
  shows "store_isolated l sp n s'"
proof -
  have ids: "validStorageID sp" "validStorageID n"
    using assms scopedPath_Inr [of l "''objects''" sp n]
    by (cases "ObjectPath l sp n"; auto simp: ReadQuarantine_def ObjectPath_def)+
  have paths: "ObjectPath l sp n = Inr (qobject l sp n)" "QuarantinePath l sp n = Inr (qpayload l sp n)"
    "QuarantineStatePath l sp n = Inr (qrecord l sp n)"
    using assms ids by (simp_all add: path_defs QuarantinePath_def QuarantineStatePath_def scopedPath_wf qdefs)
  obtain r s1 where r: "readQuarantineState (qrecord l sp n) s = (r, s1)" by fastforce
  note k = readQuarantineState_keeps [OF r, of UNIV]
  have ok: "stat_ok s1" "stat_ok (tick s1)" using keepsD(6) [OF k] assms by simp_all
  show ?thesis
    using assms(1) paths r
    by (auto simp: ReadQuarantine_def store_isolated_def exists_stat_ok [OF ok(1)] exists_stat_ok [OF ok(2)]
        split: sum.splits option.splits if_splits)
qed

interpretation ls: quarantine_store "local_store l" "store_inv l" "store_isolated l" for l
proof
  fix sp n s oid cid state replay s'
  assume inv: "store_inv l sp n s"
    and run: "store_ApplyQuarantine (local_store l) sp n oid cid s = (Inr (state, replay), s')"
  then have run: "ApplyQuarantine l sp n oid cid s = (Inr (state, replay), s')"
    by (simp add: local_store_def)
  with inv ApplyQuarantine_ids [OF _ run] ApplyQuarantine_isolates [OF run]
  show "store_isolated l sp n s' \<and> OperationID state = oid \<and> CorrelationID state = cid"
    by (simp add: store_inv_def store_isolated_def)
next
  fix sp n s state s'
  assume "store_inv l sp n s" "store_ReadQuarantine (local_store l) sp n s = (Inr (Some state), s')"
  then show "store_isolated l sp n s'"
    using ReadQuarantine_isolated by (simp add: local_store_def store_inv_def)
qed

end
