(* ===== verification/Http_Api.thy ===== *)
theory Http_Api
  imports Go_Decode Nodes Uploads Quarantine_Service
begin

text \<open>
  \<^verbatim>\<open>internal/httpapi\<close>: the handlers of the HTTP boundary, over a state \<open>'s\<close> that the services
  act on. A request is what the handlers read of it: path values, the query, headers and the body. A
  response is a status, the headers a handler sets itself, and the Go value that \<^verbatim>\<open>writeJSON\<close> is
  given (the bytes of its JSON encoding are not modelled). A handler's result is \<open>None\<close> when it
  panics, which \<^verbatim>\<open>net/http\<close> turns into a dropped connection. The \<^verbatim>\<open>Content-Type\<close> that
  \<^verbatim>\<open>writeJSON\<close> sets on every answer is left out of the headers.
\<close>

section \<open>Requests and responses\<close>

record http_request =
  hq_PathValue :: "string \<Rightarrow> string"
  hq_Query :: "string \<Rightarrow> string"
  hq_Header :: "string \<Rightarrow> string"
  hq_Body :: reader

datatype payload =
    ErrorMap string
  | HealthMap string
  | StatusMap string string string "(string \<times> bool) list"
  | CapabilityMap string string
  | NodesMap "Node list"
  | NodeValue Node
  | SessionValue UploadSession
  | ApplyValue ApplyResult
  | ReadValue ReadResult
  | NoBody

record response =
  rs_status :: nat
  rs_headers :: "(string \<times> string) list"
  rs_payload :: payload

type_synonym 's handler = "http_request \<Rightarrow> 's \<Rightarrow> response option \<times> 's"

definition writeJSON :: "nat \<Rightarrow> payload \<Rightarrow> 's \<Rightarrow> response option \<times> 's" where
  "writeJSON status value s = (Some \<lparr>rs_status = status, rs_headers = [], rs_payload = value\<rparr>, s)"

definition writeJSON_with :: "(string \<times> string) list \<Rightarrow> nat \<Rightarrow> payload \<Rightarrow> 's \<Rightarrow> response option \<times> 's" where
  "writeJSON_with headers status value s =
     (Some \<lparr>rs_status = status, rs_headers = headers, rs_payload = value\<rparr>, s)"

text \<open>A body of more than 64 KiB, one that breaks off, or anything after the first value is refused.\<close>

definition decodeJSON :: "'r setters \<Rightarrow> 'r \<Rightarrow> http_request \<Rightarrow> 'r option" where
  "decodeJSON fs zero r =
     (if rd_fail (hq_Body r) \<or> length (rd_data (hq_Body r)) > 64 * 1024 then None
      else json_Decode_one True fs zero (rd_data (hq_Body r)))"

text \<open>Calling a method on a nil interface panics.\<close>

definition resolvePrincipal ::
  "(http_request, 's) Resolver option \<Rightarrow> http_request \<Rightarrow> (Principal \<Rightarrow> 's \<Rightarrow> response option \<times> 's) \<Rightarrow> 's
   \<Rightarrow> response option \<times> 's" where
  "resolvePrincipal principals r k s =
     (case principals of
        None \<Rightarrow> (None, s)
      | Some resolve \<Rightarrow>
          (case resolve r s of
             (Inl err, s1) \<Rightarrow> writeJSON 401 (ErrorMap ''authentication required'') s1
           | (Inr who, s1) \<Rightarrow>
               if AccountID who = [] then writeJSON 401 (ErrorMap ''authentication required'') s1
               else k who s1))"

definition writeNodeError :: "goerr \<Rightarrow> 's \<Rightarrow> response option \<times> 's" where
  "writeNodeError err =
     (if errors_Is err NodesErrForbidden then writeJSON 403 (ErrorMap ''access denied'')
      else if errors_Is err NodesErrInvalid then writeJSON 400 (ErrorMap ''invalid node input'')
      else if errors_Is err NodesErrNotFound then writeJSON 404 (ErrorMap ''node not found'')
      else if errors_Is err NodesErrUnavailable then writeJSON 503 (ErrorMap ''node service unavailable'')
      else writeJSON 500 (ErrorMap ''node operation failed''))"

section \<open>Dependencies\<close>

record 's Dependencies =
  dp_Principals :: "(http_request, 's) Resolver option"
  dp_Memberships :: "'s MembershipResolver option"
  dp_Nodes :: "'s NodeRepository option"
  dp_Quarantine :: "'s Store option option option"
  dp_WardveilServiceToken :: string
  dp_rand :: "'s \<Rightarrow> (goerr + byte list) \<times> 's"

text \<open>What \<^verbatim>\<open>NewWithDependencies\<close> does before it registers its routes.\<close>

definition default_principals :: "'s Dependencies \<Rightarrow> (http_request, 's) Resolver option" where
  "default_principals deps =
     (case dp_Principals deps of None \<Rightarrow> Some DenyAllResolver | Some f \<Rightarrow> Some f)"

definition dep_access :: "'s Dependencies \<Rightarrow> string \<Rightarrow> string \<Rightarrow> authz_Action \<Rightarrow> 's \<Rightarrow> bool \<times> 's" where
  "dep_access deps = spaceaccess_Allows (dp_Memberships deps)"

definition dep_nodes :: "'s Dependencies \<Rightarrow> 's NodeService" where
  "dep_nodes deps =
     \<lparr>ns_repo = dp_Nodes deps, ns_auth = Some (dep_access deps), ns_rand = dp_rand deps\<rparr>"

section \<open>Status, capabilities and nodes\<close>

definition developmentVersion :: string where
  "developmentVersion = ''0.0.0-dev''"

definition statusHandler :: "'s handler" where
  "statusHandler r =
     writeJSON 200 (StatusMap ''GoreeCloud Drive'' developmentVersion ''Development''
       [(''authentication'', False), (''authorization_core'', True), (''persistent_node_crud'', True),
        (''file_content_io'', False), (''resumable_uploads'', False), (''private_spaces'', False),
        (''shared_spaces'', False)])"

definition capabilityHandler ::
  "(http_request, 's) Resolver option \<Rightarrow> (string \<Rightarrow> string \<Rightarrow> authz_Action \<Rightarrow> 's \<Rightarrow> bool \<times> 's) \<Rightarrow> 's handler" where
  "capabilityHandler principals access r =
     resolvePrincipal principals r (\<lambda>who s.
       let spaceID = hq_PathValue r ''spaceID''; action = hq_PathValue r ''action'' in
       case access (AccountID who) spaceID action s of
         (False, s1) \<Rightarrow> writeJSON 403 (ErrorMap ''access denied'') s1
       | (True, s1) \<Rightarrow> writeJSON 200 (CapabilityMap spaceID action) s1)"

definition answer_node :: "nat \<Rightarrow> (goerr + Node) \<times> 's \<Rightarrow> response option \<times> 's" where
  "answer_node status result =
     (case result of
        (Inl err, s) \<Rightarrow> writeNodeError err s
      | (Inr node, s) \<Rightarrow> writeJSON status (NodeValue node) s)"

definition listNodesHandler :: "(http_request, 's) Resolver option \<Rightarrow> 's NodeService \<Rightarrow> 's handler" where
  "listNodesHandler principals service r =
     resolvePrincipal principals r (\<lambda>who s.
       let value = TrimSpace (hq_Query r ''parent_id'');
           parentID = (if value \<noteq> [] then Some value else None) in
       case nodes_List service (AccountID who) (hq_PathValue r ''spaceID'') parentID s of
         (Inl err, s1) \<Rightarrow> writeNodeError err s1
       | (Inr items, s1) \<Rightarrow> writeJSON 200 (NodesMap items) s1)"

record create_node_request =
  cn_ParentID :: "string option"
  cn_Kind :: string
  cn_Name :: string

definition create_node_fields :: "create_node_request setters" where
  "create_node_fields =
     [(''parent_id'', set_string_ptr (\<lambda>v r. r\<lparr>cn_ParentID := v\<rparr>)),
      (''kind'', set_string (\<lambda>v r. r\<lparr>cn_Kind := v\<rparr>)), (''name'', set_string (\<lambda>v r. r\<lparr>cn_Name := v\<rparr>))]"

definition createNodeHandler :: "(http_request, 's) Resolver option \<Rightarrow> 's NodeService \<Rightarrow> 's handler" where
  "createNodeHandler principals service r =
     resolvePrincipal principals r (\<lambda>who s.
       case decodeJSON create_node_fields \<lparr>cn_ParentID = None, cn_Kind = [], cn_Name = []\<rparr> r of
         None \<Rightarrow> writeJSON 400 (ErrorMap ''invalid request body'') s
       | Some body \<Rightarrow>
           answer_node 201 (nodes_Create service (AccountID who) (hq_PathValue r ''spaceID'')
             (cn_ParentID body) (cn_Kind body) (cn_Name body) s))"

definition getNodeHandler :: "(http_request, 's) Resolver option \<Rightarrow> 's NodeService \<Rightarrow> 's handler" where
  "getNodeHandler principals service r =
     resolvePrincipal principals r (\<lambda>who s.
       answer_node 200 (nodes_Get service (AccountID who) (hq_PathValue r ''spaceID'')
         (hq_PathValue r ''nodeID'') s))"

record name_request =
  nq_Name :: string

definition name_fields :: "name_request setters" where
  "name_fields = [(''name'', set_string (\<lambda>v r. r\<lparr>nq_Name := v\<rparr>))]"

definition renameNodeHandler :: "(http_request, 's) Resolver option \<Rightarrow> 's NodeService \<Rightarrow> 's handler" where
  "renameNodeHandler principals service r =
     resolvePrincipal principals r (\<lambda>who s.
       case decodeJSON name_fields \<lparr>nq_Name = []\<rparr> r of
         None \<Rightarrow> writeJSON 400 (ErrorMap ''invalid request body'') s
       | Some body \<Rightarrow>
           answer_node 200 (nodes_Rename service (AccountID who) (hq_PathValue r ''spaceID'')
             (hq_PathValue r ''nodeID'') (nq_Name body) s))"

definition trashNodeHandler :: "(http_request, 's) Resolver option \<Rightarrow> 's NodeService \<Rightarrow> 's handler" where
  "trashNodeHandler principals service r =
     resolvePrincipal principals r (\<lambda>who s.
       answer_node 200 (nodes_Trash service (AccountID who) (hq_PathValue r ''spaceID'')
         (hq_PathValue r ''nodeID'') s))"

section \<open>Uploads\<close>

definition writeUploadError :: "(string \<times> string) list \<Rightarrow> uerr \<Rightarrow> 's \<Rightarrow> response option \<times> 's" where
  "writeUploadError headers err =
     (if uerr_Is err UploadsErrNotFound then writeJSON_with headers 404 (ErrorMap ''upload session not found'')
      else if uerr_Is err UploadsErrForbidden then writeJSON_with headers 403 (ErrorMap ''access denied'')
      else if uerr_Is err UploadsErrExpired then writeJSON_with headers 410 (ErrorMap ''upload session expired'')
      else if uerr_Is err UploadsErrOffsetMismatch then writeJSON_with headers 409 (ErrorMap ''upload offset mismatch'')
      else if uerr_Is err UploadsErrCompleted
      then writeJSON_with headers 409 (ErrorMap ''upload session already completed'')
      else if uerr_Is err UploadsErrInvalidTarget then writeJSON_with headers 400 (ErrorMap ''invalid upload target'')
      else if uerr_Is err UploadsErrSecurityBlocked
      then writeJSON_with headers 422 (ErrorMap ''upload blocked by security policy'')
      else if uerr_Is err UploadsErrSecurityUnavailable
      then writeJSON_with headers 503 (ErrorMap ''upload security verification unavailable'')
      else writeJSON_with headers 500 (ErrorMap ''upload operation failed''))"

record 's UploadApi =
  ua_Create :: "string \<Rightarrow> string \<Rightarrow> string \<Rightarrow> string \<Rightarrow> string \<Rightarrow> 's \<Rightarrow> 's upload_result"
  ua_Get :: "string \<Rightarrow> string \<Rightarrow> string \<Rightarrow> 's \<Rightarrow> (goerr + UploadSession) \<times> 's"
  ua_Append :: "string \<Rightarrow> string \<Rightarrow> string \<Rightarrow> int64 \<Rightarrow> reader option \<Rightarrow> 's \<Rightarrow> 's upload_result"
  ua_Complete :: "string \<Rightarrow> string \<Rightarrow> string \<Rightarrow> 's \<Rightarrow> 's upload_result"

definition upload_api :: "'s UploadService \<Rightarrow> 's UploadApi" where
  "upload_api svc =
     \<lparr>ua_Create = uploads_Create svc, ua_Get = uploads_Get svc, ua_Append = uploads_Append svc,
      ua_Complete = uploads_Complete svc\<rparr>"

record node_id_request =
  ni_NodeID :: string

definition node_id_fields :: "node_id_request setters" where
  "node_id_fields = [(''node_id'', set_string (\<lambda>v r. r\<lparr>ni_NodeID := v\<rparr>))]"

definition createUploadHandler ::
  "(http_request, 's) Resolver option \<Rightarrow> (string \<Rightarrow> string \<Rightarrow> authz_Action \<Rightarrow> 's \<Rightarrow> bool \<times> 's)
   \<Rightarrow> 's NodeService \<Rightarrow> 's UploadApi \<Rightarrow> 's handler" where
  "createUploadHandler principals access nodeService service r =
     resolvePrincipal principals r (\<lambda>who s.
       let spaceID = hq_PathValue r ''spaceID''; accountID = AccountID who in
       case access accountID spaceID ActionCreateFile s of
         (False, s1) \<Rightarrow> writeJSON 403 (ErrorMap ''access denied'') s1
       | (True, s1) \<Rightarrow>
       (case decodeJSON node_id_fields \<lparr>ni_NodeID = []\<rparr> r of
          None \<Rightarrow> writeJSON 400 (ErrorMap ''invalid request body'') s1
        | Some body \<Rightarrow>
       (case nodes_Get nodeService accountID spaceID (ni_NodeID body) s1 of
          (Inl err, s2) \<Rightarrow> writeNodeError err s2
        | (Inr node, s2) \<Rightarrow>
       if nd_Kind node \<noteq> KindFile then writeJSON 400 (ErrorMap ''uploads require a file node'') s2
       else
       (let parentNodeID = (case nd_ParentID node of None \<Rightarrow> [] | Some p \<Rightarrow> p) in
        case ua_Create service accountID spaceID (nd_ID node) parentNodeID (nd_Name node) s2 of
          ((session, Some err), s3) \<Rightarrow> writeUploadError [] err s3
        | ((session, None), s3) \<Rightarrow>
            writeJSON_with [(''Upload-Offset'', ''0''),
              (''Location'', ''/api/v1/spaces/'' @ spaceID @ ''/uploads/'' @ us_ID session)]
              201 (SessionValue session) s3))))"

definition getUploadHandler :: "(http_request, 's) Resolver option \<Rightarrow> 's UploadApi \<Rightarrow> 's handler" where
  "getUploadHandler principals service r =
     resolvePrincipal principals r (\<lambda>who s.
       case ua_Get service (AccountID who) (hq_PathValue r ''spaceID'') (hq_PathValue r ''uploadID'') s of
         (Inl err, s1) \<Rightarrow> writeUploadError [] (UErr err) s1
       | (Inr session, s1) \<Rightarrow>
           writeJSON_with [(''Upload-Offset'', FormatInt (us_Offset session))] 200 (SessionValue session) s1)"

definition appendUploadHandler :: "(http_request, 's) Resolver option \<Rightarrow> 's UploadApi \<Rightarrow> 's handler" where
  "appendUploadHandler principals service r =
     resolvePrincipal principals r (\<lambda>who s.
       case ParseInt (hq_Header r ''Upload-Offset'') of
         None \<Rightarrow> writeJSON 400 (ErrorMap ''valid Upload-Offset header required'') s
       | Some offset \<Rightarrow>
       if offset < 0 then writeJSON 400 (ErrorMap ''valid Upload-Offset header required'') s
       else
       (case ua_Append service (AccountID who) (hq_PathValue r ''spaceID'') (hq_PathValue r ''uploadID'')
               offset (Some (hq_Body r)) s of
          ((session, Some err), s1) \<Rightarrow>
            writeUploadError (if uerr_Is err UploadsErrOffsetMismatch
              then [(''Upload-Offset'', FormatInt (us_Offset session))] else []) err s1
        | ((session, None), s1) \<Rightarrow>
            writeJSON_with [(''Upload-Offset'', FormatInt (us_Offset session))] 204 NoBody s1))"

definition completeUploadHandler :: "(http_request, 's) Resolver option \<Rightarrow> 's UploadApi \<Rightarrow> 's handler" where
  "completeUploadHandler principals service r =
     resolvePrincipal principals r (\<lambda>who s.
       case ua_Complete service (AccountID who) (hq_PathValue r ''spaceID'') (hq_PathValue r ''uploadID'') s of
         ((session, Some err), s1) \<Rightarrow> writeUploadError [] err s1
       | ((session, None), s1) \<Rightarrow> writeJSON 200 (SessionValue session) s1)"

section \<open>The quarantine target\<close>

definition authorizeWardveilService ::
  "http_request \<Rightarrow> string \<Rightarrow> ('s \<Rightarrow> response option \<times> 's) \<Rightarrow> 's \<Rightarrow> response option \<times> 's" where
  "authorizeWardveilService r expected k s =
     (if TrimSpace expected = [] then writeJSON 503 (ErrorMap ''service authorization unavailable'') s
      else let header = hq_Header r ''Authorization'' in
      if \<not> HasPrefix header ''Bearer '' then writeJSON 404 (ErrorMap ''not found'') s
      else let provided = drop 7 header in
      if sha256_Sum256 provided \<noteq> sha256_Sum256 expected then writeJSON 404 (ErrorMap ''not found'') s
      else k s)"

definition scope_fields :: "Scope setters" where
  "scope_fields =
     [(''resource_type'', set_string (\<lambda>v r. r\<lparr>sc_ResourceType := v\<rparr>)),
      (''resource_id'', set_string (\<lambda>v r. r\<lparr>sc_ResourceID := v\<rparr>))]"

definition zero_scope :: Scope where
  "zero_scope = \<lparr>sc_ResourceType = [], sc_ResourceID = []\<rparr>"

definition apply_fields :: "ApplyRequest setters" where
  "apply_fields =
     [(''operation_id'', set_string (\<lambda>v r. r\<lparr>aq_OperationID := v\<rparr>)),
      (''correlation_id'', set_string (\<lambda>v r. r\<lparr>aq_CorrelationID := v\<rparr>)),
      (''scope'', set_struct True scope_fields aq_Scope (\<lambda>v r. r\<lparr>aq_Scope := v\<rparr>))]"

record ReadRequest =
  rq_Scope :: Scope

definition read_fields :: "ReadRequest setters" where
  "read_fields = [(''scope'', set_struct True scope_fields rq_Scope (\<lambda>v r. r\<lparr>rq_Scope := v\<rparr>))]"

text \<open>\<open>target\<close> is \<open>None\<close> for a nil interface; a service is a pointer, which may be nil itself.\<close>

definition quarantineApplyHandler :: "'s Store option option option \<Rightarrow> string \<Rightarrow> 's handler" where
  "quarantineApplyHandler target serviceToken r =
     authorizeWardveilService r serviceToken (\<lambda>s.
       case target of
         None \<Rightarrow> writeJSON 503 (ErrorMap ''quarantine target unavailable'') s
       | Some service \<Rightarrow>
       (case decodeJSON apply_fields \<lparr>aq_OperationID = [], aq_CorrelationID = [], aq_Scope = zero_scope\<rparr> r of
          None \<Rightarrow> writeJSON 400 (ErrorMap ''invalid request body'') s
        | Some request \<Rightarrow>
       (case quarantine_Apply service request s of
          (result, s1) \<Rightarrow>
            if ar_Status result = ''applied'' \<or> ar_Status result = ''already_applied''
            then writeJSON 200 (ApplyValue result) s1
            else if ar_Status result = ''failed'' then writeJSON 409 (ApplyValue result) s1
            else writeJSON 503 (ApplyValue result) s1)))"

definition quarantineReadHandler :: "'s Store option option option \<Rightarrow> string \<Rightarrow> 's handler" where
  "quarantineReadHandler target serviceToken r =
     authorizeWardveilService r serviceToken (\<lambda>s.
       case target of
         None \<Rightarrow> writeJSON 503 (ErrorMap ''quarantine target unavailable'') s
       | Some service \<Rightarrow>
       (case decodeJSON read_fields \<lparr>rq_Scope = zero_scope\<rparr> r of
          None \<Rightarrow> writeJSON 400 (ErrorMap ''invalid request body'') s
        | Some request \<Rightarrow>
       (case quarantine_Read service (rq_Scope request) s of
          (result, s1) \<Rightarrow>
            if rr_Status result = ''unknown'' then writeJSON 503 (ReadValue result) s1
            else writeJSON 200 (ReadValue result) s1)))"

end
