(* ===== verification/Config.thy ===== *)
theory Config
  imports Go_Decode
begin

text \<open>
  \<^verbatim>\<open>internal/config/config.go\<close>: the configuration from the environment. The environment is a
  function (\<^verbatim>\<open>os.Getenv\<close> of an unset variable is the empty string). \<^verbatim>\<open>time.ParseDuration\<close>
  and \<^verbatim>\<open>net.ParseIP\<close> are arguments.
\<close>

section \<open>Configuration\<close>

record Config =
  cf_Bind :: string
  cf_DataDir :: string
  cf_WebDir :: string
  cf_AllowPublicBind :: bool
  cf_ShutdownTimeout :: duration
  cf_WardveilServiceToken :: string
  cf_UploadsEnabled :: bool
  cf_UploadMaxChunkBytes :: int64
  cf_UploadSessionTTL :: duration
  cf_WardveilScanEndpoint :: string
  cf_WardveilScanCallerID :: string
  cf_WardveilScanKeyID :: string
  cf_WardveilScanSecretFile :: string

definition envOr :: "(string \<Rightarrow> string) \<Rightarrow> string \<Rightarrow> string \<Rightarrow> string" where
  "envOr env key fallback = (if env key \<noteq> [] then env key else fallback)"

text \<open>What \<^verbatim>\<open>net.ParseIP\<close> says of an address: loopback, and whether it has an IPv4 form.\<close>

record IP =
  ip_IsLoopback :: bool
  ip_To4 :: bool

text \<open>
  \<^verbatim>\<open>net.SplitHostPort\<close>: the last colon separates the port; a host with a colon stands in
  brackets; a bracket anywhere else is an error.
\<close>

fun split_last_colon :: "string \<Rightarrow> (string \<times> string) option" where
  "split_last_colon [] = None"
| "split_last_colon (c # s) =
     (case split_last_colon s of
        Some (h, p) \<Rightarrow> Some (c # h, p)
      | None \<Rightarrow> if c = CHR '':'' then Some ([], s) else None)"

definition has_bracket :: "string \<Rightarrow> bool" where
  "has_bracket s \<longleftrightarrow> ContainsAny s [CHR 0x5B, CHR 0x5D]"

definition SplitHostPort :: "string \<Rightarrow> (string \<times> string) option" where
  "SplitHostPort hostport =
     (case split_last_colon hostport of
        None \<Rightarrow> None
      | Some (before, port) \<Rightarrow>
          if hd hostport = CHR 0x5B then
            (let host = takeWhile (\<lambda>c. c \<noteq> CHR 0x5D) (tl hostport) in
             if before = [CHR 0x5B] @ host @ [CHR 0x5D] \<and> \<not> has_bracket host \<and> \<not> has_bracket port
             then Some (host, port) else None)
          else if CHR '':'' \<in> set before \<or> has_bracket hostport then None
          else Some (before, port))"

definition isLoopbackHost :: "(string \<Rightarrow> IP option) \<Rightarrow> string \<Rightarrow> bool" where
  "isLoopbackHost ParseIP host \<longleftrightarrow>
     host = ''localhost'' \<or> (case ParseIP host of None \<Rightarrow> False | Some ip \<Rightarrow> ip_IsLoopback ip)"

definition bool_setting :: "string \<Rightarrow> string \<Rightarrow> bool \<Rightarrow> goerr + bool" where
  "bool_setting name raw dflt =
     (if raw = [] then Inr dflt
      else case ParseBool raw of None \<Rightarrow> Inl (Wrapped name (ErrorString ''invalid syntax'')) | Some v \<Rightarrow> Inr v)"

text \<open>A setting that must be positive when it is present.\<close>

definition positive_setting :: "string \<Rightarrow> (string \<Rightarrow> int64 option) \<Rightarrow> string \<Rightarrow> int64 \<Rightarrow> goerr + int64" where
  "positive_setting msg parse raw dflt =
     (if raw = [] then Inr dflt
      else case parse raw of
             None \<Rightarrow> Inl (ErrorString msg)
           | Some v \<Rightarrow> if v \<le> 0 then Inl (ErrorString msg) else Inr v)"

text \<open>The checks on the configuration as a whole.\<close>

definition validate_config :: "(string \<Rightarrow> IP option) \<Rightarrow> Config \<Rightarrow> goerr + Config" where
  "validate_config ParseIP cfg =
     (if cf_DataDir cfg = [] \<or> cf_WebDir cfg = []
      then Inl (ErrorString ''data and web directories must not be empty'')
      else case SplitHostPort (cf_Bind cfg) of
        None \<Rightarrow> Inl (Wrapped ''GC_DRIVE_BIND'' (ErrorString ''invalid address''))
      | Some (host, port) \<Rightarrow>
          if \<not> cf_AllowPublicBind cfg \<and> \<not> isLoopbackHost ParseIP host
          then Inl (ErrorString ''refusing non-loopback bind'')
          else if cf_UploadsEnabled cfg \<and> cf_WardveilScanSecretFile cfg = []
          then Inl (ErrorString ''GC_DRIVE_WARDVEIL_SCAN_SECRET_FILE is required when uploads are enabled'')
          else Inr cfg)"

definition config_Load ::
  "(string \<Rightarrow> duration option) \<Rightarrow> (string \<Rightarrow> IP option) \<Rightarrow> (string \<Rightarrow> string) \<Rightarrow> goerr + Config" where
  "config_Load ParseDuration ParseIP env =
     (case bool_setting ''GC_DRIVE_ALLOW_PUBLIC_BIND'' (env ''GC_DRIVE_ALLOW_PUBLIC_BIND'') False of
        Inl err \<Rightarrow> Inl err
      | Inr allowPublic \<Rightarrow>
     (case bool_setting ''GC_DRIVE_UPLOADS_ENABLED'' (env ''GC_DRIVE_UPLOADS_ENABLED'') False of
        Inl err \<Rightarrow> Inl err
      | Inr uploadsEnabled \<Rightarrow>
     (case positive_setting ''GC_DRIVE_SHUTDOWN_TIMEOUT must be a positive duration'' ParseDuration
             (env ''GC_DRIVE_SHUTDOWN_TIMEOUT'') (10 * second) of
        Inl err \<Rightarrow> Inl err
      | Inr shutdown \<Rightarrow>
     (case positive_setting ''GC_DRIVE_UPLOAD_MAX_CHUNK_BYTES must be a positive integer'' ParseInt
             (env ''GC_DRIVE_UPLOAD_MAX_CHUNK_BYTES'') (8 * 2 ^ 20) of
        Inl err \<Rightarrow> Inl err
      | Inr maxChunk \<Rightarrow>
     (case positive_setting ''GC_DRIVE_UPLOAD_SESSION_TTL must be a positive duration'' ParseDuration
             (env ''GC_DRIVE_UPLOAD_SESSION_TTL'') (24 * hour) of
        Inl err \<Rightarrow> Inl err
      | Inr ttl \<Rightarrow>
     validate_config ParseIP
       \<lparr>cf_Bind = envOr env ''GC_DRIVE_BIND'' ''127.0.0.1:8080'',
            cf_DataDir = envOr env ''GC_DRIVE_DATA_DIR'' ''./data'', cf_WebDir = envOr env ''GC_DRIVE_WEB_DIR'' ''./web'',
            cf_AllowPublicBind = allowPublic, cf_ShutdownTimeout = shutdown,
            cf_WardveilServiceToken = env ''GC_DRIVE_WARDVEIL_SERVICE_TOKEN'', cf_UploadsEnabled = uploadsEnabled,
            cf_UploadMaxChunkBytes = maxChunk, cf_UploadSessionTTL = ttl,
            cf_WardveilScanEndpoint = envOr env ''GC_DRIVE_WARDVEIL_SCAN_ENDPOINT'' ''http://127.0.0.1:8791/v1/scan'',
            cf_WardveilScanCallerID = envOr env ''GC_DRIVE_WARDVEIL_SCAN_CALLER_ID'' ''goreecloud-drive'',
            cf_WardveilScanKeyID = envOr env ''GC_DRIVE_WARDVEIL_SCAN_KEY_ID'' ''scan-current'',
            cf_WardveilScanSecretFile = env ''GC_DRIVE_WARDVEIL_SCAN_SECRET_FILE''\<rparr>)))))"

section \<open>Accepted configurations\<close>

lemma positive_setting_ok: "positive_setting msg parse raw dflt = Inr v \<Longrightarrow> 0 < dflt \<Longrightarrow> 0 < v"
  by (auto simp: positive_setting_def split: if_splits option.splits)

lemma validate_config_ok:
  assumes "validate_config ParseIP cfg0 = Inr cfg"
  shows "cfg = cfg0 \<and> (\<exists>host port. SplitHostPort (cf_Bind cfg) = Some (host, port)
      \<and> (cf_AllowPublicBind cfg \<or> isLoopbackHost ParseIP host))
    \<and> (cf_UploadsEnabled cfg \<longrightarrow> cf_WardveilScanSecretFile cfg \<noteq> [])"
  using assms by (auto simp: validate_config_def split: if_splits option.splits)

lemma config_Load_ok:
  assumes run: "config_Load ParseDuration ParseIP env = Inr cfg"
  shows "0 < cf_ShutdownTimeout cfg \<and> 0 < cf_UploadMaxChunkBytes cfg \<and> 0 < cf_UploadSessionTTL cfg
    \<and> (\<exists>host port. SplitHostPort (cf_Bind cfg) = Some (host, port) \<and> (cf_AllowPublicBind cfg \<or> isLoopbackHost ParseIP host))
    \<and> (cf_UploadsEnabled cfg \<longrightarrow> cf_WardveilScanSecretFile cfg \<noteq> [])"
  using run unfolding config_Load_def
proof (elim case_sum_InrE)
  fix pub up sh mx ttl
  assume sh: "positive_setting ''GC_DRIVE_SHUTDOWN_TIMEOUT must be a positive duration'' ParseDuration
      (env ''GC_DRIVE_SHUTDOWN_TIMEOUT'') (10 * second) = Inr sh"
    and mx: "positive_setting ''GC_DRIVE_UPLOAD_MAX_CHUNK_BYTES must be a positive integer'' ParseInt
      (env ''GC_DRIVE_UPLOAD_MAX_CHUNK_BYTES'') (8 * 2 ^ 20) = Inr mx"
    and ttl: "positive_setting ''GC_DRIVE_UPLOAD_SESSION_TTL must be a positive duration'' ParseDuration
      (env ''GC_DRIVE_UPLOAD_SESSION_TTL'') (24 * hour) = Inr ttl"
  assume v: "validate_config ParseIP
      \<lparr>cf_Bind = envOr env ''GC_DRIVE_BIND'' ''127.0.0.1:8080'',
        cf_DataDir = envOr env ''GC_DRIVE_DATA_DIR'' ''./data'', cf_WebDir = envOr env ''GC_DRIVE_WEB_DIR'' ''./web'',
        cf_AllowPublicBind = pub, cf_ShutdownTimeout = sh,
        cf_WardveilServiceToken = env ''GC_DRIVE_WARDVEIL_SERVICE_TOKEN'', cf_UploadsEnabled = up,
        cf_UploadMaxChunkBytes = mx, cf_UploadSessionTTL = ttl,
        cf_WardveilScanEndpoint = envOr env ''GC_DRIVE_WARDVEIL_SCAN_ENDPOINT'' ''http://127.0.0.1:8791/v1/scan'',
        cf_WardveilScanCallerID = envOr env ''GC_DRIVE_WARDVEIL_SCAN_CALLER_ID'' ''goreecloud-drive'',
        cf_WardveilScanKeyID = envOr env ''GC_DRIVE_WARDVEIL_SCAN_KEY_ID'' ''scan-current'',
        cf_WardveilScanSecretFile = env ''GC_DRIVE_WARDVEIL_SCAN_SECRET_FILE''\<rparr> = Inr cfg"
  have "0 < sh" "0 < mx" "0 < ttl"
    using positive_setting_ok [OF sh] positive_setting_ok [OF mx] positive_setting_ok [OF ttl] by simp_all
  moreover have "cf_ShutdownTimeout cfg = sh" "cf_UploadMaxChunkBytes cfg = mx" "cf_UploadSessionTTL cfg = ttl"
    using conjunct1 [OF validate_config_ok [OF v]] by simp_all
  ultimately show ?thesis using conjunct2 [OF validate_config_ok [OF v]] by simp
qed

end
