(* ===== verification/Http_Routes.thy ===== *)
theory Http_Routes
  imports Http_Api Config
begin

text \<open>
  The routes of \<^verbatim>\<open>internal/httpapi\<close> and its middleware. \<^verbatim>\<open>http.ServeMux\<close> matches a request by
  its method and the segments of its path: a literal segment first, then a wildcard; a GET pattern
  also takes HEAD; what no pattern with a method takes goes to the pattern \<^verbatim>\<open>/\<close>. A path is the list
  of its unescaped segments, where the empty segment after a final slash is written as the segment
  \<^verbatim>\<open>/\<close>, which no wildcard matches (as in \<^verbatim>\<open>net/http\<close>). Paths that \<^verbatim>\<open>net/http\<close> redirects to
  their clean form first are outside the model. The static file server is an argument; the log lines
  of \<^verbatim>\<open>requestLogging\<close> are not observable here.
\<close>

section \<open>The request multiplexer\<close>

record web_request =
  wq_Method :: string
  wq_Path :: "string list"
  wq_Request :: http_request

type_synonym 's web_handler = "web_request \<Rightarrow> 's \<Rightarrow> response option \<times> 's"

datatype segment = Lit string | Wild string

type_synonym 's route = "string \<times> segment list \<times> 's handler"

fun match_path :: "segment list \<Rightarrow> string list \<Rightarrow> (string \<times> string) list option" where
  "match_path [] [] = Some []"
| "match_path (Lit t # ps) (s # ss) = (if s = t then match_path ps ss else None)"
| "match_path (Wild x # ps) (s # ss) =
     (if s = ''/'' then None else map_option ((#) (x, s)) (match_path ps ss))"
| "match_path _ _ = None"

definition bind_path :: "(string \<times> string) list \<Rightarrow> http_request \<Rightarrow> http_request" where
  "bind_path vs r = r\<lparr>hq_PathValue := (\<lambda>k. case map_of vs k of Some v \<Rightarrow> v | None \<Rightarrow> [])\<rparr>"

text \<open>The first route of a method whose pattern fits.\<close>

fun find_route :: "'s route list \<Rightarrow> string \<Rightarrow> string list \<Rightarrow> ((string \<times> string) list \<times> 's handler) option" where
  "find_route [] m p = None"
| "find_route ((m', pat, h) # rs) m p =
     (if m' = m
      then (case match_path pat p of Some vs \<Rightarrow> Some (vs, h) | None \<Rightarrow> find_route rs m p)
      else find_route rs m p)"

definition mux_find :: "'s route list \<Rightarrow> string \<Rightarrow> string list \<Rightarrow> ((string \<times> string) list \<times> 's handler) option" where
  "mux_find rs m p =
     (case find_route rs m p of
        Some x \<Rightarrow> Some x
      | None \<Rightarrow> if m = ''HEAD'' then find_route rs ''GET'' p else None)"

definition ServeMux :: "'s route list \<Rightarrow> 's web_handler \<Rightarrow> 's web_handler" where
  "ServeMux rs catch_all w s =
     (case mux_find rs (wq_Method w) (wq_Path w) of
        Some (vs, h) \<Rightarrow> h (bind_path vs (wq_Request w)) s
      | None \<Rightarrow> catch_all w s)"

section \<open>Middleware\<close>

text \<open>
  A header that middleware sets before it calls the next handler: what that handler sets under the
  same name replaces it.
\<close>

definition preset_header :: "string \<Rightarrow> string \<Rightarrow> response option \<times> 's \<Rightarrow> response option \<times> 's" where
  "preset_header k v result =
     (case result of
        (Some resp, s) \<Rightarrow>
          (Some (if k \<in> set (map fst (rs_headers resp)) then resp
                 else resp\<lparr>rs_headers := (k, v) # rs_headers resp\<rparr>), s)
      | (None, s) \<Rightarrow> (None, s))"

definition securityHeaders :: "'s web_handler \<Rightarrow> 's web_handler" where
  "securityHeaders nxt w s =
     preset_header ''Content-Security-Policy''
       (''default-src 'self'; object-src 'none'; base-uri 'none'; frame-ancestors 'none'' @ [CHR 0x27])
     (preset_header ''Referrer-Policy'' ''no-referrer''
     (preset_header ''X-Content-Type-Options'' ''nosniff''
     (preset_header ''X-Frame-Options'' ''DENY''
     (preset_header ''Permissions-Policy'' ''camera=(), microphone=(), geolocation=()''
     (nxt w s)))))"

text \<open>The random source delivers sixteen bytes a call; the request id takes twelve.\<close>

definition requestID :: "('s \<Rightarrow> (goerr + byte list) \<times> 's) \<Rightarrow> 's web_handler \<Rightarrow> 's web_handler" where
  "requestID rand nxt w s =
     (case rand s of
        (Inr b, s1) \<Rightarrow> preset_header ''X-Request-ID'' (hex_words (take 12 b)) (nxt w s1)
      | (Inl err, s1) \<Rightarrow> nxt w s1)"

definition requestLogging :: "'s web_handler \<Rightarrow> 's web_handler" where
  "requestLogging nxt w s = nxt w s"

section \<open>The server\<close>

record 's Server =
  sv_Addr :: string
  sv_Handler :: "'s web_handler"
  sv_ReadHeaderTimeout :: duration
  sv_ReadTimeout :: duration
  sv_WriteTimeout :: duration
  sv_IdleTimeout :: duration
  sv_MaxHeaderBytes :: int

definition node_path :: "segment list" where
  "node_path = [Lit ''api'', Lit ''v1'', Lit ''spaces'', Wild ''spaceID'', Lit ''nodes'']"

definition drive_routes :: "'s Dependencies \<Rightarrow> 's route list" where
  "drive_routes deps =
     (let principals = default_principals deps; access = dep_access deps; nodeService = dep_nodes deps in
      [(''GET'', [Lit ''healthz''], \<lambda>r. writeJSON 200 (HealthMap ''ok'')),
       (''GET'', [Lit ''readyz''], \<lambda>r. writeJSON 200 (HealthMap ''ready'')),
       (''GET'', [Lit ''api'', Lit ''v1'', Lit ''status''], statusHandler),
       (''GET'', [Lit ''api'', Lit ''v1'', Lit ''spaces'', Wild ''spaceID'', Lit ''capabilities'', Wild ''action''],
         capabilityHandler principals access),
       (''GET'', node_path, listNodesHandler principals nodeService),
       (''POST'', node_path, createNodeHandler principals nodeService),
       (''GET'', node_path @ [Wild ''nodeID''], getNodeHandler principals nodeService),
       (''PATCH'', node_path @ [Wild ''nodeID''], renameNodeHandler principals nodeService),
       (''DELETE'', node_path @ [Wild ''nodeID''], trashNodeHandler principals nodeService),
       (''POST'', [Lit ''internal'', Lit ''v1'', Lit ''wardveil'', Lit ''quarantine'', Lit ''apply''],
         quarantineApplyHandler (dp_Quarantine deps) (dp_WardveilServiceToken deps)),
       (''POST'', [Lit ''internal'', Lit ''v1'', Lit ''wardveil'', Lit ''quarantine'', Lit ''read''],
         quarantineReadHandler (dp_Quarantine deps) (dp_WardveilServiceToken deps))])"

text \<open>\<open>files\<close> is the file server on a directory.\<close>

definition NewWithDependencies ::
  "(string \<Rightarrow> 's web_handler) \<Rightarrow> Config \<Rightarrow> 's Dependencies \<Rightarrow> 's Server" where
  "NewWithDependencies files cfg deps =
     \<lparr>sv_Addr = cf_Bind cfg,
      sv_Handler = requestLogging (securityHeaders (requestID (dp_rand deps)
        (ServeMux (drive_routes deps) (files (cf_WebDir cfg))))),
      sv_ReadHeaderTimeout = 5 * second, sv_ReadTimeout = 30 * second, sv_WriteTimeout = 30 * second,
      sv_IdleTimeout = 60 * second, sv_MaxHeaderBytes = 2 ^ 20\<rparr>"

definition httpapi_New ::
  "(string \<Rightarrow> 's web_handler) \<Rightarrow> ('s \<Rightarrow> (goerr + byte list) \<times> 's) \<Rightarrow> Config \<Rightarrow> 's Server" where
  "httpapi_New files rand cfg =
     NewWithDependencies files cfg
       \<lparr>dp_Principals = Some DenyAllResolver, dp_Memberships = None, dp_Nodes = None, dp_Quarantine = None,
        dp_WardveilServiceToken = [], dp_rand = rand\<rparr>"

definition upload_path :: "segment list" where
  "upload_path = [Lit ''api'', Lit ''v1'', Lit ''spaces'', Wild ''spaceID'', Lit ''uploads'']"

definition upload_routes :: "'s Dependencies \<Rightarrow> 's UploadApi \<Rightarrow> 's route list" where
  "upload_routes deps service =
     [(''POST'', upload_path,
        createUploadHandler (dp_Principals deps) (dep_access deps) (dep_nodes deps) service),
      (''GET'', upload_path @ [Wild ''uploadID''], getUploadHandler (dp_Principals deps) service),
      (''PATCH'', upload_path @ [Wild ''uploadID''], appendUploadHandler (dp_Principals deps) service),
      (''POST'', upload_path @ [Wild ''uploadID'', Lit ''complete''],
        completeUploadHandler (dp_Principals deps) service)]"

definition NewWithUploads ::
  "(string \<Rightarrow> 's web_handler) \<Rightarrow> Config \<Rightarrow> 's Dependencies \<Rightarrow> 's UploadApi option \<Rightarrow> 's Server" where
  "NewWithUploads files cfg deps uploadService =
     (let server = NewWithDependencies files cfg deps in
      case uploadService of
        None \<Rightarrow> server
      | Some service \<Rightarrow>
          server\<lparr>sv_Handler := requestLogging (securityHeaders (requestID (dp_rand deps)
            (ServeMux (upload_routes deps service) (sv_Handler server))))\<rparr>)"

section \<open>Dispatch\<close>

lemma find_route_member:
  "find_route rs m p = Some (vs, h) \<Longrightarrow> \<exists>pat. (m, pat, h) \<in> set rs \<and> match_path pat p = Some vs"
  by (induction rs m p rule: find_route.induct) (auto split: if_splits option.splits)

lemma mux_find_member:
  "mux_find rs m p = Some (vs, h) \<Longrightarrow> \<exists>m' pat. (m', pat, h) \<in> set rs \<and> match_path pat p = Some vs"
  by (auto simp: mux_find_def split: option.splits if_splits dest!: find_route_member)

lemma preset_header_None [simp]: "preset_header k v (None, s) = (None, s)"
  by (simp add: preset_header_def)

text \<open>
  The middleware draws a request id, calls the next handler, and changes nothing of its answer but the
  headers.
\<close>

definition middleware :: "('s \<Rightarrow> (goerr + byte list) \<times> 's) \<Rightarrow> 's web_handler \<Rightarrow> 's web_handler" where
  "middleware rand nxt = requestLogging (securityHeaders (requestID rand nxt))"

definition answers :: "response \<Rightarrow> 's \<Rightarrow> response option \<times> 's \<Rightarrow> bool" where
  "answers resp s result \<longleftrightarrow> (\<exists>hs. result = (Some (resp\<lparr>rs_headers := hs\<rparr>), s))"

lemma preset_header_answers: "answers resp s result \<Longrightarrow> answers resp s (preset_header k v result)"
  by (cases resp) (auto simp: answers_def preset_header_def)

lemma answers_refl: "answers resp s (Some resp, s)"
  by (cases resp) (auto simp: answers_def)

lemma requestID_answers: "nxt w (snd (rand s)) = (Some resp, s') \<Longrightarrow> answers resp s' (requestID rand nxt w s)"
  by (cases "rand s"; cases "fst (rand s)") (simp_all add: requestID_def preset_header_answers answers_refl)

lemma middleware_answers:
  "nxt w (snd (rand s)) = (Some resp, s') \<Longrightarrow> answers resp s' (middleware rand nxt w s)"
  unfolding middleware_def requestLogging_def securityHeaders_def
  by (intro preset_header_answers requestID_answers)

lemma middleware_panics: "nxt w (snd (rand s)) = (None, s') \<Longrightarrow> middleware rand nxt w s = (None, s')"
  by (auto simp: middleware_def requestLogging_def securityHeaders_def requestID_def split: prod.splits sum.splits)

lemma NewWithDependencies_handler:
  "sv_Handler (NewWithDependencies files cfg deps) = middleware (dp_rand deps) (ServeMux (drive_routes deps) (files (cf_WebDir cfg)))"
  by (simp add: NewWithDependencies_def middleware_def)

lemma NewWithUploads_handler:
  "sv_Handler (NewWithUploads files cfg deps (Some api)) =
    middleware (dp_rand deps) (ServeMux (upload_routes deps api) (sv_Handler (NewWithDependencies files cfg deps)))"
  by (simp add: NewWithUploads_def middleware_def Let_def)

end
