(* ===== verification/Http_Scanner.thy ===== *)
theory Http_Scanner
  imports Wardveil_Scan Config Go_OS
begin

text \<open>
  \<^verbatim>\<open>internal/wardveil/http_scanner.go\<close>: the client of the Wardveil Scan service. \<^verbatim>\<open>url.Parse\<close>
  and \<^verbatim>\<open>net.ParseIP\<close> are arguments of the constructor, and the HTTP transport is an argument of the
  client: a function that sends a request with the bytes behind a handle and delivers an answer or an
  error. The clock and the two token sources read the state \<open>'s\<close>.
\<close>

section \<open>Configuration\<close>

definition WardveilScanPath :: string where "WardveilScanPath = ''/v1/scan''"
definition WardveilScanContractVersion :: string where "WardveilScanContractVersion = ''0.1.0''"
definition defaultScanTimeout :: duration where "defaultScanTimeout = 35 * second"
definition defaultMaxScanResponseBytes :: int64 where "defaultMaxScanResponseBytes = 2 ^ 20"
definition minimumScanCallerSecretBytes :: nat where "minimumScanCallerSecretBytes = 32"
definition defaultScanCallerID :: string where "defaultScanCallerID = ''goreecloud-drive''"
definition defaultScanKeyID :: string where "defaultScanKeyID = ''scan-current''"

type_synonym 's clock = "'s \<Rightarrow> time \<times> 's"
type_synonym 's token_source = "'s \<Rightarrow> (goerr + string) \<times> 's"

record 's HTTPScannerConfig =
  hc_Endpoint :: string
  hc_CallerID :: string
  hc_KeyID :: string
  hc_Secret :: string
  hc_Timeout :: duration
  hc_MaxResponseBytes :: int64
  hc_Now :: "'s clock option"
  hc_Nonce :: "'s token_source option"
  hc_CorrelationID :: "'s token_source option"

text \<open>The parts of a parsed URL that the code reads.\<close>

record URL =
  url_String :: string
  url_Scheme :: string
  url_User :: bool
  url_RawQuery :: string
  url_Fragment :: string
  url_Path :: string
  url_Port :: string
  url_Hostname :: string

definition validateScanEndpoint ::
  "(string \<Rightarrow> goerr + URL) \<Rightarrow> (string \<Rightarrow> IP option) \<Rightarrow> string \<Rightarrow> goerr + URL" where
  "validateScanEndpoint url_Parse ParseIP raw =
     (case url_Parse raw of
        Inl err \<Rightarrow> Inl (Wrapped ''parse Wardveil Scan endpoint'' err)
      | Inr endpoint \<Rightarrow>
          if url_Scheme endpoint \<noteq> ''http''
          then Inl (ErrorString ''Wardveil Scan endpoint must use loopback HTTP'')
          else if url_User endpoint \<or> url_RawQuery endpoint \<noteq> [] \<or> url_Fragment endpoint \<noteq> []
          then Inl (ErrorString ''Wardveil Scan endpoint must not include userinfo, query, or fragment'')
          else if url_Path endpoint \<noteq> WardveilScanPath
          then Inl (ErrorString (''Wardveil Scan endpoint path must be '' @ WardveilScanPath))
          else if url_Port endpoint = []
          then Inl (ErrorString ''Wardveil Scan endpoint must include an explicit port'')
          else case ParseIP (url_Hostname endpoint) of
            None \<Rightarrow> Inl (ErrorString ''Wardveil Scan endpoint must use an IPv4 loopback address'')
          | Some ip \<Rightarrow>
              if \<not> ip_IsLoopback ip \<or> \<not> ip_To4 ip
              then Inl (ErrorString ''Wardveil Scan endpoint must use an IPv4 loopback address'')
              else Inr endpoint)"

definition randomScanToken :: "('s \<Rightarrow> (goerr + byte list) \<times> 's) \<Rightarrow> string \<Rightarrow> 's token_source" where
  "randomScanToken rand prefix s =
     (case rand s of
        (Inl err, s1) \<Rightarrow> (Inl err, s1)
      | (Inr raw, s1) \<Rightarrow> (Inr (prefix @ ''-'' @ hex_words raw), s1))"

section \<open>The client\<close>

record scan_http_request =
  sh_URL :: string
  sh_ContentLength :: int64
  sh_Header :: "(string \<times> string) list"

record scan_http_response =
  sp_StatusCode :: int
  sp_ContentType :: string
  sp_Body :: reader

text \<open>
  The transport with its fixed policy (no proxy, no redirects): \<open>cl_Timeout\<close> bounds the exchange,
  \<open>cl_Do\<close> performs it.
\<close>

record ('s, 'h) scan_client =
  cl_Timeout :: duration
  cl_Do :: "duration \<Rightarrow> scan_http_request \<Rightarrow> 'h \<Rightarrow> 's \<Rightarrow> (goerr + scan_http_response) \<times> 's"

record ('s, 'h) HTTPScanner =
  hs_endpoint :: "URL option"
  hs_callerID :: string
  hs_keyID :: string
  hs_secret :: string
  hs_client :: "('s, 'h) scan_client option"
  hs_maxResponseBytes :: int64
  hs_now :: "'s clock option"
  hs_nonce :: "'s token_source option"
  hs_correlationID :: "'s token_source option"

text \<open>
  \<open>now\<close> and \<open>rand\<close> are the process's clock and random source, \<open>transport\<close> the default transport.
\<close>

definition NewHTTPScanner ::
  "(string \<Rightarrow> goerr + URL) \<Rightarrow> (string \<Rightarrow> IP option) \<Rightarrow> 's clock \<Rightarrow> ('s \<Rightarrow> (goerr + byte list) \<times> 's)
   \<Rightarrow> (duration \<Rightarrow> scan_http_request \<Rightarrow> 'h \<Rightarrow> 's \<Rightarrow> (goerr + scan_http_response) \<times> 's)
   \<Rightarrow> 's HTTPScannerConfig \<Rightarrow> goerr + ('s, 'h) HTTPScanner" where
  "NewHTTPScanner url_Parse ParseIP now rand transport cfg =
     (case validateScanEndpoint url_Parse ParseIP (hc_Endpoint cfg) of
        Inl err \<Rightarrow> Inl err
      | Inr endpoint \<Rightarrow>
     (let callerID = (if hc_CallerID cfg = [] then defaultScanCallerID else hc_CallerID cfg);
          keyID = (if hc_KeyID cfg = [] then defaultScanKeyID else hc_KeyID cfg) in
      if \<not> validScanToken callerID \<or> \<not> validScanToken keyID
      then Inl (ErrorString ''Wardveil Scan caller or key identity invalid'')
      else if hc_Secret cfg \<noteq> TrimSpace (hc_Secret cfg) \<or> length (hc_Secret cfg) < minimumScanCallerSecretBytes
      then Inl (ErrorString ''Wardveil Scan caller secret must be at least 32 bytes with no surrounding whitespace'')
      else let timeout = (if hc_Timeout cfg = 0 then defaultScanTimeout else hc_Timeout cfg) in
      if timeout \<le> 0 then Inl (ErrorString ''Wardveil Scan timeout must be positive'')
      else let maxResponseBytes =
        (if hc_MaxResponseBytes cfg = 0 then defaultMaxScanResponseBytes else hc_MaxResponseBytes cfg) in
      if maxResponseBytes \<le> 0 then Inl (ErrorString ''Wardveil Scan response limit must be positive'')
      else Inr
        \<lparr>hs_endpoint = Some endpoint, hs_callerID = callerID, hs_keyID = keyID, hs_secret = hc_Secret cfg,
         hs_client = Some \<lparr>cl_Timeout = timeout, cl_Do = transport\<rparr>, hs_maxResponseBytes = maxResponseBytes,
         hs_now = Some (case hc_Now cfg of None \<Rightarrow> now | Some f \<Rightarrow> f),
         hs_nonce = Some (case hc_Nonce cfg of None \<Rightarrow> randomScanToken rand ''drive-nonce'' | Some f \<Rightarrow> f),
         hs_correlationID =
           Some (case hc_CorrelationID cfg of None \<Rightarrow> randomScanToken rand ''drive-scan'' | Some f \<Rightarrow> f)\<rparr>))"

section \<open>Signing\<close>

abbreviation newline :: char where
  "newline \<equiv> CHR 0x0A"

definition sign_material ::
  "string \<Rightarrow> string \<Rightarrow> string \<Rightarrow> string \<Rightarrow> string \<Rightarrow> string \<Rightarrow> string \<Rightarrow> string \<Rightarrow> int64 \<Rightarrow> string \<Rightarrow> string" where
  "sign_material callerID keyID timestamp nonce action resourceType resourceID correlationID sizeBytes digestSHA256 =
     Join [newline] [WardveilScanContractVersion, callerID, keyID, timestamp, nonce, action, resourceType,
       resourceID, correlationID, FormatInt sizeBytes, digestSHA256]"

definition signScanRequest ::
  "string \<Rightarrow> string \<Rightarrow> string \<Rightarrow> string \<Rightarrow> string \<Rightarrow> string \<Rightarrow> string \<Rightarrow> string \<Rightarrow> string \<Rightarrow> int64 \<Rightarrow> string \<Rightarrow> string" where
  "signScanRequest secret callerID keyID timestamp nonce action resourceType resourceID correlationID sizeBytes digestSHA256 =
     EncodeToString (hmac_sha256 secret
       (sign_material callerID keyID timestamp nonce action resourceType resourceID correlationID sizeBytes digestSHA256))"

section \<open>The answer\<close>

record scanRecordWire =
  sw_ContractVersion :: string
  sw_RecordID :: string
  sw_RecordType :: string
  sw_CorrelationID :: string
  sw_Producer :: Producer
  sw_Scope :: ScanScope
  sw_ObservedAt :: time
  sw_ValidUntil :: time
  sw_Result :: Result
  sw_EvidenceRefs :: "string list"

record scanEnvelopeWire =
  ew_ResourceID :: string
  ew_ResourceDigestSHA256 :: string
  ew_ScanRecord :: scanRecordWire

definition producer_fields :: "Producer setters" where
  "producer_fields =
     [(''id'', set_string (\<lambda>v r. r\<lparr>pr_ID := v\<rparr>)), (''authoritative'', set_bool (\<lambda>v r. r\<lparr>pr_Authoritative := v\<rparr>))]"

definition scan_scope_fields :: "ScanScope setters" where
  "scan_scope_fields =
     [(''resource_type'', set_string (\<lambda>v r. r\<lparr>sp_ResourceType := v\<rparr>)),
      (''resource_id'', set_string (\<lambda>v r. r\<lparr>sp_ResourceID := v\<rparr>))]"

definition scan_record_fields :: "scanRecordWire setters" where
  "scan_record_fields =
     [(''contract_version'', set_string (\<lambda>v r. r\<lparr>sw_ContractVersion := v\<rparr>)),
      (''record_id'', set_string (\<lambda>v r. r\<lparr>sw_RecordID := v\<rparr>)),
      (''record_type'', set_string (\<lambda>v r. r\<lparr>sw_RecordType := v\<rparr>)),
      (''correlation_id'', set_string (\<lambda>v r. r\<lparr>sw_CorrelationID := v\<rparr>)),
      (''producer'', set_struct True producer_fields sw_Producer (\<lambda>v r. r\<lparr>sw_Producer := v\<rparr>)),
      (''scope'', set_struct True scan_scope_fields sw_Scope (\<lambda>v r. r\<lparr>sw_Scope := v\<rparr>)),
      (''observed_at'', set_time (\<lambda>v r. r\<lparr>sw_ObservedAt := v\<rparr>)),
      (''valid_until'', set_time (\<lambda>v r. r\<lparr>sw_ValidUntil := v\<rparr>)),
      (''result'', set_string (\<lambda>v r. r\<lparr>sw_Result := v\<rparr>)),
      (''evidence_refs'', set_strings sw_EvidenceRefs (\<lambda>v r. r\<lparr>sw_EvidenceRefs := v\<rparr>))]"

definition scan_envelope_fields :: "scanEnvelopeWire setters" where
  "scan_envelope_fields =
     [(''resource_id'', set_string (\<lambda>v r. r\<lparr>ew_ResourceID := v\<rparr>)),
      (''resource_digest_sha256'', set_string (\<lambda>v r. r\<lparr>ew_ResourceDigestSHA256 := v\<rparr>)),
      (''scan_record'', set_struct True scan_record_fields ew_ScanRecord (\<lambda>v r. r\<lparr>ew_ScanRecord := v\<rparr>))]"

definition zero_record_wire :: scanRecordWire where
  "zero_record_wire =
     \<lparr>sw_ContractVersion = [], sw_RecordID = [], sw_RecordType = [], sw_CorrelationID = [],
      sw_Producer = \<lparr>pr_ID = [], pr_Authoritative = False\<rparr>, sw_Scope = \<lparr>sp_ResourceType = [], sp_ResourceID = []\<rparr>,
      sw_ObservedAt = 0, sw_ValidUntil = 0, sw_Result = [], sw_EvidenceRefs = []\<rparr>"

definition zero_envelope_wire :: scanEnvelopeWire where
  "zero_envelope_wire =
     \<lparr>ew_ResourceID = [], ew_ResourceDigestSHA256 = [], ew_ScanRecord = zero_record_wire\<rparr>"

definition envelope_of_wire :: "scanEnvelopeWire \<Rightarrow> ScanEnvelope" where
  "envelope_of_wire wire =
     (let record = ew_ScanRecord wire in
      \<lparr>se_ResourceID = ew_ResourceID wire, se_ResourceDigestSHA256 = ew_ResourceDigestSHA256 wire,
       se_ScanRecord = \<lparr>sr_ContractVersion = sw_ContractVersion record, sr_RecordID = sw_RecordID record,
         sr_RecordType = sw_RecordType record, sr_Producer = sw_Producer record, sr_Scope = sw_Scope record,
         sr_ObservedAt = sw_ObservedAt record, sr_ValidUntil = sw_ValidUntil record,
         sr_Result = sw_Result record, sr_EvidenceRefs = sw_EvidenceRefs record\<rparr>\<rparr>)"

text \<open>
  Everything after the transport delivered an answer. The read limit is a 64-bit sum, which wraps at
  the largest limit; nothing is read then.
\<close>

definition scan_answer :: "int64 \<Rightarrow> string \<Rightarrow> scan_http_response \<Rightarrow> goerr + ScanEnvelope" where
  "scan_answer maxResponseBytes correlationID response =
     (if sp_StatusCode response \<noteq> 200
      then Inl (ErrorString (''Wardveil Scan returned HTTP '' @ FormatInt (sp_StatusCode response)))
      else if \<not> HasPrefix (ToLower (sp_ContentType response)) ''application/json''
      then Inl (ErrorString ''Wardveil Scan response content type invalid'')
      else let limit = wrap64 (maxResponseBytes + 1); encoded = limited (sp_Body response) limit in
      if limited_fails (sp_Body response) limit
      then Inl (Wrapped ''read Wardveil Scan response'' (ErrorString ''unexpected EOF''))
      else if int (length encoded) > maxResponseBytes
      then Inl (ErrorString ''Wardveil Scan response exceeds configured limit'')
      else case json_Decode_one True scan_envelope_fields zero_envelope_wire encoded of
            None \<Rightarrow> Inl (Wrapped ''decode Wardveil Scan response'' (ErrorString ''invalid JSON''))
          | Some wire \<Rightarrow>
              if sw_CorrelationID (ew_ScanRecord wire) \<noteq> correlationID
              then Inl (ErrorString ''Wardveil Scan response correlation mismatch'')
              else Inr (envelope_of_wire wire))"

definition scan_headers ::
  "('s, 'h) HTTPScanner \<Rightarrow> string \<Rightarrow> string \<Rightarrow> string \<Rightarrow> string \<Rightarrow> ScanRequest \<Rightarrow> (string \<times> string) list" where
  "scan_headers c timestamp nonce correlationID digest request =
     [(''Content-Type'', ''application/octet-stream''),
      (''X-Wardveil-Caller-ID'', hs_callerID c), (''X-Wardveil-Key-ID'', hs_keyID c),
      (''X-Wardveil-Timestamp'', timestamp), (''X-Wardveil-Nonce'', nonce),
      (''X-Wardveil-Resource-Type'', rq_ResourceType request), (''X-Wardveil-Resource-ID'', rq_ResourceID request),
      (''X-Wardveil-Digest-SHA256'', digest), (''X-Wardveil-Size-Bytes'', FormatInt (rq_SizeBytes request)),
      (''X-Wardveil-Action'', rq_Action request), (''X-Wardveil-Correlation-ID'', correlationID),
      (''X-Wardveil-Signature'',
        signScanRequest (hs_secret c) (hs_callerID c) (hs_keyID c) timestamp nonce (rq_Action request)
          (rq_ResourceType request) (rq_ResourceID request) correlationID (rq_SizeBytes request) digest)]"

text \<open>
  \<^verbatim>\<open>Scan\<close>. The receiver and the body may be nil. \<^verbatim>\<open>NewRequestWithContext\<close> cannot fail here: the
  method is a constant and the URL was parsed before.
\<close>

definition HTTPScanner_Scan ::
  "('s, 'h) HTTPScanner option \<Rightarrow> ScanRequest \<Rightarrow> 'h option \<Rightarrow> 's \<Rightarrow> (goerr + ScanEnvelope) \<times> 's" where
  "HTTPScanner_Scan receiver request body s =
     (case receiver of
        None \<Rightarrow> (Inl (ErrorString ''Wardveil Scan HTTP client unavailable''), s)
      | Some c \<Rightarrow>
     (case (hs_endpoint c, hs_client c, hs_now c, hs_nonce c, hs_correlationID c) of
        (Some endpoint, Some client, Some now, Some nonce_source, Some correlation_source) \<Rightarrow>
     (case body of
        None \<Rightarrow> (Inl (ErrorString ''Wardveil Scan body unavailable''), s)
      | Some content \<Rightarrow>
     if rq_ResourceType request \<noteq> DriveFileResourceType \<or> TrimSpace (rq_ResourceID request) = []
     then (Inl (ErrorString ''Wardveil Scan resource identity invalid''), s)
     else if \<not> validSHA256 (rq_DigestSHA256 request) \<or> rq_SizeBytes request < 0 \<or> \<not> validAction (rq_Action request)
     then (Inl (ErrorString ''Wardveil Scan request metadata invalid''), s)
     else
     (case now s of
        (t, s1) \<Rightarrow>
     (case nonce_source s1 of
        (Inl err, s2) \<Rightarrow> (Inl (ErrorString ''generate Wardveil Scan nonce''), s2)
      | (Inr nonce, s2) \<Rightarrow>
     if \<not> validScanToken nonce then (Inl (ErrorString ''generate Wardveil Scan nonce''), s2)
     else
     (case correlation_source s2 of
        (Inl err, s3) \<Rightarrow> (Inl (ErrorString ''generate Wardveil Scan correlation ID''), s3)
      | (Inr correlationID, s3) \<Rightarrow>
     if \<not> validScanToken correlationID
     then (Inl (ErrorString ''generate Wardveil Scan correlation ID''), s3)
     else
     (let digest = ToLower (rq_DigestSHA256 request);
          httpRequest = \<lparr>sh_URL = url_String endpoint, sh_ContentLength = rq_SizeBytes request,
            sh_Header = scan_headers c (format_RFC3339Nano t) nonce correlationID digest request\<rparr> in
      case cl_Do client (cl_Timeout client) httpRequest content s3 of
        (Inl err, s4) \<Rightarrow> (Inl (Wrapped ''execute Wardveil Scan request'' err), s4)
      | (Inr response, s4) \<Rightarrow> (scan_answer (hs_maxResponseBytes c) correlationID response, s4))))))
      | _ \<Rightarrow> (Inl (ErrorString ''Wardveil Scan HTTP client unavailable''), s)))"

text \<open>The client as the scanner of the gate, which always passes an open handle.\<close>

definition http_scanner :: "('s, 'h) HTTPScanner \<Rightarrow> ('s, 'h) Scanner" where
  "http_scanner c request content = HTTPScanner_Scan (Some c) request (Some content)"

section \<open>Accepted configurations\<close>

text \<open>What the constructor guarantees of a client.\<close>

definition scanner_wf :: "(string \<Rightarrow> IP option) \<Rightarrow> ('s, 'h) HTTPScanner \<Rightarrow> bool" where
  "scanner_wf ParseIP c \<longleftrightarrow>
     (\<exists>endpoint client ip. hs_endpoint c = Some endpoint \<and> hs_client c = Some client
        \<and> url_Scheme endpoint = ''http'' \<and> \<not> url_User endpoint \<and> url_RawQuery endpoint = []
        \<and> url_Fragment endpoint = [] \<and> url_Path endpoint = WardveilScanPath \<and> url_Port endpoint \<noteq> []
        \<and> ParseIP (url_Hostname endpoint) = Some ip \<and> ip_IsLoopback ip \<and> ip_To4 ip
        \<and> cl_Timeout client > 0)
     \<and> validScanToken (hs_callerID c) \<and> validScanToken (hs_keyID c)
     \<and> 32 \<le> length (hs_secret c) \<and> TrimSpace (hs_secret c) = hs_secret c \<and> hs_maxResponseBytes c > 0
     \<and> hs_now c \<noteq> None \<and> hs_nonce c \<noteq> None \<and> hs_correlationID c \<noteq> None"

lemma validateScanEndpoint_ok:
  assumes "validateScanEndpoint url_Parse ParseIP raw = Inr endpoint"
  shows "url_Parse raw = Inr endpoint \<and> url_Scheme endpoint = ''http'' \<and> \<not> url_User endpoint
    \<and> url_RawQuery endpoint = [] \<and> url_Fragment endpoint = [] \<and> url_Path endpoint = WardveilScanPath
    \<and> url_Port endpoint \<noteq> [] \<and> (\<exists>ip. ParseIP (url_Hostname endpoint) = Some ip \<and> ip_IsLoopback ip \<and> ip_To4 ip)"
  using assms by (simp add: validateScanEndpoint_def split: sum.splits if_splits option.splits)

lemma NewHTTPScanner_wf:
  assumes "NewHTTPScanner url_Parse ParseIP now rand transport cfg = Inr c"
  shows "scanner_wf ParseIP c"
proof -
  obtain endpoint where e: "validateScanEndpoint url_Parse ParseIP (hc_Endpoint cfg) = Inr endpoint"
    using assms by (auto simp: NewHTTPScanner_def split: sum.splits)
  show ?thesis
    using assms validateScanEndpoint_ok [OF e]
    by (auto simp: NewHTTPScanner_def e Let_def scanner_wf_def minimumScanCallerSecretBytes_def split: if_splits)
qed

lemma NewHTTPScanner_fields:
  assumes "NewHTTPScanner url_Parse ParseIP now rand transport cfg = Inr c"
  shows "hs_secret c = hc_Secret cfg \<and> (\<exists>e. url_Parse (hc_Endpoint cfg) = Inr e \<and> hs_endpoint c = Some e)"
proof -
  obtain endpoint where e: "validateScanEndpoint url_Parse ParseIP (hc_Endpoint cfg) = Inr endpoint"
    using assms by (auto simp: NewHTTPScanner_def split: sum.splits)
  show ?thesis
    using assms validateScanEndpoint_ok [OF e] by (auto simp: NewHTTPScanner_def e Let_def split: if_splits)
qed

lemma NewHTTPScanner_client:
  assumes "NewHTTPScanner url_Parse ParseIP now rand transport cfg = Inr c"
  shows "\<exists>timeout. hs_client c = Some \<lparr>cl_Timeout = timeout, cl_Do = transport\<rparr>"
  using assms by (auto simp: NewHTTPScanner_def Let_def split: sum.splits if_splits)

section \<open>Exchanges\<close>

lemma scan_answer_ok:
  assumes "scan_answer mx corr resp = Inr env"
  shows "sp_StatusCode resp = 200 \<and> (\<exists>wire. json_Decode_one True scan_envelope_fields zero_envelope_wire
      (limited (sp_Body resp) (wrap64 (mx + 1))) = Some wire
    \<and> int (length (limited (sp_Body resp) (wrap64 (mx + 1)))) \<le> mx
    \<and> sw_CorrelationID (ew_ScanRecord wire) = corr \<and> env = envelope_of_wire wire)"
  using assms by (auto simp: scan_answer_def Let_def split: if_splits option.splits)

text \<open>A scan that delivers an envelope made exactly one exchange.\<close>

lemma Scan_success:
  assumes run: "http_scanner c req h s = (Inr env, s')"
  obtains endpoint client now nonce_source correlation_source t s1 nonce s2 corr s3 resp
  where "hs_endpoint c = Some endpoint" "hs_client c = Some client" "hs_now c = Some now"
    "hs_nonce c = Some nonce_source" "hs_correlationID c = Some correlation_source"
    "now s = (t, s1)" "nonce_source s1 = (Inr nonce, s2)" "correlation_source s2 = (Inr corr, s3)"
    "validScanToken nonce" "validScanToken corr" "rq_ResourceType req = DriveFileResourceType"
    "validSHA256 (rq_DigestSHA256 req)" "0 \<le> rq_SizeBytes req" "validAction (rq_Action req)"
    "cl_Do client (cl_Timeout client) \<lparr>sh_URL = url_String endpoint, sh_ContentLength = rq_SizeBytes req,
       sh_Header = scan_headers c (format_RFC3339Nano t) nonce corr (ToLower (rq_DigestSHA256 req)) req\<rparr> h s3
     = (Inr resp, s')"
    "scan_answer (hs_maxResponseBytes c) corr resp = Inr env"
  using run
  by (simp add: http_scanner_def HTTPScanner_Scan_def Let_def split: option.splits prod.splits if_splits sum.splits)

text \<open>A relation that the clock, the token sources and the transport respect is respected by a scan.\<close>

lemma Scan_keeps:
  assumes refl: "\<And>s. R s s" and trans: "\<And>s t u. R s t \<Longrightarrow> R t u \<Longrightarrow> R s u"
    and now: "\<And>f s t s'. hs_now c = Some f \<Longrightarrow> f s = (t, s') \<Longrightarrow> R s s'"
    and nonce: "\<And>f s r s'. hs_nonce c = Some f \<Longrightarrow> f s = (r, s') \<Longrightarrow> R s s'"
    and corr: "\<And>f s r s'. hs_correlationID c = Some f \<Longrightarrow> f s = (r, s') \<Longrightarrow> R s s'"
    and client: "\<And>cl d q h s r s'. hs_client c = Some cl \<Longrightarrow> cl_Do cl d q h s = (r, s') \<Longrightarrow> R s s'"
    and run: "http_scanner c req h s = (res, s')"
  shows "R s s'"
  using run
  by (auto simp: http_scanner_def HTTPScanner_Scan_def Let_def refl split: option.splits prod.splits if_splits sum.splits
      dest!: now nonce corr client intro: trans)

section \<open>Signatures\<close>

lemma FormatInt_inject: "0 \<le> n \<Longrightarrow> 0 \<le> m \<Longrightarrow> FormatInt n = FormatInt m \<Longrightarrow> n = m"
  by (metis FormatInt_def digits_val_decimal int_nat_eq linorder_not_le)

lemma FormatInt_no_newline: "newline \<notin> set (FormatInt n)"
  by (auto simp: FormatInt_def dest: decimal_chars)

lemma validScanToken_no_newline:
  assumes "validScanToken v" shows "newline \<notin> set v"
proof
  assume "newline \<in> set v"
  then obtain i where i: "i < length v" "v ! i = newline" by (auto simp: in_set_conv_nth)
  define P where "P = (\<lambda>(j :: nat) r. (alnum_rune r \<or> punct_rune r) \<and> (j = 0 \<longrightarrow> alnum_rune r))"
  have asc: "P j r \<Longrightarrow> r < 128" for j r by (auto simp: P_def alnum_rune_def punct_rune_def)
  have "\<forall>(j, r) \<in> set (runes v). P j r" using assms by (auto simp: validScanToken_def list_all_iff P_def)
  then have "\<forall>i < length v. P i (byte_of (v ! i))"
    using runes_check [of P v] asc by blast
  then have "P i (byte_of (v ! i))" using i(1) by simp
  then have "P i 10" using i(2) by simp
  then show False by (simp add: P_def alnum_rune_def punct_rune_def)
qed

lemma time_no_newline: "newline \<notin> set (format_RFC3339Nano t)"
  by (auto simp: time_char_def dest: format_RFC3339Nano_chars)

lemma validAction_no_newline: "validAction a \<Longrightarrow> newline \<notin> set a"
  by (auto simp: validAction_def ActionUploadFinalize_def ActionOpen_def ActionDownload_def ActionShare_def
      ActionRestoreRelease_def)

lemma ToLower_ascii: "ascii s \<Longrightarrow> ToLower s = map (\<lambda>c. char_of (lower_rune (byte_of c))) s"
  by (induction s) (auto simp: ascii_def)

lemma digest_no_newline:
  assumes "validSHA256 d" shows "newline \<notin> set (ToLower d)"
proof -
  have h: "is_hex c" if "c \<in> set d" for c using assms that by (auto simp: validSHA256_def hex_decodes_def list_all_iff)
  have "ascii d" unfolding ascii_def list_all_iff using h by (fastforce simp: is_hex_def is_lower_hex_def)
  moreover have "48 \<le> byte_of (char_of (lower_rune (byte_of c)))" if "c \<in> set d" for c
    using h [OF that] by (auto simp: lower_rune_def is_hex_def is_lower_hex_def)
  ultimately have "48 \<le> byte_of c" if "c \<in> set (ToLower d)" for c
    using that unfolding ToLower_ascii [OF \<open>ascii d\<close>] set_map by blast
  from this [of newline] show ?thesis by auto
qed

end
