(* ===== verification/Upload_System.thy ===== *)
theory Upload_System
  imports Uploads
begin

text \<open>
  The upload service as the server wires it: the memory repository, the storage backend and the
  staged-file gate share one state, a file system and a table of sessions. The interfaces of
  \<open>Wardveil_Scan\<close> and \<open>Uploads\<close> are interpreted on these definitions.
\<close>

section \<open>Wiring\<close>

record usys =
  fs :: os
  sessions :: MemoryRepository

definition on_fs :: "(os \<Rightarrow> 'r \<times> os) \<Rightarrow> usys \<Rightarrow> 'r \<times> usys" where
  "on_fs f s = (case f (fs s) of (r, o') \<Rightarrow> (r, s\<lparr>fs := o'\<rparr>))"

definition on_sessions :: "(MemoryRepository \<Rightarrow> 'r \<times> MemoryRepository) \<Rightarrow> usys \<Rightarrow> 'r \<times> usys" where
  "on_sessions f s = (case f (sessions s) of (r, m) \<Rightarrow> (r, s\<lparr>sessions := m\<rparr>))"

definition memory_repo :: "usys UploadRepository" where
  "memory_repo =
     \<lparr>ur_Create = (\<lambda>x. on_sessions (memory_Create x)), ur_Get = (\<lambda>i. on_sessions (memory_Get i)),
      ur_Update = (\<lambda>x. on_sessions (memory_Update x))\<rparr>"

definition local_staging :: "Local option \<Rightarrow> usys StagingStore" where
  "local_staging l =
     \<lparr>st_AppendStaging = (\<lambda>sp up off rd mx. on_fs (AppendStaging l sp up off rd mx)),
      st_DiscardStaging = (\<lambda>sp up. on_fs (DiscardStaging l sp up)),
      st_Finalize = (\<lambda>sp up n. on_fs (Finalize l sp up n))\<rparr>"

definition local_reader :: "Local option \<Rightarrow> (usys, fsnode) StagingReader" where
  "local_reader l =
     \<lparr>rd_OpenStaging = (\<lambda>sp up. on_fs (OpenStaging l sp up)), rd_ReadAll = (\<lambda>h. on_fs (sys_ReadAll h)),
      rd_Close = (\<lambda>h. on_fs sys_Quiet)\<rparr>"

definition local_gate :: "Local option \<Rightarrow> (usys, fsnode) Scanner \<Rightarrow> (usys, fsnode) StagedFileGate" where
  "local_gate l scan =
     \<lparr>g_Store = Some (local_reader l), g_Scanner = Some scan, g_Now = on_fs sys_Now\<rparr>"

definition upload_service ::
  "Local option \<Rightarrow> (usys, fsnode) Scanner \<Rightarrow> int64 \<Rightarrow> duration \<Rightarrow> usys UploadService" where
  "upload_service l scan maxChunk ttl =
     \<lparr>svc_repo = Some memory_repo, svc_store = Some (local_staging l),
      svc_security = Some (EvaluateUpload (local_gate l scan)), svc_maxChunk = maxChunk,
      svc_ttl = ttl, svc_now = on_fs sys_Now, svc_rand = on_fs sys_RandRead\<rparr>"

section \<open>Views\<close>

definition staged_view :: "Local option \<Rightarrow> usys \<Rightarrow> string \<Rightarrow> string \<Rightarrow> string option" where
  "staged_view l s sp up =
     (case StagingPath l sp up of Inl _ \<Rightarrow> None | Inr p \<Rightarrow> content_at (fs s) p)"

definition object_view :: "Local option \<Rightarrow> usys \<Rightarrow> string \<times> string \<Rightarrow> string option" where
  "object_view l s k =
     (case ObjectPath l (fst k) (snd k) of Inl _ \<Rightarrow> None | Inr p \<Rightarrow> content_at (fs s) p)"

definition same_usys :: "usys \<Rightarrow> usys \<Rightarrow> bool" where
  "same_usys s t \<longleftrightarrow> same_files (fs s) (fs t) \<and> sessions t = sessions s"

text \<open>Sessions are stored under their own identifiers.\<close>

definition keyed :: "MemoryRepository \<Rightarrow> bool" where
  "keyed m \<longleftrightarrow> (\<forall>i x. m i = Some x \<longrightarrow> us_ID x = i)"

definition usys_inv :: "Local option \<Rightarrow> usys \<Rightarrow> bool" where
  "usys_inv l s \<longleftrightarrow> wf_local l \<and> keyed (sessions s)"

text \<open>A scanner may do what it likes but publish objects and forge sessions.\<close>

definition scanner_ok :: "Local option \<Rightarrow> (usys, fsnode) Scanner \<Rightarrow> bool" where
  "scanner_ok l scan \<longleftrightarrow>
     (\<forall>req h s. let s' = snd (scan req h s) in
        object_view l s' = object_view l s \<and> (keyed (sessions s) \<longrightarrow> keyed (sessions s')))"

text \<open>
  What the gate certifies of published bytes: the scanner was asked about them (their node, digest
  and length), it was given an open handle on staged bytes with that digest and length, and its
  answer clears the resource.
\<close>

definition scan_cleared :: "Local option \<Rightarrow> (usys, fsnode) Scanner \<Rightarrow> string \<Rightarrow> string \<Rightarrow> string \<Rightarrow> bool" where
  "scan_cleared l scan sp n bs \<longleftrightarrow>
     (let resource = \<lparr>fr_SpaceID = sp, fr_NodeID = n, fr_DigestSHA256 = hex_sha256 bs,
                      fr_SizeBytes = int (length bs)\<rparr>
      in \<exists>up seen t0 h t env t' now.
           staged_view l t sp up = Some seen \<and> hex_sha256 seen = hex_sha256 bs \<and> length seen = length bs
           \<and> rd_OpenStaging (local_reader l) sp up t0 = (Inr h, t)
           \<and> scan (scan_request resource) h t = (Inr env, t') \<and> clears resource env now)"

lemma view_sessions [simp]:
  "object_view l (s\<lparr>sessions := m\<rparr>) = object_view l s" "staged_view l (s\<lparr>sessions := m\<rparr>) = staged_view l s"
  by (intro ext, simp add: object_view_def staged_view_def split: sum.split)+

lemma same_usys_views:
  assumes "same_usys s t"
  shows "staged_view l t = staged_view l s" "object_view l t = object_view l s"
    "usys_inv l t = usys_inv l s"
proof -
  have c: "content_at (fs t) = content_at (fs s)" "sessions t = sessions s"
    using assms same_filesD(3) by (auto simp: same_usys_def)
  then show "staged_view l t = staged_view l s" by (intro ext) (simp add: staged_view_def split: sum.split)
  show "object_view l t = object_view l s" using c by (intro ext) (simp add: object_view_def split: sum.split)
  show "usys_inv l t = usys_inv l s" using c by (simp add: usys_inv_def)
qed

text \<open>An operation of the storage backend changes the files of the state and nothing else.\<close>

lemma local_stagingE:
  "\<lbrakk>st_AppendStaging (local_staging l) sp up off body mx s = (a, s');
    \<And>o'. \<lbrakk>AppendStaging l sp up off body mx (fs s) = (a, o'); s' = s\<lparr>fs := o'\<rparr>\<rbrakk> \<Longrightarrow> P\<rbrakk> \<Longrightarrow> P"
  "\<lbrakk>st_DiscardStaging (local_staging l) sp up s = (d, s');
    \<And>o'. \<lbrakk>DiscardStaging l sp up (fs s) = (d, o'); s' = s\<lparr>fs := o'\<rparr>\<rbrakk> \<Longrightarrow> P\<rbrakk> \<Longrightarrow> P"
  "\<lbrakk>st_Finalize (local_staging l) sp up n s = (f, s');
    \<And>o'. \<lbrakk>Finalize l sp up n (fs s) = (f, o'); s' = s\<lparr>fs := o'\<rparr>\<rbrakk> \<Longrightarrow> P\<rbrakk> \<Longrightarrow> P"
  by (auto simp: local_staging_def on_fs_def split: prod.splits)

lemma on_fs_same: "on_fs f s = (r, s') \<Longrightarrow> (\<And>a o'. f (fs s) = (a, o') \<Longrightarrow> same_files (fs s) o') \<Longrightarrow> same_usys s s'"
  by (auto simp: on_fs_def same_usys_def split: prod.splits)

lemma OpenStaging_frame: "OpenStaging l sp up s = (r, s') \<Longrightarrow> same_files s s'"
  by (auto simp: OpenStaging_def split: sum.splits prod.splits if_splits
      dest!: sys_Open_frame sys_Fstat_frame intro: same_files_trans)

lemma OpenStaging_node:
  assumes "OpenStaging l sp up s = (Inr h, s')"
  shows "\<exists>p i. StagingPath l sp up = Inr p \<and> h = File i \<and> file_at s p = Some i"
  using assms
  by (auto simp: OpenStaging_def sys_Open_def sys_Fstat_def node_info_def file_at_iff
      split: sum.splits prod.splits if_splits option.splits fsnode.splits)

interpretation lr: staging_reader "local_reader l" "staged_view l" same_usys for l
proof
  show "same_usys s t \<Longrightarrow> same_usys t u \<Longrightarrow> same_usys s u" for s t u
    by (auto simp: same_usys_def intro: same_files_trans)
  show "same_usys s t \<Longrightarrow> staged_view l t = staged_view l s" for s t
    by (rule same_usys_views)
  show "rd_OpenStaging (local_reader l) sp up s = (r, s') \<Longrightarrow> same_usys s s'" for sp up s r s'
    by (auto simp: local_reader_def dest: OpenStaging_frame intro: on_fs_same)
  show "rd_ReadAll (local_reader l) h s = (r2, s') \<Longrightarrow> same_usys s s'" for h s r2 s'
    by (auto simp: local_reader_def dest: sys_ReadAll_frame intro: on_fs_same)
  show "rd_Close (local_reader l) h s = (r3, s') \<Longrightarrow> same_usys s s'" for h s r3 s'
    by (auto simp: local_reader_def dest: sys_Quiet_frame intro: on_fs_same)
next
  fix sp up s h s' bs s''
  assume "rd_OpenStaging (local_reader l) sp up s = (Inr h, s')"
    and "rd_ReadAll (local_reader l) h s' = (Inr bs, s'')"
  then obtain o1 o2 where o1: "OpenStaging l sp up (fs s) = (Inr h, o1)" "fs s' = o1"
    and o2: "sys_ReadAll h o1 = (Inr bs, o2)"
    by (auto simp: local_reader_def on_fs_def split: prod.splits)
  obtain p i where "StagingPath l sp up = Inr p" "h = File i" "file_at (fs s) p = Some i"
    using OpenStaging_node [OF o1(1)] by blast
  then show "staged_view l s sp up = Some bs"
    using o2 same_filesD(2) [OF OpenStaging_frame [OF o1(1)]]
    by (auto simp: staged_view_def content_at_def sys_ReadAll_def split: if_splits)
qed

lemma object_view_wf:
  assumes "wf_local l"
  shows "object_view l s k =
     (if validStorageID (fst k) \<and> validStorageID (snd k)
      then content_at (fs s) (area_path l ''objects'' (fst k) (snd k)) else None)"
  using assms scopedPath_invalid [of "fst k" "snd k" l "''objects''"]
  by (auto simp: object_view_def ObjectPath_def scopedPath_wf)

lemma staged_view_wf:
  assumes "wf_local l"
  shows "staged_view l s sp up =
     (if validStorageID sp \<and> validStorageID up
      then content_at (fs s) (area_path l ''staging'' sp up) else None)"
  using assms scopedPath_invalid [of sp up l "''staging''"]
  by (auto simp: staged_view_def StagingPath_def scopedPath_wf)

lemma DiscardStaging_objects:
  assumes "wf_local l" "DiscardStaging l sp up o1 = (r, o2)"
  shows "object_view l (s\<lparr>fs := o2\<rparr>) = object_view l (s\<lparr>fs := o1\<rparr>)"
proof (cases "validStorageID sp \<and> validStorageID up")
  case False
  then show ?thesis
    using assms scopedPath_invalid [of sp up l "''staging''"]
    by (auto simp: DiscardStaging_def StagingPath_def)
next
  case True
  let ?p = "area_path l ''staging'' sp up"
  have "o2 = snd (sys_Remove ?p o1)"
    using assms True
    by (auto simp: DiscardStaging_def StagingPath_def scopedPath_wf split: prod.splits sum.splits if_splits)
  moreover have "area_path l ''objects'' x y \<noteq> ?p" if "validStorageID x" "validStorageID y" for x y
    using that True assms(1) by (simp add: area_path_inj)
  ultimately show ?thesis
    by (simp add: fun_eq_iff object_view_wf [OF assms(1)] sys_Remove_content)
qed

lemma Finalize_objects:
  fixes s :: usys
  assumes wf: "wf_local l" and run: "Finalize l sp up n o1 = (r, o2)"
  shows "object_view l (s\<lparr>fs := o2\<rparr>) = object_view l (s\<lparr>fs := o1\<rparr>)
    \<or> object_view l (s\<lparr>fs := o1\<rparr>) (sp, n) = None
      \<and> object_view l (s\<lparr>fs := o2\<rparr>) = (object_view l (s\<lparr>fs := o1\<rparr>))((sp, n) := staged_view l (s\<lparr>fs := o1\<rparr>) sp up)"
proof (cases "validStorageID sp \<and> validStorageID up \<and> validStorageID n")
  case False
  then have "(\<exists>e. StagingPath l sp up = Inl e) \<or> (\<exists>e. ObjectPath l sp n = Inl e)"
    using scopedPath_invalid [of sp up l "''staging''"] scopedPath_invalid [of sp n l "''objects''"]
    by (auto simp: path_defs)
  then have "o2 = o1" using run by (auto simp: Finalize_def split: sum.splits)
  then show ?thesis by simp
next
  case True
  let ?p = "area_path l ''staging'' sp up" and ?o = "area_path l ''objects'' sp n"
  have k: "finalize_paths (l, sp, up, n) = Some (?p, ?o)" using True wf by (simp add: finalize_paths_def)
  have m: "move_outcome ?p ?o o1 r o2" using fin.outcome [OF k, of o1 r o2] run by simp
  have ne: "area_path l ''objects'' x y \<noteq> ?p" if "validStorageID x" "validStorageID y" for x y
    using that True wf by (simp add: area_path_inj)
  have inj: "area_path l ''objects'' x y = ?o \<longleftrightarrow> (x, y) = (sp, n)" if "validStorageID x" "validStorageID y" for x y
    using that True wf by (simp add: area_path_inj)
  from m show ?thesis
    unfolding move_outcome_def
  proof (elim conjE disjE exE)
    assume "os_data o2 = os_data o1" "file_at o2 = file_at o1"
    then have "content_at o2 = content_at o1" by (simp add: content_at_def [abs_def])
    then show ?thesis by (simp add: fun_eq_iff object_view_wf [OF wf])
  next
    fix i assume "os_data o2 = os_data o1" "file_at o1 ?p = Some i" "file_at o1 ?o = None"
      "file_at o2 = (file_at o1)(?o \<mapsto> i)"
    then show ?thesis
      using True inj
      by (intro disjI2 conjI ext) (auto simp: object_view_wf [OF wf] staged_view_wf [OF wf] content_at_def)
  next
    fix i assume "os_data o2 = os_data o1" "file_at o1 ?p = Some i" "file_at o1 ?o = None"
      "file_at o2 = (file_at o1)(?o \<mapsto> i, ?p := None)"
    then show ?thesis
      using True inj ne
      by (intro disjI2 conjI ext) (auto simp: object_view_wf [OF wf] staged_view_wf [OF wf] content_at_def)
  qed
qed

lemma Finalize_success_view:
  fixes s :: usys
  assumes wf: "wf_local l" and run: "Finalize l sp up n o1 = (Inr u, o2)"
  shows "object_view l (s\<lparr>fs := o2\<rparr>) (sp, n) = staged_view l (s\<lparr>fs := o1\<rparr>) sp up"
proof -
  have ids: "validStorageID sp" "validStorageID up" "validStorageID n"
    using run scopedPath_invalid [of sp up l "''staging''"] scopedPath_invalid [of sp n l "''objects''"]
    by (auto simp: Finalize_def path_defs split: sum.splits)
  then have k: "finalize_paths (l, sp, up, n) = Some (area_path l ''staging'' sp up, area_path l ''objects'' sp n)"
    using wf by (simp add: finalize_paths_def)
  then show ?thesis
    using fin.success_moves [OF k, of o1 u o2] run ids
    by (simp add: object_view_wf [OF wf] staged_view_wf [OF wf])
qed

lemma same_usys_refl [simp]: "same_usys s s"
  by (simp add: same_usys_def)

text \<open>
  Whatever reading leaves alone, the scanner respects and the gate's clock respects, the gate respects.
\<close>

lemma EvaluateUpload_preserves:
  assumes init: "P s" and same: "\<And>t u. P t \<Longrightarrow> same_usys t u \<Longrightarrow> P u"
    and scn: "\<And>req h t x u. P t \<Longrightarrow> scan req h t = (x, u) \<Longrightarrow> P u"
    and clk: "\<And>t x u. clk t = (x, u) \<Longrightarrow> same_usys t u"
    and run: "EvaluateUpload ((local_gate l scan)\<lparr>g_Now := clk\<rparr>) sp up n s = (r, s')"
  shows "P s'"
proof -
  obtain a s1 where a: "hashStaging (local_reader l) sp up s = (a, s1)" by fastforce
  then have "P s1" using same [OF init] lr.hashStaging_same by blast
  obtain b s2 where b: "rd_OpenStaging (local_reader l) sp up s1 = (b, s2)" by fastforce
  then have "P s2" using same [OF \<open>P s1\<close>] lr.open_same by blast
  let ?req = "\<lambda>d z. scan_request \<lparr>fr_SpaceID = sp, fr_NodeID = n, fr_DigestSHA256 = d, fr_SizeBytes = z\<rparr>"
  have "P s'" if ab: "a = Inr (d, z)" "b = Inr h" for d z h
  proof -
    obtain c s3 where c: "scan (?req d z) h s2 = (c, s3)" by fastforce
    with \<open>P s2\<close> have "P s3" by (rule scn)
    obtain e s4 where e: "rd_Close (local_reader l) h s3 = (e, s4)" by fastforce
    then have "P s4" using same [OF \<open>P s3\<close>] lr.close_same by blast
    obtain t s5 where t: "clk s4 = (t, s5)" by fastforce
    then have "P s5" using same [OF \<open>P s4\<close>] clk by blast
    obtain f s6 where f: "hashStaging (local_reader l) sp up s5 = (f, s6)" by fastforce
    then have "P s6" using same [OF \<open>P s5\<close>] lr.hashStaging_same by blast
    show ?thesis
      using run a b c e t f ab \<open>P s4\<close> \<open>P s5\<close> \<open>P s6\<close>
      by (auto simp: EvaluateUpload_def local_gate_def Let_def split: sum.splits prod.splits if_splits)
  qed
  then show ?thesis
    using run a b \<open>P s1\<close> \<open>P s2\<close> by (cases a; cases b) (auto simp: EvaluateUpload_def local_gate_def)
qed

lemma local_gate_clock: "(local_gate l scan)\<lparr>g_Now := on_fs sys_Now\<rparr> = local_gate l scan"
  by (simp add: local_gate_def)

lemma on_fs_Now_same: "on_fs sys_Now t = (x, u) \<Longrightarrow> same_usys t u"
  by (erule on_fs_same) (rule sys_Now_frame)

lemma EvaluateUpload_keeps:
  assumes ok: "scanner_ok l scan" and inv: "usys_inv l s"
    and run: "EvaluateUpload (local_gate l scan) sp up n s = (r, s')"
  shows "usys_inv l s' \<and> object_view l s' = object_view l s"
proof (rule EvaluateUpload_preserves [where P = "\<lambda>t. usys_inv l t \<and> object_view l t = object_view l s"])
  show "EvaluateUpload ((local_gate l scan)\<lparr>g_Now := on_fs sys_Now\<rparr>) sp up n s = (r, s')"
    using run by (simp add: local_gate_clock)
  show "usys_inv l u \<and> object_view l u = object_view l s"
    if "usys_inv l t \<and> object_view l t = object_view l s" "scan req h t = (x, u)" for req h t x u
    using that ok [unfolded scanner_ok_def Let_def, rule_format, of req h t] by (auto simp: usys_inv_def)
qed (use inv same_usys_views on_fs_Now_same in auto)

interpretation us: upload_environment "upload_service l scan maxChunk ttl" memory_repo "local_staging l"
    "EvaluateUpload (local_gate l scan)" "object_view l" "\<lambda>s (sp, up). staged_view l s sp up"
    "scan_cleared l scan" "usys_inv l" "scanner_ok l scan" for l scan maxChunk ttl
proof
  show "svc_repo (upload_service l scan maxChunk ttl) = Some memory_repo"
    "svc_store (upload_service l scan maxChunk ttl) = Some (local_staging l)"
    "svc_security (upload_service l scan maxChunk ttl) = Some (EvaluateUpload (local_gate l scan))"
    by (simp_all add: upload_service_def)
next
  fix s i r s'
  assume "usys_inv l s" "ur_Get memory_repo i s = (r, s')"
  then show "usys_inv l s' \<and> object_view l s' = object_view l s"
    by (auto simp: memory_repo_def on_sessions_def memory_Get_def usys_inv_def split: option.splits)
next
  fix s i x s'
  assume "usys_inv l s" "ur_Get memory_repo i s = (Inr x, s')"
  then show "us_ID x = i"
    by (auto simp: memory_repo_def on_sessions_def memory_Get_def usys_inv_def keyed_def split: option.splits)
next
  fix s t s'
  assume "usys_inv l s" "svc_now (upload_service l scan maxChunk ttl) s = (t, s')"
  moreover from this have "same_usys s s'"
    by (auto simp: upload_service_def dest: sys_Now_frame intro: on_fs_same)
  ultimately show "usys_inv l s' \<and> object_view l s' = object_view l s
      \<and> (\<lambda>(sp, up). staged_view l s' sp up) = (\<lambda>(sp, up). staged_view l s sp up)"
    using same_usys_views by simp
next
  fix s sp up r2 s'
  assume inv: "usys_inv l s" and run: "st_DiscardStaging (local_staging l) sp up s = (r2, s')"
  obtain o2 where "DiscardStaging l sp up (fs s) = (r2, o2)" "s' = s\<lparr>fs := o2\<rparr>"
    using run by (rule local_stagingE)
  then show "usys_inv l s' \<and> object_view l s' = object_view l s"
    using DiscardStaging_objects [of l sp up "fs s" r2 o2 s] inv by (simp add: usys_inv_def)
next
  fix s sp up n r3 s'
  assume "scanner_ok l scan" "usys_inv l s" "EvaluateUpload (local_gate l scan) sp up n s = (r3, s')"
  then show "usys_inv l s' \<and> object_view l s' = object_view l s" by (rule EvaluateUpload_keeps)
next
  fix s sp up n d s'
  assume "EvaluateUpload (local_gate l scan) sp up n s = (Inr d, s')" "de_CanRelease d"
  from lr.EvaluateUpload_release [OF this, of l scan]
  show "\<exists>bs. (case (sp, up) of (sp, up) \<Rightarrow> staged_view l s' sp up) = Some bs \<and> scan_cleared l scan sp n bs"
    by (simp add: local_gate_def scan_cleared_def Let_def) blast
next
  fix s sp up n r4 s'
  assume inv: "usys_inv l s" and run: "st_Finalize (local_staging l) sp up n s = (r4, s')"
  obtain o2 where "Finalize l sp up n (fs s) = (r4, o2)" "s' = s\<lparr>fs := o2\<rparr>"
    using run by (rule local_stagingE)
  then show "usys_inv l s' \<and> (object_view l s' = object_view l s
      \<or> object_view l s (sp, n) = None
        \<and> object_view l s' = (object_view l s)((sp, n) := (case (sp, up) of (sp, up) \<Rightarrow> staged_view l s sp up)))"
    using Finalize_objects [of l sp up n "fs s" r4 o2 s] inv by (simp add: usys_inv_def)
next
  fix s sp up n u s'
  assume inv: "usys_inv l s" and run: "st_Finalize (local_staging l) sp up n s = (Inr u, s')"
  obtain o2 where o2: "Finalize l sp up n (fs s) = (Inr u, o2)" "s' = s\<lparr>fs := o2\<rparr>"
    using run by (rule local_stagingE)
  then show "object_view l s' (sp, n) = (case (sp, up) of (sp, up) \<Rightarrow> staged_view l s sp up)"
    using Finalize_success_view [of l sp up n "fs s" u o2 s] inv by (simp add: usys_inv_def)
next
  fix s x r5 s'
  assume "usys_inv l s" "ur_Update memory_repo x s = (r5, s')"
  then show "object_view l s' = object_view l s"
    by (auto simp: memory_repo_def on_sessions_def memory_Update_def split: if_splits)
qed

section \<open>Schedules are never changed\<close>

definition sched :: "os \<Rightarrow> (nat \<Rightarrow> nat option) \<times> (nat \<Rightarrow> bool)" where
  "sched s = (os_fault s, os_stat_fault s)"

lemma reliable_sched: "reliable s \<longleftrightarrow> sched s = ((\<lambda>_. None), (\<lambda>_. False))"
  by (simp add: reliable_def sched_def)

lemma sched_simps [simp]:
  "sched (tick s) = sched s" "sched (set_data i d s) = sched s" "sched (add_name p i s) = sched s"
  "sched (del_name p s) = sched s" "sched (new_file p s) = sched s"
  by (simp_all add: sched_def)

lemma same_files_sched: "same_files s s' \<Longrightarrow> sched s' = sched s"
  by (simp add: same_files_def sched_def)

lemma keeps_sched: "keeps A s s' \<Longrightarrow> sched s' = sched s"
  by (simp add: keeps_def sched_def)

lemma sys_sched:
  "sys_Link p q s = (r1, s') \<Longrightarrow> sched s' = sched s"
  "sys_Remove p s = (r2, s') \<Longrightarrow> sched s' = sched s"
  "sys_OpenCreate x p s = (r3, s') \<Longrightarrow> sched s' = sched s"
  "sys_Copy i off rd n s = (r4, s') \<Longrightarrow> sched s' = sched s"
  "sys_Truncate i m s = (r5, s') \<Longrightarrow> sched s' = sched s"
  "sys_MkdirAll d s = (r6, s') \<Longrightarrow> sched s' = sched s"
  "sys_Fstat nd s = (r7, s') \<Longrightarrow> sched s' = sched s"
  "sys_Quiet s = (r8, s') \<Longrightarrow> sched s' = sched s"
  by (auto elim: sys_LinkE sys_RemoveE sys_OpenCreateE sys_CopyE sys_TruncateE
      dest: same_files_sched [OF sys_MkdirAll_frame] same_files_sched [OF sys_Fstat_frame]
        same_files_sched [OF sys_Quiet_frame])

lemma storage_sched:
  "Finalize l sp up n s = (r1, s') \<Longrightarrow> sched s' = sched s"
  "DiscardStaging l sp up s = (r2, s') \<Longrightarrow> sched s' = sched s"
  "AppendStaging l sp up off rd mx s = (r3, s') \<Longrightarrow> sched s' = sched s"
proof -
  assume "Finalize l sp up n s = (r1, s')"
  then show "sched s' = sched s"
    by (auto simp: Finalize_def split: sum.splits prod.splits if_splits dest!: sys_sched)
next
  assume "DiscardStaging l sp up s = (r2, s')"
  then show "sched s' = sched s"
    by (auto simp: DiscardStaging_def split: sum.splits prod.splits if_splits dest!: sys_sched)
next
  assume a: "AppendStaging l sp up off rd mx s = (r3, s')"
  have t: "sched (snd (sys_Truncate i n t)) = sched t" for i n t
    by (metis prod.collapse sys_sched(5))
  show "sched s' = sched s"
    using a by (auto simp: AppendStaging_def t split: option.splits sum.splits prod.splits if_splits dest!: sys_sched)
qed

end
