(* ===== verification/Upload_Reachable.thy ===== *)
theory Upload_Reachable
  imports Upload_System
begin

text \<open>
  The upload service as a state machine: clients' requests in any order and with any arguments.
  On a reliable system, in every reachable state, files have one name each and every published
  object was cleared by the scanner; a published object never changes again.
\<close>

section \<open>Files without second names\<close>

definition no_links :: "os \<Rightarrow> bool" where
  "no_links s \<longleftrightarrow> (\<forall>p q i. file_at s p = Some i \<and> file_at s q = Some i \<longrightarrow> p = q)"

lemma same_files_no_links: "same_files s s' \<Longrightarrow> no_links s' = no_links s"
  by (simp add: no_links_def same_filesD)

lemma grown_no_links: "grown p bs s s' \<Longrightarrow> os_wf s \<Longrightarrow> no_links s \<Longrightarrow> no_links s'"
  by (fastforce simp: grown_def no_links_def os_wf_file_at split: if_splits)

lemma grown_content_other:
  assumes "grown p bs s s'" "no_links s" "os_wf s" "q \<noteq> p"
  shows "content_at s' q = content_at s q"
proof (cases "file_at s q")
  case None
  then show ?thesis using grown_names [OF assms(1,4)] by (simp add: content_at_def)
next
  case (Some i)
  then have "file_at s q \<noteq> file_at s p" using assms(2,4) unfolding no_links_def by metis
  then show ?thesis using grown_others [OF assms(1,4,3)] Some by simp
qed

text \<open>On a reliable system publishing moves the file or leaves everything alone.\<close>

lemma link_remove_reliable:
  assumes "link_remove src dst s = (r, s')" "src \<noteq> dst" "reliable s"
  shows "file_at s' = file_at s \<or> (\<exists>i. file_at s src = Some i \<and> file_at s dst = None
    \<and> file_at s' = (file_at s)(dst \<mapsto> i, src := None))"
proof -
  obtain d s1 where d: "sys_MkdirAll (filepath_Dir dst) s = (d, s1)" by fastforce
  note same = same_filesD [OF sys_MkdirAll_frame [OF d]]
  obtain k s2 where k: "sys_Link src dst s1 = (k, s2)" by fastforce
  show ?thesis
  proof (cases "is_ok d \<and> is_ok k")
    case False
    from k have "file_at s2 = file_at s1" if "\<not> is_ok k" using that by (cases rule: sys_LinkE) auto
    then show ?thesis
      using False assms(1) d k same by (auto simp: link_remove_def is_ok_iff split: sum.splits)
  next
    case True
    from k True obtain i where i: "file_at s1 src = Some i" "os_nodes s1 dst = None"
      "s2 = tick (add_name dst i s1)"
      by (cases rule: sys_LinkE) auto
    have "os_nodes s1 src = Some (File i)" "reliable s1" using i(1) same(5) assms(3) by (simp_all add: file_at_iff)
    then have "sys_Remove src s2 = (Inr (), tick (del_name src s2))"
      using assms(2) i(3) by (simp add: sys_Remove_def del_name_def)
    then have "s' = tick (del_name src s2)" using True assms(1) d k by (auto simp: link_remove_def is_ok_iff)
    moreover have "file_at s1 dst = None" using i(2) by (simp add: file_at_def)
    ultimately show ?thesis using i same(1) by auto
  qed
qed

lemma Finalize_reliable:
  assumes "wf_local l" "reliable s" "Finalize l sp up n s = (r, s')"
  shows "file_at s' = file_at s \<or> (\<exists>src dst i. file_at s src = Some i \<and> file_at s dst = None
    \<and> file_at s' = (file_at s)(dst \<mapsto> i, src := None))"
proof (cases "\<exists>src dst. StagingPath l sp up = Inr src \<and> ObjectPath l sp n = Inr dst")
  case False
  then have "s' = s" using assms(3) by (auto simp: Finalize_def split: sum.splits)
  then show ?thesis by simp
next
  case True
  then obtain src dst where p: "StagingPath l sp up = Inr src" "ObjectPath l sp n = Inr dst" by blast
  then have "src \<noteq> dst"
    using scopedPath_Inr [OF assms(1), of "''staging''" sp up src] scopedPath_Inr [OF assms(1), of "''objects''" sp n dst]
    by (auto simp: path_defs area_path_inj assms(1))
  moreover have "snd (link_remove src dst s) = s'" using Finalize_link_remove(1) [OF p, of s] assms(3) by simp
  ultimately show ?thesis
    using link_remove_reliable [of src dst s "fst (link_remove src dst s)" s'] assms(2)
    by (metis prod.collapse)
qed

lemma Finalize_no_links:
  "wf_local l \<Longrightarrow> reliable s \<Longrightarrow> Finalize l sp up n s = (r, s') \<Longrightarrow> no_links s \<Longrightarrow> no_links s'"
  using Finalize_reliable [of l s sp up n r s']
  by (auto simp: no_links_def split: if_splits)

section \<open>The state machine\<close>

text \<open>
  One request after another, with any arguments: the clients' accounts, spaces, offsets and bodies
  are arbitrary.
\<close>

inductive upload_step :: "usys UploadService \<Rightarrow> usys \<Rightarrow> usys \<Rightarrow> bool" for svc where
  create: "uploads_Create svc acct sp n par name s = (r1, s') \<Longrightarrow> upload_step svc s s'"
| get: "uploads_Get svc acct sp up s = (r2, s') \<Longrightarrow> upload_step svc s s'"
| append: "uploads_Append svc acct sp up off body s = (r3, s') \<Longrightarrow> upload_step svc s s'"
| complete: "uploads_Complete svc acct sp up s = (r4, s') \<Longrightarrow> upload_step svc s s'"

inductive upload_reach :: "usys UploadService \<Rightarrow> usys \<Rightarrow> usys \<Rightarrow> bool" for svc s0 where
  init: "upload_reach svc s0 s0"
| step: "upload_reach svc s0 s \<Longrightarrow> upload_step svc s s' \<Longrightarrow> upload_reach svc s0 s'"

text \<open>What holds between requests on a reliable system.\<close>

definition upload_inv :: "Local option \<Rightarrow> (usys, fsnode) Scanner \<Rightarrow> usys \<Rightarrow> bool" where
  "upload_inv l scan s \<longleftrightarrow> usys_inv l s \<and> os_wf (fs s) \<and> reliable (fs s) \<and> no_links (fs s)
     \<and> (\<forall>sp n bs. object_view l s (sp, n) = Some bs \<longrightarrow> scan_cleared l scan sp n bs)"

text \<open>A scanner that only reads.\<close>

definition scanner_quiet :: "(usys, fsnode) Scanner \<Rightarrow> bool" where
  "scanner_quiet scan \<longleftrightarrow> (\<forall>req h s. same_usys s (snd (scan req h s)))"

lemma scanner_quiet_ok: "scanner_quiet scan \<Longrightarrow> scanner_ok l scan"
  by (auto simp: scanner_quiet_def scanner_ok_def Let_def same_usys_views same_usys_def)

text \<open>Everything but the objects' provenance.\<close>

definition fs_inv :: "Local option \<Rightarrow> usys \<Rightarrow> bool" where
  "fs_inv l s \<longleftrightarrow> usys_inv l s \<and> os_wf (fs s) \<and> reliable (fs s) \<and> no_links (fs s)"

lemma fs_inv_same: "same_usys s t \<Longrightarrow> fs_inv l s \<Longrightarrow> fs_inv l t"
  using same_usys_views(3) [of s t l] same_files_wf [of "fs s" "fs t"] same_files_no_links [of "fs s" "fs t"]
    same_filesD(5) [of "fs s" "fs t"]
  by (simp add: fs_inv_def same_usys_def)

lemma fs_inv_sessions: "fs_inv l s \<Longrightarrow> keyed m \<Longrightarrow> fs_inv l (s\<lparr>sessions := m\<rparr>)"
  by (simp add: fs_inv_def usys_inv_def)

lemma AppendStaging_quiet:
  assumes "wf_local l" "os_wf o1" "no_links o1" "AppendStaging l sp up off body mx o1 = (r, o2)"
  shows "os_wf o2 \<and> no_links o2 \<and> object_view l (s\<lparr>fs := o2\<rparr>) = object_view l (s\<lparr>fs := o1\<rparr>)"
proof (cases "body = None \<or> \<not> (validStorageID sp \<and> validStorageID up)")
  case True
  then have "body = None \<or> (\<exists>e. StagingPath l sp up = Inl e)"
    using scopedPath_invalid [of sp up l "''staging''"] by (auto simp: StagingPath_def)
  then have "o2 = o1" using assms(4) by (auto simp: AppendStaging_def split: option.splits if_splits)
  then show ?thesis using assms by simp
next
  case False
  then obtain rd where rd: "body = Some rd" and ids: "validStorageID sp" "validStorageID up" by auto
  let ?p = "area_path l ''staging'' sp up"
  have p: "StagingPath l sp up = Inr ?p" using assms(1) ids by (simp add: StagingPath_def scopedPath_wf)
  have ne: "area_path l ''objects'' x y \<noteq> ?p" if "validStorageID x" "validStorageID y" for x y
    using that ids assms(1) by (simp add: area_path_inj)
  have "same_files o1 o2 \<or> (\<exists>bs. grown ?p bs o1 o2)"
    using append_cases [OF p, of off rd mx o1 "fst r" "snd r" o2] assms(4) rd by auto
  then show ?thesis
  proof
    assume "same_files o1 o2"
    then show ?thesis
      using assms same_files_wf same_files_no_links same_filesD(3) [of o1 o2]
      by (auto simp: fun_eq_iff object_view_wf)
  next
    assume "\<exists>bs. grown ?p bs o1 o2"
    then obtain bs where g: "grown ?p bs o1 o2" by blast
    have "object_view l (s\<lparr>fs := o2\<rparr>) k = object_view l (s\<lparr>fs := o1\<rparr>) k" for k
      using grown_content_other [OF g assms(3,2)] ne by (simp add: object_view_wf [OF assms(1)])
    then show ?thesis using grown_wf [OF g assms(2)] grown_no_links [OF g assms(2,3)] by auto
  qed
qed


lemma DiscardStaging_fs:
  assumes "DiscardStaging l sp up o1 = (r, o2)"
  shows "file_at o2 = file_at o1 \<and> os_next o2 = os_next o1
    \<or> (\<exists>p. file_at o2 = (file_at o1)(p := None) \<and> os_next o2 = os_next o1)"
proof -
  have "\<exists>p. o2 = o1 \<or> o2 = snd (sys_Remove p o1)"
    using assms
    by (cases "StagingPath l sp up")
      (auto simp: DiscardStaging_def intro!: exI [of _ "case StagingPath l sp up of Inr p \<Rightarrow> p | Inl _ \<Rightarrow> []"]
        split: sum.splits prod.splits if_splits)
  then obtain p where "o2 = o1 \<or> o2 = snd (sys_Remove p o1)" by blast
  moreover obtain w t where w: "sys_Remove p o1 = (w, t)" by fastforce
  moreover from w have "file_at t = file_at o1 \<and> os_next t = os_next o1
      \<or> file_at t = (file_at o1)(p := None) \<and> os_next t = os_next o1"
    by (cases rule: sys_RemoveE) auto
  ultimately show ?thesis by auto
qed

lemma DiscardStaging_inv:
  assumes "fs_inv l s" "st_DiscardStaging (local_staging l) sp up s = (r, s')"
  shows "fs_inv l s' \<and> object_view l s' = object_view l s \<and> sessions s' = sessions s"
proof -
  obtain o2 where o2: "DiscardStaging l sp up (fs s) = (r, o2)" "s' = s\<lparr>fs := o2\<rparr>"
    using assms(2) by (rule local_stagingE)
  have "os_wf o2" "no_links o2"
    using DiscardStaging_fs [OF o2(1)] assms(1)
    by (auto simp: fs_inv_def os_wf_file_at no_links_def split: if_splits)
  then show ?thesis
    using o2 assms(1) storage_sched(2) [OF o2(1)] us.discard_keeps [OF _ assms(2)]
    by (auto simp: fs_inv_def usys_inv_def reliable_sched)
qed

lemma now_same: "svc_now (upload_service l scan mx ttl) s = (t, s') \<Longrightarrow> same_usys s s'"
  by (auto simp: upload_service_def dest: sys_Now_frame intro: on_fs_same)

lemma rejectExpired_inv:
  assumes "fs_inv l s" "rejectExpired (upload_service l scan mx ttl) x s = (r, s')"
  shows "fs_inv l s' \<and> object_view l s' = object_view l s \<and> sessions s' = sessions s"
proof -
  let ?svc = "upload_service l scan mx ttl"
  obtain b s1 where b: "isExpired ?svc x s = (b, s1)" by fastforce
  then have "same_usys s s1"
    by (auto simp: isExpired_def split: if_splits prod.splits dest: now_same)
  then have k1: "fs_inv l s1" "object_view l s1 = object_view l s" "sessions s1 = sessions s"
    using fs_inv_same assms(1) same_usys_views by (auto simp: same_usys_def)
  obtain d s2 where d: "st_DiscardStaging (local_staging l) (us_SpaceID x) (us_ID x) s1 = (d, s2)" by fastforce
  show ?thesis
    using assms(2) b d k1 DiscardStaging_inv [OF k1(1) d]
    by (auto simp: rejectExpired_def us.wiring split: if_splits sum.splits)
qed

lemma uploads_Get_inv:
  assumes "fs_inv l s" "uploads_Get (upload_service l scan mx ttl) acct sp up s = (r, s')"
  shows "fs_inv l s' \<and> object_view l s' = object_view l s \<and> sessions s' = sessions s
    \<and> (\<forall>x. r = Inr x \<longrightarrow> sessions s up = Some x \<and> us_ID x = up \<and> us_SpaceID x = sp \<and> us_AccountID x = acct)"
proof -
  let ?svc = "upload_service l scan mx ttl"
  obtain g s1 where g: "ur_Get memory_repo up s = (g, s1)" by fastforce
  have s1: "s1 = s" "g = (case sessions s up of None \<Rightarrow> Inl (Sentinel UploadsErrNotFound) | Some x \<Rightarrow> Inr x)"
    using g by (auto simp: memory_repo_def on_sessions_def memory_Get_def split: option.splits)
  show ?thesis
  proof (cases "sessions s up")
    case None
    then show ?thesis using assms g s1 by (auto simp: uploads_Get_def us.wiring)
  next
    case (Some x)
    obtain e s2 where e: "rejectExpired ?svc x s = (e, s2)" by fastforce
    have "us_ID x = up" using assms(1) Some by (auto simp: fs_inv_def usys_inv_def keyed_def)
    then show ?thesis
      using assms g s1 Some e rejectExpired_inv [OF assms(1) e]
      by (auto simp: uploads_Get_def us.wiring split: if_splits sum.splits)
  qed
qed

lemma Update_inv:
  assumes "fs_inv l s" "ur_Update memory_repo x s = (r, s')"
  shows "fs_inv l s' \<and> object_view l s' = object_view l s"
  using assms
  by (auto simp: memory_repo_def on_sessions_def memory_Update_def fs_inv_def usys_inv_def keyed_def
      split: if_splits)

lemma uploads_Create_inv:
  assumes "fs_inv l s" "uploads_Create (upload_service l scan mx ttl) acct sp n par name s = (r, s')"
  shows "fs_inv l s' \<and> object_view l s' = object_view l s"
proof -
  let ?svc = "upload_service l scan mx ttl"
  obtain a s1 where a: "svc_rand ?svc s = (a, s1)" by fastforce
  then have "same_usys s s1"
    by (auto simp: upload_service_def dest: sys_RandRead_frame intro: on_fs_same)
  then have k1: "fs_inv l s1" "object_view l s1 = object_view l s"
    using fs_inv_same assms(1) same_usys_views by auto
  obtain b s2 where b: "svc_now ?svc s1 = (b, s2)" by fastforce
  then have k2: "fs_inv l s2" "object_view l s2 = object_view l s"
    using fs_inv_same [OF now_same [OF b] k1(1)] same_usys_views(2) [OF now_same [OF b]] k1(2) by auto
  have k3: "fs_inv l s3 \<and> object_view l s3 = object_view l s" if "ur_Create memory_repo x s2 = (c, s3)" for x c s3
    using that k2
    by (auto simp: memory_repo_def on_sessions_def memory_Create_def fs_inv_def usys_inv_def keyed_def
        split: if_splits)
  show ?thesis
    using assms a b k1 k2 k3
    by (auto simp: uploads_Create_def us.wiring fails_def Let_def split: if_splits sum.splits prod.splits)
qed

lemma Finalize_keeps_wf:
  assumes "wf_local l" "Finalize l sp up n s = (r, s')" "os_wf s"
  shows "os_wf s'"
proof (cases "validStorageID sp \<and> validStorageID up \<and> validStorageID n")
  case True
  then have "finalize_paths (l, sp, up, n) =
      Some (area_path l ''staging'' sp up, area_path l ''objects'' sp n)"
    using assms(1) by (simp add: finalize_paths_def)
  then show ?thesis using fin.keeps_wf [of "(l, sp, up, n)"] assms(2,3) by auto
next
  case False
  then have "(\<exists>e. StagingPath l sp up = Inl e) \<or> (\<exists>e. ObjectPath l sp n = Inl e)"
    using scopedPath_invalid [of sp up l "''staging''"] scopedPath_invalid [of sp n l "''objects''"]
    by (auto simp: path_defs)
  then show ?thesis using assms(2,3) by (auto simp: Finalize_def split: sum.splits)
qed

text \<open>What the storage backend's operations do to the invariant of a reliable system and to its objects.\<close>

lemma AppendStaging_inv:
  assumes "fs_inv l s" "st_AppendStaging (local_staging l) sp up off body mx s = (a, s')"
  shows "fs_inv l s' \<and> object_view l s' = object_view l s"
proof -
  obtain o2 where o2: "AppendStaging l sp up off body mx (fs s) = (a, o2)" "s' = s\<lparr>fs := o2\<rparr>"
    using assms(2) by (rule local_stagingE)
  then show ?thesis
    using AppendStaging_quiet [of l "fs s" sp up off body mx a o2 s] assms(1) storage_sched(3) [OF o2(1)]
    by (auto simp: fs_inv_def usys_inv_def reliable_sched)
qed

lemma Finalize_inv:
  assumes inv: "fs_inv l s" and run: "st_Finalize (local_staging l) sp up n s = (f, s')"
  shows "fs_inv l s'"
proof -
  obtain o2 where o2: "Finalize l sp up n (fs s) = (f, o2)" "s' = s\<lparr>fs := o2\<rparr>"
    using run by (rule local_stagingE)
  have wf: "wf_local l" "reliable (fs s)" "os_wf (fs s)" "no_links (fs s)"
    using inv by (simp_all add: fs_inv_def usys_inv_def)
  show ?thesis
    using o2 inv Finalize_keeps_wf [OF wf(1) o2(1) wf(3)] Finalize_no_links [OF wf(1,2) o2(1) wf(4)]
      storage_sched(1) [OF o2(1)]
    by (auto simp: fs_inv_def usys_inv_def reliable_sched)
qed

lemma uploads_Append_inv:
  assumes "fs_inv l s" "uploads_Append (upload_service l scan mx ttl) acct sp up off body s = (r, s')"
  shows "fs_inv l s' \<and> object_view l s' = object_view l s"
proof -
  let ?svc = "upload_service l scan mx ttl"
  obtain g s1 where g: "uploads_Get ?svc acct sp up s = (g, s1)" by fastforce
  note G = uploads_Get_inv [OF assms(1) g]
  obtain a s2 where a: "st_AppendStaging (local_staging l) sp up off body mx s1 = (a, s2)" by fastforce
  have A: "fs_inv l s2 \<and> object_view l s2 = object_view l s"
    using AppendStaging_inv [OF _ a] G by simp
  obtain nxt err where ne: "a = (nxt, err)" by fastforce
  have U: "fs_inv l s3 \<and> object_view l s3 = object_view l s" if "ur_Update memory_repo x s2 = (u, s3)" for x u s3
    using Update_inv [OF _ that] A by auto
  have mx: "svc_maxChunk ?svc = mx" by (simp add: upload_service_def)
  show ?thesis
    using assms(2) g G a A U ne mx
    by (auto simp: uploads_Append_def us.wiring fails_def Let_def
        split: if_splits sum.splits prod.splits option.splits)
qed

lemma EvaluateUpload_same:
  assumes quiet: "scanner_quiet scan" and run: "EvaluateUpload (local_gate l scan) sp up n s = (r, s')"
  shows "same_usys s s'"
proof (rule EvaluateUpload_preserves [where P = "same_usys s"])
  show "EvaluateUpload ((local_gate l scan)\<lparr>g_Now := on_fs sys_Now\<rparr>) sp up n s = (r, s')"
    using run by (simp add: local_gate_clock)
  show "same_usys s u" if "same_usys s t" "scan req h t = (x, u)" for req h t x u
    using lr.same_trans [OF that(1)] quiet [unfolded scanner_quiet_def, rule_format, of t req h] that(2) by simp
qed (use lr.same_trans on_fs_Now_same in \<open>auto simp: same_usys_def\<close>)

lemma uploads_Complete_inv:
  assumes quiet: "scanner_quiet scan" and inv: "fs_inv l s"
    and run: "uploads_Complete (upload_service l scan mx ttl) acct sp up s = (r, s')"
  shows "fs_inv l s'"
proof -
  let ?svc = "upload_service l scan mx ttl" and ?gate = "EvaluateUpload (local_gate l scan)"
  obtain g s1 where g: "uploads_Get ?svc acct sp up s = (g, s1)" by fastforce
  note G = uploads_Get_inv [OF inv g]
  show ?thesis
  proof (cases g)
    case (Inl e)
    then show ?thesis using run g G by (auto simp: uploads_Complete_def fails_def)
  next
    case (Inr x)
    obtain d s2 where d: "?gate (us_SpaceID x) (us_ID x) (us_NodeID x) s1 = (d, s2)" by fastforce
    have D: "fs_inv l s2" using fs_inv_same [OF EvaluateUpload_same [OF quiet d]] G by blast
    obtain e s3 where e: "rejectExpired ?svc x s2 = (e, s3)" by fastforce
    note E = rejectExpired_inv [OF D e]
    obtain f s4 where f: "st_Finalize (local_staging l) sp up (us_NodeID x) s3 = (f, s4)" by fastforce
    have F: "fs_inv l s4" using Finalize_inv [OF _ f] E by blast
    have U: "fs_inv l s5" if "ur_Update memory_repo y s4 = (u, s5)" for y u s5
      using Update_inv [OF F that] by blast
    show ?thesis
      using run g G Inr d D e E f F U
      by (auto simp: uploads_Complete_def us.wiring fails_def Let_def split: sum.splits prod.splits if_splits)
  qed
qed

lemma upload_step_inv:
  assumes quiet: "scanner_quiet scan" and inv: "upload_inv l scan s"
    and step: "upload_step (upload_service l scan mx ttl) s s'"
  shows "upload_inv l scan s' \<and> (\<forall>k bs. object_view l s k = Some bs \<longrightarrow> object_view l s' k = Some bs)"
proof -
  have f: "fs_inv l s" using inv by (simp add: upload_inv_def fs_inv_def)
  have quiet_step: ?thesis if "fs_inv l s'" "object_view l s' = object_view l s"
    using that inv by (simp add: upload_inv_def fs_inv_def)
  from step show ?thesis
  proof (cases rule: upload_step.cases)
    case (create acct sp n par name r1)
    then show ?thesis using uploads_Create_inv [OF f] quiet_step by blast
  next
    case (get acct sp up r2)
    then show ?thesis using uploads_Get_inv [OF f] quiet_step by blast
  next
    case (append acct sp up off body r3)
    then show ?thesis using uploads_Append_inv [OF f] quiet_step by blast
  next
    case (complete acct sp up r4)
    have u: "usys_inv l s" using f by (simp add: fs_inv_def)
    note pub = us.Complete_publishes_cleared [OF scanner_quiet_ok [OF quiet] u complete]
    have keep: "object_view l s' k = Some bs" if "object_view l s k = Some bs" for k bs
      using that pub [of k] by (cases "object_view l s' k = object_view l s k") auto
    have "fs_inv l s'" using uploads_Complete_inv [OF quiet f complete] .
    moreover have "scan_cleared l scan x y bs" if "object_view l s' (x, y) = Some bs" for x y bs
      using that pub [of "(x, y)"] inv by (cases "object_view l s' (x, y) = object_view l s (x, y)") (auto simp: upload_inv_def)
    ultimately show ?thesis using keep by (auto simp: upload_inv_def fs_inv_def)
  qed
qed

section \<open>A reliable system completes an upload\<close>

definition ticked :: "nat \<Rightarrow> os \<Rightarrow> os" where
  "ticked m s = s\<lparr>os_tick := os_tick s + m\<rparr>"

lemma tick_ticked: "tick s = ticked 1 s" "ticked m (ticked k s) = ticked (m + k) s"
  by (simp_all add: tick_def ticked_def add.commute add.left_commute)

lemma ticked_simps [simp]:
  "os_nodes (ticked m s) = os_nodes s" "os_data (ticked m s) = os_data s"
  "os_clock (ticked m s) = os_clock s" "reliable (ticked m s) = reliable s"
  "file_at (ticked m s) = file_at s" "os_wf (ticked m s) = os_wf s" "mkdir_ok (ticked m s) = mkdir_ok s"
  by (simp_all add: ticked_def reliable_def file_at_def os_wf_def fun_eq_iff mkdir_ok_def not_file_def [abs_def])

text \<open>Only time has passed.\<close>

definition later :: "usys \<Rightarrow> usys \<Rightarrow> bool" where
  "later s s' \<longleftrightarrow> (\<exists>m. s' = s\<lparr>fs := ticked m (fs s)\<rparr>)"

lemma later_trans: "later s t \<Longrightarrow> later t u \<Longrightarrow> later s u"
  by (auto simp: later_def tick_ticked)

lemma later_refl [simp]: "later s s"
  by (auto simp: later_def ticked_def intro: exI [of _ 0])

lemma laterD:
  assumes "later s s'"
  shows "sessions s' = sessions s" "reliable (fs s') = reliable (fs s)" "file_at (fs s') = file_at (fs s)"
    "os_data (fs s') = os_data (fs s)" "os_clock (fs s') = os_clock (fs s)" "os_nodes (fs s') = os_nodes (fs s)"
    "mkdir_ok (fs s') = mkdir_ok (fs s)" "os_wf (fs s') = os_wf (fs s)"
  using assms by (auto simp: later_def)

lemma on_fs_tick: "f (fs s) = (r, tick (fs s)) \<Longrightarrow> \<exists>s'. on_fs f s = (r, s') \<and> later s s'"
  by (auto simp: on_fs_def later_def tick_ticked)

lemma on_fs_tick2: "f (fs s) = (r, tick (tick (fs s))) \<Longrightarrow> \<exists>s'. on_fs f s = (r, s') \<and> later s s'"
  by (auto simp: on_fs_def later_def tick_ticked)

lemma OpenStaging_reliable:
  assumes "reliable s" "StagingPath l sp up = Inr p" "file_at s p = Some i"
  shows "OpenStaging l sp up s = (Inr (File i), tick (tick s))"
  using assms by (simp add: OpenStaging_def reliable_calls file_at_iff node_info_def)

lemma local_reader_reliable:
  assumes "reliable (fs s)" "StagingPath l sp up = Inr p" "file_at (fs s) p = Some i"
  shows "\<exists>s'. rd_OpenStaging (local_reader l) sp up s = (Inr (File i), s') \<and> later s s'"
    and "\<exists>s'. rd_ReadAll (local_reader l) (File i) s = (Inr (os_data (fs s) i), s') \<and> later s s'"
    and "\<exists>s'. rd_Close (local_reader l) h s = (Inr (), s') \<and> later s s'"
  using assms OpenStaging_reliable [OF assms] reliable_calls(4) [OF assms(1)]
  by (auto simp: local_reader_def sys_ReadAll_def intro: on_fs_tick on_fs_tick2)

lemma hashStaging_reliable:
  assumes "reliable (fs s)" "StagingPath l sp up = Inr p" "file_at (fs s) p = Some i"
  shows "\<exists>s'. hashStaging (local_reader l) sp up s
    = (Inr (hex_sha256 (os_data (fs s) i), int (length (os_data (fs s) i))), s') \<and> later s s'"
proof -
  obtain s1 where s1: "rd_OpenStaging (local_reader l) sp up s = (Inr (File i), s1)" "later s s1"
    using local_reader_reliable(1) [OF assms] by blast
  obtain s2 where s2: "rd_ReadAll (local_reader l) (File i) s1 = (Inr (os_data (fs s1) i), s2)" "later s1 s2"
    using local_reader_reliable(2) [of s1 l sp up p i] laterD [OF s1(2)] assms by auto
  obtain s3 where s3: "rd_Close (local_reader l) (File i) s2 = (Inr (), s3)" "later s2 s3"
    using local_reader_reliable(3) [of s2 l sp up p i] laterD [OF s1(2)] laterD [OF s2(2)] assms by auto
  show ?thesis
    using s1(1) s2(1) s3(1) laterD(4) [OF s1(2)] later_trans [OF later_trans [OF s1(2) s2(2)] s3(2)]
    by (simp add: hashStaging_def)
qed

text \<open>A scanner that answers without touching the system and clears one resource at all times.\<close>

definition clearing_scanner :: "(usys, fsnode) Scanner \<Rightarrow> FileResource \<Rightarrow> (nat \<Rightarrow> time) \<Rightarrow> bool" where
  "clearing_scanner scan resource clock \<longleftrightarrow>
     (\<forall>h s. \<exists>env. scan (scan_request resource) h s = (Inr env, s) \<and> (\<forall>k. clears resource env (clock k)))"

lemma EvaluateUpload_reliable:
  fixes s :: usys
  defines "bs i \<equiv> os_data (fs s) i"
  assumes fs: "reliable (fs s)" "StagingPath l sp up = Inr p" "file_at (fs s) p = Some i"
    and scan: "clearing_scanner scan \<lparr>fr_SpaceID = sp, fr_NodeID = n, fr_DigestSHA256 = hex_sha256 (bs i),
      fr_SizeBytes = int (length (bs i))\<rparr> (os_clock (fs s))"
  shows "\<exists>d s'. EvaluateUpload (local_gate l scan) sp up n s = (Inr d, s') \<and> de_CanRelease d \<and> later s s'"
proof -
  let ?res = "\<lparr>fr_SpaceID = sp, fr_NodeID = n, fr_DigestSHA256 = hex_sha256 (bs i),
      fr_SizeBytes = int (length (bs i))\<rparr>"
  obtain s1 where s1: "hashStaging (local_reader l) sp up s = (Inr (hex_sha256 (bs i), int (length (bs i))), s1)"
    "later s s1" using hashStaging_reliable [OF fs] by (auto simp: bs_def)
  obtain s2 where s2: "rd_OpenStaging (local_reader l) sp up s1 = (Inr (File i), s2)" "later s1 s2"
    using local_reader_reliable(1) [of s1 l sp up p i] laterD [OF s1(2)] fs by auto
  obtain env where env: "scan (scan_request ?res) (File i) s2 = (Inr env, s2)"
    "\<forall>k. clears ?res env (os_clock (fs s) k)"
    using scan unfolding clearing_scanner_def by blast
  note k2 = laterD [OF later_trans [OF s1(2) s2(2)]]
  obtain s3 where s3: "rd_Close (local_reader l) (File i) s2 = (Inr (), s3)" "later s2 s3"
    using local_reader_reliable(3) [of s2 l sp up p i] k2 fs by auto
  have l3: "later s s3" using later_trans [OF later_trans [OF s1(2) s2(2)] s3(2)] .
  obtain s4 where s4: "on_fs sys_Now s3 = (os_clock (fs s3) (os_tick (fs s3)), s4)" "later s3 s4"
    using on_fs_tick [of sys_Now s3] by (auto simp: sys_Now_def)
  have l4: "later s s4" using later_trans [OF l3 s4(2)] .
  obtain s5 where s5: "hashStaging (local_reader l) sp up s4 = (Inr (hex_sha256 (bs i), int (length (bs i))), s5)"
    "later s4 s5" using hashStaging_reliable [of s4 l sp up p i] laterD [OF l4] fs by (auto simp: bs_def)
  have rel: "de_CanRelease (Evaluate ?res ActionUploadFinalize env (os_clock (fs s3) (os_tick (fs s3))))"
    using env(2) laterD(5) [OF l3] by (simp add: Evaluate_CanRelease validAction_def)
  show ?thesis
    using s1(1) s2(1) env(1) s3(1) s4(1) s5(1) rel later_trans [OF l4 s5(2)]
    by (simp add: EvaluateUpload_def local_gate_def)
qed


lemma Finalize_succeeds:
  assumes wf: "wf_local l" "validStorageID sp" "validStorageID up" "validStorageID n" and rel: "reliable s"
    and src: "file_at s (area_path l ''staging'' sp up) = Some i"
    and dst: "os_nodes s (area_path l ''objects'' sp n) = None"
    and mk: "mkdir_ok s (filepath_Dir (area_path l ''objects'' sp n))"
  shows "\<exists>s'. Finalize l sp up n s = (Inr (), s') \<and> reliable s' \<and> os_nodes s' (area_path l ''staging'' sp up) = None"
proof -
  let ?p = "area_path l ''staging'' sp up" and ?o = "area_path l ''objects'' sp n"
  have paths: "StagingPath l sp up = Inr ?p" "ObjectPath l sp n = Inr ?o"
    using wf by (simp_all add: path_defs scopedPath_wf)
  have plain: "plain_comps (local_comps l @ [''objects'', sp])"
    using wf wf_local_root [OF wf(1)] by (simp add: validStorageID_plain)
  have dir: "filepath_Dir ?o = rooted_path (local_comps l @ [''objects'', sp])"
    using wf by (simp add: area_path_Dir)
  obtain s1 where s1: "sys_MkdirAll (filepath_Dir ?o) s = (Inr (), s1)"
    using reliable_MkdirAll [OF rel mk] by blast
  note sf = same_filesD [OF sys_MkdirAll_frame [OF s1]]
  have d1: "os_nodes s1 (filepath_Dir ?o) = Some Dir"
    using sys_MkdirAll_dir [OF s1] path_ancestors_self [OF plain] by (simp add: dir)
  have "?o \<notin> set (path_ancestors (filepath_Dir ?o))"
    using area_path_not_ancestor [OF wf(1) _ wf(2,4) _ wf(2), of "''objects''" "''objects''"] by (simp add: dir)
  then have "keeps {?o} s s1" using sys_MkdirAll_keeps [OF s1, of "{?o}"] by simp
  then have o1: "os_nodes s1 ?o = None" using keepsD(1) dst by simp
  have p1: "os_nodes s1 ?p = Some (File i)" using sf(1) src by (simp flip: file_at_iff)
  have r1: "reliable s1" using sf rel by simp
  have ne: "?p \<noteq> ?o" using wf by (simp add: area_path_inj)
  have lk: "sys_Link ?p ?o s1 = (Inr (), tick (add_name ?o i s1))"
    using r1 p1 o1 d1 by (simp add: sys_Link_def add_name_def)
  have "sys_Remove ?p (tick (add_name ?o i s1)) = (Inr (), tick (del_name ?p (tick (add_name ?o i s1))))"
    using r1 p1 ne by (simp add: sys_Remove_def del_name_def)
  then show ?thesis using paths s1 lk r1 by (simp add: Finalize_def del_name_def add_name_def reliable_def)
qed

lemma rejectExpired_fresh:
  assumes "us_ExpiresAt x \<noteq> 0" "\<forall>k. os_clock (fs s) k < us_ExpiresAt x"
  shows "\<exists>s'. rejectExpired (upload_service l scan mx ttl) x s = (Inr (), s') \<and> later s s'"
proof -
  obtain s' where "on_fs sys_Now s = (os_clock (fs s) (os_tick (fs s)), s')" "later s s'"
    using on_fs_tick [of sys_Now s] by (auto simp: sys_Now_def)
  then show ?thesis
    using assms by (auto simp: rejectExpired_def isExpired_def IsZero_def upload_service_def)
qed

lemma uploads_Complete_reliable:
  fixes s :: usys
  defines "bs i \<equiv> os_data (fs s) i"
  assumes wf: "wf_local l" "validStorageID sp" "validStorageID up" "validStorageID n" and rel: "reliable (fs s)"
    and sess: "sessions s up = Some x" "us_ID x = up" "us_SpaceID x = sp" "us_AccountID x = acct"
      "us_NodeID x = n" "us_State x = StateActive"
    and time: "us_ExpiresAt x \<noteq> 0" "\<forall>k. os_clock (fs s) k < us_ExpiresAt x"
    and src: "file_at (fs s) (area_path l ''staging'' sp up) = Some i"
    and dst: "os_nodes (fs s) (area_path l ''objects'' sp n) = None"
    and mk: "mkdir_ok (fs s) (filepath_Dir (area_path l ''objects'' sp n))"
    and scan: "clearing_scanner scan \<lparr>fr_SpaceID = sp, fr_NodeID = n, fr_DigestSHA256 = hex_sha256 (bs i),
      fr_SizeBytes = int (length (bs i))\<rparr> (os_clock (fs s))"
  shows "\<exists>s'. uploads_Complete (upload_service l scan mx ttl) acct sp up s
      = ((x\<lparr>us_State := StateCompleted\<rparr>, None), s')
    \<and> object_view l s' (sp, n) = Some (bs i) \<and> staged_view l s' sp up = None
    \<and> sessions s' = (sessions s)(up \<mapsto> x\<lparr>us_State := StateCompleted\<rparr>)
    \<and> reliable (fs s') \<and> os_nodes (fs s') (area_path l ''staging'' sp up) = None"
proof -
  let ?svc = "upload_service l scan mx ttl" and ?p = "area_path l ''staging'' sp up"
    and ?o = "area_path l ''objects'' sp n" and ?x = "x\<lparr>us_State := StateCompleted\<rparr>"
  have path: "StagingPath l sp up = Inr ?p" using wf by (simp add: StagingPath_def scopedPath_wf)
  obtain s1 where s1: "rejectExpired ?svc x s = (Inr (), s1)" "later s s1"
    using rejectExpired_fresh [OF time, of l scan mx ttl] by blast
  have get: "uploads_Get ?svc acct sp up s = (Inr x, s1)"
    using sess s1(1) by (simp add: uploads_Get_def us.wiring memory_repo_def on_sessions_def memory_Get_def)
  note k1 = laterD [OF s1(2)]
  obtain d s2 where s2: "EvaluateUpload (local_gate l scan) sp up n s1 = (Inr d, s2)" "de_CanRelease d" "later s1 s2"
    using EvaluateUpload_reliable [of s1 l sp up ?p i scan n] path k1 rel src scan by (auto simp: bs_def)
  have l2: "later s s2" using later_trans [OF s1(2) s2(3)] .
  note k2 = laterD [OF l2]
  obtain s3 where s3: "rejectExpired ?svc x s2 = (Inr (), s3)" "later s2 s3"
    using rejectExpired_fresh [of x s2 l scan mx ttl] time k2(5) by auto
  have l3: "later s s3" using later_trans [OF l2 s3(2)] .
  note k3 = laterD [OF l3]
  obtain o4 where o4: "Finalize l sp up n (fs s3) = (Inr (), o4)" and left: "reliable o4" "os_nodes o4 ?p = None"
    using Finalize_succeeds [OF wf, of "fs s3" i] rel src dst mk k3 by auto
  let ?s4 = "s3\<lparr>fs := o4\<rparr>"
  have fin: "st_Finalize (local_staging l) sp up n s3 = (Inr (), ?s4)"
    using o4 by (simp add: local_staging_def on_fs_def)
  have key: "finalize_paths (l, sp, up, n) = Some (?p, ?o)" using wf by (simp add: finalize_paths_def)
  have mv: "content_at o4 ?o = content_at (fs s3) ?p" "file_at o4 ?p = None"
    using fin.success_moves [OF key, of "fs s3" "()" o4] o4 by auto
  have up: "ur_Update memory_repo ?x ?s4 = (Inr (), ?s4\<lparr>sessions := (sessions s)(up \<mapsto> ?x)\<rparr>)"
    using sess k3(1) by (simp add: memory_repo_def on_sessions_def memory_Update_def)
  have "uploads_Complete ?svc acct sp up s = ((?x, None), ?s4\<lparr>sessions := (sessions s)(up \<mapsto> ?x)\<rparr>)"
    using get sess s2(1,2) s3(1) fin up wf(4)
    by (auto simp: uploads_Complete_def us.wiring Let_def)
  moreover have "object_view l ?s4 (sp, n) = Some (bs i)" "staged_view l ?s4 sp up = None"
    using mv k3 src wf by (auto simp: object_view_wf staged_view_wf content_at_def bs_def)
  ultimately show ?thesis using left by simp
qed

lemma isExpired_same:
  "isExpired (upload_service l scan mx ttl) x s = (b, s') \<Longrightarrow> same_usys s s'"
  by (auto simp: isExpired_def split: if_splits prod.splits dest: now_same)

text \<open>A look-up that succeeds only reads.\<close>

lemma uploads_Get_same:
  assumes "uploads_Get (upload_service l scan mx ttl) acct sp up s = (Inr x, s')"
  shows "same_usys s s' \<and> sessions s up = Some x"
proof -
  let ?svc = "upload_service l scan mx ttl"
  obtain g s1 where g: "ur_Get memory_repo up s = (g, s1)" by fastforce
  then have s1: "s1 = s" "g = (case sessions s up of None \<Rightarrow> Inl (Sentinel UploadsErrNotFound) | Some x \<Rightarrow> Inr x)"
    by (auto simp: memory_repo_def on_sessions_def memory_Get_def split: option.splits)
  obtain b s2 where b: "isExpired ?svc x s = (b, s2)" by fastforce
  show ?thesis
    using assms g s1 b isExpired_same [OF b]
    by (auto simp: uploads_Get_def us.wiring rejectExpired_def split: if_splits sum.splits option.splits prod.splits)
qed

end
