(* ===== verification/Server.thy ===== *)
theory Server
  imports Http_Routes Http_Scanner Upload_Reachable
begin

text \<open>
  \<^verbatim>\<open>cmd/server/main.go\<close>: the scanner's credential file, and how \<^verbatim>\<open>main\<close> builds the server from
  the configuration. What it takes from outside the program is a record of functions. Listening,
  signals and the graceful shutdown are not modelled.
\<close>

section \<open>The credential file\<close>

text \<open>
  What \<^verbatim>\<open>os.Stat\<close> says of a file: its type and permission bits. The file's state and content are
  arguments: an error or a value each.
\<close>

record file_mode =
  fm_regular :: bool
  fm_perm :: nat

unbundle bit_operations_syntax

definition loadWardveilScanSecret :: "goerr + file_mode \<Rightarrow> goerr + string \<Rightarrow> goerr + string" where
  "loadWardveilScanSecret stat content =
     (case stat of
        Inl err \<Rightarrow> Inl (Wrapped ''stat Wardveil Scan secret file'' err)
      | Inr info \<Rightarrow>
     if \<not> fm_regular info then Inl (ErrorString ''Wardveil Scan secret file must be regular'')
     else if fm_perm info AND 63 \<noteq> 0
     then Inl (ErrorString ''Wardveil Scan secret file must not be readable or writable by group or others'')
     else case content of
        Inl err \<Rightarrow> Inl (Wrapped ''read Wardveil Scan secret file'' err)
      | Inr raw \<Rightarrow>
     if length raw > 4096 then Inl (ErrorString ''Wardveil Scan secret file exceeds 4096 bytes'')
     else let secret = TrimSpace raw in
     if secret = [] then Inl (ErrorString ''Wardveil Scan secret file is empty'')
     else if ContainsAny secret [CHR 0x0D, CHR 0x0A]
     then Inl (ErrorString ''Wardveil Scan secret file must contain one credential value'')
     else Inr secret)"

section \<open>Wiring\<close>

definition usys_store :: "Local option \<Rightarrow> usys Store" where
  "usys_store l =
     \<lparr>store_ApplyQuarantine = (\<lambda>sp n oid cid. on_fs (ApplyQuarantine l sp n oid cid)),
      store_ReadQuarantine = (\<lambda>sp n. on_fs (ReadQuarantine l sp n))\<rparr>"

text \<open>The dependencies of the server's \<^verbatim>\<open>main\<close>: no resolver, no memberships, no node repository.\<close>

definition main_deps :: "Local option \<Rightarrow> Config \<Rightarrow> usys Dependencies" where
  "main_deps l cfg =
     \<lparr>dp_Principals = None, dp_Memberships = None, dp_Nodes = None,
      dp_Quarantine = Some (Some (Some (usys_store l))), dp_WardveilServiceToken = cf_WardveilServiceToken cfg,
      dp_rand = on_fs sys_RandRead\<rparr>"

definition main_scanner_config :: "Config \<Rightarrow> string \<Rightarrow> usys HTTPScannerConfig" where
  "main_scanner_config cfg secret =
     \<lparr>hc_Endpoint = cf_WardveilScanEndpoint cfg, hc_CallerID = cf_WardveilScanCallerID cfg,
      hc_KeyID = cf_WardveilScanKeyID cfg, hc_Secret = secret, hc_Timeout = 0, hc_MaxResponseBytes = 0,
      hc_Now = None, hc_Nonce = None, hc_CorrelationID = None\<rparr>"

text \<open>
  The surroundings of the process: environment variables, the parsers left as arguments, the
  credential file by name, the HTTP transport and the file server.
\<close>

record surroundings =
  su_Getenv :: "string \<Rightarrow> string"
  su_ParseDuration :: "string \<Rightarrow> duration option"
  su_ParseIP :: "string \<Rightarrow> IP option"
  su_ParseURL :: "string \<Rightarrow> goerr + URL"
  su_Stat :: "string \<Rightarrow> goerr + file_mode"
  su_ReadFile :: "string \<Rightarrow> goerr + string"
  su_Transport :: "duration \<Rightarrow> scan_http_request \<Rightarrow> fsnode \<Rightarrow> usys \<Rightarrow> (goerr + scan_http_response) \<times> usys"
  su_FileServer :: "string \<Rightarrow> usys web_handler"

definition main_scanner :: "surroundings \<Rightarrow> Config \<Rightarrow> goerr + (usys, fsnode) HTTPScanner" where
  "main_scanner su cfg =
     (case loadWardveilScanSecret (su_Stat su (cf_WardveilScanSecretFile cfg))
             (su_ReadFile su (cf_WardveilScanSecretFile cfg)) of
        Inl err \<Rightarrow> Inl (Wrapped ''Wardveil Scan credential rejected'' err)
      | Inr secret \<Rightarrow>
     (case NewHTTPScanner (su_ParseURL su) (su_ParseIP su) (on_fs sys_Now) (on_fs sys_RandRead) (su_Transport su)
             (main_scanner_config cfg secret) of
        Inl err \<Rightarrow> Inl (Wrapped ''Wardveil Scan client initialization failed'' err)
      | Inr scanner \<Rightarrow> Inr scanner))"

text \<open>
  \<^verbatim>\<open>main\<close> up to the listener: the error that ends the process with exit code 1, or the server, in
  the state it starts in.
\<close>

definition server_main :: "surroundings \<Rightarrow> usys \<Rightarrow> (goerr + usys Server) \<times> usys" where
  "server_main su s =
     (case config_Load (su_ParseDuration su) (su_ParseIP su) (su_Getenv su) of
        Inl err \<Rightarrow> (Inl (Wrapped ''configuration rejected'' err), s)
      | Inr cfg \<Rightarrow>
     (case on_fs (NewLocal (cf_DataDir cfg)) s of
        (Inl err, s1) \<Rightarrow> (Inl (Wrapped ''storage initialization failed'' err), s1)
      | (Inr store, s1) \<Rightarrow>
     (case on_fs (EnsureLayout (Some store)) s1 of
        (Inl err, s2) \<Rightarrow> (Inl (Wrapped ''storage layout initialization failed'' err), s2)
      | (Inr _, s2) \<Rightarrow>
     (let deps = main_deps (Some store) cfg in
      if \<not> cf_UploadsEnabled cfg then (Inr (NewWithDependencies (su_FileServer su) cfg deps), s2)
      else case main_scanner su cfg of
        Inl err \<Rightarrow> (Inl err, s2)
      | Inr scanner \<Rightarrow>
          (let uploadService = upload_service (Some store) (http_scanner scanner)
                 (cf_UploadMaxChunkBytes cfg) (cf_UploadSessionTTL cfg) in
           (Inr (NewWithUploads (su_FileServer su) cfg deps (Some (upload_api uploadService))),
            s2\<lparr>sessions := Map.empty\<rparr>))))))"

end
