(* ===== verification/Sample_System.thy ===== *)
theory Sample_System
  imports Quarantine_Recovery
begin

text \<open>
  A concrete system for the witnesses: a storage root \<^verbatim>\<open>/d\<close> that holds one published object
  (inode 0) and one staged upload (inode 1), under a fault schedule given as a parameter.
\<close>

definition sample_local :: "Local option" where
  "sample_local = Some \<lparr>root = ''/d''\<rparr>"

definition sample_space :: string where
  "sample_space = ''00000000-0000-4000-8000-0000000000aa''"

definition sample_node :: string where
  "sample_node = ''00000000-0000-4000-8000-0000000000bb''"

definition sample_upload :: string where
  "sample_upload = ''00000000-0000-4000-8000-0000000000cc''"

definition sample_os :: "(nat \<Rightarrow> nat option) \<Rightarrow> (nat \<Rightarrow> bool) \<Rightarrow> os" where
  "sample_os fault stat_fault =
     \<lparr>os_nodes = map_of [(''/'', Dir), (''/d'', Dir),
        (area_path sample_local ''objects'' sample_space sample_node, File 0),
        (area_path sample_local ''staging'' sample_space sample_upload, File 1)],
      os_data = (\<lambda>i. if i = 0 then ''payload'' else ''abc''), os_next = 2, os_tick = 0,
      os_fault = fault, os_stat_fault = stat_fault, os_clock = (\<lambda>k. int k * second),
      os_random = (\<lambda>_. replicate 16 0), os_suffix = (\<lambda>_. 7), os_cwd = ''/''\<rparr>"

definition calm :: os where
  "calm = sample_os (\<lambda>_. None) (\<lambda>_. False)"

lemma sample_wf [simp]: "wf_local sample_local"
  by (auto simp: wf_local_def sample_local_def rooted_path_def plain_comp_def
      intro!: exI [of _ "[''d'']"])

lemma sample_ids [simp]:
  "validStorageID sample_space" "validStorageID sample_node" "validStorageID sample_upload"
  by code_simp+

lemma sample_not_node [simp]: "sample_upload \<noteq> sample_node"
  by code_simp

lemma sample_trim [simp]:
  "TrimSpace ''op-1'' = ''op-1''" "TrimSpace ''c-1'' = ''c-1''" "TrimSpace ''op-2'' = ''op-2''"
  by (rule TrimSpace_printable; simp add: printable_def)+

lemma sample_ops [simp]:
  "validOperationID ''op-1''" "validOperationID ''c-1''" "validOperationID ''op-2''"
  unfolding validOperationID_def Let_def sample_trim by code_simp+

lemma sample_reliable [simp]: "reliable calm" "reliable (sample_os (\<lambda>_. None) (\<lambda>_. False))"
  by (simp_all add: calm_def reliable_def sample_os_def)

lemma sample_stat_ok [simp]: "stat_ok (sample_os f (\<lambda>_. False))"
  by (simp add: stat_ok_def sample_os_def)

lemma sample_files:
  "file_at (sample_os f g) (area_path sample_local ''objects'' sample_space sample_node) = Some 0"
  "file_at (sample_os f g) (area_path sample_local ''staging'' sample_space sample_upload) = Some 1"
  "os_data (sample_os f g) 0 = ''payload''" "os_data (sample_os f g) (Suc 0) = ''abc''"
  by (simp_all add: file_at_def sample_os_def) code_simp+

lemma sample_os_wf [simp]: "os_wf (sample_os f g)"
  by (auto simp: os_wf_def sample_os_def dest!: map_of_SomeD)

lemma sample_free:
  "os_nodes (sample_os f g) (area_path sample_local ''quarantine'' sample_space sample_node) = None"
  "os_nodes (sample_os f g) (area_path sample_local ''quarantine-state'' sample_space sample_node) = None"
  "os_nodes (sample_os f g) (area_path sample_local ''trash'' sample_space sample_node) = None"
  by (simp_all only: sample_os_def os.select_convs) code_simp+

lemma sample_nodes: "os_nodes (sample_os f g) = os_nodes calm"
  by (simp add: calm_def sample_os_def)

lemma sample_mkdir_calm:
  "mkdir_ok calm (filepath_Dir (area_path sample_local ''quarantine'' sample_space sample_node))"
  "mkdir_ok calm (filepath_Dir (area_path sample_local ''quarantine-state'' sample_space sample_node))"
  "mkdir_ok calm (filepath_Dir (area_path sample_local ''staging'' sample_space sample_upload))"
  by code_simp+

lemma sample_mkdir:
  "mkdir_ok (sample_os f g) (filepath_Dir (area_path sample_local ''quarantine'' sample_space sample_node))"
  "mkdir_ok (sample_os f g) (filepath_Dir (area_path sample_local ''quarantine-state'' sample_space sample_node))"
  "mkdir_ok (sample_os f g) (filepath_Dir (area_path sample_local ''staging'' sample_space sample_upload))"
  using sample_mkdir_calm by (simp_all add: mkdir_ok_def not_file_def [abs_def] sample_nodes)

lemma sample_fresh: "fresh_temps sample_local sample_space sample_node (sample_os f g)"
proof -
  have "os_nodes calm (temp_name (filepath_Dir (qrecord sample_local sample_space sample_node))
    ''.quarantine-state-'' 7) = None" by code_simp
  then show ?thesis by (simp add: fresh_temps_def sample_nodes) (simp add: sample_os_def)
qed

lemmas sample_facts = sample_files sample_free sample_mkdir sample_fresh

end
