(* ===== verification/Upload_Properties.thy ===== *)
theory Upload_Properties
  imports Upload_Reachable Sample_System
begin

text \<open>
  The properties of the upload service, the scan gate and the storage backend together, with
  witnesses on a small system: a storage root with one staged upload, the session of that upload and
  a scanner that answers every request with a clean record for the resource it was asked about.
\<close>

section \<open>A small upload system\<close>

definition sample_target :: string where
  "sample_target = ''00000000-0000-4000-8000-0000000000dd''"

definition fresh_os :: os where
  "fresh_os = calm\<lparr>os_nodes := map_of [(''/'', Dir), (''/d'', Dir),
     (area_path sample_local ''staging'' sample_space sample_upload, File 1)], os_clock := (\<lambda>_. hour)\<rparr>"

definition sample_session :: UploadSession where
  "sample_session =
     \<lparr>us_ID = sample_upload, us_SpaceID = sample_space, us_AccountID = ''ann'', us_ParentNodeID = [],
      us_TargetName = ''a.txt'', us_NodeID = sample_target, us_Offset = 3, us_State = StateActive,
      us_ExpiresAt = 2 * hour\<rparr>"

definition sample_usys :: usys where
  "sample_usys = \<lparr>fs = fresh_os, sessions = [sample_upload \<mapsto> sample_session]\<rparr>"

definition sample_record :: "ScanRequest \<Rightarrow> ScanRecord" where
  "sample_record req =
     \<lparr>sr_ContractVersion = RuntimeContractVersion, sr_RecordID = ''r-1'', sr_RecordType = ScanRecordType,
      sr_Producer = \<lparr>pr_ID = ''scanner'', pr_Authoritative = True\<rparr>,
      sr_Scope = \<lparr>sp_ResourceType = rq_ResourceType req, sp_ResourceID = rq_ResourceID req\<rparr>,
      sr_ObservedAt = minute, sr_ValidUntil = 2 * hour, sr_Result = ResultClean, sr_EvidenceRefs = [''e-1'']\<rparr>"

definition sample_scan :: "(usys, fsnode) Scanner" where
  "sample_scan req h s =
     (Inr \<lparr>se_ResourceID = rq_ResourceID req, se_ResourceDigestSHA256 = rq_DigestSHA256 req,
       se_ScanRecord = sample_record req\<rparr>, s)"

abbreviation sample_service :: "usys UploadService" where
  "sample_service \<equiv> upload_service sample_local sample_scan 5 hour"

lemma sample_quiet: "scanner_quiet sample_scan"
  by (simp add: scanner_quiet_def sample_scan_def)

lemma hex_sha256_valid [simp]: "validSHA256 (hex_sha256 bs)"
  by (simp add: hex_sha256_def validSHA256_hex)

lemma sample_clears:
  assumes "fr_SpaceID r \<noteq> []" "fr_NodeID r \<noteq> []" "0 \<le> fr_SizeBytes r" "validSHA256 (fr_DigestSHA256 r)"
  shows "clearing_scanner sample_scan r (\<lambda>_. hour)"
  using assms TrimSpace_printable [of "''scanner''"]
  by (simp add: clearing_scanner_def sample_scan_def sample_record_def clears_def scan_request_def printable_def)

lemma sample_target_ok [simp]: "validStorageID sample_target" "sample_target \<noteq> []" "sample_space \<noteq> []"
  by code_simp+

lemma fresh_facts:
  "reliable fresh_os" "os_wf fresh_os" "no_links fresh_os"
  "file_at fresh_os (area_path sample_local ''staging'' sample_space sample_upload) = Some 1"
  "os_data fresh_os 1 = ''abc''" "os_data fresh_os (Suc 0) = ''abc''"
  "os_clock fresh_os = (\<lambda>_. hour)"
proof -
  show "reliable fresh_os" using sample_reliable(1) by (simp add: fresh_os_def reliable_def)
  show "os_wf fresh_os" by (auto simp: os_wf_def fresh_os_def calm_def sample_os_def dest!: map_of_SomeD)
  show "no_links fresh_os"
    by (auto simp: no_links_def file_at_def fresh_os_def split: option.splits fsnode.splits dest!: map_of_SomeD)
  have "area_path sample_local ''staging'' sample_space sample_upload \<noteq> ''/''"
    "area_path sample_local ''staging'' sample_space sample_upload \<noteq> ''/d''" by code_simp+
  then show "file_at fresh_os (area_path sample_local ''staging'' sample_space sample_upload) = Some 1"
    by (simp add: fresh_os_def file_at_def)
qed (simp_all add: fresh_os_def calm_def sample_os_def)

lemma fresh_random: "os_random fresh_os = (\<lambda>_. replicate 16 0)"
  by (simp add: fresh_os_def calm_def sample_os_def)

lemma fresh_mkdir:
  "mkdir_ok fresh_os (filepath_Dir (area_path sample_local ''staging'' sample_space sample_upload))"
  by (simp only: fresh_os_def) code_simp

lemma fresh_no_objects: "object_view sample_local (s\<lparr>fs := fresh_os\<rparr>) = (\<lambda>_. None)"
proof
  fix k
  have "area_path sample_local ''objects'' x y \<notin> {''/'', ''/d''}" if "validStorageID x" "validStorageID y" for x y
  proof
    assume a: "area_path sample_local ''objects'' x y \<in> {''/'', ''/d''}"
    have l: "local_comps sample_local = [''d'']"
      by (simp add: local_comps_def sample_local_def) code_simp
    then have "plain_comps (local_comps sample_local @ [''objects'', x, y])"
      using that wf_local_root [OF sample_wf] by (simp add: validStorageID_plain)
    then have "path_comps (area_path sample_local ''objects'' x y) = [''d'', ''objects'', x, y]"
      by (simp add: area_path_def l)
    moreover have "path_comps ''/'' = []" "path_comps ''/d'' = [''d'']" by code_simp+
    ultimately show False using a by auto
  qed
  then show "object_view sample_local (s\<lparr>fs := fresh_os\<rparr>) k = None"
    by (auto simp: object_view_wf content_at_def fresh_os_def file_at_def area_path_inj split: option.splits)
qed

lemma sample_usys_inv: "fs_inv sample_local sample_usys" "usys_inv sample_local sample_usys"
  "object_view sample_local sample_usys = (\<lambda>_. None)"
  using fresh_facts fresh_no_objects [of sample_usys]
  by (auto simp: fs_inv_def usys_inv_def keyed_def sample_usys_def sample_session_def)

lemma sample_target_free:
  "mkdir_ok fresh_os (filepath_Dir (area_path sample_local ''objects'' sample_space sample_target))"
  "os_nodes fresh_os (area_path sample_local ''objects'' sample_space sample_target) = None"
  by (simp_all only: fresh_os_def) code_simp+

lemma sample_completes:
  "\<exists>s'. uploads_Complete sample_service ''ann'' sample_space sample_upload sample_usys
      = ((sample_session\<lparr>us_State := StateCompleted\<rparr>, None), s')
    \<and> object_view sample_local s' (sample_space, sample_target) = Some ''abc''
    \<and> staged_view sample_local s' sample_space sample_upload = None
    \<and> sessions s' = (sessions sample_usys)(sample_upload \<mapsto> sample_session\<lparr>us_State := StateCompleted\<rparr>)"
  using uploads_Complete_reliable [OF sample_wf sample_ids(1,3) sample_target_ok(1), of sample_usys sample_session "''ann''" 1
      sample_scan 5 hour] fresh_facts sample_target_free sample_clears
  by (auto simp: sample_usys_def sample_session_def)



text \<open>
  A system invariant over all histories of calls: on a reliable file system, from a system without
  published objects, every sequence of requests (any accounts, spaces, offsets, bodies and orders)
  keeps the files consistent and leaves only published objects that the scanner cleared.
\<close>

theorem reachable_objects_scanned:
  assumes "scanner_quiet scan" "fs_inv l s0" "object_view l s0 = (\<lambda>_. None)"
    and "upload_reach (upload_service l scan mx ttl) s0 s"
  shows "fs_inv l s \<and> (\<forall>sp n bs. object_view l s (sp, n) = Some bs \<longrightarrow> scan_cleared l scan sp n bs)"
proof -
  have "upload_inv l scan s"
    using assms(4)
  proof (induction rule: upload_reach.induct)
    case init
    then show ?case using assms(2,3) by (simp add: upload_inv_def fs_inv_def)
  next
    case (step s s')
    then show ?case using upload_step_inv [OF assms(1)] by blast
  qed
  then show ?thesis by (simp add: upload_inv_def fs_inv_def)
qed

theorem reachable_objects_scanned_witness:
  "\<exists>s. upload_reach sample_service sample_usys s
     \<and> object_view sample_local s (sample_space, sample_target) = Some ''abc''
     \<and> scan_cleared sample_local sample_scan sample_space sample_target ''abc''"
proof -
  obtain s' where c: "uploads_Complete sample_service ''ann'' sample_space sample_upload sample_usys
      = ((sample_session\<lparr>us_State := StateCompleted\<rparr>, None), s')"
    and o: "object_view sample_local s' (sample_space, sample_target) = Some ''abc''"
    using sample_completes by blast
  have "upload_reach sample_service sample_usys s'"
    using upload_reach.step [OF upload_reach.init upload_step.complete [OF c]] .
  then show ?thesis
    using reachable_objects_scanned [OF sample_quiet sample_usys_inv(1,3), of 5 hour s'] o by blast
qed

text \<open>
  Published objects are immutable for the upload service: on a reliable file system no later sequence of
  upload requests changes or removes the bytes of an object that is published.
\<close>

theorem published_objects_immutable:
  assumes "scanner_quiet scan" "upload_inv l scan s0" "upload_reach (upload_service l scan mx ttl) s0 s"
    and "object_view l s0 k = Some bs"
  shows "object_view l s k = Some bs"
proof -
  have "upload_inv l scan s \<and> object_view l s k = Some bs"
    using assms(3)
  proof (induction rule: upload_reach.induct)
    case init
    then show ?case using assms(2,4) by simp
  next
    case (step s s')
    then show ?case using upload_step_inv [OF assms(1)] by blast
  qed
  then show ?thesis by simp
qed

theorem published_objects_immutable_witness:
  "\<exists>s1. object_view sample_local s1 (sample_space, sample_target) = Some ''abc''
     \<and> object_view sample_local
         (snd (uploads_Append sample_service ''ann'' sample_space sample_upload 0 (Some \<lparr>rd_data = ''zz'', rd_fail = False\<rparr>) s1))
         (sample_space, sample_target) = Some ''abc''"
proof -
  obtain s1 where c: "uploads_Complete sample_service ''ann'' sample_space sample_upload sample_usys
      = ((sample_session\<lparr>us_State := StateCompleted\<rparr>, None), s1)"
    and o: "object_view sample_local s1 (sample_space, sample_target) = Some ''abc''"
    using sample_completes by blast
  have "upload_inv sample_local sample_scan sample_usys"
    using sample_usys_inv by (simp add: upload_inv_def fs_inv_def)
  then have inv: "upload_inv sample_local sample_scan s1"
    using upload_step_inv [OF sample_quiet _ upload_step.complete [OF c]] by blast
  obtain r s2 where a: "uploads_Append sample_service ''ann'' sample_space sample_upload 0
      (Some \<lparr>rd_data = ''zz'', rd_fail = False\<rparr>) s1 = (r, s2)" by fastforce
  have "object_view sample_local s2 (sample_space, sample_target) = Some ''abc''"
    using published_objects_immutable [OF sample_quiet inv upload_reach.step [OF upload_reach.init upload_step.append [OF a]] o] .
  then show ?thesis using o a by auto
qed

text \<open>
  C10. Completion succeeds. On a reliable system, for an active session of the caller that does not
  expire during the call, whose bytes are staged and whose target is free, and with a scanner that
  clears these bytes, \<^verbatim>\<open>Complete\<close> returns the completed session, the staged bytes are published
  under the session's node, the staging object is gone and the session is recorded as completed.
\<close>

theorem complete_succeeds:
  assumes "wf_local l" "validStorageID sp" "validStorageID up" "validStorageID n" and "reliable (fs s)"
    and "sessions s up = Some x" "us_ID x = up" "us_SpaceID x = sp" "us_AccountID x = acct"
      "us_NodeID x = n" "us_State x = StateActive"
    and "us_ExpiresAt x \<noteq> 0" "\<forall>k. os_clock (fs s) k < us_ExpiresAt x"
    and "file_at (fs s) (area_path l ''staging'' sp up) = Some i" "os_data (fs s) i = bs"
    and "os_nodes (fs s) (area_path l ''objects'' sp n) = None"
    and "mkdir_ok (fs s) (filepath_Dir (area_path l ''objects'' sp n))"
    and "clearing_scanner scan \<lparr>fr_SpaceID = sp, fr_NodeID = n, fr_DigestSHA256 = hex_sha256 bs,
      fr_SizeBytes = int (length bs)\<rparr> (os_clock (fs s))"
  shows "\<exists>s'. uploads_Complete (upload_service l scan mx ttl) acct sp up s
      = ((x\<lparr>us_State := StateCompleted\<rparr>, None), s')
    \<and> object_view l s' (sp, n) = Some bs \<and> staged_view l s' sp up = None
    \<and> sessions s' = (sessions s)(up \<mapsto> x\<lparr>us_State := StateCompleted\<rparr>)"
  using uploads_Complete_reliable [OF assms(1-14), of scan mx ttl] assms(15-18) by auto

theorem complete_succeeds_witness:
  "\<exists>s'. uploads_Complete sample_service ''ann'' sample_space sample_upload sample_usys
      = ((sample_session\<lparr>us_State := StateCompleted\<rparr>, None), s')
    \<and> object_view sample_local s' (sample_space, sample_target) = Some ''abc''
    \<and> staged_view sample_local s' sample_space sample_upload = None
    \<and> sessions s' = (sessions sample_usys)(sample_upload \<mapsto> sample_session\<lparr>us_State := StateCompleted\<rparr>)"
  by (rule complete_succeeds [OF sample_wf sample_ids(1,3) sample_target_ok(1), where i = 1])
    (use fresh_facts sample_target_free sample_clears in \<open>auto simp: sample_usys_def sample_session_def\<close>)

text \<open>
  C31. Sessions belong to their account and space: every request for a session of another account or
  in another space is refused as forbidden, reads no clock, touches no file and changes no session.
\<close>

theorem upload_ownership:
  fixes l scan mx ttl
  assumes "sessions s up = Some x" "us_AccountID x \<noteq> acct \<or> us_SpaceID x \<noteq> sp"
  defines "svc \<equiv> upload_service l scan mx ttl"
  shows "uploads_Get svc acct sp up s = (Inl (Sentinel UploadsErrForbidden), s)
    \<and> uploads_Append svc acct sp up off body s = ((zero_session, Some (UErr (Sentinel UploadsErrForbidden))), s)
    \<and> uploads_Complete svc acct sp up s = ((zero_session, Some (UErr (Sentinel UploadsErrForbidden))), s)"
proof -
  have "uploads_Get svc acct sp up s = (Inl (Sentinel UploadsErrForbidden), s)"
    using assms(1,2) by (auto simp: svc_def uploads_Get_def us.wiring memory_repo_def on_sessions_def memory_Get_def)
  then show ?thesis by (simp add: uploads_Append_def uploads_Complete_def fails_def)
qed

theorem upload_ownership_witness:
  "snd (uploads_Complete sample_service ''bob'' sample_space sample_upload sample_usys) = sample_usys"
  using upload_ownership [of sample_usys sample_upload sample_session "''bob''" sample_space sample_local sample_scan 5 hour
      0 None]
  by (simp add: sample_usys_def sample_session_def)



text \<open>
  C17. An acknowledged chunk is stored: under every fault schedule, when \<^verbatim>\<open>Append\<close> succeeds, the
  caller's offset was the length of the bytes staged before, exactly the bytes read from the body (at
  most the chunk limit) were added to them, the returned session is the stored one and its offset is
  the new staged length.
\<close>

theorem append_acknowledged:
  assumes "wf_local l" "validStorageID sp" "validStorageID up" "0 < mx" "mx < maxInt64"
    and run: "uploads_Append (upload_service l scan mx ttl) acct sp up off (Some rd) s = ((x, None), s')"
  shows "\<exists>old bs. (staged_view l s sp up = Some old \<or> staged_view l s sp up = None \<and> old = [])
    \<and> off = int (length old) \<and> staged_view l s' sp up = Some (old @ bs)
    \<and> bs = take (nat (mx + 1)) (rd_data rd) \<and> int (length bs) \<le> mx
    \<and> us_Offset x = wrap64 (int (length (old @ bs))) \<and> sessions s' (us_ID x) = Some x"
proof -
  let ?svc = "upload_service l scan mx ttl" and ?p = "area_path l ''staging'' sp up"
  have path: "StagingPath l sp up = Inr ?p" using assms(1-3) by (simp add: StagingPath_def scopedPath_wf)
  have w: "wrap64 (mx + 1) = mx + 1" using assms(4,5) by (simp add: in_int64_def maxInt64_def)
  obtain g s1 where g: "uploads_Get ?svc acct sp up s = (g, s1)" by fastforce
  obtain y where y: "g = Inr y" "us_Offset y = off"
    using run g by (cases g) (auto simp: uploads_Append_def fails_def split: if_splits)
  obtain n err s2 where a: "st_AppendStaging (local_staging l) sp up off (Some rd) mx s1 = ((n, err), s2)"
    by (metis prod.collapse)
  obtain u s3 where u: "ur_Update memory_repo (y\<lparr>us_Offset := n\<rparr>) s2 = (u, s3)" by fastforce
  have k: "err = None" "is_ok u" "x = y\<lparr>us_Offset := n\<rparr>" "s' = s3"
    using run g y a u
    by (auto simp: uploads_Append_def us.wiring upload_service_def fails_def split: if_splits option.splits sum.splits)
  have same: "staged_view l s1 sp up = staged_view l s sp up"
    using uploads_Get_same [of l scan mx ttl acct sp up s y s1] g y(1) same_usys_views(1) [of s s1 l] by simp
  obtain o2 where o2: "AppendStaging l sp up off (Some rd) mx (fs s1) = ((n, err), o2)" "s2 = s1\<lparr>fs := o2\<rparr>"
    using a by (rule local_stagingE)
  have lim: "limited rd (mx + 1) = take (nat (mx + 1)) (rd_data rd)" using assms(4) by (simp add: limited_def)
  obtain bs where bs: "grown ?p bs (fs s1) o2" "off = int (length (staged (fs s1) ?p))"
    "bs = take (nat (mx + 1)) (rd_data rd)" "int (length bs) \<le> mx" "n = wrap64 (off + int (length bs))"
    using append_cases [OF path o2(1)] k(1) lim by (auto simp: w)
  have s': "fs s' = o2" "sessions s' (us_ID x) = Some x"
    using u k o2(2) by (auto simp: memory_repo_def on_sessions_def memory_Update_def is_ok_iff split: if_splits)
  then have "staged_view l s' sp up = Some (staged (fs s1) ?p @ bs)"
    using grown_content [OF bs(1)] assms(1-3) by (simp add: staged_view_wf)
  then show ?thesis
    using bs k(3) s' same assms(1-3)
    by (intro exI [of _ "staged (fs s1) ?p"] exI [of _ bs])
      (auto simp: staged_view_wf staged_def split: option.splits)
qed


lemma sample_appends:
  "\<exists>s'. uploads_Append sample_service ''ann'' sample_space sample_upload 3 (Some \<lparr>rd_data = ''de'', rd_fail = False\<rparr>)
     sample_usys = ((sample_session\<lparr>us_Offset := 5\<rparr>, None), s')"
proof -
  let ?p = "area_path sample_local ''staging'' sample_space sample_upload"
  have path: "StagingPath sample_local sample_space sample_upload = Inr ?p"
    by (simp add: StagingPath_def scopedPath_wf)
  obtain s1 where s1: "rejectExpired sample_service sample_session sample_usys = (Inr (), s1)" "later sample_usys s1"
    using rejectExpired_fresh [of sample_session sample_usys sample_local sample_scan 5 hour] fresh_facts
    by (auto simp: sample_usys_def sample_session_def)
  have get: "uploads_Get sample_service ''ann'' sample_space sample_upload sample_usys = (Inr sample_session, s1)"
    using s1(1) by (simp add: uploads_Get_def us.wiring memory_repo_def on_sessions_def memory_Get_def sample_usys_def sample_session_def)
  note k = laterD [OF s1(2)]
  have rdy: "ready sample_local ''staging'' sample_space sample_upload (fs s1)"
    using fresh_facts(4) fresh_mkdir k(3,6,7) by (simp add: ready_def sample_usys_def file_at_iff area_path_Dir)
  have st: "staged (fs s1) ?p = ''abc''"
    using fresh_facts k(3,4) by (simp add: staged_def content_at_def sample_usys_def)
  have lim: "limited \<lparr>rd_data = ''de'', rd_fail = False\<rparr> (wrap64 6) = ''de''"
    "\<not> limited_fails \<lparr>rd_data = ''de'', rd_fail = False\<rparr> (wrap64 6)" "wrap64 5 = 5" by code_simp+
  have six: "(5 :: int) + 1 = 6" by simp
  obtain o2 where "AppendStaging sample_local sample_space sample_upload 3 (Some \<lparr>rd_data = ''de'', rd_fail = False\<rparr>) 5 (fs s1) = ((5, None), o2)"
    using append_reliable [OF sample_wf sample_ids(1,3) _ rdy, of 3 5 "\<lparr>rd_data = ''de'', rd_fail = False\<rparr>"] k(2) fresh_facts(1)
    unfolding six by (auto simp: st lim sample_usys_def)
  then show ?thesis
    using get k(1) by (simp add: uploads_Append_def us.wiring local_staging_def on_fs_def memory_repo_def on_sessions_def
        memory_Update_def sample_session_def sample_usys_def Let_def) (simp add: upload_service_def)
qed

theorem append_acknowledged_witness:
  "staged_view sample_local (snd (uploads_Append sample_service ''ann'' sample_space sample_upload 3
     (Some \<lparr>rd_data = ''de'', rd_fail = False\<rparr>) sample_usys)) sample_space sample_upload = Some ''abcde''"
proof -
  obtain s' where a: "uploads_Append sample_service ''ann'' sample_space sample_upload 3
      (Some \<lparr>rd_data = ''de'', rd_fail = False\<rparr>) sample_usys = ((sample_session\<lparr>us_Offset := 5\<rparr>, None), s')"
    using sample_appends by blast
  have "staged_view sample_local sample_usys sample_space sample_upload = Some ''abc''"
    using fresh_facts by (simp add: staged_view_wf content_at_def sample_usys_def)
  then show ?thesis
    using append_acknowledged [OF sample_wf sample_ids(1,3) _ _ a] a by (auto simp: maxInt64_def)
qed

text \<open>
  C37. Sessions are well formed: a successful \<^verbatim>\<open>Create\<close> returns an active session at offset 0
  under a fresh canonical UUID, bound to the caller and the space, expiring one lifetime after the
  clock's reading, whose target is a usable file name of at most 255 bytes; the session is stored
  under its identifier, no other session and no file changes.
\<close>

theorem create_wellformed:
  assumes "\<forall>k. length (os_random (fs s) k) = 16"
    and run: "uploads_Create (upload_service l scan mx ttl) acct sp n par name s = ((x, None), s')"
  shows "validStorageID (us_ID x) \<and> us_State x = StateActive \<and> us_Offset x = 0
    \<and> us_AccountID x = acct \<and> us_SpaceID x = sp \<and> us_NodeID x = n \<and> n \<noteq> []
    \<and> us_TargetName x = TrimSpace name \<and> plain_comp (us_TargetName x) \<and> length (us_TargetName x) \<le> 255
    \<and> (\<exists>k. us_ExpiresAt x = os_clock (fs s) k + ttl) \<and> 0 < ttl \<and> 0 < mx
    \<and> sessions s (us_ID x) = None \<and> sessions s' = (sessions s)(us_ID x \<mapsto> x) \<and> same_files (fs s) (fs s')"
proof -
  let ?svc = "upload_service l scan mx ttl"
  obtain a s1 where a: "svc_rand ?svc s = (a, s1)" by fastforce
  then have r1: "a = Inl EIO \<or> (\<exists>b. a = Inr b \<and> length b = 16)" "fs s1 = tick (fs s)" "sessions s1 = sessions s"
    using assms(1) by (auto simp: upload_service_def on_fs_def sys_RandRead_def split: prod.splits if_splits)
  obtain t s2 where t: "svc_now ?svc s1 = (t, s2)" by fastforce
  then have r2: "t = os_clock (fs s) (os_tick (tick (fs s)))" "fs s2 = tick (tick (fs s))" "sessions s2 = sessions s"
    using r1 by (auto simp: upload_service_def on_fs_def sys_Now_def)
  have f: "same_files (fs s) (tick (tick (fs s)))" by (simp add: same_files_def)
  obtain b where b: "a = Inr b" "length b = 16" "us_ID x = uuid_of_bytes b"
    using run a t r1
    by (auto simp: uploads_Create_def us.wiring Let_def fails_def uploads_newUUID_def split: if_splits sum.splits prod.splits)
  have "plain_comp (TrimSpace name) \<and> length (TrimSpace name) \<le> 255 \<and> n \<noteq> [] \<and> 0 < ttl \<and> 0 < mx"
    using run by (auto simp: uploads_Create_def us.wiring Let_def fails_def plain_comp_def ContainsAny_iff upload_service_def
        split: if_splits sum.splits prod.splits)
  moreover have "x = \<lparr>us_ID = uuid_of_bytes b, us_SpaceID = sp, us_AccountID = acct, us_ParentNodeID = par,
      us_TargetName = TrimSpace name, us_NodeID = n, us_Offset = 0, us_State = StateActive, us_ExpiresAt = t + ttl\<rparr>
    \<and> sessions s2 (us_ID x) = None \<and> s' = s2\<lparr>sessions := (sessions s2)(us_ID x \<mapsto> x)\<rparr>"
    using run a t b(1)
    by (auto simp: uploads_Create_def us.wiring Let_def fails_def uploads_newUUID_def memory_repo_def on_sessions_def
        memory_Create_def upload_service_def split: if_splits sum.splits prod.splits)
  ultimately show ?thesis using b uuid_of_bytes_valid [OF b(2)] r2 f by auto
qed

theorem create_wellformed_witness:
  "\<exists>x s'. uploads_Create sample_service ''ann'' sample_space sample_target [] ''a.txt'' sample_usys = ((x, None), s')
     \<and> validStorageID (us_ID x) \<and> us_ExpiresAt x = 2 * hour \<and> sessions s' (us_ID x) = Some x"
proof -
  have v: "uuid_of_bytes (replicate 16 0) \<noteq> sample_upload" by code_simp
  have c: "\<not> ContainsAny ''a.txt'' [CHR ''/'', CHR 0x5C, CHR 0x00]" by code_simp
  obtain x s' where run: "uploads_Create sample_service ''ann'' sample_space sample_target [] ''a.txt'' sample_usys = ((x, None), s')"
    using v c TrimSpace_printable [of "''a.txt''"] fresh_facts(1)
    by (simp add: uploads_Create_def us.wiring upload_service_def printable_def on_fs_def sys_RandRead_def sys_Now_def
        sample_usys_def uploads_newUUID_def memory_repo_def on_sessions_def memory_Create_def fresh_random reliable_def Let_def)
  then show ?thesis
    using create_wellformed [OF _ run] fresh_facts by (auto simp: sample_usys_def fresh_random)
qed

end
