(* ===== verification/Storage_Properties.thy ===== *)
theory Storage_Properties
  imports Sample_System
begin

text \<open>
  The properties of the storage package, each a theorem over the definitions of
  \<open>Storage_Local\<close>, \<open>Storage_Session\<close> and \<open>Storage_Quarantine\<close>, with a witness on the
  system of \<open>Sample_System\<close>.
\<close>

section \<open>Paths\<close>

text \<open>
  C36. Every path the backend hands out for an area lies exactly three components below the
  configured root, in that area, under identifiers that are canonical UUIDs: no identifier can
  leave the storage boundary or reach another area.
\<close>

theorem scopedPath_confined:
  assumes "NewLocal rt s = (Inr lc, s1)" "IsAbs (os_cwd s)" "area \<in> set layout_names"
    and "scopedPath (Some lc) area scope ob = Inr p"
  shows "validStorageID scope \<and> validStorageID ob
    \<and> path_comps p = path_comps (root lc) @ [area, scope, ob] \<and> IsAbs p"
proof -
  have "plain_comp area" using assms(3) by (auto simp: layout_names_def)
  moreover have wf: "wf_local (Some lc)" using NewLocal_wf assms(1,2) .
  ultimately have p: "validStorageID scope \<and> validStorageID ob \<and> p = area_path (Some lc) area scope ob"
    using scopedPath_Inr assms(4) by blast
  then have "plain_comps (local_comps (Some lc) @ [area, scope, ob])"
    using wf_local_root [OF wf] \<open>plain_comp area\<close> by (simp add: validStorageID_plain)
  with p show ?thesis by (simp add: area_path_def local_comps_def)
qed

theorem scopedPath_confined_witness:
  "path_comps (area_path sample_local ''trash'' sample_space sample_node)
     = [''d'', ''trash'', sample_space, sample_node]"
proof -
  have "NewLocal ''/d'' calm = (Inr \<lparr>root = ''/d''\<rparr>, calm)"
    by (simp add: NewLocal_def TrimSpace_printable printable_def filepath_Abs_def IsAbs_def
        HasPrefix_def Clean_def path_comps_def rooted_path_def)
  moreover have "scopedPath (Some \<lparr>root = ''/d''\<rparr>) ''trash'' sample_space sample_node
      = Inr (area_path sample_local ''trash'' sample_space sample_node)"
    using scopedPath_wf [OF sample_wf _ sample_ids(1,2)] by (simp add: sample_local_def)
  moreover have "IsAbs (os_cwd calm)" by (simp add: calm_def sample_os_def IsAbs_def HasPrefix_def)
  moreover have "path_comps ''/d'' = [''d'']" by code_simp
  ultimately show ?thesis
    using scopedPath_confined [of "''/d''" calm "\<lparr>root = ''/d''\<rparr>" calm "''trash''"]
    by (simp add: layout_names_def)
qed

section \<open>Publishing\<close>

text \<open>
  C6. Whatever call fails, \<^verbatim>\<open>Finalize\<close> never overwrites a published object and never loses the
  staged bytes: they stay reachable under the staging or the object name with their content, and
  success means that exactly the staged bytes are published and the staging name is gone.
\<close>

theorem Finalize_safe:
  assumes "wf_local l" "validStorageID sp" "validStorageID u" "validStorageID n"
    and run: "Finalize l sp u n s = (r, s')"
  defines "staging \<equiv> area_path l ''staging'' sp u" and "object \<equiv> area_path l ''objects'' sp n"
  shows "(file_at s object \<noteq> None \<longrightarrow> content_at s' object = content_at s object \<and> \<not> is_ok r)
    \<and> (file_at s staging \<noteq> None \<longrightarrow>
         content_at s' staging = content_at s staging \<or> content_at s' object = content_at s staging)
    \<and> (is_ok r \<longrightarrow> content_at s staging \<noteq> None \<and> content_at s' object = content_at s staging
         \<and> file_at s' staging = None)"
proof -
  have k: "finalize_paths (l, sp, u, n) = Some (staging, object)"
    using assms by (simp add: finalize_paths_def)
  have run': "(\<lambda>(l, sp, u, n). Finalize l sp u n) (l, sp, u, n) s = (r, s')" using run by simp
  show ?thesis
    using fin.never_overwrites [OF k run'] fin.payload_kept [OF k run'] fin.success_moves [OF k, of s "()" s'] run
    by (auto simp: is_ok_iff content_at_def)
qed

theorem Finalize_safe_witness:
  "let s = sample_os (\<lambda>k. if k = 2 then Some 0 else None) (\<lambda>_. False);
       s' = snd (Finalize sample_local sample_space sample_upload sample_node s)
   in content_at s' (area_path sample_local ''objects'' sample_space sample_node) = Some ''payload''"
  using Finalize_safe [of sample_local sample_space sample_upload sample_node
      "sample_os (\<lambda>k. if k = 2 then Some 0 else None) (\<lambda>_. False)", OF _ _ _ _ surjective_pairing]
  by (simp add: sample_files content_at_def Let_def)

text \<open>
  C25. \<^verbatim>\<open>WriteStaging\<close> replaces the staging object as a whole or leaves it alone, whatever call
  fails; on success the file holds exactly the bytes read, at most the configured maximum, and the
  returned digest is their SHA-256. No object, trashed, quarantined or otherwise named file changes.
\<close>

theorem WriteStaging_atomic:
  assumes "wf_local l" "validStorageID sp" "validStorageID u" "os_wf s"
    and "os_nodes s (area_path l ''staging'' sp u) \<noteq> Some Dir"
    and "WriteStaging l sp u (Some rd) mx s = (r, s')"
    and "area \<in> set layout_names" "validStorageID x" "validStorageID y" "(area, x, y) \<noteq> (''staging'', sp, u)"
  defines "p \<equiv> area_path l ''staging'' sp u" and "other \<equiv> area_path l area x y"
  shows "content_at s' other = content_at s other
    \<and> (case r of
         Inl e \<Rightarrow> content_at s' p = content_at s p
       | Inr (written, digest) \<Rightarrow>
           (let bs = limited rd (wrap64 (mx + 1)) in
            content_at s' p = Some bs \<and> written = int (length bs) \<and> written \<le> mx
            \<and> digest = hex_sha256 bs))"
proof -
  have a: "plain_comp area" using assms(7) by (auto simp: layout_names_def)
  have dir: "filepath_Dir p = rooted_path (local_comps l @ [''staging'', sp])"
    using assms by (simp add: p_def area_path_Dir)
  have A: "{other} \<inter> set (path_ancestors (filepath_Dir p)) = {}" "p \<notin> {other}"
    "{other} \<inter> temp_names (filepath_Dir p) ''.upload-'' = {}"
    using area_path_not_ancestor [OF assms(1) a assms(8,9) _ assms(2), of "''staging''"]
      area_not_temp [OF assms(1) a assms(8,9) _ assms(2), of "''staging''" "''upload-''"]
      area_path_inj [OF assms(1) _ a assms(2,8,3,9), of "''staging''"] assms(10)
    unfolding dir by (auto simp: other_def p_def plain_comp_def)
  note C = WriteStaging_cases [OF assms(6,1,4,2,3,5) A [unfolded p_def]]
  then have k: "keeps {other} s s'" by blast
  have "case r of Inl e \<Rightarrow> content_at s' p = content_at s p | Inr wd \<Rightarrow> True"
    using C keeps_content [of "{p, other}" s s' p] assms(4) by (auto simp: p_def split: sum.splits)
  with C keeps_content [OF k _ assms(4)] show ?thesis by (auto simp: p_def split: sum.splits)
qed

theorem WriteStaging_atomic_witness:
  "content_at (snd (WriteStaging sample_local sample_space sample_upload
      (Some \<lparr>rd_data = ''new'', rd_fail = False\<rparr>) 100 (sample_os (\<lambda>k. if k = 5 then Some 1 else None) (\<lambda>_. False))))
     (area_path sample_local ''objects'' sample_space sample_node) = Some ''payload''"
  using WriteStaging_atomic [of sample_local sample_space sample_upload
      "sample_os (\<lambda>k. if k = 5 then Some 1 else None) (\<lambda>_. False)" "\<lparr>rd_data = ''new'', rd_fail = False\<rparr>" 100,
      OF _ _ _ _ _ surjective_pairing, of "''objects''" sample_space sample_node]
    sample_files(2) [of "\<lambda>k. if k = 5 then Some 1 else None" "\<lambda>_. False"]
  by (simp add: sample_files(1,3) content_at_def layout_names_def file_at_iff)

section \<open>Resumable staging\<close>

text \<open>
  C24. Whatever call fails and whatever the source delivers, an append only ever adds bytes at the
  end of the staged upload: the bytes staged before stay a prefix, every other file keeps its bytes,
  and an append that reports success was at the staged length and added exactly the bytes it read.
\<close>

theorem AppendStaging_appends:
  assumes "wf_local l" "validStorageID sp" "validStorageID u" "os_wf s"
    and run: "AppendStaging l sp u off (Some rd) mx s = ((n, err), s')"
  defines "p \<equiv> area_path l ''staging'' sp u"
  shows "(\<exists>bs. staged s' p = staged s p @ bs
      \<and> (off \<noteq> int (length (staged s p)) \<longrightarrow> bs = [] \<and> err \<noteq> None)
      \<and> (err = None \<longrightarrow> bs = limited rd (wrap64 (mx + 1)) \<and> n = wrap64 (off + int (length bs))))
    \<and> (\<forall>other. file_at s other \<noteq> None \<and> file_at s other \<noteq> file_at s p
         \<longrightarrow> content_at s' other = content_at s other)"
proof -
  have path: "StagingPath l sp u = Inr p"
    using assms by (simp add: StagingPath_def scopedPath_wf p_def)
  from append_cases [OF path run] show ?thesis
  proof (elim disjE exE conjE)
    assume "err \<noteq> None" "same_files s s'"
    then show ?thesis using staged_same [of s s'] same_filesD(3) [of s s'] by auto
  next
    fix bs
    assume g: "grown p bs s s'"
      and ok: "err = None \<longrightarrow> off = int (length (staged s p)) \<and> bs = limited rd (wrap64 (mx + 1))
             \<and> int (length bs) \<le> mx \<and> \<not> limited_fails rd (wrap64 (mx + 1))
             \<and> n = wrap64 (off + int (length bs))"
      and other: "off \<noteq> int (length (staged s p)) \<longrightarrow> bs = []"
    have "staged s' p = staged s p @ bs" by (simp add: staged_def [of s'] grown_content [OF g])
    moreover have "content_at s' q = content_at s q"
      if "file_at s q \<noteq> None" "file_at s q \<noteq> file_at s p" for q
      using grown_others [OF g _ assms(4) that] that by blast
    ultimately show ?thesis using ok other by blast
  qed
qed

theorem AppendStaging_appends_witness:
  "\<exists>bs. staged (snd (AppendStaging sample_local sample_space sample_upload 3
        (Some \<lparr>rd_data = ''defg'', rd_fail = True\<rparr>) 64 (sample_os (\<lambda>k. if k = 4 then Some 2 else None) (\<lambda>_. False))))
     (area_path sample_local ''staging'' sample_space sample_upload) = ''abc'' @ bs"
  using AppendStaging_appends [of sample_local sample_space sample_upload
      "sample_os (\<lambda>k. if k = 4 then Some 2 else None) (\<lambda>_. False)" 3
      "\<lparr>rd_data = ''defg'', rd_fail = True\<rparr>" 64 "fst (fst (AppendStaging sample_local sample_space sample_upload 3
        (Some \<lparr>rd_data = ''defg'', rd_fail = True\<rparr>) 64 (sample_os (\<lambda>k. if k = 4 then Some 2 else None) (\<lambda>_. False))))"
      "snd (fst (AppendStaging sample_local sample_space sample_upload 3
        (Some \<lparr>rd_data = ''defg'', rd_fail = True\<rparr>) 64 (sample_os (\<lambda>k. if k = 4 then Some 2 else None) (\<lambda>_. False))))"]
  by (auto simp: prod_eq_iff staged_def [of "sample_os f g" for f g] content_at_def sample_files)

text \<open>
  On a reliable system, with a chunk limit below the largest 64-bit integer, an append does what
  its contract says: at the staged length it stores a chunk within the limit and returns the new
  length, it refuses a larger chunk and leaves the upload as it was, and at any other offset it
  reports the staged length and changes nothing.
\<close>

theorem AppendStaging_exact:
  assumes "wf_local l" "validStorageID sp" "validStorageID u" "reliable s" "ready l ''staging'' sp u s"
    and "0 \<le> off" "0 < mx" "mx < maxInt64" "\<not> rd_fail rd" "off + mx \<le> maxInt64"
  defines "p \<equiv> area_path l ''staging'' sp u" and "data \<equiv> rd_data rd"
  shows "\<exists>s'. AppendStaging l sp u off (Some rd) mx s =
      (if off \<noteq> int (length (staged s p))
       then (int (length (staged s p)), Some (ErrorString ''upload offset mismatch''))
       else if int (length data) > mx
       then (off, Some (ErrorString ''upload chunk exceeds configured maximum''))
       else (off + int (length data), None), s')
    \<and> staged s' p = (if off \<noteq> int (length (staged s p)) \<or> int (length data) > mx
                     then staged s p else staged s p @ data)"
proof -
  have w: "wrap64 (mx + 1) = mx + 1" using assms(7,8) by (simp add: in_int64_def maxInt64_def)
  have lim: "limited rd (mx + 1) = take (nat (mx + 1)) data" "\<not> limited_fails rd (mx + 1)"
    using assms(7,9) by (simp_all add: limited_def limited_fails_def data_def)
  have small: "take (nat (mx + 1)) data = data \<and> wrap64 (off + int (length data)) = off + int (length data)"
    if "int (length data) \<le> mx"
    using that assms(6,10) by (simp add: in_int64_def maxInt64_def)
  have big: "int (length (take (nat (mx + 1)) data)) > mx" if "int (length data) > mx"
    using that assms(7) by simp
  obtain s' where
    run: "AppendStaging l sp u off (Some rd) mx s =
      (if off \<noteq> int (length (staged s p))
       then (int (length (staged s p)), Some (ErrorString ''upload offset mismatch''))
       else if int (length (take (nat (mx + 1)) data)) > mx
       then (off, Some (ErrorString ''upload chunk exceeds configured maximum''))
       else (wrap64 (off + int (length (take (nat (mx + 1)) data))), None), s')"
    and c: "content_at s' p =
      Some (if off \<noteq> int (length (staged s p)) \<or> int (length (take (nat (mx + 1)) data)) > mx
            then staged s p else staged s p @ take (nat (mx + 1)) data)"
    using append_reliable [OF assms(1-7), of rd] lim by (auto simp: w p_def)
  show ?thesis
    by (intro exI [of _ s'], cases "int (length data) > mx")
      (use run c big small in \<open>auto simp: staged_def [of s']\<close>)
qed

lemma sample_ready: "ready sample_local ''staging'' sample_space sample_upload (sample_os f g)"
  using sample_mkdir(3) [of f g] sample_files(2) [of f g]
  by (auto simp: ready_def area_path_Dir file_at_iff)

theorem AppendStaging_exact_witness:
  "\<exists>s'. AppendStaging sample_local sample_space sample_upload 3
     (Some \<lparr>rd_data = ''defg'', rd_fail = False\<rparr>) 64 (sample_os (\<lambda>_. None) (\<lambda>_. False)) = ((7, None), s')
   \<and> staged s' (area_path sample_local ''staging'' sample_space sample_upload) = ''abcdefg''"
  using AppendStaging_exact [of sample_local sample_space sample_upload "sample_os (\<lambda>_. None) (\<lambda>_. False)" 3 64
      "\<lparr>rd_data = ''defg'', rd_fail = False\<rparr>"] sample_ready
  by (simp add: staged_def [of "sample_os f g" for f g] content_at_def sample_files maxInt64_def)

text \<open>
  C40. At the largest 64-bit chunk limit the limit plus one wraps to a negative number, the limit
  reader ends at once, and an append at the right offset reports success with the offset unchanged
  although none of the source's bytes was stored.
\<close>

theorem AppendStaging_limit_overflow:
  assumes "wf_local l" "validStorageID sp" "validStorageID u" "reliable s" "ready l ''staging'' sp u s"
    and "off = int (length (staged s (area_path l ''staging'' sp u)))" "in_int64 off"
  shows "\<exists>s'. AppendStaging l sp u off (Some rd) maxInt64 s = ((off, None), s')
    \<and> staged s' (area_path l ''staging'' sp u) = staged s (area_path l ''staging'' sp u)"
proof -
  have lim: "limited rd (wrap64 (maxInt64 + 1)) = []" "\<not> limited_fails rd (wrap64 (maxInt64 + 1))"
    by (simp_all add: wrap64_maxInt64_Suc limited_def limited_fails_def)
  have pos: "0 < maxInt64" by (simp add: maxInt64_def)
  then show ?thesis
    using append_reliable [OF assms(1-5), of off maxInt64 rd] assms(6,7)
    by (auto simp: lim staged_def [of "s' :: os" for s'])
qed

theorem AppendStaging_limit_overflow_witness:
  "\<exists>s'. AppendStaging sample_local sample_space sample_upload 3
     (Some \<lparr>rd_data = ''defg'', rd_fail = False\<rparr>) maxInt64 (sample_os (\<lambda>_. None) (\<lambda>_. False)) = ((3, None), s')"
  using AppendStaging_limit_overflow [of sample_local sample_space sample_upload "sample_os (\<lambda>_. None) (\<lambda>_. False)" 3
      "\<lparr>rd_data = ''defg'', rd_fail = False\<rparr>"] sample_ready
  by (auto simp: staged_def content_at_def sample_files in_int64_def)

text \<open>
  When the source breaks off within a chunk, the bytes that came stay staged although the
  append reports the old offset: repeating the append at that offset is refused, so the upload cannot
  be resumed from the offset the caller was given.
\<close>

theorem AppendStaging_interrupted_chunk:
  assumes "wf_local l" "validStorageID sp" "validStorageID u" "reliable s" "ready l ''staging'' sp u s"
    and off: "off = int (length (staged s (area_path l ''staging'' sp u)))"
    and "0 < mx" "mx < maxInt64" "rd_fail rd" "rd_data rd \<noteq> []" "int (length (rd_data rd)) \<le> mx"
  shows "\<exists>e s1. AppendStaging l sp u off (Some rd) mx s = ((off, Some e), s1)
    \<and> (\<exists>s2. AppendStaging l sp u off (Some rd2) mx s1
          = ((off + int (length (rd_data rd)), Some (ErrorString ''upload offset mismatch'')), s2))"
proof -
  let ?p = "area_path l ''staging'' sp u"
  have w: "wrap64 (mx + 1) = mx + 1" using assms(7,8) by (simp add: in_int64_def maxInt64_def)
  have lim: "limited rd (mx + 1) = rd_data rd" "limited_fails rd (mx + 1)"
    using assms(7-11) by (simp_all add: limited_def limited_fails_def)
  obtain s1 where s1: "reliable s1"
    "AppendStaging l sp u off (Some rd) mx s = ((off, Some (Wrapped ''append upload chunk'' (ErrorString ''unexpected EOF''))), s1)"
    "content_at s1 ?p = Some (staged s ?p @ rd_data rd)"
    using append_reliable [OF assms(1-5), of off mx rd] off assms(7) lim by (auto simp: w)
  have st: "staged s1 ?p = staged s ?p @ rd_data rd" using s1(3) by (simp add: staged_def)
  have path: "StagingPath l sp u = Inr ?p" using assms by (simp add: StagingPath_def scopedPath_wf)
  have "file_at s1 q = (if q = ?p then file_at s1 q else file_at s q)" for q
    using append_cases [OF path s1(2)] grown_names [of ?p _ s s1 q] same_filesD(1) [of s s1]
    by auto
  then have "mkdir_ok s1 (rooted_path (local_comps l @ [''staging'', sp]))"
    using assms(5) area_path_not_ancestor [OF assms(1) _ assms(2,3) _ assms(2), of "''staging''" "''staging''"]
    by (auto simp: ready_def mkdir_ok_def list_all_iff not_file_iff split: if_splits) metis
  moreover have "os_nodes s1 ?p \<noteq> Some Dir" using s1(3) by (auto simp: content_at_def file_at_def)
  ultimately have "ready l ''staging'' sp u s1" by (simp add: ready_def)
  then show ?thesis
    using append_reliable [OF assms(1-3) s1(1), of off mx rd2] s1(2) st off assms(7,10) by auto
qed

theorem AppendStaging_interrupted_chunk_witness:
  "\<exists>e s1. AppendStaging sample_local sample_space sample_upload 3
     (Some \<lparr>rd_data = ''de'', rd_fail = True\<rparr>) 64 (sample_os (\<lambda>_. None) (\<lambda>_. False)) = ((3, Some e), s1)
   \<and> (\<exists>s2. AppendStaging sample_local sample_space sample_upload 3
     (Some \<lparr>rd_data = ''defg'', rd_fail = False\<rparr>) 64 s1
       = ((5, Some (ErrorString ''upload offset mismatch'')), s2))"
  using AppendStaging_interrupted_chunk [of sample_local sample_space sample_upload "sample_os (\<lambda>_. None) (\<lambda>_. False)"
      3 64 "\<lparr>rd_data = ''de'', rd_fail = True\<rparr>" "\<lparr>rd_data = ''defg'', rd_fail = False\<rparr>"] sample_ready
  by (simp add: staged_def content_at_def sample_files maxInt64_def)

text \<open>
  C39. When \<^verbatim>\<open>Finalize\<close> publishes the object but then fails to remove the staging name, it
  reports an error while the object is published under the same inode; a later append to the still
  open upload then changes the bytes of the published object.
\<close>

theorem Finalize_failed_remove_shares_inode:
  assumes wf: "wf_local l" "validStorageID sp" "validStorageID u" "validStorageID n"
    and run: "Finalize l sp u n s = (Inl e, s1)"
    and new: "file_at s (area_path l ''objects'' sp n) = None" "file_at s1 (area_path l ''objects'' sp n) \<noteq> None"
    and rdy: "ready l ''staging'' sp u s1"
    and off: "off = int (length (staged s (area_path l ''staging'' sp u)))"
    and rd: "\<not> rd_fail rd" "int (length (rd_data rd)) \<le> mx" "0 < mx" "mx < maxInt64" "off + mx \<le> maxInt64"
  shows "\<exists>s2. AppendStaging l sp u off (Some rd) mx (repaired s1) = ((off + int (length (rd_data rd)), None), s2)
    \<and> content_at s1 (area_path l ''objects'' sp n) = content_at s (area_path l ''staging'' sp u)
    \<and> content_at s2 (area_path l ''objects'' sp n)
        = Some (staged s (area_path l ''staging'' sp u) @ rd_data rd)"
proof -
  let ?p = "area_path l ''staging'' sp u" and ?o = "area_path l ''objects'' sp n"
  have k: "finalize_paths (l, sp, u, n) = Some (?p, ?o)" using wf by (simp add: finalize_paths_def)
  then have ne: "?p \<noteq> ?o" using fin.distinct by blast
  have "move_outcome ?p ?o s (Inl e) s1" using fin.outcome [OF k, of s "Inl e" s1] run by simp
  with new ne obtain i where d: "os_data s1 = os_data s" and i: "file_at s ?p = Some i"
    and s1: "file_at s1 = (file_at s)(?o \<mapsto> i)"
    by (auto simp: move_outcome_def)
  have p1: "os_nodes s1 ?p = Some (File i)" using i s1 ne by (simp flip: file_at_iff)
  have path: "StagingPath l sp u = Inr ?p" using wf by (simp add: StagingPath_def scopedPath_wf)
  have st: "staged (repaired s1) ?p = staged s ?p"
    using i s1 d ne by (simp add: staged_def content_at_def)
  have w: "wrap64 (mx + 1) = mx + 1" "wrap64 (off + int (length (rd_data rd))) = off + int (length (rd_data rd))"
    using rd off by (simp_all add: in_int64_def maxInt64_def)
  have lim: "limited rd (mx + 1) = rd_data rd" "\<not> limited_fails rd (mx + 1)"
    using rd by (simp_all add: limited_def limited_fails_def)
  have "ready l ''staging'' sp u (repaired s1)"
    using rdy by (simp add: ready_def mkdir_ok_def not_file_def [abs_def])
  then obtain s2 where
    s2: "AppendStaging l sp u off (Some rd) mx (repaired s1) = ((off + int (length (rd_data rd)), None), s2)"
    using append_reliable [OF wf(1-3), of "repaired s1" off mx rd] off st rd w lim by auto
  have g: "grown ?p (rd_data rd) (repaired s1) s2"
    using append_cases [OF path s2] w lim by auto
  then have "file_at s2 ?o = Some i" "os_data s2 i = staged s ?p @ rd_data rd"
    using i s1 ne st p1 by (auto simp: grown_def)
  with s2 i s1 d show ?thesis by (simp add: content_at_def)
qed

lemma sample_object_free:
  "os_nodes (sample_os f g) (area_path sample_local ''objects'' sample_space sample_upload) = None"
  "mkdir_ok (sample_os f g) (filepath_Dir (area_path sample_local ''objects'' sample_space sample_upload))"
proof -
  have "os_nodes calm (area_path sample_local ''objects'' sample_space sample_upload) = None"
    "mkdir_ok calm (filepath_Dir (area_path sample_local ''objects'' sample_space sample_upload))"
    by code_simp+
  then show "os_nodes (sample_os f g) (area_path sample_local ''objects'' sample_space sample_upload) = None"
    "mkdir_ok (sample_os f g) (filepath_Dir (area_path sample_local ''objects'' sample_space sample_upload))"
    by (simp_all add: mkdir_ok_def not_file_def [abs_def] sample_nodes)
qed

text \<open>In the sample system the removal, the third call of \<^verbatim>\<open>Finalize\<close>, fails.\<close>

lemma sample_failed_finalize:
  "\<exists>e s1. Finalize sample_local sample_space sample_upload sample_upload
       (sample_os (\<lambda>k. if k = 2 then Some 0 else None) (\<lambda>_. False)) = (Inl e, s1)
    \<and> ready sample_local ''staging'' sample_space sample_upload s1
    \<and> file_at s1 (area_path sample_local ''objects'' sample_space sample_upload) \<noteq> None"
proof -
  let ?s = "sample_os (\<lambda>k. if k = 2 then Some 0 else None) (\<lambda>_. False)"
  let ?p = "area_path sample_local ''staging'' sample_space sample_upload"
  let ?o = "area_path sample_local ''objects'' sample_space sample_upload"
  let ?d = "filepath_Dir ?o"
  have paths: "StagingPath sample_local sample_space sample_upload = Inr ?p"
    "ObjectPath sample_local sample_space sample_upload = Inr ?o"
    by (simp_all add: path_defs scopedPath_wf)
  have tk: "fault_now ?s = None" "os_tick ?s = 0" "os_fault ?s = (\<lambda>k. if k = 2 then Some 0 else None)"
    by (simp_all add: fault_now_def sample_os_def)
  have mk: "sys_MkdirAll ?d ?s = (Inr (), tick (make_dirs (path_ancestors ?d) ?s))"
    using sample_object_free(2) by (simp add: sys_MkdirAll_def tk mkdir_ok_def takeWhile_list_all Let_def)
  let ?t = "tick (make_dirs (path_ancestors ?d) ?s)"
  have na: "?o \<notin> set (path_ancestors ?d)" "?p \<notin> set (path_ancestors ?d)"
    using area_path_not_ancestor [of sample_local _ sample_space sample_upload "''objects''" sample_space]
    by (simp_all add: area_path_Dir)
  have dir: "?d \<in> set (path_ancestors ?d)"
    using path_ancestors_self [of "local_comps sample_local @ [''objects'', sample_space]"] wf_local_root [OF sample_wf]
    by (simp add: area_path_Dir validStorageID_plain)
  have t: "os_nodes ?t ?o = None" "os_nodes ?t ?p = Some (File (Suc 0))" "os_nodes ?t ?d = Some Dir"
    using na dir sample_object_free(1) sample_files(2) by (simp_all add: make_dirs_def file_at_iff)
  have tt: "os_tick ?t = 1" "os_fault ?t = (\<lambda>k. if k = 2 then Some 0 else None)"
    by (simp_all add: make_dirs_def tk)
  let ?u = "tick (add_name ?o (Suc 0) ?t)"
  have lk: "sys_Link ?p ?o ?t = (Inr (), ?u)"
    using t tt by (simp add: sys_Link_def fault_now_def add_name_def)
  have rm: "sys_Remove ?p ?u = (Inl EIO, tick ?u)"
    using tt by (simp add: sys_Remove_def fault_now_def add_name_def)
  have run: "Finalize sample_local sample_space sample_upload sample_upload ?s
      = (Inl (Wrapped ''remove finalized staging object'' EIO), tick ?u)"
    by (simp add: Finalize_def paths mk lk rm)
  moreover have "ready sample_local ''staging'' sample_space sample_upload (tick ?u)"
  proof -
    have f: "file_at (make_dirs (path_ancestors ?d) ?s) = file_at ?s"
      using same_filesD(1) [OF sys_MkdirAll_frame [OF mk]] by simp
    have "?o \<notin> set (path_ancestors (filepath_Dir ?p))"
      using area_path_not_ancestor [of sample_local _ sample_space sample_upload "''staging''" sample_space]
      by (simp add: area_path_Dir)
    then have "mkdir_ok (tick ?u) (filepath_Dir ?p)"
      using sample_mkdir(3) by (auto simp: mkdir_ok_def list_all_iff not_file_iff f)
    moreover have "?p \<noteq> ?o" by (simp add: area_path_inj)
    ultimately show ?thesis using t(2) by (simp add: ready_def area_path_Dir)
  qed
  moreover have "file_at (tick ?u) ?o \<noteq> None" by (simp add: file_at_iff add_name_def)
  ultimately show ?thesis by blast
qed

theorem Finalize_failed_remove_shares_inode_witness:
  "\<exists>e s1 s2. Finalize sample_local sample_space sample_upload sample_upload
       (sample_os (\<lambda>k. if k = 2 then Some 0 else None) (\<lambda>_. False)) = (Inl e, s1)
    \<and> AppendStaging sample_local sample_space sample_upload 3 (Some \<lparr>rd_data = ''de'', rd_fail = False\<rparr>) 64 (repaired s1)
        = ((5, None), s2)
    \<and> content_at s2 (area_path sample_local ''objects'' sample_space sample_upload) = Some ''abcde''"
proof -
  let ?s = "sample_os (\<lambda>k. if k = 2 then Some 0 else None) (\<lambda>_. False)"
  let ?p = "area_path sample_local ''staging'' sample_space sample_upload"
  let ?o = "area_path sample_local ''objects'' sample_space sample_upload"
  obtain e s1 where run: "Finalize sample_local sample_space sample_upload sample_upload ?s = (Inl e, s1)"
    and s1: "ready sample_local ''staging'' sample_space sample_upload s1" "file_at s1 ?o \<noteq> None"
    using sample_failed_finalize by (elim exE conjE)
  have "staged ?s ?p = ''abc''" by (simp add: staged_def content_at_def sample_files)
  moreover have "file_at ?s ?o = None" using sample_object_free(1) by (simp add: file_at_def)
  ultimately obtain s2 where "AppendStaging sample_local sample_space sample_upload 3
      (Some \<lparr>rd_data = ''de'', rd_fail = False\<rparr>) 64 (repaired s1) = ((5, None), s2)"
    "content_at s2 ?o = Some ''abcde''"
    using Finalize_failed_remove_shares_inode [OF sample_wf sample_ids(1,3,3) run _ s1(2,1), of 3
        "\<lparr>rd_data = ''de'', rd_fail = False\<rparr>" 64]
    by (auto simp: maxInt64_def)
  with run show ?thesis by blast
qed

section \<open>Quarantine\<close>

lemmas sample_q = sample_files [folded qdefs] sample_free [folded qdefs] sample_mkdir [folded qdefs]
  sample_fresh








text \<open>
  C29. On a reliable system a first request to quarantine a published object succeeds, and reading
  the quarantine state afterwards returns the record that was reported.
\<close>

theorem quarantine_read_after_apply:
  assumes wf: "wf_local l" "validStorageID sp" "validStorageID n" and os: "os_wf s" and rel: "reliable s"
    and op: "validOperationID oid" "validOperationID cid" "TrimSpace oid = oid" "TrimSpace cid = cid"
    and mk: "mkdir_ok s (filepath_Dir (qpayload l sp n))" "mkdir_ok s (filepath_Dir (qrecord l sp n))"
    and free: "os_nodes s (qrecord l sp n) = None" "os_nodes s (qpayload l sp n) = None"
    and fresh: "fresh_temps l sp n s" and ob: "file_at s (qobject l sp n) = Some i"
  shows "\<exists>state s'. ApplyQuarantine l sp n oid cid s = (Inr (state, False), s')
    \<and> file_at s' (qpayload l sp n) = Some i \<and> os_data s' i = os_data s i
    \<and> os_nodes s' (qobject l sp n) = None
    \<and> fst (ReadQuarantine l sp n s') = Inr (Some state)"
proof -
  obtain state replay s' where run: "ApplyQuarantine l sp n oid cid s = (Inr (state, replay), s')"
    using ApplyQuarantine_completes [OF wf rel os op(1,2) mk free fresh ob]
    by (cases "ApplyQuarantine l sp n oid cid s") (auto simp: is_ok_iff)
  have iso: "os_nodes s' (qobject l sp n) = None" "os_nodes s' (qpayload l sp n) \<noteq> None"
    "Status state = ''quarantined''"
    and rec: "if replay then \<exists>c. content_at s' (qrecord l sp n) = Some c \<and> parse_state c = Inr state
       else content_at s' (qrecord l sp n) = Some (state_file state)"
    using ApplyQuarantine_isolates [OF run wf os] rel free by simp_all
  have "payload_at (qobject l sp n) (qpayload l sp n) i s" using ob free by (simp add: payload_at_def)
  then have pay: "file_at s' (qpayload l sp n) = Some i" "os_data s' i = os_data s i"
    using ApplyQuarantine_payload [OF run wf os, of i] free ob iso os
    by (auto simp: payload_at_def os_wf_file_at file_at_def)
  have new: "\<not> replay \<and> wf_state state \<and> reliable s'"
    using ApplyQuarantine_first [OF run wf os op free(1)] rel by simp
  then have "parse_state (state_file state) = Inr state" using parse_state_file by blast
  then have "fst (ReadQuarantine l sp n s') = Inr (Some state)"
    using ReadQuarantine_reliable [OF wf _ _ _ iso(3,1,2)] rec new by simp
  with run new iso pay show ?thesis by auto
qed

theorem quarantine_read_after_apply_witness:
  "\<exists>state s'. ApplyQuarantine sample_local sample_space sample_node ''op-1'' ''c-1''
     (sample_os (\<lambda>_. None) (\<lambda>_. False)) = (Inr (state, False), s')
   \<and> fst (ReadQuarantine sample_local sample_space sample_node s') = Inr (Some state)"
  using quarantine_read_after_apply [of sample_local sample_space sample_node
      "sample_os (\<lambda>_. None) (\<lambda>_. False)" "''op-1''" "''c-1''" 0]
  by (auto simp: sample_q)



text \<open>
  C38. A pending record is taken to speak about whatever object has the active name: when an
  interrupted operation already isolated one payload and a new object was published under the same
  node since, repeating the operation reports success and removes the new object's only name.
\<close>

theorem quarantine_retry_drops_new_object:
  assumes wf: "wf_local l" "validStorageID sp" "validStorageID n" and rel: "reliable s" and os: "os_wf s"
    and op: "validOperationID oid" "validOperationID cid"
    and mk: "mkdir_ok s (filepath_Dir (qpayload l sp n))" "mkdir_ok s (filepath_Dir (qrecord l sp n))"
    and rec: "content_at s (qrecord l sp n) = Some (state_file state)" "wf_state state"
      "OperationID state = oid" "CorrelationID state = cid" "Status state = ''pending''"
    and fresh: "fresh_temps l sp n s"
    and ob: "file_at s (qobject l sp n) = Some i" and q: "file_at s (qpayload l sp n) = Some j" "i \<noteq> j"
  shows "\<exists>r s'. ApplyQuarantine l sp n oid cid s = (Inr r, s')
    \<and> os_nodes s' (qobject l sp n) = None \<and> file_at s' (qpayload l sp n) = Some j"
proof -
  obtain state' replay s' where run: "ApplyQuarantine l sp n oid cid s = (Inr (state', replay), s')"
    using ApplyQuarantine_resumes [OF wf rel os op mk rec(1) parse_state_file [OF rec(2)] rec(3-5) fresh] ob q
    by (cases "ApplyQuarantine l sp n oid cid s") (auto simp: is_ok_iff file_at_iff)
  have std: "os_nodes s (qrecord l sp n) \<noteq> Some Dir" using rec(1) by (auto simp: content_at_def file_at_def)
  have iso: "os_nodes s' (qobject l sp n) = None"
    using ApplyQuarantine_isolates [OF run wf os _ std] rel by simp
  from run wf os have "file_at s' (qpayload l sp n) = Some j"
  proof (cases rule: ApplyQuarantine_cases)
    case (resumed state0 c t)
    have t: "os_wf t" "os_nodes t (qrecord l sp n) \<noteq> Some Dir" "file_at t (qpayload l sp n) = Some j"
      using keepsD(1,2,4) [OF resumed(1)] os std q by auto
    from resumed(7) qnames_qpaths [OF wf] t(1,2) show ?thesis
      by (cases rule: reconcileQuarantine_cases)
        (use t(3) in \<open>auto simp: keepsD file_at_iff\<close>)
  next
    case (begun now t)
    then show ?thesis using rec(1) by (simp add: content_at_def file_at_def)
  qed auto
  with run iso show ?thesis by blast
qed

definition sample_pending :: os where
  "sample_pending = (sample_os (\<lambda>_. None) (\<lambda>_. False))
     \<lparr>os_nodes := (os_nodes (sample_os (\<lambda>_. None) (\<lambda>_. False)))
        (qrecord sample_local sample_space sample_node \<mapsto> File 2,
         qpayload sample_local sample_space sample_node \<mapsto> File 3),
      os_data := (\<lambda>i. if i = 0 then ''new'' else if i = 3 then ''old''
        else state_file (pending_state sample_space sample_node ''op-1'' ''c-1'' 0)),
      os_next := 4\<rparr>"

lemma sample_pending_facts:
  "reliable sample_pending" "os_wf sample_pending"
  "mkdir_ok sample_pending (filepath_Dir (qpayload sample_local sample_space sample_node))"
  "mkdir_ok sample_pending (filepath_Dir (qrecord sample_local sample_space sample_node))"
  "file_at sample_pending (qobject sample_local sample_space sample_node) = Some 0"
  "file_at sample_pending (qpayload sample_local sample_space sample_node) = Some 3"
  "content_at sample_pending (qrecord sample_local sample_space sample_node)
     = Some (state_file (pending_state sample_space sample_node ''op-1'' ''c-1'' 0))"
  "fresh_temps sample_local sample_space sample_node sample_pending"
proof -
  let ?s = "sample_os (\<lambda>_. None) (\<lambda>_. False)"
  let ?ob = "qobject sample_local sample_space sample_node" and ?q = "qpayload sample_local sample_space sample_node"
    and ?st = "qrecord sample_local sample_space sample_node"
  have ne: "?ob \<noteq> ?q" "?ob \<noteq> ?st" "?q \<noteq> ?st"
    using qnames_qpaths [of sample_local sample_space sample_node] by (simp_all add: qpaths_def)
  have na: "?q \<notin> set (path_ancestors (filepath_Dir (area_path sample_local a sample_space sample_node)))"
    "?st \<notin> set (path_ancestors (filepath_Dir (area_path sample_local a sample_space sample_node)))"
    if "plain_comp a" for a
    using that area_path_not_ancestor [of sample_local _ sample_space sample_node a sample_space]
    by (simp_all add: area_path_Dir qdefs)
  have f: "file_at sample_pending = (file_at ?s)(?st \<mapsto> 2, ?q \<mapsto> 3)"
    by (auto simp: sample_pending_def file_at_def fun_eq_iff)
  show "reliable sample_pending" by (simp add: sample_pending_def)
  have "os_next ?s = 2" "os_next sample_pending = 4"
    by (simp_all add: sample_os_def sample_pending_def)
  then show "os_wf sample_pending"
    using sample_os_wf [of "\<lambda>_. None" "\<lambda>_. False"]
    by (fastforce simp: os_wf_file_at f)
  show "file_at sample_pending ?ob = Some 0" "file_at sample_pending ?q = Some 3"
    "content_at sample_pending ?st = Some (state_file (pending_state sample_space sample_node ''op-1'' ''c-1'' 0))"
    using ne by (simp_all add: f sample_q content_at_def) (simp add: sample_pending_def)
  show "mkdir_ok sample_pending (filepath_Dir ?q)" "mkdir_ok sample_pending (filepath_Dir ?st)"
    using sample_q(8,9) [of "\<lambda>_. None" "\<lambda>_. False"] na
    by (auto simp: mkdir_ok_def list_all_iff not_file_iff f qdefs)
  have "temp_name (filepath_Dir ?st) ''.quarantine-state-'' w \<notin> {?ob, ?q, ?st}" for w
    using qnames_qpaths [of sample_local sample_space sample_node]
      temp_name_mem [of "filepath_Dir ?st" "''.quarantine-state-''" w]
    by (simp add: qpaths_def) metis
  then show "fresh_temps sample_local sample_space sample_node sample_pending"
    using sample_fresh [of "\<lambda>_. None" "\<lambda>_. False"]
    by (simp add: fresh_temps_def sample_pending_def)
qed

theorem quarantine_retry_drops_new_object_witness:
  "\<exists>r s'. ApplyQuarantine sample_local sample_space sample_node ''op-1'' ''c-1'' sample_pending = (Inr r, s')
    \<and> content_at sample_pending (qobject sample_local sample_space sample_node) = Some ''new''
    \<and> os_nodes s' (qobject sample_local sample_space sample_node) = None
    \<and> file_at s' (qpayload sample_local sample_space sample_node) = Some 3"
proof -
  have "wf_state (pending_state sample_space sample_node ''op-1'' ''c-1'' 0)"
    by (simp add: pending_state_wf)
  then show ?thesis
    using quarantine_retry_drops_new_object [OF sample_wf sample_ids(1,2) sample_pending_facts(1,2) sample_ops(1,2)
        sample_pending_facts(3,4,7) _ _ _ _ sample_pending_facts(8,5,6)] sample_pending_facts(5)
    by (simp add: pending_state_def content_at_def) (simp add: sample_pending_def)
qed

end
