(* ===== verification/Security_Properties.thy ===== *)
theory Security_Properties
  imports Wardveil_Scan Quarantine_Service Storage_Properties
begin

text \<open>
  The properties of the scan decision (\<open>Wardveil_Scan\<close>) and of the quarantine target that the
  Wardveil platform calls (\<open>Quarantine_Service\<close> over the storage backend), with witnesses.
\<close>

section \<open>The scan decision\<close>

definition sample_resource :: FileResource where
  "sample_resource = \<lparr>fr_SpaceID = ''s'', fr_NodeID = ''n'', fr_DigestSHA256 = hex_sha256 ''abc'', fr_SizeBytes = 3\<rparr>"

definition sample_envelope :: "Result \<Rightarrow> ScanEnvelope" where
  "sample_envelope res =
     \<lparr>se_ResourceID = ResourceID sample_resource, se_ResourceDigestSHA256 = hex_sha256 ''abc'',
      se_ScanRecord =
        \<lparr>sr_ContractVersion = RuntimeContractVersion, sr_RecordID = ''r-1'', sr_RecordType = ScanRecordType,
         sr_Producer = \<lparr>pr_ID = ''scanner'', pr_Authoritative = True\<rparr>,
         sr_Scope = \<lparr>sp_ResourceType = DriveFileResourceType, sp_ResourceID = ResourceID sample_resource\<rparr>,
         sr_ObservedAt = minute, sr_ValidUntil = hour, sr_Result = res, sr_EvidenceRefs = [''e-1'']\<rparr>\<rparr>"

lemma sample_resource_ok:
  "fr_SpaceID sample_resource \<noteq> []" "fr_NodeID sample_resource \<noteq> []" "0 \<le> fr_SizeBytes sample_resource"
  "validSHA256 (fr_DigestSHA256 sample_resource)"
  by (simp_all add: sample_resource_def hex_sha256_def validSHA256_hex)

text \<open>
  C7. The decision is fail closed: a file may be released exactly when the action is one of the five
  known actions and the envelope clears the resource, that is names it and its digest, comes from an
  authoritative producer under the runtime contract, is within its evidence window at the time of the
  decision, and has the result clean with at least one evidence reference. The disposition and the
  quarantine flag always agree with this: allow exactly for releases, quarantine exactly for blocks
  with quarantine.
\<close>

theorem Evaluate_release_iff:
  "(de_CanRelease (Evaluate resource action envelope now) \<longleftrightarrow> validAction action \<and> clears resource envelope now)
   \<and> (de_CanRelease (Evaluate resource action envelope now)
        \<longleftrightarrow> de_Disposition (Evaluate resource action envelope now) = DispositionAllow)
   \<and> (de_QuarantineRequired (Evaluate resource action envelope now)
        \<longleftrightarrow> de_Disposition (Evaluate resource action envelope now) = DispositionBlockQuarantine)
   \<and> de_Action (Evaluate resource action envelope now) = action"
  using Evaluate_Disposition [of resource action envelope now]
  by (auto simp: Evaluate_CanRelease Evaluate_Action Let_def disposition_defs)

text \<open>
  C28. A malicious finding always leads to quarantine: an authoritative malicious record for the
  resource and its digest, observed before now, blocks every action and yields a hand-off that names
  the resource and carries the evidence, requires the executor's explicit authority and asks for
  nothing destructive. This holds also after the evidence has expired.
\<close>

theorem malicious_hands_off:
  assumes "fr_SpaceID resource \<noteq> []" "fr_NodeID resource \<noteq> []" "0 \<le> fr_SizeBytes resource"
    and "validSHA256 (fr_DigestSHA256 resource)" "validAction action"
    and "se_ResourceID envelope = ResourceID resource"
    and "EqualFold (se_ResourceDigestSHA256 envelope) (fr_DigestSHA256 resource)"
    and "se_ScanRecord envelope = record" "sr_ContractVersion record = RuntimeContractVersion"
    and "sr_RecordType record = ScanRecordType" "pr_Authoritative (sr_Producer record)"
    and "TrimSpace (pr_ID (sr_Producer record)) \<noteq> []"
    and "sr_Scope record = \<lparr>sp_ResourceType = DriveFileResourceType, sp_ResourceID = ResourceID resource\<rparr>"
    and "sr_ObservedAt record \<noteq> 0" "sr_ValidUntil record \<noteq> 0" "sr_ObservedAt record \<le> sr_ValidUntil record"
    and "sr_ObservedAt record \<le> now" "sr_Result record = ResultMalicious"
  shows "\<not> de_CanRelease (Evaluate resource action envelope now)
    \<and> decision_QuarantineHandoff (Evaluate resource action envelope now) resource
      = Some \<lparr>qh_ResourceType = DriveFileResourceType, qh_ResourceID = ResourceID resource,
          qh_DigestSHA256 = fr_DigestSHA256 resource, qh_EvidenceRefs = sr_EvidenceRefs record,
          qh_ScanRecordID = sr_RecordID record, qh_RequiresExplicitExecutorAuthority = True,
          qh_DestructiveAction = False\<rparr>"
  using assms by (simp add: Evaluate_def decision_QuarantineHandoff_def IsZero_def not_less)

theorem malicious_hands_off_witness:
  "\<not> de_CanRelease (Evaluate sample_resource ActionShare (sample_envelope ResultMalicious) (2 * hour))
   \<and> decision_QuarantineHandoff (Evaluate sample_resource ActionShare (sample_envelope ResultMalicious) (2 * hour))
       sample_resource \<noteq> None"
  using malicious_hands_off [OF sample_resource_ok, of ActionShare "sample_envelope ResultMalicious"
      "se_ScanRecord (sample_envelope ResultMalicious)" "2 * hour"] TrimSpace_printable [of "''scanner''"]
  by (simp add: sample_envelope_def validAction_def printable_def) (simp add: sample_resource_def)

section \<open>The quarantine target\<close>




text \<open>
  A hand-off reaches its file: the scope that a quarantine hand-off carries is read back by the
  quarantine target as exactly the space and node of the scanned file, for canonical identifiers; and
  every scope the target accepts is the resource identifier of the file it acts on.
\<close>

theorem handoff_scope_roundtrip:
  "(\<forall>d resource h. decision_QuarantineHandoff d resource = Some h \<longrightarrow>
      validStorageID (fr_SpaceID resource) \<longrightarrow> validStorageID (fr_NodeID resource) \<longrightarrow>
      parseScope \<lparr>sc_ResourceType = qh_ResourceType h, sc_ResourceID = qh_ResourceID h\<rparr>
        = Some (fr_SpaceID resource, fr_NodeID resource))
   \<and> (\<forall>sc sp n digest z. parseScope sc = Some (sp, n) \<longrightarrow>
      sc_ResourceID sc = ResourceID \<lparr>fr_SpaceID = sp, fr_NodeID = n, fr_DigestSHA256 = digest, fr_SizeBytes = z\<rparr>)"
proof (intro conjI allI impI)
  fix d resource h
  assume h: "decision_QuarantineHandoff d resource = Some h"
    and ids: "validStorageID (fr_SpaceID resource)" "validStorageID (fr_NodeID resource)"
  have "CHR '':'' \<notin> set v" if "validStorageID v" for v
    using validStorageID_chars [OF that, of "CHR '':''"] by (auto simp: uuid_char_def is_lower_hex_def)
  moreover have "fr_SpaceID resource \<noteq> []" "fr_NodeID resource \<noteq> []" using ids by auto
  ultimately show "parseScope \<lparr>sc_ResourceType = qh_ResourceType h, sc_ResourceID = qh_ResourceID h\<rparr>
      = Some (fr_SpaceID resource, fr_NodeID resource)"
    using h ids parseScope_file [of "fr_SpaceID resource" "fr_NodeID resource"]
    by (auto simp: decision_QuarantineHandoff_def ResourceID_def file_resource_def ResourceType_def
        DriveFileResourceType_def split: if_splits)
next
  fix sc sp n digest z
  assume "parseScope sc = Some (sp, n)"
  then show "sc_ResourceID sc = ResourceID \<lparr>fr_SpaceID = sp, fr_NodeID = n, fr_DigestSHA256 = digest, fr_SizeBytes = z\<rparr>"
    using parseScope_Some [of sc sp n] by (simp add: ResourceID_def file_resource_def)
qed

theorem handoff_scope_roundtrip_witness:
  "parseScope \<lparr>sc_ResourceType = DriveFileResourceType,
     sc_ResourceID = ResourceID \<lparr>fr_SpaceID = sample_space, fr_NodeID = sample_node, fr_DigestSHA256 = [], fr_SizeBytes = 0\<rparr>\<rparr>
   = Some (sample_space, sample_node)"
proof -
  let ?r = "\<lparr>fr_SpaceID = sample_space, fr_NodeID = sample_node, fr_DigestSHA256 = [], fr_SizeBytes = 0\<rparr>"
  let ?d = "(block ActionOpen [])\<lparr>de_QuarantineRequired := True\<rparr>"
  obtain h where "decision_QuarantineHandoff ?d ?r = Some h" "qh_ResourceType h = DriveFileResourceType"
    "qh_ResourceID h = ResourceID ?r" by (simp add: decision_QuarantineHandoff_def)
  then show ?thesis using conjunct1 [OF handoff_scope_roundtrip] by force
qed

end
