(* ===== verification/Database.thy ===== *)
theory Database
  imports Go_Time Identifiers
begin

text \<open>
  The PostgreSQL tables the program uses, with the constraints of \<^verbatim>\<open>migrations/*.sql\<close>, and
  statements that run under a fault schedule. The server itself is not part of the repository: what
  the statements need of it (the reading of \<^verbatim>\<open>uuid\<close> and \<^verbatim>\<open>text\<close> arguments, character
  counts, \<^verbatim>\<open>lower\<close>, the collation, the resolution of \<^verbatim>\<open>timestamptz\<close>) is the parameter
  \<open>pg\<close>; \<open>pg_sound\<close> is what the properties use of it.
\<close>

section \<open>The server\<close>

record pg =
  pg_uuid :: "string \<Rightarrow> string option"
  pg_text_ok :: "string \<Rightarrow> bool"
  pg_length :: "string \<Rightarrow> nat"
  pg_lower :: "string \<Rightarrow> string"
  pg_le :: "string \<Rightarrow> string \<Rightarrow> bool"
  pg_time :: "time \<Rightarrow> time"

text \<open>
  A \<^verbatim>\<open>uuid\<close> is printed in the canonical form, and that form is read back; text in a multi-byte
  encoding has at most as many characters as bytes; the collation is a total preorder in which
  \<^verbatim>\<open>file\<close> comes strictly before \<^verbatim>\<open>folder\<close>.
\<close>

definition pg_sound :: "pg \<Rightarrow> bool" where
  "pg_sound p \<longleftrightarrow>
     (\<forall>t u. pg_uuid p t = Some u \<longrightarrow> validStorageID u)
     \<and> (\<forall>t. validStorageID t \<longrightarrow> pg_uuid p t = Some t)
     \<and> (\<forall>t. pg_length p t \<le> length t \<and> (t \<noteq> [] \<longrightarrow> 1 \<le> pg_length p t))
     \<and> (\<forall>a b. pg_le p a b \<or> pg_le p b a) \<and> (\<forall>a b c. pg_le p a b \<longrightarrow> pg_le p b c \<longrightarrow> pg_le p a c)
     \<and> \<not> pg_le p ''folder'' ''file''"

section \<open>Tables\<close>

record node_row =
  n_id :: string
  n_space :: string
  n_parent :: "string option"
  n_kind :: string
  n_name :: string
  n_created_by :: string
  n_created_at :: time
  n_modified_at :: time
  n_trashed_at :: "time option"

record quota_row =
  q_limit :: "int64 option"
  q_used :: int64

record upload_row =
  u_space :: string
  u_node :: "string option"
  u_parent :: "string option"
  u_account :: string
  u_target :: string
  u_received :: int64
  u_state :: string
  u_expires :: time

text \<open>
  \<open>db_fault\<close> schedules lost connections: \<open>Some applied\<close> makes a statement report an error,
  after its effect (\<open>applied\<close>) or before it.
\<close>

record db =
  t_accounts :: "string \<Rightarrow> bool"
  t_spaces :: "string \<Rightarrow> bool"
  t_memberships :: "string \<times> string \<Rightarrow> string option"
  t_nodes :: "node_row list"
  t_quotas :: "string \<Rightarrow> quota_row option"
  t_uploads :: "string \<Rightarrow> upload_row option"
  db_tick :: nat
  db_fault :: "nat \<Rightarrow> bool option"
  db_clock :: "nat \<Rightarrow> time"

definition db_now :: "db \<Rightarrow> time" where
  "db_now s = db_clock s (db_tick s)"

section \<open>Statements\<close>

definition statement :: "(db \<Rightarrow> (goerr + 'a) \<times> db) \<Rightarrow> db \<Rightarrow> (goerr + 'a) \<times> db" where
  "statement f s =
     (let s1 = s\<lparr>db_tick := Suc (db_tick s)\<rparr> in
      case db_fault s (db_tick s) of
        None \<Rightarrow> f s1
      | Some applied \<Rightarrow>
          (Inl (ErrorString ''driver: bad connection''), if applied then snd (f s1) else s1))"

text \<open>An argument that the server must be able to read.\<close>

definition arg :: "(goerr + 'a) \<Rightarrow> ('a \<Rightarrow> db \<Rightarrow> (goerr + 'b) \<times> db) \<Rightarrow> db \<Rightarrow> (goerr + 'b) \<times> db" where
  "arg a k s = (case a of Inl err \<Rightarrow> (Inl err, s) | Inr x \<Rightarrow> k x s)"

definition uuid_arg :: "pg \<Rightarrow> string \<Rightarrow> goerr + string" where
  "uuid_arg p t =
     (case pg_uuid p t of
        None \<Rightarrow> Inl (ErrorString ''invalid input syntax for type uuid'')
      | Some u \<Rightarrow> Inr u)"

definition null_uuid_arg :: "pg \<Rightarrow> string option \<Rightarrow> goerr + string option" where
  "null_uuid_arg p t =
     (case t of
        None \<Rightarrow> Inr None
      | Some v \<Rightarrow> (case uuid_arg p v of Inl err \<Rightarrow> Inl err | Inr u \<Rightarrow> Inr (Some u)))"

definition text_arg :: "pg \<Rightarrow> string \<Rightarrow> goerr + string" where
  "text_arg p t =
     (if pg_text_ok p t then Inr t else Inl (ErrorString ''invalid byte sequence for encoding''))"

lemmas arg_defs = arg_def uuid_arg_def null_uuid_arg_def text_arg_def

text \<open>A relation kept by a statement's body and by time passing is kept by the statement.\<close>

lemma statement_rel:
  assumes "statement f s = (r, s')"
    and "\<And>r1 s1. f (s\<lparr>db_tick := Suc (db_tick s)\<rparr>) = (r1, s1) \<Longrightarrow> R s1"
    and "R (s\<lparr>db_tick := Suc (db_tick s)\<rparr>)"
  shows "R s'"
proof -
  obtain r1 s1 where "f (s\<lparr>db_tick := Suc (db_tick s)\<rparr>) = (r1, s1)" by fastforce
  then show ?thesis
    using assms by (auto simp: statement_def Let_def split: option.splits if_splits)
qed

lemma statement_ok:
  assumes "statement f s = (Inr x, s')"
  shows "f (s\<lparr>db_tick := Suc (db_tick s)\<rparr>) = (Inr x, s')"
  using assms by (auto simp: statement_def Let_def split: option.splits)

section \<open>Constraints\<close>

definition name_check :: "pg \<Rightarrow> string \<Rightarrow> bool" where
  "name_check p name \<longleftrightarrow> 1 \<le> pg_length p name \<and> pg_length p name \<le> 255"

text \<open>The two partial unique indexes on active siblings.\<close>

definition sibling_clash :: "node_row \<Rightarrow> node_row \<Rightarrow> bool" where
  "sibling_clash a b \<longleftrightarrow>
     n_space a = n_space b \<and> n_parent a = n_parent b \<and> n_name a = n_name b
     \<and> n_trashed_at a = None \<and> n_trashed_at b = None"

text \<open>A parent must exist in the same space; a row may name itself.\<close>

definition parent_ok :: "node_row list \<Rightarrow> node_row \<Rightarrow> bool" where
  "parent_ok rows row =
     (case n_parent row of
        None \<Rightarrow> True
      | Some q \<Rightarrow> list_ex (\<lambda>r. n_id r = q \<and> n_space r = n_space row) rows)"

definition row_ok :: "pg \<Rightarrow> db \<Rightarrow> node_row \<Rightarrow> bool" where
  "row_ok p s row \<longleftrightarrow>
     n_kind row \<in> {''file'', ''folder''} \<and> name_check p (n_name row)
     \<and> t_spaces s (n_space row) \<and> t_accounts s (n_created_by row)"

definition nodes_ok :: "pg \<Rightarrow> db \<Rightarrow> bool" where
  "nodes_ok p s \<longleftrightarrow>
     distinct (map n_id (t_nodes s))
     \<and> (\<forall>a \<in> set (t_nodes s). row_ok p s a \<and> parent_ok (t_nodes s) a)
     \<and> (\<forall>a \<in> set (t_nodes s). \<forall>b \<in> set (t_nodes s). sibling_clash a b \<longrightarrow> n_id a = n_id b)"

definition quotas_ok :: "db \<Rightarrow> bool" where
  "quotas_ok s \<longleftrightarrow>
     (\<forall>sp q. t_quotas s sp = Some q \<longrightarrow> 0 \<le> q_used q \<and> q_used q \<le> maxInt64
        \<and> (\<forall>m. q_limit q = Some m \<longrightarrow> 0 \<le> m \<and> m \<le> maxInt64))"

definition upload_ok :: "pg \<Rightarrow> upload_row \<Rightarrow> bool" where
  "upload_ok p u \<longleftrightarrow>
     name_check p (u_target u) \<and> 0 \<le> u_received u
     \<and> u_state u \<in> {''open'', ''finalizing'', ''complete'', ''aborted'', ''expired''}"

end
