(* ===== verification/Postgres_Store.thy ===== *)
theory Postgres_Store
  imports Database Nodes
begin

text \<open>
  \<^verbatim>\<open>internal/postgres/store.go\<close>: the node repository and the membership resolver, statement by
  statement on the tables of \<open>Database\<close>. \<^verbatim>\<open>Store.db\<close> is non-nil in the node operations
  (they dereference it unconditionally); \<^verbatim>\<open>RoleForAccount\<close> tests for nil.
\<close>

section \<open>Rows\<close>

definition scanNode :: "node_row \<Rightarrow> Node" where
  "scanNode row =
     \<lparr>nd_ID = n_id row, nd_SpaceID = n_space row, nd_ParentID = n_parent row, nd_Kind = n_kind row,
      nd_Name = n_name row, nd_CreatedBy = n_created_by row,
      nd_CreatedAt = format_RFC3339Nano (n_created_at row),
      nd_ModifiedAt = format_RFC3339Nano (n_modified_at row),
      nd_TrashedAt = map_option format_RFC3339Nano (n_trashed_at row)\<rparr>"

definition nullableString :: "string option \<Rightarrow> string option" where
  "nullableString value = (if value = None \<or> value = Some [] then None else value)"

text \<open>\<^verbatim>\<open>WHERE id = $1 AND space_id = $2 AND trashed_at IS NULL\<close>.\<close>

definition active_row :: "string \<Rightarrow> string \<Rightarrow> node_row \<Rightarrow> bool" where
  "active_row i sp row \<longleftrightarrow> n_id row = i \<and> n_space row = sp \<and> n_trashed_at row = None"

definition child_row :: "string \<Rightarrow> string option \<Rightarrow> node_row \<Rightarrow> bool" where
  "child_row sp parent row \<longleftrightarrow> n_space row = sp \<and> n_parent row = parent \<and> n_trashed_at row = None"

text \<open>\<^verbatim>\<open>ORDER BY kind DESC, lower(name), id\<close>; a \<^verbatim>\<open>uuid\<close> is ordered as its canonical text.\<close>

definition row_le :: "pg \<Rightarrow> node_row \<Rightarrow> node_row \<Rightarrow> bool" where
  "row_le p a b \<longleftrightarrow>
     (if \<not> pg_le p (n_kind a) (n_kind b) then True
      else if \<not> pg_le p (n_kind b) (n_kind a) then False
      else let x = pg_lower p (n_name a); y = pg_lower p (n_name b) in
        if \<not> pg_le p y x then True else if \<not> pg_le p x y then False
        else lexordp_eq (map byte_of (n_id a)) (map byte_of (n_id b)))"

fun insert_row :: "pg \<Rightarrow> node_row \<Rightarrow> node_row list \<Rightarrow> node_row list" where
  "insert_row p a [] = [a]"
| "insert_row p a (b # bs) = (if row_le p a b then a # b # bs else b # insert_row p a bs)"

definition order_rows :: "pg \<Rightarrow> node_row list \<Rightarrow> node_row list" where
  "order_rows p rows = foldr (insert_row p) rows []"

section \<open>Operations\<close>

definition not_found :: "(goerr + 'a) \<times> db \<Rightarrow> goerr \<Rightarrow> (goerr + 'a) \<times> db" where
  "not_found rs e =
     (case rs of
        (Inl err, s) \<Rightarrow> (Inl (if errors_Is err SqlErrNoRows then e else err), s)
      | (Inr x, s) \<Rightarrow> (Inr x, s))"

definition RoleForAccount :: "pg option \<Rightarrow> string \<Rightarrow> string \<Rightarrow> db \<Rightarrow> (goerr + Role) \<times> db" where
  "RoleForAccount store accountID spaceID s =
     (case store of
        None \<Rightarrow> (Inl (Sentinel ErrNotMember), s)
      | Some p \<Rightarrow>
          not_found
            (statement (arg (uuid_arg p spaceID) (\<lambda>sp. arg (uuid_arg p accountID) (\<lambda>ac s1.
               case t_memberships s1 (sp, ac) of
                 None \<Rightarrow> (Inl (Sentinel SqlErrNoRows), s1)
               | Some role \<Rightarrow> (Inr role, s1)))) s)
            (Sentinel ErrNotMember))"

definition store_List :: "pg \<Rightarrow> string \<Rightarrow> string option \<Rightarrow> db \<Rightarrow> (goerr + Node list) \<times> db" where
  "store_List p spaceID parentID =
     statement (arg (uuid_arg p spaceID) (\<lambda>sp. arg (null_uuid_arg p (nullableString parentID)) (\<lambda>par s.
       (Inr (map scanNode (order_rows p (filter (child_row sp par) (t_nodes s)))), s))))"

definition store_Get :: "pg \<Rightarrow> string \<Rightarrow> string \<Rightarrow> db \<Rightarrow> (goerr + Node) \<times> db" where
  "store_Get p spaceID nodeID s =
     not_found
       (statement (arg (uuid_arg p nodeID) (\<lambda>i. arg (uuid_arg p spaceID) (\<lambda>sp s1.
          case find (active_row i sp) (t_nodes s1) of
            None \<Rightarrow> (Inl (Sentinel SqlErrNoRows), s1)
          | Some row \<Rightarrow> (Inr (scanNode row), s1)))) s)
       (Sentinel NodesErrNotFound)"

definition insert_node :: "pg \<Rightarrow> node_row \<Rightarrow> db \<Rightarrow> (goerr + Node) \<times> db" where
  "insert_node p row s =
     (if row_ok p s row \<and> list_all (\<lambda>r. n_id r \<noteq> n_id row) (t_nodes s)
         \<and> parent_ok (row # t_nodes s) row \<and> list_all (\<lambda>r. \<not> sibling_clash row r) (t_nodes s)
      then (Inr (scanNode row), s\<lparr>t_nodes := t_nodes s @ [row]\<rparr>)
      else (Inl (ErrorString ''constraint violation''), s))"

definition store_Create :: "pg \<Rightarrow> Node \<Rightarrow> db \<Rightarrow> (goerr + Node) \<times> db" where
  "store_Create p node =
     statement (arg (uuid_arg p (nd_ID node)) (\<lambda>i. arg (uuid_arg p (nd_SpaceID node)) (\<lambda>sp.
       arg (null_uuid_arg p (nullableString (nd_ParentID node))) (\<lambda>par.
       arg (text_arg p (nd_Kind node)) (\<lambda>kind. arg (text_arg p (nd_Name node)) (\<lambda>name.
       arg (uuid_arg p (nd_CreatedBy node)) (\<lambda>by1 s.
         insert_node p \<lparr>n_id = i, n_space = sp, n_parent = par, n_kind = kind, n_name = name,
           n_created_by = by1, n_created_at = db_now s, n_modified_at = db_now s,
           n_trashed_at = None\<rparr> s)))))))"

text \<open>\<^verbatim>\<open>UPDATE ... RETURNING\<close> of the one active row, checked against the constraints.\<close>

definition update_node :: "pg \<Rightarrow> string \<Rightarrow> string \<Rightarrow> (node_row \<Rightarrow> node_row) \<Rightarrow> db \<Rightarrow> (goerr + Node) \<times> db" where
  "update_node p i sp f s =
     (case find (active_row i sp) (t_nodes s) of
        None \<Rightarrow> (Inl (Sentinel SqlErrNoRows), s)
      | Some row \<Rightarrow>
          if row_ok p s (f row)
             \<and> list_all (\<lambda>r. n_id r \<noteq> i \<longrightarrow> \<not> sibling_clash (f row) r) (t_nodes s)
          then (Inr (scanNode (f row)),
                s\<lparr>t_nodes := map (\<lambda>r. if active_row i sp r then f r else r) (t_nodes s)\<rparr>)
          else (Inl (ErrorString ''constraint violation''), s))"

definition store_Rename :: "pg \<Rightarrow> string \<Rightarrow> string \<Rightarrow> string \<Rightarrow> db \<Rightarrow> (goerr + Node) \<times> db" where
  "store_Rename p spaceID nodeID name s =
     not_found
       (statement (arg (uuid_arg p nodeID) (\<lambda>i. arg (uuid_arg p spaceID) (\<lambda>sp.
          arg (text_arg p name) (\<lambda>name s1.
            update_node p i sp (\<lambda>r. r\<lparr>n_name := name, n_modified_at := db_now s1\<rparr>) s1)))) s)
       (Sentinel NodesErrNotFound)"

definition store_Trash :: "pg \<Rightarrow> string \<Rightarrow> string \<Rightarrow> db \<Rightarrow> (goerr + Node) \<times> db" where
  "store_Trash p spaceID nodeID s =
     not_found
       (statement (arg (uuid_arg p nodeID) (\<lambda>i. arg (uuid_arg p spaceID) (\<lambda>sp s1.
          update_node p i sp
            (\<lambda>r. r\<lparr>n_trashed_at := Some (db_now s1), n_modified_at := db_now s1\<rparr>) s1))) s)
       (Sentinel NodesErrNotFound)"

section \<open>Ordering\<close>

lemma insert_row_set: "set (insert_row p a bs) = insert a (set bs)"
  by (induction bs) auto

lemma insert_row_distinct: "distinct (insert_row p a bs) \<longleftrightarrow> distinct bs \<and> a \<notin> set bs"
  by (induction bs) (auto simp: insert_row_set)

lemma order_rows_set: "set (order_rows p rows) = set rows"
  by (induction rows) (simp_all add: order_rows_def insert_row_set)

lemma order_rows_distinct: "distinct (order_rows p rows) \<longleftrightarrow> distinct rows"
  by (induction rows) (auto simp: order_rows_def insert_row_distinct order_rows_set [unfolded order_rows_def])

lemma row_le_total:
  assumes "pg_sound p" shows "row_le p a b \<or> row_le p b a"
  using assms lexordp_eq_linear [of "map byte_of (n_id a)" "map byte_of (n_id b)"]
  by (auto simp: row_le_def pg_sound_def Let_def)

text \<open>A lexicographic step on a total preorder keeps transitivity.\<close>

definition then_by :: "('a \<Rightarrow> 'a \<Rightarrow> bool) \<Rightarrow> ('a \<Rightarrow> 'a \<Rightarrow> bool) \<Rightarrow> 'a \<Rightarrow> 'a \<Rightarrow> bool" where
  "then_by le le' a b \<longleftrightarrow> le a b \<and> (le b a \<longrightarrow> le' a b)"

lemma then_by_transp: "transp le \<Longrightarrow> transp le' \<Longrightarrow> transp (then_by le le')"
  unfolding transp_def then_by_def by meson

lemma row_le_then_by:
  assumes "pg_sound p"
  shows "row_le p = then_by (\<lambda>a b. pg_le p (n_kind b) (n_kind a))
    (then_by (\<lambda>a b. pg_le p (pg_lower p (n_name a)) (pg_lower p (n_name b)))
      (\<lambda>a b. lexordp_eq (map byte_of (n_id a) :: nat list) (map byte_of (n_id b))))"
proof -
  have "pg_le p x y \<or> pg_le p y x" for x y using assms unfolding pg_sound_def by blast
  then show ?thesis by (intro ext) (auto simp: row_le_def then_by_def Let_def)
qed

lemma row_le_trans:
  assumes "pg_sound p" "row_le p a b" "row_le p b c" shows "row_le p a c"
proof -
  have t: "pg_le p x y \<Longrightarrow> pg_le p y z \<Longrightarrow> pg_le p x z" for x y z
    using assms(1) unfolding pg_sound_def by blast
  have "transp (row_le p)"
    unfolding row_le_then_by [OF assms(1)]
    by (intro then_by_transp) (auto simp: transp_def intro: t lexordp_eq_trans)
  then show ?thesis using assms(2,3) by (rule transpD)
qed

lemma insert_row_sorted:
  assumes "pg_sound p" "sorted_wrt (row_le p) bs" shows "sorted_wrt (row_le p) (insert_row p a bs)"
  using assms(2)
proof (induction bs)
  case (Cons b bs)
  then show ?case
    using row_le_total [OF assms(1), of a b] row_le_trans [OF assms(1), of a b]
    by (auto simp: insert_row_set)
qed simp

lemma order_rows_sorted: "pg_sound p \<Longrightarrow> sorted_wrt (row_le p) (order_rows p rows)"
  by (induction rows) (simp_all add: order_rows_def insert_row_sorted)

section \<open>What the operations keep\<close>

text \<open>Nothing but the node table and the statement counter may differ.\<close>

definition same_but_nodes :: "db \<Rightarrow> db \<Rightarrow> bool" where
  "same_but_nodes s s' \<longleftrightarrow> s' = s\<lparr>t_nodes := t_nodes s', db_tick := db_tick s'\<rparr>"

definition space_rows :: "db \<Rightarrow> string \<Rightarrow> node_row list" where
  "space_rows s u = filter (\<lambda>r. n_space r = u) (t_nodes s)"

text \<open>An operation confined to one space: the schema holds and other spaces are untouched.\<close>

definition confined :: "pg \<Rightarrow> (string \<Rightarrow> bool) \<Rightarrow> db \<Rightarrow> db \<Rightarrow> bool" where
  "confined p U s s' \<longleftrightarrow>
     same_but_nodes s s' \<and> (nodes_ok p s \<longrightarrow> nodes_ok p s') \<and> (\<forall>u. \<not> U u \<longrightarrow> space_rows s' u = space_rows s u)"

lemma nodes_ok_tick [simp]: "nodes_ok p (s\<lparr>db_tick := k\<rparr>) = nodes_ok p s"
  by (simp add: nodes_ok_def row_ok_def)

lemma confined_tick [simp]: "confined p U s (s\<lparr>db_tick := k\<rparr>)"
  by (simp add: confined_def same_but_nodes_def space_rows_def)

lemma confined_refl [simp]: "confined p U s s"
  by (simp add: confined_def same_but_nodes_def)

lemma confined_mono: "confined p U s s' \<Longrightarrow> (\<And>u. U u \<Longrightarrow> V u) \<Longrightarrow> confined p V s s'"
  by (auto simp: confined_def)

lemma confined_trans: "confined p U s t \<Longrightarrow> confined p U t u \<Longrightarrow> confined p U s u"
  unfolding confined_def same_but_nodes_def by (cases s; cases t; cases u) simp

lemma confined_after_tick: "confined p U (s\<lparr>db_tick := k\<rparr>) s' \<Longrightarrow> confined p U s s'"
  using confined_trans [OF confined_tick] .

lemma confined_statement:
  assumes "statement f s = (r, s')"
    and "\<And>r1 s1 s2. f s1 = (r1, s2) \<Longrightarrow> confined p U s1 s2"
  shows "confined p U s s'"
  using assms(1) by (rule statement_rel) (auto intro: confined_after_tick assms(2))

lemma not_found_state: "not_found rs e = (r, s') \<Longrightarrow> s' = snd rs"
  by (auto simp: not_found_def split: prod.splits sum.splits)

lemma arg_cases: "arg a k s = (r, s') \<Longrightarrow> (\<And>x. a = Inr x \<Longrightarrow> k x s = (r, s') \<Longrightarrow> P s') \<Longrightarrow> P s \<Longrightarrow> P s'"
  by (auto simp: arg_def split: sum.splits)

lemma parent_ok_mono: "parent_ok rows row \<Longrightarrow> set rows \<subseteq> set rows' \<Longrightarrow> parent_ok rows' row"
  by (auto simp: parent_ok_def list_ex_iff split: option.splits)

lemma row_ok_nodes [simp]: "row_ok p (s\<lparr>t_nodes := ns\<rparr>) row = row_ok p s row"
  by (simp add: row_ok_def)

lemma sibling_clash_sym: "sibling_clash a b \<Longrightarrow> sibling_clash b a"
  by (auto simp: sibling_clash_def)

lemma insert_node_confined:
  assumes "insert_node p row s = (r, s')" "n_space row = u"
  shows "confined p ((=) u) s s'"
proof (cases "s' = s")
  case False
  then have ok: "row_ok p s row" "\<forall>r \<in> set (t_nodes s). n_id r \<noteq> n_id row"
    "parent_ok (row # t_nodes s) row" "\<forall>r \<in> set (t_nodes s). \<not> sibling_clash row r"
    and s': "s' = s\<lparr>t_nodes := t_nodes s @ [row]\<rparr>"
    using assms(1) by (auto simp: insert_node_def list_all_iff split: if_splits)
  have par: "parent_ok (t_nodes s @ [row]) a" if "parent_ok (t_nodes s) a \<or> a = row" for a
    using that ok(3) parent_ok_mono [of "t_nodes s" a "t_nodes s @ [row]"]
      parent_ok_mono [of "row # t_nodes s" row "t_nodes s @ [row]"] by auto
  have "nodes_ok p s'" if "nodes_ok p s"
  proof -
    have "\<forall>r \<in> set (t_nodes s). \<not> sibling_clash r row" using ok(4) sibling_clash_sym by blast
    then show ?thesis using that ok par unfolding nodes_ok_def s' by auto
  qed
  then show ?thesis using assms(2) by (auto simp: confined_def same_but_nodes_def space_rows_def s')
qed simp

text \<open>Updates of a row's name and time stamps.\<close>

definition renames :: "(node_row \<Rightarrow> node_row) \<Rightarrow> bool" where
  "renames f \<longleftrightarrow> (\<forall>r. n_id (f r) = n_id r \<and> n_space (f r) = n_space r \<and> n_parent (f r) = n_parent r
     \<and> n_kind (f r) = n_kind r \<and> n_created_by (f r) = n_created_by r)"

lemma parent_ok_map:
  assumes "\<And>r. n_id (g r) = n_id r \<and> n_space (g r) = n_space r \<and> n_parent (g r) = n_parent r"
  shows "parent_ok (map g rows) (g a) = parent_ok rows a"
  using assms by (auto simp: parent_ok_def list_ex_iff split: option.splits)

lemma update_node_confined:
  assumes run: "update_node p i u f s = (r, s')" and f: "renames f"
  shows "confined p ((=) u) s s'"
proof (cases "s' = s")
  case False
  then obtain row where row: "find (active_row i u) (t_nodes s) = Some row" and
    ok: "row_ok p s (f row)" "\<forall>r \<in> set (t_nodes s). n_id r \<noteq> i \<longrightarrow> \<not> sibling_clash (f row) r" and
    s': "s' = s\<lparr>t_nodes := map (\<lambda>r. if active_row i u r then f r else r) (t_nodes s)\<rparr>"
    using run by (auto simp: update_node_def list_all_iff split: option.splits if_splits)
  define g where "g = (\<lambda>r. if active_row i u r then f r else r)"
  have g: "n_id (g r) = n_id r \<and> n_space (g r) = n_space r \<and> n_parent (g r) = n_parent r" for r
    using f by (simp add: g_def renames_def)
  have mem: "row \<in> set (t_nodes s)" "active_row i u row"
    using row by (auto simp: find_Some_iff)
  have "nodes_ok p s'" if wf: "nodes_ok p s"
  proof -
    have only: "r = row" if "r \<in> set (t_nodes s)" "active_row i u r" for r
      using that mem wf unfolding nodes_ok_def active_row_def by (metis distinct_map inj_onD)
    have clash: "n_id a = n_id b" if "a \<in> set (t_nodes s)" "b \<in> set (t_nodes s)" "sibling_clash (g a) (g b)" for a b
    proof (cases "active_row i u a \<or> active_row i u b")
      case False
      then show ?thesis using that wf by (auto simp: g_def nodes_ok_def)
    next
      case True
      show ?thesis
      proof (rule ccontr)
        assume ne: "n_id a \<noteq> n_id b"
        have "active_row i u a \<and> \<not> active_row i u b \<or> \<not> active_row i u a \<and> active_row i u b"
          using True ne by (auto simp: active_row_def)
        then show False
          using that ne only ok(2) sibling_clash_sym by (auto simp: g_def active_row_def)
      qed
    qed
    have ids: "map (n_id \<circ> g) (t_nodes s) = map n_id (t_nodes s)" using g by simp
    have rows: "row_ok p s (g a)" if "a \<in> set (t_nodes s)" for a
      using that wf only ok(1) by (auto simp: g_def nodes_ok_def)
    show ?thesis
      using wf rows clash g parent_ok_map [of g] unfolding nodes_ok_def s' g_def [symmetric]
      by (simp add: ids ball_simps)
  qed
  moreover have "filter (\<lambda>r. n_space r = v) (map g xs) = filter (\<lambda>r. n_space r = v) xs" if "u \<noteq> v" for v xs
    using that g by (induction xs) (auto simp: g_def active_row_def)
  ultimately show ?thesis by (auto simp: confined_def same_but_nodes_def space_rows_def s' g_def)
qed simp

lemma store_keeps:
  "RoleForAccount (Some p) ac sp s = (r1, s') \<Longrightarrow> confined p (\<lambda>_. False) s s'"
  "store_List p sp par s = (r2, s') \<Longrightarrow> confined p (\<lambda>_. False) s s'"
  "store_Get p sp i s = (r3, s') \<Longrightarrow> confined p (\<lambda>_. False) s s'"
proof -
  show "confined p (\<lambda>_. False) s s'" if "store_List p sp par s = (r2, s')"
    using that unfolding store_List_def by (rule confined_statement) (auto simp: arg_defs split: option.splits)
next
  let ?f = "arg (uuid_arg p sp) (\<lambda>sp. arg (uuid_arg p ac) (\<lambda>ac s1.
      case t_memberships s1 (sp, ac) of None \<Rightarrow> (Inl (Sentinel SqlErrNoRows), s1) | Some role \<Rightarrow> (Inr role, s1)))"
  obtain r0 s0 where q: "statement ?f s = (r0, s0)" by fastforce
  moreover have "confined p (\<lambda>_. False) s s0"
    using q by (rule confined_statement) (auto simp: arg_defs split: option.splits)
  ultimately show "confined p (\<lambda>_. False) s s'" if "RoleForAccount (Some p) ac sp s = (r1, s')"
    using that by (auto simp: RoleForAccount_def dest!: not_found_state)
next
  let ?f = "arg (uuid_arg p i) (\<lambda>i. arg (uuid_arg p sp) (\<lambda>sp s1.
      case find (active_row i sp) (t_nodes s1) of None \<Rightarrow> (Inl (Sentinel SqlErrNoRows), s1)
      | Some row \<Rightarrow> (Inr (scanNode row), s1)))"
  obtain r0 s0 where q: "statement ?f s = (r0, s0)" by fastforce
  moreover have "confined p (\<lambda>_. False) s s0"
    using q by (rule confined_statement) (auto simp: arg_defs split: option.splits)
  ultimately show "confined p (\<lambda>_. False) s s'" if "store_Get p sp i s = (r3, s')"
    using that by (auto simp: store_Get_def dest!: not_found_state)
qed

lemma RoleForAccount_member:
  assumes "RoleForAccount (Some p) ac sp s = (Inr role, s')"
  shows "\<exists>u a. pg_uuid p sp = Some u \<and> pg_uuid p ac = Some a \<and> t_memberships s (u, a) = Some role"
proof -
  obtain f where f: "statement f s = (Inr role, s')" "f = arg (uuid_arg p sp) (\<lambda>sp. arg (uuid_arg p ac) (\<lambda>ac s1.
      case t_memberships s1 (sp, ac) of None \<Rightarrow> (Inl (Sentinel SqlErrNoRows), s1) | Some role \<Rightarrow> (Inr role, s1)))"
    using assms by (auto simp: RoleForAccount_def not_found_def split: prod.splits sum.splits)
  show ?thesis using statement_ok [OF f(1)] unfolding f(2)
    by (auto simp: arg_defs split: option.splits)
qed

definition in_space :: "pg \<Rightarrow> string \<Rightarrow> string \<Rightarrow> bool" where
  "in_space p sp u \<longleftrightarrow> pg_uuid p sp = Some u"

lemma confined_in: "confined p ((=) u) s s' \<Longrightarrow> pg_uuid p sp = Some u \<Longrightarrow> confined p (in_space p sp) s s'"
  by (erule confined_mono) (simp add: in_space_def)

lemma store_Create_confined:
  "store_Create p node s = (r, s') \<Longrightarrow> confined p (in_space p (nd_SpaceID node)) s s'"
  unfolding store_Create_def
  by (erule confined_statement)
    (auto simp: arg_defs split: option.splits if_splits
      intro: confined_in dest!: insert_node_confined [OF _ refl])

lemma store_Rename_confined:
  assumes "store_Rename p sp i name s = (r, s')" shows "confined p (in_space p sp) s s'"
proof -
  let ?f = "arg (uuid_arg p i) (\<lambda>i. arg (uuid_arg p sp) (\<lambda>sp. arg (text_arg p name) (\<lambda>name s1.
      update_node p i sp (\<lambda>r. r\<lparr>n_name := name, n_modified_at := db_now s1\<rparr>) s1)))"
  obtain r0 s0 where q: "statement ?f s = (r0, s0)" by fastforce
  have "confined p (in_space p sp) s1 s2" if "?f s1 = (r1, s2)" for r1 s1 s2
    using that update_node_confined [of p _ _ "\<lambda>r. r\<lparr>n_name := name, n_modified_at := db_now s1\<rparr>" s1 r1 s2]
    by (auto simp: arg_defs renames_def split: option.splits if_splits intro: confined_in)
  from confined_statement [OF q this] show ?thesis
    using assms q by (auto simp: store_Rename_def dest!: not_found_state)
qed

lemma store_Trash_confined:
  assumes "store_Trash p sp i s = (r, s')" shows "confined p (in_space p sp) s s'"
proof -
  let ?f = "arg (uuid_arg p i) (\<lambda>i. arg (uuid_arg p sp) (\<lambda>sp s1.
      update_node p i sp (\<lambda>r. r\<lparr>n_trashed_at := Some (db_now s1), n_modified_at := db_now s1\<rparr>) s1))"
  obtain r0 s0 where q: "statement ?f s = (r0, s0)" by fastforce
  have "confined p (in_space p sp) s1 s2" if "?f s1 = (r1, s2)" for r1 s1 s2
    using that update_node_confined [of p _ _ "\<lambda>r. r\<lparr>n_trashed_at := Some (db_now s1), n_modified_at := db_now s1\<rparr>" s1 r1 s2]
    by (auto simp: arg_defs renames_def split: option.splits if_splits intro: confined_in)
  from confined_statement [OF q this] show ?thesis
    using assms q by (auto simp: store_Trash_def dest!: not_found_state)
qed

text \<open>A successful listing returns the active children, each once, in order.\<close>

lemma store_List_rows:
  assumes "store_List p sp par s = (Inr ns, s')"
  shows "\<exists>u q. pg_uuid p sp = Some u \<and> null_uuid_arg p (nullableString par) = Inr q
    \<and> ns = map scanNode (order_rows p (filter (child_row u q) (t_nodes s)))"
  using assms unfolding store_List_def
  by (auto dest!: statement_ok simp: arg_def uuid_arg_def split: sum.splits option.splits)

end
