(* ===== verification/Node_System.thy ===== *)
theory Node_System
  imports Postgres_Store Go_OS
begin

text \<open>
  The node service over the PostgreSQL store, with the membership table deciding who may do what.
  The locale \<open>node_environment\<close> states what the service relies on; it is interpreted on the
  store, and the service's requests form a state machine.
\<close>

section \<open>What the service relies on\<close>

text \<open>
  \<open>view\<close> is what the repository holds for a space; \<open>canon\<close> relates the text of an
  identifier to a space; \<open>may\<close> is what a membership permits. Any call may fail.
\<close>

locale node_environment =
  fixes svc :: "'s NodeService" and repo :: "'s NodeRepository" and auth :: "'s Authorizer"
    and inv :: "'s \<Rightarrow> bool" and view :: "'s \<Rightarrow> string \<Rightarrow> 'v" and canon :: "string \<Rightarrow> string \<Rightarrow> bool"
    and may :: "'s \<Rightarrow> string \<Rightarrow> string \<Rightarrow> authz_Action \<Rightarrow> bool"
  assumes wiring: "ns_repo svc = Some repo" "ns_auth svc = Some auth"
    and auth_sound: "inv s \<Longrightarrow> auth ac sp a s = (b, s') \<Longrightarrow>
      inv s' \<and> view s' = view s \<and> (b \<longrightarrow> may s ac sp a)"
    and rand_keeps: "inv s \<Longrightarrow> ns_rand svc s = (r, s') \<Longrightarrow> inv s' \<and> view s' = view s"
    and list_keeps: "inv s \<Longrightarrow> nr_List repo sp par s = (r1, s') \<Longrightarrow> inv s' \<and> view s' = view s"
    and get_keeps: "inv s \<Longrightarrow> nr_Get repo sp i s = (r2, s') \<Longrightarrow> inv s' \<and> view s' = view s"
    and create_local: "inv s \<Longrightarrow> nr_Create repo nd s = (r3, s') \<Longrightarrow>
      inv s' \<and> (\<forall>u. \<not> canon (nd_SpaceID nd) u \<longrightarrow> view s' u = view s u)"
    and rename_local: "inv s \<Longrightarrow> nr_Rename repo sp i name s = (r4, s') \<Longrightarrow>
      inv s' \<and> (\<forall>u. \<not> canon sp u \<longrightarrow> view s' u = view s u)"
    and trash_local: "inv s \<Longrightarrow> nr_Trash repo sp i s = (r5, s') \<Longrightarrow>
      inv s' \<and> (\<forall>u. \<not> canon sp u \<longrightarrow> view s' u = view s u)"
begin

definition permitted :: "string \<Rightarrow> string \<Rightarrow> authz_Action \<Rightarrow> 's \<Rightarrow> 's \<Rightarrow> bool" where
  "permitted ac sp a s s' \<longleftrightarrow>
     inv s' \<and> (\<forall>u. view s' u \<noteq> view s u \<longrightarrow> canon sp u \<and> may s ac sp a)"

lemma allowed_sound:
  assumes "inv s" "allowed svc ac sp a s = (b, s')"
  shows "inv s' \<and> view s' = view s \<and> (b \<longrightarrow> may s ac sp a)"
  using assms auth_sound by (auto simp: allowed_def wiring split: if_splits)

lemma Create_permitted:
  assumes "inv s" "nodes_Create svc ac sp par kind name s = (r, s')"
  shows "permitted ac sp (if kind = KindFolder then ActionCreateFolder else ActionCreateFile) s s'
    \<and> (is_ok r \<longrightarrow> may s ac sp (if kind = KindFolder then ActionCreateFolder else ActionCreateFile))"
proof -
  let ?a = "if kind = KindFolder then ActionCreateFolder else ActionCreateFile"
  obtain b s1 where b: "allowed svc ac sp ?a s = (b, s1)" by fastforce
  obtain w s2 where w: "ns_rand svc s1 = (w, s2)" by fastforce
  have k: "inv s1" "view s1 = view s" "b \<longrightarrow> may s ac sp ?a" "inv s2" "view s2 = view s"
    using allowed_sound [OF assms(1) b] rand_keeps [OF _ w] by auto
  have c: "inv s3" "view s3 u \<noteq> view s u \<Longrightarrow> nd_SpaceID nd = sp \<Longrightarrow> canon sp u" if "nr_Create repo nd s2 = (x, s3)" for nd x s3 u
    using create_local [OF k(4) that] k(5) by auto
  show ?thesis
    using assms b w k c(1) c(2) [OF _ _ Node.select_convs(2)]
    by (cases b) (auto simp: nodes_Create_def permitted_def with_repo_def wiring Let_def
        split: if_splits sum.splits)
qed

lemma Rename_permitted:
  assumes "inv s" "nodes_Rename svc ac sp i name s = (r, s')"
  shows "permitted ac sp ActionUpdate s s' \<and> (is_ok r \<longrightarrow> may s ac sp ActionUpdate)"
proof -
  obtain b s1 where b: "allowed svc ac sp ActionUpdate s = (b, s1)" by fastforce
  note k = allowed_sound [OF assms(1) b]
  show ?thesis
    using assms b k rename_local [of s1 sp i "TrimSpace name" r s']
    by (cases b) (auto simp: nodes_Rename_def permitted_def with_repo_def wiring split: if_splits)
qed

lemma Trash_permitted:
  assumes "inv s" "nodes_Trash svc ac sp i s = (r, s')"
  shows "permitted ac sp ActionDelete s s' \<and> (is_ok r \<longrightarrow> may s ac sp ActionDelete)"
proof -
  obtain b s1 where b: "allowed svc ac sp ActionDelete s = (b, s1)" by fastforce
  note k = allowed_sound [OF assms(1) b]
  show ?thesis
    using assms b k trash_local [of s1 sp i r s']
    by (cases b) (auto simp: nodes_Trash_def permitted_def with_repo_def wiring)
qed

lemma reads_keep:
  assumes "inv s"
  shows "nodes_List svc ac sp par s = (r1, s') \<Longrightarrow> inv s' \<and> view s' = view s \<and> (is_ok r1 \<longrightarrow> may s ac sp ActionList)"
    and "nodes_Get svc ac sp i s = (r2, s') \<Longrightarrow> inv s' \<and> view s' = view s \<and> (is_ok r2 \<longrightarrow> may s ac sp ActionRead)"
proof -
  obtain b s1 where b: "allowed svc ac sp ActionList s = (b, s1)" by fastforce
  show "inv s' \<and> view s' = view s \<and> (is_ok r1 \<longrightarrow> may s ac sp ActionList)" if "nodes_List svc ac sp par s = (r1, s')"
    using that b allowed_sound [OF assms b] list_keeps [of s1 sp par r1 s']
    by (cases b) (auto simp: nodes_List_def with_repo_def wiring)
next
  obtain b s1 where b: "allowed svc ac sp ActionRead s = (b, s1)" by fastforce
  show "inv s' \<and> view s' = view s \<and> (is_ok r2 \<longrightarrow> may s ac sp ActionRead)" if "nodes_Get svc ac sp i s = (r2, s')"
    using that b allowed_sound [OF assms b] get_keeps [of s1 sp i r2 s']
    by (cases b) (auto simp: nodes_Get_def with_repo_def wiring)
qed

end

section \<open>Wiring\<close>

record nsys =
  n_os :: os
  n_db :: db

definition on_db :: "(db \<Rightarrow> 'r \<times> db) \<Rightarrow> nsys \<Rightarrow> 'r \<times> nsys" where
  "on_db f s = (case f (n_db s) of (r, d) \<Rightarrow> (r, s\<lparr>n_db := d\<rparr>))"

definition on_rand :: "nsys \<Rightarrow> (goerr + byte list) \<times> nsys" where
  "on_rand s = (case sys_RandRead (n_os s) of (r, o') \<Rightarrow> (r, s\<lparr>n_os := o'\<rparr>))"

definition pg_nodes :: "pg \<Rightarrow> nsys NodeRepository" where
  "pg_nodes p =
     \<lparr>nr_List = (\<lambda>sp par. on_db (store_List p sp par)), nr_Get = (\<lambda>sp i. on_db (store_Get p sp i)),
      nr_Create = (\<lambda>node. on_db (store_Create p node)),
      nr_Rename = (\<lambda>sp i name. on_db (store_Rename p sp i name)),
      nr_Trash = (\<lambda>sp i. on_db (store_Trash p sp i))\<rparr>"

definition pg_memberships :: "pg \<Rightarrow> nsys MembershipResolver" where
  "pg_memberships p = (\<lambda>ac sp. on_db (RoleForAccount (Some p) ac sp))"

definition node_service :: "pg \<Rightarrow> nsys NodeService" where
  "node_service p =
     \<lparr>ns_repo = Some (pg_nodes p), ns_auth = Some (spaceaccess_Allows (Some (pg_memberships p))),
      ns_rand = on_rand\<rparr>"

definition member_may :: "pg \<Rightarrow> nsys \<Rightarrow> string \<Rightarrow> string \<Rightarrow> authz_Action \<Rightarrow> bool" where
  "member_may p s ac sp a \<longleftrightarrow>
     (case (pg_uuid p sp, pg_uuid p ac) of
        (Some u, Some v) \<Rightarrow>
          (case t_memberships (n_db s) (u, v) of None \<Rightarrow> False | Some role \<Rightarrow> authz_Allows role a)
      | _ \<Rightarrow> False)"

lemma on_db_confined:
  assumes "on_db f s = (r, s')" "\<And>r1 d. f (n_db s) = (r1, d) \<Longrightarrow> confined p U (n_db s) d"
  shows "n_os s' = n_os s \<and> confined p U (n_db s) (n_db s')"
  using assms by (auto simp: on_db_def split: prod.splits)

lemma confined_nothing: "confined p (\<lambda>_. False) s s' \<Longrightarrow> space_rows s' = space_rows s"
  by (auto simp: confined_def)

lemma Allows_sound:
  assumes "spaceaccess_Allows (Some (pg_memberships p)) ac sp a s = (b, s')"
  shows "confined p (\<lambda>_. False) (n_db s) (n_db s') \<and> (b \<longrightarrow> member_may p s ac sp a)"
proof -
  obtain r d where r: "RoleForAccount (Some p) ac sp (n_db s) = (r, d)" by fastforce
  show ?thesis
    using assms r store_keeps(1) [OF r] RoleForAccount_member [of p ac sp "n_db s" _ d]
    by (auto simp: spaceaccess_Allows_def pg_memberships_def on_db_def member_may_def
        split: if_splits sum.splits)
qed

lemma allowed_nodes:
  assumes "allowed (node_service p) ac sp a s = (b, s')"
  shows "t_nodes (n_db s') = t_nodes (n_db s)"
proof -
  obtain r d where r: "RoleForAccount (Some p) ac sp (n_db s) = (r, d)" by fastforce
  have "t_nodes d = t_nodes (n_db s)"
    using r by (auto simp: RoleForAccount_def dest!: not_found_state)
      (auto simp: statement_def arg_defs Let_def split: option.splits if_splits)
  then show ?thesis
    using assms r by (auto simp: allowed_def node_service_def spaceaccess_Allows_def pg_memberships_def on_db_def
        split: if_splits sum.splits prod.splits)
qed

interpretation ns: node_environment "node_service p" "pg_nodes p"
    "spaceaccess_Allows (Some (pg_memberships p))" "\<lambda>s. nodes_ok p (n_db s)" "\<lambda>s. space_rows (n_db s)"
    "in_space p" "member_may p" for p
proof
  show "ns_repo (node_service p) = Some (pg_nodes p)"
    "ns_auth (node_service p) = Some (spaceaccess_Allows (Some (pg_memberships p)))"
    by (simp_all add: node_service_def)
next
  fix s ac sp a b s'
  assume "nodes_ok p (n_db s)" "spaceaccess_Allows (Some (pg_memberships p)) ac sp a s = (b, s')"
  then show "nodes_ok p (n_db s') \<and> space_rows (n_db s') = space_rows (n_db s) \<and> (b \<longrightarrow> member_may p s ac sp a)"
    using Allows_sound [of p ac sp a s b s'] by (auto simp: confined_def)
next
  fix s r s'
  assume "nodes_ok p (n_db s)" "ns_rand (node_service p) s = (r, s')"
  then show "nodes_ok p (n_db s') \<and> space_rows (n_db s') = space_rows (n_db s)"
    by (auto simp: node_service_def on_rand_def split: prod.splits)
next
  fix s sp par r1 s'
  assume "nodes_ok p (n_db s)" "nr_List (pg_nodes p) sp par s = (r1, s')"
  then show "nodes_ok p (n_db s') \<and> space_rows (n_db s') = space_rows (n_db s)"
    using on_db_confined [of "store_List p sp par" s r1 s' p "\<lambda>_. False"] store_keeps(2)
    by (auto simp: pg_nodes_def confined_def)
next
  fix s sp i r2 s'
  assume "nodes_ok p (n_db s)" "nr_Get (pg_nodes p) sp i s = (r2, s')"
  then show "nodes_ok p (n_db s') \<and> space_rows (n_db s') = space_rows (n_db s)"
    using on_db_confined [of "store_Get p sp i" s r2 s' p "\<lambda>_. False"] store_keeps(3)
    by (auto simp: pg_nodes_def confined_def)
next
  fix s nd r3 s'
  assume "nodes_ok p (n_db s)" "nr_Create (pg_nodes p) nd s = (r3, s')"
  then show "nodes_ok p (n_db s') \<and> (\<forall>u. \<not> in_space p (nd_SpaceID nd) u \<longrightarrow> space_rows (n_db s') u = space_rows (n_db s) u)"
    using on_db_confined [of "store_Create p nd" s r3 s' p "in_space p (nd_SpaceID nd)"] store_Create_confined
    by (auto simp: pg_nodes_def confined_def)
next
  fix s sp i name r4 s'
  assume "nodes_ok p (n_db s)" "nr_Rename (pg_nodes p) sp i name s = (r4, s')"
  then show "nodes_ok p (n_db s') \<and> (\<forall>u. \<not> in_space p sp u \<longrightarrow> space_rows (n_db s') u = space_rows (n_db s) u)"
    using on_db_confined [of "store_Rename p sp i name" s r4 s' p "in_space p sp"] store_Rename_confined
    by (auto simp: pg_nodes_def confined_def)
next
  fix s sp i r5 s'
  assume "nodes_ok p (n_db s)" "nr_Trash (pg_nodes p) sp i s = (r5, s')"
  then show "nodes_ok p (n_db s') \<and> (\<forall>u. \<not> in_space p sp u \<longrightarrow> space_rows (n_db s') u = space_rows (n_db s) u)"
    using on_db_confined [of "store_Trash p sp i" s r5 s' p "in_space p sp"] store_Trash_confined
    by (auto simp: pg_nodes_def confined_def)
qed

end
