(* ===== verification/Quota.thy ===== *)
theory Quota
  imports Database
begin

text \<open>
  \<^verbatim>\<open>internal/quota/quota.go\<close> and \<^verbatim>\<open>internal/quota/postgres.go\<close>: storage quotas of spaces.
  The repository is an interface, a record of functions over a state \<open>'s\<close>; the PostgreSQL
  repository runs its statements on the table of \<open>Database\<close>.
\<close>

section \<open>Service\<close>

record Usage =
  qu_SpaceID :: string
  qu_LimitBytes :: "int64 option"
  qu_UsedBytes :: int64

definition zero_usage :: Usage where
  "zero_usage = \<lparr>qu_SpaceID = [], qu_LimitBytes = None, qu_UsedBytes = 0\<rparr>"

record 's QuotaRepository =
  qr_Get :: "string \<Rightarrow> 's \<Rightarrow> (goerr + Usage) \<times> 's"
  qr_Reserve :: "string \<Rightarrow> int64 \<Rightarrow> 's \<Rightarrow> (goerr + Usage) \<times> 's"
  qr_Release :: "string \<Rightarrow> int64 \<Rightarrow> 's \<Rightarrow> (goerr + Usage) \<times> 's"

text \<open>\<^verbatim>\<open>Check\<close> returns the usage beside \<^verbatim>\<open>ErrExceeded\<close>, so its result is a pair.\<close>

definition quota_Check ::
  "'s QuotaRepository option \<Rightarrow> string \<Rightarrow> int64 \<Rightarrow> 's \<Rightarrow> (Usage \<times> goerr option) \<times> 's" where
  "quota_Check svc spaceID additionalBytes s =
     (case svc of
        None \<Rightarrow> ((zero_usage, Some (Sentinel QuotaErrUnavailable)), s)
      | Some repo \<Rightarrow>
          if spaceID = [] then ((zero_usage, Some (Sentinel QuotaErrUnavailable)), s)
          else if additionalBytes \<le> 0 then ((zero_usage, Some (Sentinel QuotaErrInvalidSize)), s)
          else (case qr_Get repo spaceID s of
                  (Inl err, s1) \<Rightarrow> ((zero_usage, Some err), s1)
                | (Inr usage, s1) \<Rightarrow>
                    (case qu_LimitBytes usage of
                       None \<Rightarrow> ((usage, None), s1)
                     | Some limit \<Rightarrow>
                         if additionalBytes > wrap64 (limit - qu_UsedBytes usage)
                         then ((usage, Some (Sentinel QuotaErrExceeded)), s1)
                         else ((usage, None), s1))))"

definition quota_Reserve ::
  "'s QuotaRepository option \<Rightarrow> string \<Rightarrow> int64 \<Rightarrow> 's \<Rightarrow> (goerr + Usage) \<times> 's" where
  "quota_Reserve svc spaceID bytes s =
     (case svc of
        None \<Rightarrow> (Inl (Sentinel QuotaErrUnavailable), s)
      | Some repo \<Rightarrow>
          if spaceID = [] then (Inl (Sentinel QuotaErrUnavailable), s)
          else if bytes \<le> 0 then (Inl (Sentinel QuotaErrInvalidSize), s)
          else (case qr_Reserve repo spaceID bytes s of
                  (Inl err, s1) \<Rightarrow> (Inl err, s1)
                | (Inr usage, s1) \<Rightarrow>
                    if qu_UsedBytes usage < 0
                       \<or> (case qu_LimitBytes usage of None \<Rightarrow> False | Some limit \<Rightarrow> qu_UsedBytes usage > limit)
                    then (Inl (Wrapped ''repository returned invalid usage'' (Sentinel QuotaErrUnavailable)), s1)
                    else (Inr usage, s1)))"

definition quota_Release ::
  "'s QuotaRepository option \<Rightarrow> string \<Rightarrow> int64 \<Rightarrow> 's \<Rightarrow> (goerr + Usage) \<times> 's" where
  "quota_Release svc spaceID bytes s =
     (case svc of
        None \<Rightarrow> (Inl (Sentinel QuotaErrUnavailable), s)
      | Some repo \<Rightarrow>
          if spaceID = [] then (Inl (Sentinel QuotaErrUnavailable), s)
          else if bytes \<le> 0 then (Inl (Sentinel QuotaErrInvalidSize), s)
          else qr_Release repo spaceID bytes s)"

section \<open>The PostgreSQL repository\<close>

definition usage_of :: "string \<Rightarrow> quota_row \<Rightarrow> Usage" where
  "usage_of u row = \<lparr>qu_SpaceID = u, qu_LimitBytes = q_limit row, qu_UsedBytes = q_used row\<rparr>"

definition pgquota_Get :: "pg option \<Rightarrow> string \<Rightarrow> db \<Rightarrow> (goerr + Usage) \<times> db" where
  "pgquota_Get r spaceID s =
     (case r of
        None \<Rightarrow> (Inl (Sentinel QuotaErrUnavailable), s)
      | Some p \<Rightarrow>
          (case statement (arg (uuid_arg p spaceID) (\<lambda>u s1.
                  case t_quotas s1 u of
                    None \<Rightarrow> (Inl (Sentinel SqlErrNoRows), s1)
                  | Some row \<Rightarrow> (Inr (usage_of u row), s1))) s of
             (Inl err, s1) \<Rightarrow>
               (Inl (if errors_Is err SqlErrNoRows then Sentinel QuotaErrUnavailable
                     else Wrapped ''read quota'' err), s1)
           | (Inr usage, s1) \<Rightarrow> (Inr usage, s1)))"

text \<open>The update of one row; the sum of two \<^verbatim>\<open>bigint\<close> values is an error when out of range.\<close>

definition reserve_row :: "int64 \<Rightarrow> quota_row \<Rightarrow> (goerr + quota_row)" where
  "reserve_row bytes row =
     (if \<not> bytes > 0 then Inl (Sentinel SqlErrNoRows)
      else if q_used row + bytes > maxInt64 then Inl (ErrorString ''bigint out of range'')
      else if (case q_limit row of None \<Rightarrow> True | Some limit \<Rightarrow> q_used row + bytes \<le> limit)
      then Inr (row\<lparr>q_used := q_used row + bytes\<rparr>)
      else Inl (Sentinel SqlErrNoRows))"

definition reserve_body :: "pg \<Rightarrow> string \<Rightarrow> int64 \<Rightarrow> db \<Rightarrow> (goerr + Usage) \<times> db" where
  "reserve_body p sp n = arg (uuid_arg p sp) (\<lambda>u s1.
     case t_quotas s1 u of
       None \<Rightarrow> (Inl (Sentinel SqlErrNoRows), s1)
     | Some row \<Rightarrow>
         (case reserve_row n row of
            Inl err \<Rightarrow> (Inl err, s1)
          | Inr row' \<Rightarrow> (Inr (usage_of u row'), s1\<lparr>t_quotas := (t_quotas s1)(u \<mapsto> row')\<rparr>)))"

definition pgquota_Reserve :: "pg option \<Rightarrow> string \<Rightarrow> int64 \<Rightarrow> db \<Rightarrow> (goerr + Usage) \<times> db" where
  "pgquota_Reserve r spaceID bytes s =
     (case r of
        None \<Rightarrow> (Inl (Sentinel QuotaErrUnavailable), s)
      | Some p \<Rightarrow>
          (case statement (reserve_body p spaceID bytes) s of
             (Inl err, s1) \<Rightarrow>
               if errors_Is err SqlErrNoRows
               then (case pgquota_Get r spaceID s1 of
                       (Inl getErr, s2) \<Rightarrow> (Inl getErr, s2)
                     | (Inr _, s2) \<Rightarrow> (Inl (Sentinel QuotaErrExceeded), s2))
               else (Inl (Wrapped ''reserve quota'' err), s1)
           | (Inr usage, s1) \<Rightarrow> (Inr usage, s1)))"

definition release_body :: "pg \<Rightarrow> string \<Rightarrow> int64 \<Rightarrow> db \<Rightarrow> (goerr + Usage) \<times> db" where
  "release_body p sp n = arg (uuid_arg p sp) (\<lambda>u s1.
     case t_quotas s1 u of
       None \<Rightarrow> (Inl (Sentinel SqlErrNoRows), s1)
     | Some row \<Rightarrow>
         if \<not> n > 0 then (Inl (Sentinel SqlErrNoRows), s1)
         else let row' = row\<lparr>q_used := max (q_used row - n) 0\<rparr> in
           (Inr (usage_of u row'), s1\<lparr>t_quotas := (t_quotas s1)(u \<mapsto> row')\<rparr>))"

definition pgquota_Release :: "pg option \<Rightarrow> string \<Rightarrow> int64 \<Rightarrow> db \<Rightarrow> (goerr + Usage) \<times> db" where
  "pgquota_Release r spaceID bytes s =
     (case r of
        None \<Rightarrow> (Inl (Sentinel QuotaErrUnavailable), s)
      | Some p \<Rightarrow>
          (case statement (release_body p spaceID bytes) s of
             (Inl err, s1) \<Rightarrow>
               (Inl (if errors_Is err SqlErrNoRows then Sentinel QuotaErrUnavailable
                     else Wrapped ''release quota'' err), s1)
           | (Inr usage, s1) \<Rightarrow> (Inr usage, s1)))"

definition pg_quotas :: "pg \<Rightarrow> db QuotaRepository" where
  "pg_quotas p =
     \<lparr>qr_Get = pgquota_Get (Some p), qr_Reserve = pgquota_Reserve (Some p),
      qr_Release = pgquota_Release (Some p)\<rparr>"

section \<open>A quota repository\<close>

text \<open>
  What the service relies on: \<open>within\<close> is the invariant that a space's usage is in range and
  within its limit, which every operation keeps whether it succeeds or not; a reservation that
  succeeds adds its bytes.
\<close>

locale quota_store =
  fixes repo :: "'s QuotaRepository" and within :: "'s \<Rightarrow> bool" and used :: "'s \<Rightarrow> string \<Rightarrow> int64"
  assumes get_keeps: "within s \<Longrightarrow> qr_Get repo sp s = (r, s') \<Longrightarrow> within s' \<and> used s' = used s"
    and reserve_keeps: "within s \<Longrightarrow> qr_Reserve repo sp n s = (r1, s') \<Longrightarrow> within s'"
    and release_keeps: "within s \<Longrightarrow> qr_Release repo sp n s = (r2, s') \<Longrightarrow> within s'"
    and reserve_adds: "within s \<Longrightarrow> qr_Reserve repo sp n s = (Inr u, s') \<Longrightarrow>
      0 < n \<and> used s' (qu_SpaceID u) = used s (qu_SpaceID u) + n \<and> qu_UsedBytes u = used s' (qu_SpaceID u)
      \<and> (\<forall>m. qu_LimitBytes u = Some m \<longrightarrow> qu_UsedBytes u \<le> m)"
begin

lemma service_keeps:
  assumes "within s"
  shows "quota_Check (Some repo) sp n s = (r, s') \<Longrightarrow> within s' \<and> used s' = used s"
    and "quota_Reserve (Some repo) sp n s = (r1, s') \<Longrightarrow> within s'"
    and "quota_Release (Some repo) sp n s = (r2, s') \<Longrightarrow> within s'"
  using assms
  by (auto simp: quota_Check_def quota_Reserve_def quota_Release_def
      split: if_splits sum.splits prod.splits option.splits dest: get_keeps reserve_keeps release_keeps)

lemma Reserve_adds:
  assumes "within s" "quota_Reserve (Some repo) sp n s = (Inr u, s')"
  shows "0 < n \<and> used s' (qu_SpaceID u) = used s (qu_SpaceID u) + n \<and> qu_UsedBytes u = used s' (qu_SpaceID u)
    \<and> (\<forall>m. qu_LimitBytes u = Some m \<longrightarrow> qu_UsedBytes u \<le> m)"
  using assms reserve_adds [OF assms(1)]
  by (auto simp: quota_Reserve_def split: if_splits sum.splits prod.splits)

end

definition quota_row_within :: "quota_row \<Rightarrow> bool" where
  "quota_row_within q \<longleftrightarrow> 0 \<le> q_used q \<and> q_used q \<le> maxInt64
     \<and> (case q_limit q of None \<Rightarrow> True | Some m \<Rightarrow> q_used q \<le> m \<and> m \<le> maxInt64)"

definition quotas_within :: "db \<Rightarrow> bool" where
  "quotas_within s \<longleftrightarrow> (\<forall>u q. t_quotas s u = Some q \<longrightarrow> quota_row_within q)"

definition quota_used :: "db \<Rightarrow> string \<Rightarrow> int64" where
  "quota_used s u = (case t_quotas s u of None \<Rightarrow> 0 | Some q \<Rightarrow> q_used q)"

lemma quotas_within_tick [simp]: "quotas_within (s\<lparr>db_tick := k\<rparr>) = quotas_within s"
  by (simp add: quotas_within_def)

lemma quotas_within_upd:
  "quotas_within s \<Longrightarrow> quota_row_within q \<Longrightarrow> quotas_within (s\<lparr>t_quotas := (t_quotas s)(u \<mapsto> q)\<rparr>)"
  by (simp add: quotas_within_def)

lemma reserve_row_within:
  "reserve_row n row = Inr row' \<Longrightarrow> quota_row_within row \<Longrightarrow>
     quota_row_within row' \<and> 0 < n \<and> q_used row' = q_used row + n \<and> q_limit row' = q_limit row"
  by (auto simp: reserve_row_def quota_row_within_def split: if_splits option.splits)

lemma release_row_within:
  "quota_row_within row \<Longrightarrow> 0 < n \<Longrightarrow> quota_row_within (row\<lparr>q_used := max (q_used row - n) 0\<rparr>)"
  by (auto simp: quota_row_within_def split: option.splits)

lemma pgquota_Get_keeps:
  assumes "pgquota_Get (Some p) sp s = (r, s')"
  shows "t_quotas s' = t_quotas s"
proof -
  obtain r0 s0 where q: "statement (arg (uuid_arg p sp) (\<lambda>u s1.
      case t_quotas s1 u of None \<Rightarrow> (Inl (Sentinel SqlErrNoRows), s1)
      | Some row \<Rightarrow> (Inr (usage_of u row), s1))) s = (r0, s0)" by fastforce
  then have "t_quotas s0 = t_quotas s"
    by (rule statement_rel) (auto simp: arg_defs split: option.splits)
  then show ?thesis using assms q by (auto simp: pgquota_Get_def split: sum.splits)
qed

lemma within_row: "quotas_within s \<Longrightarrow> t_quotas s u = Some row \<Longrightarrow> quota_row_within row"
  by (simp add: quotas_within_def)

lemma reserve_body_within: "reserve_body p sp n s = (r, s') \<Longrightarrow> quotas_within s \<Longrightarrow> quotas_within s'"
  unfolding reserve_body_def arg_def
  by (auto split: sum.splits option.splits dest!: reserve_row_within [OF _ within_row] intro: quotas_within_upd)

lemma release_body_within: "release_body p sp n s = (r, s') \<Longrightarrow> quotas_within s \<Longrightarrow> quotas_within s'"
  unfolding release_body_def arg_def Let_def
  by (auto split: sum.splits option.splits if_splits
      intro!: quotas_within_upd release_row_within intro: within_row)

lemma statement_within:
  assumes "statement f s = (r, s')" "quotas_within s"
    and "\<And>r1 s1 s2. f s1 = (r1, s2) \<Longrightarrow> quotas_within s1 \<Longrightarrow> quotas_within s2"
  shows "quotas_within s'"
  using assms(1) by (rule statement_rel) (use assms(2) in \<open>auto dest: assms(3)\<close>)

lemma pgquota_Reserve_within:
  assumes "pgquota_Reserve (Some p) sp n s = (r, s')" "quotas_within s"
  shows "quotas_within s'"
proof -
  obtain r0 s0 where q: "statement (reserve_body p sp n) s = (r0, s0)" by fastforce
  have w: "quotas_within s0" using statement_within [OF q assms(2) reserve_body_within] .
  obtain r1 s1 where g: "pgquota_Get (Some p) sp s0 = (r1, s1)" by fastforce
  have "quotas_within s1" using w pgquota_Get_keeps [OF g] by (simp add: quotas_within_def)
  then show ?thesis
    using assms(1) q w g
    unfolding pgquota_Reserve_def option.simps q
    by (auto split: sum.splits if_splits)
qed

lemma pgquota_Release_within:
  assumes "pgquota_Release (Some p) sp n s = (r, s')" "quotas_within s"
  shows "quotas_within s'"
proof -
  obtain r0 s0 where q: "statement (release_body p sp n) s = (r0, s0)" by fastforce
  have w: "quotas_within s0" using statement_within [OF q assms(2) release_body_within] .
  then show ?thesis
    using assms(1) q unfolding pgquota_Release_def option.simps q
    by (auto split: sum.splits)
qed

lemma pgquota_Reserve_adds:
  assumes "pgquota_Reserve (Some p) sp n s = (Inr u, s')" "quotas_within s"
  shows "0 < n \<and> quota_used s' (qu_SpaceID u) = quota_used s (qu_SpaceID u) + n
    \<and> qu_UsedBytes u = quota_used s' (qu_SpaceID u) \<and> (\<forall>m. qu_LimitBytes u = Some m \<longrightarrow> qu_UsedBytes u \<le> m)"
proof -
  have "statement (reserve_body p sp n) s = (Inr u, s')"
    using assms(1) unfolding pgquota_Reserve_def option.simps
    by (auto split: sum.splits if_splits prod.splits)
  from statement_ok [OF this] show ?thesis
    using assms(2)
    by (auto simp: reserve_body_def arg_def quota_used_def usage_of_def quota_row_within_def
        split: sum.splits option.splits dest!: reserve_row_within [OF _ within_row])
qed

interpretation pq: quota_store "pg_quotas p" quotas_within quota_used for p
proof
  fix s sp r s'
  assume "quotas_within s" "qr_Get (pg_quotas p) sp s = (r, s')"
  then show "quotas_within s' \<and> quota_used s' = quota_used s"
    using pgquota_Get_keeps [of p sp s r s'] by (simp add: pg_quotas_def quotas_within_def quota_used_def [abs_def])
next
  fix s sp n r1 s'
  assume "quotas_within s" "qr_Reserve (pg_quotas p) sp n s = (r1, s')"
  then show "quotas_within s'" using pgquota_Reserve_within by (simp add: pg_quotas_def)
next
  fix s sp n r2 s'
  assume "quotas_within s" "qr_Release (pg_quotas p) sp n s = (r2, s')"
  then show "quotas_within s'" using pgquota_Release_within by (simp add: pg_quotas_def)
next
  fix s sp n u s'
  assume "quotas_within s" "qr_Reserve (pg_quotas p) sp n s = (Inr u, s')"
  then show "0 < n \<and> quota_used s' (qu_SpaceID u) = quota_used s (qu_SpaceID u) + n
      \<and> qu_UsedBytes u = quota_used s' (qu_SpaceID u)
      \<and> (\<forall>m. qu_LimitBytes u = Some m \<longrightarrow> qu_UsedBytes u \<le> m)"
    using pgquota_Reserve_adds [of p sp n s u s'] unfolding pg_quotas_def QuotaRepository.select_convs by blast
qed

end
