(* ===== verification/Upload_Postgres.thy ===== *)
theory Upload_Postgres
  imports Database Uploads
begin

text \<open>
  \<^verbatim>\<open>internal/uploads/postgres.go\<close>: upload sessions in the \<^verbatim>\<open>upload_sessions\<close> table. The
  repository refines the memory repository: a table of rows abstracts to a map of sessions, and each
  statement does on the table what the memory operation does on the map.
\<close>

section \<open>The repository\<close>

definition stateToDatabase :: "string \<Rightarrow> string" where
  "stateToDatabase state = (if state = StateCompleted then ''complete'' else ''open'')"

definition stateFromDatabase :: "string \<Rightarrow> string" where
  "stateFromDatabase state = (if state = ''complete'' then StateCompleted else StateActive)"

text \<open>\<^verbatim>\<open>NULLIF($4, '')::uuid\<close>.\<close>

definition nullif :: "string \<Rightarrow> string option" where
  "nullif t = (if t = [] then None else Some t)"

definition node_exists :: "string \<Rightarrow> db \<Rightarrow> bool" where
  "node_exists i s = list_ex (\<lambda>r. n_id r = i) (t_nodes s)"

definition null_node_exists :: "string option \<Rightarrow> db \<Rightarrow> bool" where
  "null_node_exists q s = (case q of None \<Rightarrow> True | Some i \<Rightarrow> node_exists i s)"

text \<open>
  The staging key is the session's identifier as text: it is unique when the primary key is, because
  equal texts are equal identifiers.
\<close>

definition insert_upload :: "pg \<Rightarrow> string \<Rightarrow> upload_row \<Rightarrow> db \<Rightarrow> (goerr + unit) \<times> db" where
  "insert_upload p i row s =
     (if upload_ok p row \<and> t_uploads s i = None \<and> t_spaces s (u_space row) \<and> t_accounts s (u_account row)
         \<and> null_node_exists (u_node row) s \<and> null_node_exists (u_parent row) s
      then (Inr (), s\<lparr>t_uploads := (t_uploads s)(i \<mapsto> row)\<rparr>)
      else (Inl (ErrorString ''constraint violation''), s))"

definition pgupload_Create :: "pg option \<Rightarrow> UploadSession \<Rightarrow> db \<Rightarrow> (goerr + unit) \<times> db" where
  "pgupload_Create r session s =
     (case r of
        None \<Rightarrow> (Inl (ErrorString ''upload repository unavailable''), s)
      | Some p \<Rightarrow>
          (case statement (arg (uuid_arg p (us_ID session)) (\<lambda>i.
                  arg (uuid_arg p (us_SpaceID session)) (\<lambda>sp. arg (uuid_arg p (us_NodeID session)) (\<lambda>n.
                  arg (null_uuid_arg p (nullif (us_ParentNodeID session))) (\<lambda>par.
                  arg (uuid_arg p (us_AccountID session)) (\<lambda>ac. arg (text_arg p (us_TargetName session)) (\<lambda>name.
                    insert_upload p i
                      \<lparr>u_space = sp, u_node = Some n, u_parent = par, u_account = ac, u_target = name,
                       u_received = us_Offset session, u_state = stateToDatabase (us_State session),
                       u_expires = pg_time p (us_ExpiresAt session)\<rparr>))))))) s of
             (Inl err, s1) \<Rightarrow> (Inl (Wrapped ''create upload session'' err), s1)
           | (Inr _, s1) \<Rightarrow> (Inr (), s1)))"

text \<open>\<^verbatim>\<open>Scan\<close> into a string fails on a NULL \<^verbatim>\<open>node_id\<close>; a NULL parent stays empty.\<close>

definition scan_session :: "string \<Rightarrow> upload_row \<Rightarrow> goerr + UploadSession" where
  "scan_session i row =
     (case u_node row of
        None \<Rightarrow> Inl (ErrorString ''converting NULL to string is unsupported'')
      | Some n \<Rightarrow> Inr \<lparr>us_ID = i, us_SpaceID = u_space row, us_AccountID = u_account row,
          us_ParentNodeID = (case u_parent row of None \<Rightarrow> [] | Some q \<Rightarrow> q), us_TargetName = u_target row,
          us_NodeID = n, us_Offset = u_received row, us_State = stateFromDatabase (u_state row),
          us_ExpiresAt = u_expires row\<rparr>)"

definition pgupload_Get :: "pg option \<Rightarrow> string \<Rightarrow> db \<Rightarrow> (goerr + UploadSession) \<times> db" where
  "pgupload_Get r uploadID s =
     (case r of
        None \<Rightarrow> (Inl (ErrorString ''upload repository unavailable''), s)
      | Some p \<Rightarrow>
          (case statement (arg (uuid_arg p uploadID) (\<lambda>i s1.
                  case t_uploads s1 i of
                    None \<Rightarrow> (Inl (Sentinel SqlErrNoRows), s1)
                  | Some row \<Rightarrow> (scan_session i row, s1))) s of
             (Inl err, s1) \<Rightarrow>
               (Inl (if errors_Is err SqlErrNoRows then Sentinel UploadsErrNotFound
                     else Wrapped ''get upload session'' err), s1)
           | (Inr session, s1) \<Rightarrow> (Inr session, s1)))"

text \<open>The number of updated rows, which the driver reports without a further call.\<close>

definition update_upload :: "pg \<Rightarrow> string \<Rightarrow> (upload_row \<Rightarrow> upload_row) \<Rightarrow> db \<Rightarrow> (goerr + nat) \<times> db" where
  "update_upload p i f s =
     (case t_uploads s i of
        None \<Rightarrow> (Inr 0, s)
      | Some row \<Rightarrow>
          if upload_ok p (f row) \<and> null_node_exists (u_node (f row)) s \<and> null_node_exists (u_parent (f row)) s
          then (Inr 1, s\<lparr>t_uploads := (t_uploads s)(i \<mapsto> f row)\<rparr>)
          else (Inl (ErrorString ''constraint violation''), s))"

definition pgupload_Update :: "pg option \<Rightarrow> UploadSession \<Rightarrow> db \<Rightarrow> (goerr + unit) \<times> db" where
  "pgupload_Update r session s =
     (case r of
        None \<Rightarrow> (Inl (ErrorString ''upload repository unavailable''), s)
      | Some p \<Rightarrow>
          (case statement (arg (uuid_arg p (us_ID session)) (\<lambda>i.
                  arg (uuid_arg p (us_NodeID session)) (\<lambda>n.
                  arg (null_uuid_arg p (nullif (us_ParentNodeID session))) (\<lambda>par.
                  arg (text_arg p (us_TargetName session)) (\<lambda>name.
                    update_upload p i (\<lambda>row. row\<lparr>u_received := us_Offset session,
                      u_state := stateToDatabase (us_State session), u_node := Some n,
                      u_parent := par, u_target := name\<rparr>)))))) s of
             (Inl err, s1) \<Rightarrow> (Inl (Wrapped ''update upload session'' err), s1)
           | (Inr rows, s1) \<Rightarrow>
               if rows = 0 then (Inl (Sentinel UploadsErrNotFound), s1) else (Inr (), s1)))"

lemma state_database_roundtrip:
  "stateFromDatabase (stateToDatabase st) = (if st = StateCompleted then StateCompleted else StateActive)"
  by (simp add: stateToDatabase_def stateFromDatabase_def)

section \<open>Refinement of the memory repository\<close>

text \<open>The sessions a table holds. Rows that do not scan hold none.\<close>

definition table_sessions :: "db \<Rightarrow> MemoryRepository" where
  "table_sessions s i =
     (case t_uploads s i of
        None \<Rightarrow> None
      | Some row \<Rightarrow> (case scan_session i row of Inl _ \<Rightarrow> None | Inr x \<Rightarrow> Some x))"

text \<open>
  A session as the service makes them: canonical identifiers, one of the two states, an offset and an
  expiry the column types represent.
\<close>

definition storable :: "pg \<Rightarrow> UploadSession \<Rightarrow> bool" where
  "storable p x \<longleftrightarrow>
     validStorageID (us_ID x) \<and> validStorageID (us_SpaceID x) \<and> validStorageID (us_AccountID x)
     \<and> validStorageID (us_NodeID x) \<and> (us_ParentNodeID x = [] \<or> validStorageID (us_ParentNodeID x))
     \<and> pg_text_ok p (us_TargetName x) \<and> name_check p (us_TargetName x) \<and> 0 \<le> us_Offset x
     \<and> us_State x \<in> {StateActive, StateCompleted} \<and> pg_time p (us_ExpiresAt x) = us_ExpiresAt x"

text \<open>The rows the session refers to.\<close>

definition referenced :: "UploadSession \<Rightarrow> db \<Rightarrow> bool" where
  "referenced x s \<longleftrightarrow>
     t_spaces s (us_SpaceID x) \<and> t_accounts s (us_AccountID x) \<and> node_exists (us_NodeID x) s
     \<and> (us_ParentNodeID x = [] \<or> node_exists (us_ParentNodeID x) s)"

definition db_calm :: "db \<Rightarrow> bool" where
  "db_calm s \<longleftrightarrow> db_fault s = (\<lambda>_. None)"

text \<open>Every row scans.\<close>

definition uploads_scan :: "db \<Rightarrow> bool" where
  "uploads_scan s \<longleftrightarrow> (\<forall>i row. t_uploads s i = Some row \<longrightarrow> u_node row \<noteq> None)"

lemma statement_calm: "db_calm s \<Longrightarrow> statement f s = f (s\<lparr>db_tick := Suc (db_tick s)\<rparr>)"
  by (simp add: statement_def db_calm_def)

lemma pg_sound_uuid: "pg_sound p \<Longrightarrow> validStorageID t \<Longrightarrow> uuid_arg p t = Inr t"
  by (simp add: pg_sound_def uuid_arg_def)

lemma pg_sound_null_uuid:
  "pg_sound p \<Longrightarrow> t = [] \<or> validStorageID t \<Longrightarrow> null_uuid_arg p (nullif t) = Inr (nullif t)"
  by (auto simp: null_uuid_arg_def nullif_def pg_sound_uuid)

lemma table_sessions_None: "uploads_scan s \<Longrightarrow> table_sessions s i = None \<longleftrightarrow> t_uploads s i = None"
  by (fastforce simp: table_sessions_def uploads_scan_def scan_session_def split: option.splits)

lemma table_sessions_upd:
  "table_sessions (s\<lparr>t_uploads := (t_uploads s)(i \<mapsto> row)\<rparr>) =
     (table_sessions s)(i := (case scan_session i row of Inl _ \<Rightarrow> None | Inr x \<Rightarrow> Some x))"
  by (intro ext) (simp add: table_sessions_def)

lemma table_sessions_tick [simp]: "table_sessions (s\<lparr>db_tick := k\<rparr>) = table_sessions s"
  by (intro ext) (simp add: table_sessions_def)

lemma uploads_scan_tick [simp]: "uploads_scan (s\<lparr>db_tick := k\<rparr>) = uploads_scan s"
  by (simp add: uploads_scan_def)

lemma nullif_case [simp]: "(case nullif t of None \<Rightarrow> [] | Some q \<Rightarrow> q) = t"
  by (simp add: nullif_def)

lemma state_roundtrip:
  "st \<in> {StateActive, StateCompleted} \<Longrightarrow> stateFromDatabase (stateToDatabase st) = st"
  by (auto simp: stateToDatabase_def stateFromDatabase_def StateActive_def StateCompleted_def)

lemma stateToDatabase_ok: "stateToDatabase st \<in> {''open'', ''finalizing'', ''complete'', ''aborted'', ''expired''}"
  by (simp add: stateToDatabase_def)

text \<open>Sequences of calls on a repository, and their answers.\<close>

datatype repo_call = CallCreate UploadSession | CallGet string | CallUpdate UploadSession
datatype repo_answer = Stored "goerr + unit" | Found "goerr + UploadSession"

fun memory_call :: "repo_call \<Rightarrow> MemoryRepository \<Rightarrow> repo_answer \<times> MemoryRepository" where
  "memory_call (CallCreate x) m = apfst Stored (memory_Create x m)"
| "memory_call (CallGet i) m = apfst Found (memory_Get i m)"
| "memory_call (CallUpdate x) m = apfst Stored (memory_Update x m)"

fun pg_call :: "pg \<Rightarrow> repo_call \<Rightarrow> db \<Rightarrow> repo_answer \<times> db" where
  "pg_call p (CallCreate x) s = apfst Stored (pgupload_Create (Some p) x s)"
| "pg_call p (CallGet i) s = apfst Found (pgupload_Get (Some p) i s)"
| "pg_call p (CallUpdate x) s = apfst Stored (pgupload_Update (Some p) x s)"

fun run_calls :: "('c \<Rightarrow> 's \<Rightarrow> 'a \<times> 's) \<Rightarrow> 'c list \<Rightarrow> 's \<Rightarrow> 'a list \<times> 's" where
  "run_calls call [] s = ([], s)"
| "run_calls call (c # cs) s =
     (case call c s of (a, s1) \<Rightarrow> (case run_calls call cs s1 of (as, s2) \<Rightarrow> (a # as, s2)))"

text \<open>Answers agree up to the texts of errors: both or neither say that there is no such session.\<close>

fun same_result :: "(goerr + 'a) \<Rightarrow> (goerr + 'a) \<Rightarrow> bool" where
  "same_result (Inr x) (Inr y) = (x = y)"
| "same_result (Inl e) (Inl e') = (errors_Is e UploadsErrNotFound = errors_Is e' UploadsErrNotFound)"
| "same_result _ _ = False"

fun same_answer :: "repo_answer \<Rightarrow> repo_answer \<Rightarrow> bool" where
  "same_answer (Stored r) (Stored r') = same_result r r'"
| "same_answer (Found r) (Found r') = same_result r r'"
| "same_answer _ _ = False"

text \<open>
  Calls as the service makes them: sessions that can be stored and whose references exist, updates
  that keep the owner, the space and the expiry, look-ups of canonical identifiers.
\<close>

fun call_fits :: "pg \<Rightarrow> db \<Rightarrow> MemoryRepository \<Rightarrow> repo_call \<Rightarrow> bool" where
  "call_fits p s m (CallCreate x) = (storable p x \<and> referenced x s)"
| "call_fits p s m (CallGet i) = validStorageID i"
| "call_fits p s m (CallUpdate x) =
     (storable p x \<and> referenced x s
      \<and> (case m (us_ID x) of
           None \<Rightarrow> True
         | Some y \<Rightarrow> us_SpaceID x = us_SpaceID y \<and> us_AccountID x = us_AccountID y
             \<and> us_ExpiresAt x = us_ExpiresAt y))"

fun calls_fit :: "pg \<Rightarrow> db \<Rightarrow> MemoryRepository \<Rightarrow> repo_call list \<Rightarrow> bool" where
  "calls_fit p s m [] = True"
| "calls_fit p s m (c # cs) = (call_fits p s m c \<and> calls_fit p s (snd (memory_call c m)) cs)"

definition same_tables :: "db \<Rightarrow> db \<Rightarrow> bool" where
  "same_tables s s' \<longleftrightarrow> t_spaces s' = t_spaces s \<and> t_accounts s' = t_accounts s \<and> t_nodes s' = t_nodes s
     \<and> db_fault s' = db_fault s"

lemma same_tables_fit: "same_tables s s' \<Longrightarrow> calls_fit p s' m cs = calls_fit p s m cs"
proof (induction cs arbitrary: m)
  case (Cons c cs)
  then show ?case by (cases c) (simp_all add: same_tables_def referenced_def node_exists_def)
qed simp

text \<open>What one call does.\<close>

definition step_refines :: "pg \<Rightarrow> db \<Rightarrow> repo_call \<Rightarrow> bool" where
  "step_refines p s c \<longleftrightarrow>
     (case (pg_call p c s, memory_call c (table_sessions s)) of
        ((a, s'), (b, m')) \<Rightarrow> same_answer a b \<and> table_sessions s' = m' \<and> uploads_scan s' \<and> same_tables s s')"

lemma storable_args:
  assumes "pg_sound p" "storable p x"
  shows "uuid_arg p (us_ID x) = Inr (us_ID x)" "uuid_arg p (us_SpaceID x) = Inr (us_SpaceID x)"
    "uuid_arg p (us_NodeID x) = Inr (us_NodeID x)" "uuid_arg p (us_AccountID x) = Inr (us_AccountID x)"
    "null_uuid_arg p (nullif (us_ParentNodeID x)) = Inr (nullif (us_ParentNodeID x))"
    "text_arg p (us_TargetName x) = Inr (us_TargetName x)"
  using assms(2) pg_sound_uuid [OF assms(1)] pg_sound_null_uuid [OF assms(1)]
  by (auto simp: storable_def text_arg_def)

text \<open>The row of a session, and that it scans to the session.\<close>

definition session_row :: "UploadSession \<Rightarrow> upload_row" where
  "session_row x =
     \<lparr>u_space = us_SpaceID x, u_node = Some (us_NodeID x), u_parent = nullif (us_ParentNodeID x),
      u_account = us_AccountID x, u_target = us_TargetName x, u_received = us_Offset x,
      u_state = stateToDatabase (us_State x), u_expires = us_ExpiresAt x\<rparr>"

lemma scan_session_row: "storable p x \<Longrightarrow> scan_session (us_ID x) (session_row x) = Inr x"
  using state_roundtrip [of "us_State x"]
  by (cases x) (auto simp: storable_def scan_session_def session_row_def)

lemma session_row_ok:
  assumes "storable p x" "referenced x s"
  shows "upload_ok p (session_row x)" "null_node_exists (u_node (session_row x)) s"
    "null_node_exists (u_parent (session_row x)) s" "t_spaces s (u_space (session_row x))"
    "t_accounts s (u_account (session_row x))"
  using assms stateToDatabase_ok [of "us_State x"]
  by (auto simp: upload_ok_def session_row_def storable_def referenced_def null_node_exists_def nullif_def)

lemma put_row:
  assumes "storable p x" "uploads_scan s"
  shows "table_sessions (s\<lparr>t_uploads := (t_uploads s)(us_ID x \<mapsto> session_row x)\<rparr>) = (table_sessions s)(us_ID x \<mapsto> x)"
    and "uploads_scan (s\<lparr>t_uploads := (t_uploads s)(us_ID x \<mapsto> session_row x)\<rparr>)"
  using assms scan_session_row [OF assms(1)]
  by (auto simp: table_sessions_upd uploads_scan_def session_row_def)

lemma tables_tick [simp]:
  "referenced x (s\<lparr>db_tick := k\<rparr>) = referenced x s" "null_node_exists q (s\<lparr>db_tick := k\<rparr>) = null_node_exists q s"
  by (simp_all add: referenced_def null_node_exists_def node_exists_def split: option.split)

lemma Create_refines:
  assumes "pg_sound p" "db_calm s" "uploads_scan s" "storable p x" "referenced x s"
  shows "step_refines p s (CallCreate x)"
proof (cases "t_uploads s (us_ID x)")
  case None
  let ?t = "s\<lparr>db_tick := Suc (db_tick s)\<rparr>"
  have "insert_upload p (us_ID x) (session_row x) ?t
      = (Inr (), ?t\<lparr>t_uploads := (t_uploads ?t)(us_ID x \<mapsto> session_row x)\<rparr>)"
    using None session_row_ok [OF assms(4), of ?t] assms(5) by (simp add: insert_upload_def)
  then have "pgupload_Create (Some p) x s = (Inr (), ?t\<lparr>t_uploads := (t_uploads ?t)(us_ID x \<mapsto> session_row x)\<rparr>)"
    using assms(2,4) storable_args [OF assms(1,4)]
    by (simp add: pgupload_Create_def statement_calm arg_def session_row_def storable_def)
  moreover have "memory_Create x (table_sessions s) = (Inr (), (table_sessions s)(us_ID x \<mapsto> x))"
    using None table_sessions_None [OF assms(3)] by (simp add: memory_Create_def)
  ultimately show ?thesis
    using put_row [OF assms(4), of ?t] assms(3) by (simp add: step_refines_def same_tables_def)
next
  case (Some row)
  then have "table_sessions s (us_ID x) \<noteq> None" using table_sessions_None [OF assms(3)] by simp
  then show ?thesis
    using Some assms storable_args [OF assms(1,4)]
    by (auto simp: step_refines_def pgupload_Create_def statement_calm arg_def insert_upload_def
        memory_Create_def same_tables_def)
qed

lemma Get_refines:
  assumes "pg_sound p" "db_calm s" "uploads_scan s" "validStorageID i"
  shows "step_refines p s (CallGet i)"
  using assms pg_sound_uuid [OF assms(1,4)] table_sessions_None [OF assms(3), of i]
  by (auto simp: step_refines_def pgupload_Get_def statement_calm arg_def memory_Get_def table_sessions_def
      same_tables_def scan_session_def uploads_scan_def split: option.splits sum.splits)

lemma Update_refines:
  assumes "pg_sound p" "db_calm s" "uploads_scan s" "call_fits p s (table_sessions s) (CallUpdate x)"
  shows "step_refines p s (CallUpdate x)"
proof (cases "t_uploads s (us_ID x)")
  case None
  then have "table_sessions s (us_ID x) = None" by (simp add: table_sessions_def)
  then show ?thesis
    using None assms storable_args [OF assms(1), of x]
    by (auto simp: step_refines_def pgupload_Update_def statement_calm arg_def update_upload_def
        memory_Update_def same_tables_def)
next
  case (Some row)
  have x: "storable p x" "referenced x s" using assms(4) by simp_all
  obtain n where n: "u_node row = Some n" using Some assms(3) by (auto simp: uploads_scan_def)
  then have y: "us_SpaceID x = u_space row" "us_AccountID x = u_account row" "us_ExpiresAt x = u_expires row"
    "table_sessions s (us_ID x) \<noteq> None"
    using assms(4) Some by (simp_all add: table_sessions_def scan_session_def)
  let ?t = "s\<lparr>db_tick := Suc (db_tick s)\<rparr>"
  have "row\<lparr>u_received := us_Offset x, u_state := stateToDatabase (us_State x), u_node := Some (us_NodeID x),
      u_parent := nullif (us_ParentNodeID x), u_target := us_TargetName x\<rparr> = session_row x"
    using y by (cases row) (simp add: session_row_def)
  then have "pgupload_Update (Some p) x s = (Inr (), ?t\<lparr>t_uploads := (t_uploads ?t)(us_ID x \<mapsto> session_row x)\<rparr>)"
    using assms(2) Some x storable_args [OF assms(1) x(1)] session_row_ok [OF x(1), of ?t]
    by (simp add: pgupload_Update_def statement_calm arg_def update_upload_def)
  moreover have "memory_Update x (table_sessions s) = (Inr (), (table_sessions s)(us_ID x \<mapsto> x))"
    using y(4) by (simp add: memory_Update_def)
  ultimately show ?thesis
    using put_row [OF x(1), of ?t] assms(3) by (simp add: step_refines_def same_tables_def)
qed

lemma call_refines:
  "pg_sound p \<Longrightarrow> db_calm s \<Longrightarrow> uploads_scan s \<Longrightarrow> call_fits p s (table_sessions s) c \<Longrightarrow> step_refines p s c"
  by (cases c) (auto intro: Create_refines Get_refines Update_refines simp del: call_fits.simps(3) simp: call_fits.simps(1,2))

lemma run_refines:
  assumes "pg_sound p" "db_calm s" "uploads_scan s" "calls_fit p s (table_sessions s) cs"
    and "run_calls (pg_call p) cs s = (as, s')" "run_calls memory_call cs (table_sessions s) = (bs, m')"
  shows "list_all2 same_answer as bs \<and> table_sessions s' = m'"
  using assms
proof (induction cs arbitrary: s as bs)
  case (Cons c cs)
  obtain a s1 where a: "pg_call p c s = (a, s1)" by fastforce
  obtain b m1 where b: "memory_call c (table_sessions s) = (b, m1)" by fastforce
  have "step_refines p s c" using Cons.prems by (intro call_refines) simp_all
  then have k: "same_answer a b" "table_sessions s1 = m1" "uploads_scan s1" "same_tables s s1"
    using a b by (simp_all add: step_refines_def)
  obtain as1 s2 where as1: "run_calls (pg_call p) cs s1 = (as1, s2)" by fastforce
  obtain bs1 m2 where bs1: "run_calls memory_call cs m1 = (bs1, m2)" by fastforce
  have "db_calm s1" using k(4) Cons.prems(2) by (simp add: same_tables_def db_calm_def)
  moreover have "calls_fit p s1 m1 cs" using Cons.prems(4) b same_tables_fit [OF k(4)] by simp
  ultimately have "list_all2 same_answer as1 bs1 \<and> table_sessions s2 = m2"
    using Cons.IH [of s1 as1 bs1] Cons.prems(1) k as1 bs1 Cons.prems(5,6) a b by auto
  then show ?case using Cons.prems(5,6) a b as1 bs1 k(1,2) by auto
qed simp

end
