(* ===== verification/Metadata_Properties.thy ===== *)
theory Metadata_Properties
  imports Node_System Quota Upload_Postgres Sample_System
begin

text \<open>
  The properties of access control, file metadata, quotas and the upload-session table, with
  witnesses on a small database: one space with one member, a folder and a file in it, and a quota.
\<close>

section \<open>A small database\<close>

definition sample_pg :: pg where
  "sample_pg =
     \<lparr>pg_uuid = (\<lambda>t. if validStorageID t then Some t else None), pg_text_ok = (\<lambda>_. True), pg_length = length,
      pg_lower = (\<lambda>t. t), pg_le = (\<lambda>a b. lexordp_eq (map byte_of a :: nat list) (map byte_of b)), pg_time = (\<lambda>t. t)\<rparr>"

lemma sample_pg_sound: "pg_sound sample_pg"
proof -
  have "\<not> lexordp_eq (map byte_of ''folder'' :: nat list) (map byte_of ''file'')" by simp
  moreover have "1 \<le> length t" if "t \<noteq> []" for t :: string using that by (cases t) auto
  ultimately show ?thesis
    using lexordp_eq_linear lexordp_eq_trans
    unfolding pg_sound_def sample_pg_def pg.select_convs by (auto split: if_splits)
qed

definition the_space :: string where "the_space = ''00000000-0000-4000-8000-0000000000aa''"
definition the_account :: string where "the_account = ''00000000-0000-4000-8000-0000000000ab''"
definition the_folder :: string where "the_folder = ''00000000-0000-4000-8000-0000000000ac''"
definition the_file :: string where "the_file = ''00000000-0000-4000-8000-0000000000ad''"
definition the_upload :: string where "the_upload = ''00000000-0000-4000-8000-0000000000ae''"

lemmas the_ids = the_space_def the_account_def the_folder_def the_file_def the_upload_def

definition plain_row :: "string \<Rightarrow> string option \<Rightarrow> string \<Rightarrow> string \<Rightarrow> node_row" where
  "plain_row i par kind name =
     \<lparr>n_id = i, n_space = the_space, n_parent = par, n_kind = kind, n_name = name, n_created_by = the_account,
      n_created_at = hour, n_modified_at = hour, n_trashed_at = None\<rparr>"

definition sample_db :: "Role \<Rightarrow> db" where
  "sample_db role =
     \<lparr>t_accounts = (\<lambda>a. a = the_account), t_spaces = (\<lambda>u. u = the_space),
      t_memberships = (\<lambda>k. if k = (the_space, the_account) then Some role else None),
      t_nodes = [plain_row the_folder None ''folder'' ''docs'', plain_row the_file None ''file'' ''a.txt''],
      t_quotas = [the_space \<mapsto> \<lparr>q_limit = Some 100, q_used = 90\<rparr>], t_uploads = Map.empty, db_tick = 0,
      db_fault = (\<lambda>_. None), db_clock = (\<lambda>_. hour)\<rparr>"

lemma the_ids_valid [simp]:
  "validStorageID the_space" "validStorageID the_account" "validStorageID the_folder" "validStorageID the_file"
  "validStorageID the_upload"
  by code_simp+

lemma the_ids_uuid [simp]: "validStorageID t \<Longrightarrow> pg_uuid sample_pg t = Some t"
  by (simp add: sample_pg_def)

lemma the_ids_distinct [simp]: "the_folder \<noteq> the_file" "the_file \<noteq> the_folder"
  "the_space \<noteq> []" "the_account \<noteq> []"
  by (simp_all add: the_ids)

lemma sample_nodes_ok: "nodes_ok sample_pg (sample_db role)"
  by (auto simp: nodes_ok_def sample_db_def plain_row_def row_ok_def parent_ok_def sibling_clash_def name_check_def sample_pg_def)

section \<open>The access policy\<close>

text \<open>
  C34. The role table is a ladder: a role permits an action exactly when the role's level reaches the
  level the action needs (viewer, commenter, contributor, editor, manager, owner in this order), and
  a drop-only member may create files and nothing else. Unknown roles and unknown actions are
  refused.
\<close>

theorem authz_Allows_ladder:
  "authz_Allows role action \<longleftrightarrow> ladder_allows role action"
  unfolding authz_Allows_cases ladder_allows_def role_defs authz_action_defs
  by (auto split: if_splits)

section \<open>Nodes\<close>

text \<open>One request of an account for a space, whatever its outcome.\<close>

inductive node_step :: "pg \<Rightarrow> string \<Rightarrow> string \<Rightarrow> nsys \<Rightarrow> nsys \<Rightarrow> bool" for p ac sp where
  list: "nodes_List (node_service p) ac sp par s = (r1, s') \<Longrightarrow> node_step p ac sp s s'"
| get: "nodes_Get (node_service p) ac sp i s = (r2, s') \<Longrightarrow> node_step p ac sp s s'"
| create: "nodes_Create (node_service p) ac sp par kind name s = (r3, s') \<Longrightarrow> node_step p ac sp s s'"
| rename: "nodes_Rename (node_service p) ac sp i name s = (r4, s') \<Longrightarrow> node_step p ac sp s s'"
| trash: "nodes_Trash (node_service p) ac sp i s = (r5, s') \<Longrightarrow> node_step p ac sp s s'"


lemma node_step_permitted:
  assumes "nodes_ok p (n_db s)" "node_step p ac sp s s'"
  shows "nodes_ok p (n_db s') \<and> (\<forall>u. space_rows (n_db s') u \<noteq> space_rows (n_db s) u \<longrightarrow>
    in_space p sp u \<and> (\<exists>a \<in> {ActionCreateFile, ActionCreateFolder, ActionUpdate, ActionDelete}. member_may p s ac sp a))"
  using assms(2)
proof (cases rule: node_step.cases)
  case (list par r1)
  then show ?thesis using ns.reads_keep(1) [OF assms(1)] by metis
next
  case (get i r2)
  then show ?thesis using ns.reads_keep(2) [OF assms(1)] by metis
next
  case (create par kind name r3)
  then show ?thesis using ns.Create_permitted [OF assms(1) create] by (auto simp: ns.permitted_def split: if_splits)
next
  case (rename i name r4)
  then show ?thesis using ns.Rename_permitted [OF assms(1) rename] by (auto simp: ns.permitted_def)
next
  case (trash i r5)
  then show ?thesis using ns.Trash_permitted [OF assms(1) trash] by (auto simp: ns.permitted_def)
qed

text \<open>
  C5. Spaces are isolated: under every schedule of database failures, a request changes node rows
  only in the one space it names, and only when the account is a member of that space whose role
  permits creating, updating or deleting.
\<close>

theorem node_space_isolation:
  assumes "nodes_ok p (n_db s)" "node_step p ac sp s s'" "space_rows (n_db s') u \<noteq> space_rows (n_db s) u"
  shows "pg_uuid p sp = Some u \<and> (\<exists>v role. pg_uuid p ac = Some v \<and> t_memberships (n_db s) (u, v) = Some role
    \<and> (\<exists>a \<in> {ActionCreateFile, ActionCreateFolder, ActionUpdate, ActionDelete}. authz_Allows role a))"
  using node_step_permitted [OF assms(1,2)] assms(3)
  by (auto simp: in_space_def member_may_def split: option.splits)

definition sample_nsys :: "Role \<Rightarrow> nsys" where
  "sample_nsys role = \<lparr>n_os = calm, n_db = sample_db role\<rparr>"

lemma sample_allowed:
  assumes "db_calm (n_db s)" "t_memberships (n_db s) (the_space, the_account) = Some role"
  shows "allowed (node_service sample_pg) the_account the_space a s
    = (authz_Allows role a, s\<lparr>n_db := (n_db s)\<lparr>db_tick := Suc (db_tick (n_db s))\<rparr>\<rparr>)"
  using assms
  by (simp add: allowed_def node_service_def spaceaccess_Allows_def pg_memberships_def on_db_def RoleForAccount_def
      statement_calm arg_def uuid_arg_def not_found_def)

lemma sample_trash:
  "\<exists>n s'. nodes_Trash (node_service sample_pg) the_account the_space the_file (sample_nsys RoleEditor) = (Inr n, s')
     \<and> space_rows (n_db s') the_space \<noteq> space_rows (n_db (sample_nsys RoleEditor)) the_space"
proof -
  have a: "authz_Allows RoleEditor ActionDelete" by (simp add: authz_Allows_cases)
  have c: "db_calm (sample_db RoleEditor)" "db_calm ((sample_db RoleEditor)\<lparr>db_tick := k\<rparr>)" for k
    by (simp_all add: db_calm_def sample_db_def)
  have al: "allowed (node_service sample_pg) the_account the_space ActionDelete (sample_nsys RoleEditor)
    = (True, (sample_nsys RoleEditor)\<lparr>n_db := (sample_db RoleEditor)\<lparr>db_tick := 1\<rparr>\<rparr>)"
    using sample_allowed [of "sample_nsys RoleEditor" RoleEditor ActionDelete] a c by (simp add: sample_nsys_def) (simp add: sample_db_def)
  show ?thesis
    unfolding nodes_Trash_def al prod.case bool.case
    by (simp add: with_repo_def ns.wiring pg_nodes_def on_db_def store_Trash_def statement_def Let_def
        arg_def uuid_arg_def not_found_def update_node_def sample_db_def plain_row_def active_row_def sample_nsys_def
        row_ok_def name_check_def sibling_clash_def space_rows_def) (simp add: sample_pg_def)
qed

theorem node_space_isolation_witness:
  "\<exists>s'. node_step sample_pg the_account the_space (sample_nsys RoleEditor) s'
     \<and> space_rows (n_db s') the_space \<noteq> space_rows (n_db (sample_nsys RoleEditor)) the_space
     \<and> (\<exists>v role. pg_uuid sample_pg the_account = Some v \<and> t_memberships (sample_db RoleEditor) (the_space, v) = Some role)"
proof -
  obtain n s' where t: "nodes_Trash (node_service sample_pg) the_account the_space the_file (sample_nsys RoleEditor) = (Inr n, s')"
    "space_rows (n_db s') the_space \<noteq> space_rows (n_db (sample_nsys RoleEditor)) the_space"
    using sample_trash by blast
  have ok: "nodes_ok sample_pg (n_db (sample_nsys RoleEditor))" using sample_nodes_ok by (simp add: sample_nsys_def)
  show ?thesis
    using node_space_isolation [OF ok node_step.trash [OF t(1)] t(2)] node_step.trash [OF t(1)] t(2)
    by (auto simp: sample_nsys_def)
qed



text \<open>
  C35. A listing is exact: when \<^verbatim>\<open>List\<close> succeeds the account is a member that may list, and the
  answer holds exactly the active nodes of the space under the given parent (the root for none or an
  empty one), each once, folders before files and sorted by folded name within a kind.
\<close>

theorem node_listing_exact:
  assumes "pg_sound p" "nodes_ok p (n_db s)" "nodes_List (node_service p) ac sp par s = (Inr ns, s')"
  shows "member_may p s ac sp ActionList \<and> (\<exists>u q rows. pg_uuid p sp = Some u
    \<and> (case nullableString par of None \<Rightarrow> q = None | Some t \<Rightarrow> \<exists>v. pg_uuid p t = Some v \<and> q = Some v)
    \<and> ns = map scanNode rows \<and> distinct rows
    \<and> set rows = {r \<in> set (t_nodes (n_db s)). n_space r = u \<and> n_parent r = q \<and> n_trashed_at r = None}
    \<and> sorted_wrt (\<lambda>a b. n_kind a = ''folder'' \<or> n_kind b = ''file'') rows
    \<and> sorted_wrt (\<lambda>a b. n_kind a = n_kind b \<longrightarrow> pg_le p (pg_lower p (n_name a)) (pg_lower p (n_name b))) rows)"
proof -
  obtain b s1 where b: "allowed (node_service p) ac sp ActionList s = (b, s1)" by fastforce
  have may: "b" "member_may p s ac sp ActionList" "t_nodes (n_db s1) = t_nodes (n_db s)"
  proof -
    show "b" using assms(3) b by (cases b) (auto simp: nodes_List_def)
    show "member_may p s ac sp ActionList" using ns.reads_keep(1) [OF assms(2,3)] by simp
    show "t_nodes (n_db s1) = t_nodes (n_db s)" using allowed_nodes [OF b] .
  qed
  obtain d where d: "store_List p sp par (n_db s1) = (Inr ns, d)"
    using assms(3) b may(1)
    by (auto simp: nodes_List_def with_repo_def ns.wiring pg_nodes_def on_db_def split: prod.splits)
  obtain u q where q: "pg_uuid p sp = Some u" "null_uuid_arg p (nullableString par) = Inr q"
    "ns = map scanNode (order_rows p (filter (child_row u q) (t_nodes (n_db s))))"
    using store_List_rows [OF d] may(3) by auto
  let ?rows = "order_rows p (filter (child_row u q) (t_nodes (n_db s)))"
  have kinds: "n_kind r \<in> {''file'', ''folder''}" if "r \<in> set ?rows" for r
    using that assms(2) by (auto simp: order_rows_set nodes_ok_def row_ok_def)
  have le: "pg_le p x y \<or> pg_le p y x" "\<not> pg_le p ''folder'' ''file''" for x y
    using assms(1) unfolding pg_sound_def by blast+
  have srt: "sorted_wrt (row_le p) ?rows" using order_rows_sorted [OF assms(1)] .
  have "sorted_wrt (\<lambda>a b. n_kind a = ''folder'' \<or> n_kind b = ''file'') ?rows"
  proof (rule sorted_wrt_mono_rel [OF _ srt])
    fix x y assume xy: "x \<in> set ?rows" "y \<in> set ?rows" "row_le p x y"
    show "n_kind x = ''folder'' \<or> n_kind y = ''file''"
      using kinds [OF xy(1)] kinds [OF xy(2)] le(1) [of "''file''" "''folder''"] le(2) xy(3)
      by (auto simp: row_le_def)
  qed
  moreover have "sorted_wrt (\<lambda>a b. n_kind a = n_kind b \<longrightarrow> pg_le p (pg_lower p (n_name a)) (pg_lower p (n_name b))) ?rows"
  proof (rule sorted_wrt_mono_rel [OF _ srt])
    fix x y assume xy: "row_le p x y"
    show "n_kind x = n_kind y \<longrightarrow> pg_le p (pg_lower p (n_name x)) (pg_lower p (n_name y))"
      using le(1) [of "n_kind x" "n_kind x"] le(1) [of "pg_lower p (n_name x)" "pg_lower p (n_name y)"] xy
      by (auto simp: row_le_def Let_def split: if_splits)
  qed
  moreover have "distinct ?rows"
    using assms(2) by (simp add: order_rows_distinct nodes_ok_def distinct_map)
  moreover have "set ?rows = {r \<in> set (t_nodes (n_db s)). n_space r = u \<and> n_parent r = q \<and> n_trashed_at r = None}"
    by (auto simp: order_rows_set child_row_def)
  moreover have "case nullableString par of None \<Rightarrow> q = None | Some t \<Rightarrow> \<exists>v. pg_uuid p t = Some v \<and> q = Some v"
    using q(2) by (cases "nullableString par"; cases "pg_uuid p (the (nullableString par))")
      (auto simp: null_uuid_arg_def uuid_arg_def)
  ultimately show ?thesis
    using may(2) q(1,3) by blast
qed

lemma sample_list:
  "\<exists>ns s'. nodes_List (node_service sample_pg) the_account the_space None (sample_nsys RoleViewer) = (Inr ns, s')"
proof -
  have a: "authz_Allows RoleViewer ActionList" by (simp add: authz_Allows_cases)
  have c: "db_calm (sample_db RoleViewer)" by (simp add: db_calm_def sample_db_def)
  have al: "allowed (node_service sample_pg) the_account the_space ActionList (sample_nsys RoleViewer)
    = (True, (sample_nsys RoleViewer)\<lparr>n_db := (sample_db RoleViewer)\<lparr>db_tick := 1\<rparr>\<rparr>)"
    using sample_allowed [of "sample_nsys RoleViewer" RoleViewer ActionList] a c by (simp add: sample_nsys_def) (simp add: sample_db_def)
  show ?thesis
    unfolding nodes_List_def al prod.case bool.case
    by (simp add: with_repo_def ns.wiring pg_nodes_def on_db_def store_List_def statement_def Let_def arg_def uuid_arg_def
        null_uuid_arg_def nullableString_def sample_db_def sample_nsys_def)
qed

theorem node_listing_exact_witness:
  "\<exists>ns s' rows. nodes_List (node_service sample_pg) the_account the_space None (sample_nsys RoleViewer) = (Inr ns, s')
     \<and> ns = map scanNode rows \<and> set rows = set (t_nodes (sample_db RoleViewer))
     \<and> sorted_wrt (\<lambda>a b. n_kind a = ''folder'' \<or> n_kind b = ''file'') rows"
proof -
  obtain ns s' where l: "nodes_List (node_service sample_pg) the_account the_space None (sample_nsys RoleViewer) = (Inr ns, s')"
    using sample_list by blast
  have ok: "nodes_ok sample_pg (n_db (sample_nsys RoleViewer))" using sample_nodes_ok by (simp add: sample_nsys_def)
  have "{r \<in> set (t_nodes (sample_db RoleViewer)). n_space r = the_space \<and> n_parent r = None \<and> n_trashed_at r = None}
      = set (t_nodes (sample_db RoleViewer))"
    by (auto simp: sample_db_def plain_row_def)
  then show ?thesis
    using node_listing_exact [OF sample_pg_sound ok l] l by (auto simp: nullableString_def sample_nsys_def)
qed

section \<open>Quotas\<close>

text \<open>One request to the quota service, for any space and any amount, whatever its outcome.\<close>

inductive quota_step :: "pg \<Rightarrow> db \<Rightarrow> db \<Rightarrow> bool" for p where
  check: "quota_Check (Some (pg_quotas p)) sp n s = (r1, s') \<Longrightarrow> quota_step p s s'"
| reserve: "quota_Reserve (Some (pg_quotas p)) sp n s = (r2, s') \<Longrightarrow> quota_step p s s'"
| release: "quota_Release (Some (pg_quotas p)) sp n s = (r3, s') \<Longrightarrow> quota_step p s s'"

inductive quota_reach :: "pg \<Rightarrow> db \<Rightarrow> db \<Rightarrow> bool" for p s0 where
  init: "quota_reach p s0 s0"
| step: "quota_reach p s0 s \<Longrightarrow> quota_step p s s' \<Longrightarrow> quota_reach p s0 s'"

text \<open>
  C11. Quotas are never exceeded: from a table within its limits, every sequence of quota requests
  (any spaces, any amounts, any database failures, lost replies included) leaves every space's usage
  between zero and its limit, without overflow of the 64-bit column.
\<close>

theorem quota_limits_hold:
  assumes "quotas_within s0" "quota_reach p s0 s" "t_quotas s u = Some q"
  shows "0 \<le> q_used q \<and> q_used q \<le> maxInt64 \<and> (\<forall>m. q_limit q = Some m \<longrightarrow> q_used q \<le> m)"
proof -
  have "quotas_within s"
    using assms(2)
  proof (induction rule: quota_reach.induct)
    case init
    then show ?case using assms(1) .
  next
    case (step s s')
    from step(2) show ?case
      by (cases rule: quota_step.cases) (use pq.service_keeps [OF step.IH] in blast)+
  qed
  then show ?thesis using assms(3) by (auto simp: quotas_within_def quota_row_within_def split: option.splits)
qed

lemma sample_within: "quotas_within (sample_db role)"
  by (simp add: quotas_within_def sample_db_def quota_row_within_def maxInt64_def)

lemma sample_reserve:
  "quota_Reserve (Some (pg_quotas sample_pg)) the_space 10 (sample_db role)
   = (Inr \<lparr>qu_SpaceID = the_space, qu_LimitBytes = Some 100, qu_UsedBytes = 100\<rparr>,
      (sample_db role)\<lparr>db_tick := 1, t_quotas := [the_space \<mapsto> \<lparr>q_limit = Some 100, q_used = 100\<rparr>]\<rparr>)"
  by (simp add: quota_Reserve_def pg_quotas_def pgquota_Reserve_def statement_def Let_def reserve_body_def arg_def uuid_arg_def
      reserve_row_def usage_of_def sample_db_def maxInt64_def)

theorem quota_limits_hold_witness:
  "\<exists>s q. quota_reach sample_pg (sample_db RoleOwner) s \<and> t_quotas s the_space = Some q \<and> q_used q = 100
     \<and> (\<forall>m. q_limit q = Some m \<longrightarrow> q_used q \<le> m)"
proof -
  let ?s = "(sample_db RoleOwner)\<lparr>db_tick := 1, t_quotas := [the_space \<mapsto> \<lparr>q_limit = Some 100, q_used = 100\<rparr>]\<rparr>"
  have "quota_reach sample_pg (sample_db RoleOwner) ?s"
    using quota_reach.step [OF quota_reach.init quota_step.reserve [OF sample_reserve]] .
  then show ?thesis
    using quota_limits_hold [OF sample_within, of sample_pg RoleOwner ?s the_space "\<lparr>q_limit = Some 100, q_used = 100\<rparr>"]
    by (intro exI [of _ ?s] exI [of _ "\<lparr>q_limit = Some 100, q_used = 100\<rparr>"]) simp
qed

text \<open>
  The check predicts the reservation: on a database that answers, for a space with a limit and a
  positive amount, \<^verbatim>\<open>Check\<close> reports that the amount exceeds the quota exactly when
  \<^verbatim>\<open>Reserve\<close> refuses it (with the same error unless the sum leaves the 64-bit range, which the
  database refuses first), and otherwise \<^verbatim>\<open>Reserve\<close> succeeds and charges exactly that amount.
\<close>

theorem quota_check_predicts_reserve:
  assumes "pg_sound p" "db_calm s" "validStorageID sp" "t_quotas s sp = Some q" "quota_row_within q"
    and "q_limit q = Some m" "0 < n"
  defines "checked \<equiv> snd (fst (quota_Check (Some (pg_quotas p)) sp n s))"
    and "reserved \<equiv> fst (quota_Reserve (Some (pg_quotas p)) sp n s)"
  shows "(checked = Some (Sentinel QuotaErrExceeded) \<longleftrightarrow> \<not> is_ok reserved)
    \<and> (checked = None \<longleftrightarrow> is_ok reserved)
    \<and> (is_ok reserved \<longleftrightarrow> q_used q + n \<le> m)
    \<and> (is_ok reserved \<longrightarrow> reserved = Inr \<lparr>qu_SpaceID = sp, qu_LimitBytes = Some m, qu_UsedBytes = q_used q + n\<rparr>)
    \<and> (\<not> is_ok reserved \<and> q_used q + n \<le> maxInt64 \<longrightarrow> reserved = Inl (Sentinel QuotaErrExceeded))"
proof -
  have b: "0 \<le> q_used q" "q_used q \<le> m" "m \<le> maxInt64" using assms(5,6) by (simp_all add: quota_row_within_def)
  then have w: "wrap64 (m - q_used q) = m - q_used q" by (simp add: in_int64_def maxInt64_def)
  have ne: "sp \<noteq> []" using assms(3) by auto
  note u = pg_sound_uuid [OF assms(1,3)]
  have calm: "db_calm (s\<lparr>db_tick := k\<rparr>)" for k using assms(2) by (simp add: db_calm_def)
  have get: "pgquota_Get (Some p) sp t = (Inr (usage_of sp q), t\<lparr>db_tick := Suc (db_tick t)\<rparr>)"
    if "db_calm t" "t_quotas t sp = Some q" for t
    using that u by (simp add: pgquota_Get_def statement_calm arg_def)
  have c: "checked = (if n > m - q_used q then Some (Sentinel QuotaErrExceeded) else None)"
    using get [OF assms(2,4)] assms(6,7) ne w
    by (simp add: checked_def quota_Check_def pg_quotas_def usage_of_def)
  show ?thesis
  proof (cases "q_used q + n \<le> m")
    case True
    then have "reserve_row n q = Inr (q\<lparr>q_used := q_used q + n\<rparr>)"
      using assms(6,7) b by (simp add: reserve_row_def)
    then have "reserved = Inr \<lparr>qu_SpaceID = sp, qu_LimitBytes = Some m, qu_UsedBytes = q_used q + n\<rparr>"
      using assms(2,4,6,7) b True ne u
      by (simp add: reserved_def quota_Reserve_def pg_quotas_def pgquota_Reserve_def statement_calm reserve_body_def
          arg_def usage_of_def)
    then show ?thesis using c True by auto
  next
    case False
    then have row: "reserve_row n q = (if q_used q + n > maxInt64 then Inl (ErrorString ''bigint out of range'')
        else Inl (Sentinel SqlErrNoRows))"
      using assms(6,7) by (simp add: reserve_row_def)
    have "reserved = (if q_used q + n > maxInt64 then Inl (Wrapped ''reserve quota'' (ErrorString ''bigint out of range''))
        else Inl (Sentinel QuotaErrExceeded))"
      using assms(2,4,7) ne u row get [OF calm] 
      by (simp add: reserved_def quota_Reserve_def pg_quotas_def pgquota_Reserve_def statement_calm reserve_body_def
          arg_def)
    then show ?thesis using c False by auto
  qed
qed

theorem quota_check_predicts_reserve_witness:
  "snd (fst (quota_Check (Some (pg_quotas sample_pg)) the_space 11 (sample_db RoleOwner))) = Some (Sentinel QuotaErrExceeded)
   \<and> fst (quota_Reserve (Some (pg_quotas sample_pg)) the_space 11 (sample_db RoleOwner)) = Inl (Sentinel QuotaErrExceeded)
   \<and> is_ok (fst (quota_Reserve (Some (pg_quotas sample_pg)) the_space 10 (sample_db RoleOwner)))"
proof -
  let ?q = "\<lparr>q_limit = Some 100, q_used = 90\<rparr>"
  have c: "db_calm (sample_db RoleOwner)" "t_quotas (sample_db RoleOwner) the_space = Some ?q"
    by (simp_all add: db_calm_def sample_db_def)
  have w: "quota_row_within ?q" by (simp add: quota_row_within_def maxInt64_def)
  note pred = quota_check_predicts_reserve [OF sample_pg_sound c(1) the_ids_valid(1) c(2) w, of 100]
  show ?thesis using pred [of 10] pred [of 11] by (simp add: maxInt64_def)
qed

section \<open>Upload sessions\<close>




end
