(* ===== verification/Http_Properties.thy ===== *)
theory Http_Properties
  imports Server Upload_Properties Security_Properties Metadata_Properties
begin

text \<open>
  Properties of the HTTP boundary together with the services behind it: what an answer of a handler
  says about the state of the system.
\<close>

section \<open>Completing uploads\<close>

text \<open>
  C18. An HTTP 200 answer to a completion means published and scanned: whatever call fails below, when
  the handler answers 200 the resolver named the account that owns the session, the session named in
  the path is completed, and the bytes published under its node were cleared by the scanner. A
  resolver only reads the request.
\<close>

theorem http_complete_published:
  assumes "scanner_ok l scan" "usys_inv l s" "\<forall>r s. snd (resolve r s) = s"
    and run: "completeUploadHandler (Some resolve) (upload_api (upload_service l scan mx ttl)) r s = (Some resp, s')"
    and ok: "rs_status resp = 200"
  shows "\<exists>who x bs. resolve r s = (Inr who, s) \<and> rs_payload resp = SessionValue x
    \<and> us_AccountID x = AccountID who \<and> us_SpaceID x = hq_PathValue r ''spaceID''
    \<and> us_ID x = hq_PathValue r ''uploadID'' \<and> us_State x = StateCompleted
    \<and> object_view l s' (us_SpaceID x, us_NodeID x) = Some bs \<and> scan_cleared l scan (us_SpaceID x) (us_NodeID x) bs"
proof -
  obtain a s1 where a: "resolve r s = (a, s1)" by fastforce
  have s1: "s1 = s" using assms(3) a by (metis snd_conv)
  obtain who where who: "a = Inr who" "AccountID who \<noteq> []"
    using run a ok by (cases a) (auto simp: completeUploadHandler_def resolvePrincipal_def writeJSON_def split: if_splits)
  let ?sp = "hq_PathValue r ''spaceID''" and ?up = "hq_PathValue r ''uploadID''"
  obtain x err s2 where c: "uploads_Complete (upload_service l scan mx ttl) (AccountID who) ?sp ?up s = ((x, err), s2)"
    by (metis prod.collapse)
  have "err = None \<and> s' = s2 \<and> rs_payload resp = SessionValue x"
    using run a s1 who c ok
    by (auto simp: completeUploadHandler_def resolvePrincipal_def writeJSON_def writeUploadError_def writeJSON_with_def
        upload_api_def split: option.splits if_splits)
  then show ?thesis
    using us.Complete_success [OF assms(1,2), of mx ttl "AccountID who" ?sp ?up x s2] c a s1 who by auto
qed

definition sample_complete_request :: http_request where
  "sample_complete_request =
     \<lparr>hq_PathValue = (\<lambda>k. if k = ''spaceID'' then sample_space else sample_upload), hq_Query = (\<lambda>_. []),
      hq_Header = (\<lambda>_. []), hq_Body = \<lparr>rd_data = [], rd_fail = False\<rparr>\<rparr>"

definition ann :: "(http_request, 's) Resolver" where
  "ann r s = (Inr \<lparr>AccountID = ''ann''\<rparr>, s)"

theorem http_complete_published_witness:
  "\<exists>resp s'. completeUploadHandler (Some ann) (upload_api sample_service) sample_complete_request sample_usys = (Some resp, s')
     \<and> rs_status resp = 200 \<and> (\<exists>bs. object_view sample_local s' (sample_space, sample_target) = Some bs
       \<and> scan_cleared sample_local sample_scan sample_space sample_target bs)"
proof -
  let ?x = "sample_session\<lparr>us_State := StateCompleted\<rparr>"
  obtain s' where c: "uploads_Complete sample_service ''ann'' sample_space sample_upload sample_usys = ((?x, None), s')"
    using sample_completes by blast
  let ?resp = "\<lparr>rs_status = 200, rs_headers = [], rs_payload = SessionValue ?x\<rparr>"
  have run: "completeUploadHandler (Some ann) (upload_api sample_service) sample_complete_request sample_usys = (Some ?resp, s')"
    using c by (simp add: completeUploadHandler_def resolvePrincipal_def ann_def upload_api_def writeJSON_def
        sample_complete_request_def)
  then show ?thesis
    using http_complete_published [OF scanner_quiet_ok [OF sample_quiet] sample_usys_inv(2) _ run]
    by (auto simp: ann_def sample_session_def)
qed

section \<open>The Wardveil endpoints\<close>




section \<open>Drop-only members\<close>

text \<open>
  A drop-only member holds the capability to create files, but the upload handler also reads the target
  node, which the role forbids: every upload such a member starts is refused.
\<close>

lemma drop_only_cannot_upload:
  assumes "dp_Memberships deps = Some members" "\<forall>s. fst (members (AccountID who) (hq_PathValue r ''spaceID'') s) = Inr RoleDropOnly"
    and "\<forall>s. fst (resolve r s) = Inr who"
    and run: "createUploadHandler (Some resolve) (dep_access deps) (dep_nodes deps) api r s = (Some resp, s')"
  shows "rs_status resp \<in> {400, 401, 403}"
proof -
  have d: "\<exists>s''. members (AccountID who) (hq_PathValue r ''spaceID'') s = (Inr RoleDropOnly, s'')" for s
    using assms(2) by (metis prod.collapse)
  have no_read: "\<not> authz_Allows RoleDropOnly ActionRead" by code_simp
  have forbidden: "\<exists>s''. nodes_Get (dep_nodes deps) (AccountID who) (hq_PathValue r ''spaceID'') i s = (Inl (Sentinel NodesErrForbidden), s'')"
    for i s using d [of s] no_read
    by (auto simp: nodes_Get_def allowed_def dep_nodes_def dep_access_def spaceaccess_Allows_def assms(1))
  obtain s1 where s1: "resolve r s = (Inr who, s1)" using assms(3) by (metis prod.collapse)
  show ?thesis
  proof (cases "AccountID who = []")
    case True
    then show ?thesis using run s1 by (auto simp: createUploadHandler_def resolvePrincipal_def writeJSON_def)
  next
    case False
    obtain ok s2 where a: "dep_access deps (AccountID who) (hq_PathValue r ''spaceID'') ActionCreateFile s1 = (ok, s2)" by fastforce
    show ?thesis
    proof (cases "decodeJSON node_id_fields \<lparr>ni_NodeID = []\<rparr> r")
      case None
      then show ?thesis using run s1 False a
        by (cases ok) (auto simp: createUploadHandler_def resolvePrincipal_def writeJSON_def Let_def)
    next
      case (Some body)
      obtain s3 where "nodes_Get (dep_nodes deps) (AccountID who) (hq_PathValue r ''spaceID'') (ni_NodeID body) s2
          = (Inl (Sentinel NodesErrForbidden), s3)" using forbidden by blast
      then show ?thesis using run s1 False a Some
        by (cases ok) (auto simp: createUploadHandler_def resolvePrincipal_def writeJSON_def writeNodeError_def Let_def)
    qed
  qed
qed

end
