(* ===== verification/Http_Frame.thy ===== *)
theory Http_Frame
  imports Http_Routes
begin

text \<open>
  What every request of \<^verbatim>\<open>internal/httpapi\<close> keeps: a relation between states that holds across each
  call of the services, the resolver, the membership look-up, the node repository and the file server
  holds across the handling of a request, whatever its method, path, headers and body.
\<close>

section \<open>Calls within a relation\<close>

definition keeps_rel :: "('s \<Rightarrow> 's \<Rightarrow> bool) \<Rightarrow> ('s \<Rightarrow> 'r \<times> 's) \<Rightarrow> bool" where
  "keeps_rel R f \<longleftrightarrow> (\<forall>s. R s (snd (f s)))"

lemma keeps_relI: "(\<And>s r s'. f s = (r, s') \<Longrightarrow> R s s') \<Longrightarrow> keeps_rel R f"
  by (metis keeps_rel_def prod.collapse)

lemma keeps_relD: "keeps_rel R f \<Longrightarrow> f s = (r, s') \<Longrightarrow> R s s'"
  by (metis keeps_rel_def snd_conv)

lemma keeps_rel_mono: "keeps_rel Q f \<Longrightarrow> (\<And>s t. Q s t \<Longrightarrow> R s t) \<Longrightarrow> keeps_rel R f"
  by (simp add: keeps_rel_def)

lemma writeJSON_snd [simp]:
  "snd (writeJSON st v s) = s" "snd (writeJSON_with hs st v s) = s" "snd (writeNodeError e s) = s"
  "snd (writeUploadError hs u s) = s"
  by (simp_all add: writeJSON_def writeJSON_with_def writeNodeError_def writeUploadError_def)

lemma preset_header_snd [simp]: "snd (preset_header k v rs) = snd rs"
  by (auto simp: preset_header_def split: prod.split option.split)

lemma middleware_snd: "snd (middleware rand nxt w s) = snd (nxt w (snd (rand s)))"
  by (auto simp: middleware_def requestLogging_def securityHeaders_def requestID_def split: prod.split sum.split)

text \<open>Which route a request takes.\<close>

lemma match_path_Lit: "match_path (Lit x # ps) p = Some vs \<longleftrightarrow> (\<exists>q. p = x # q \<and> match_path ps q = Some vs)"
  by (cases p) auto

lemma match_path_Nil: "match_path [] p = Some vs \<longleftrightarrow> p = [] \<and> vs = []"
  by (cases p) auto

lemma mux_find_method:
  "mux_find rs m p = Some (vs, h) \<Longrightarrow>
   \<exists>m' pat. (m', pat, h) \<in> set rs \<and> match_path pat p = Some vs \<and> (m' = m \<or> m' = ''GET'')"
  by (auto simp: mux_find_def split: option.splits if_splits dest!: find_route_member)

lemma ServeMux_snd:
  "snd (ServeMux rs h w s) = snd (case mux_find rs (wq_Method w) (wq_Path w) of
     Some (vs, h') \<Rightarrow> h' (bind_path vs (wq_Request w)) s | None \<Rightarrow> h w s)"
  by (simp add: ServeMux_def)

definition quarantine_apply_path :: "string list" where
  "quarantine_apply_path = [''internal'', ''v1'', ''wardveil'', ''quarantine'', ''apply'']"

text \<open>The parts a server is built from keep a relation.\<close>

definition repo_keeps :: "('s \<Rightarrow> 's \<Rightarrow> bool) \<Rightarrow> 's NodeRepository \<Rightarrow> bool" where
  "repo_keeps R repo \<longleftrightarrow>
     (\<forall>sp p. keeps_rel R (nr_List repo sp p)) \<and> (\<forall>sp i. keeps_rel R (nr_Get repo sp i))
     \<and> (\<forall>x. keeps_rel R (nr_Create repo x)) \<and> (\<forall>sp i n. keeps_rel R (nr_Rename repo sp i n))
     \<and> (\<forall>sp i. keeps_rel R (nr_Trash repo sp i))"

definition deps_keep :: "('s \<Rightarrow> 's \<Rightarrow> bool) \<Rightarrow> 's Dependencies \<Rightarrow> bool" where
  "deps_keep R deps \<longleftrightarrow>
     (\<forall>f r. dp_Principals deps = Some f \<longrightarrow> keeps_rel R (f r))
     \<and> (\<forall>f a sp. dp_Memberships deps = Some f \<longrightarrow> keeps_rel R (f a sp))
     \<and> (\<forall>repo. dp_Nodes deps = Some repo \<longrightarrow> repo_keeps R repo) \<and> keeps_rel R (dp_rand deps)"

definition api_keeps :: "('s \<Rightarrow> 's \<Rightarrow> bool) \<Rightarrow> 's UploadApi \<Rightarrow> bool" where
  "api_keeps R api \<longleftrightarrow>
     (\<forall>a sp n p name. keeps_rel R (ua_Create api a sp n p name)) \<and> (\<forall>a sp up. keeps_rel R (ua_Get api a sp up))
     \<and> (\<forall>a sp up off rd. keeps_rel R (ua_Append api a sp up off rd)) \<and> (\<forall>a sp up. keeps_rel R (ua_Complete api a sp up))"

locale step_relation =
  fixes R :: "'s \<Rightarrow> 's \<Rightarrow> bool"
  assumes refl: "R s s" and trans: "R s t \<Longrightarrow> R t u \<Longrightarrow> R s u"
begin

lemma bind:
  assumes "keeps_rel R f" "\<And>x s'. R s' (snd (g x s'))"
  shows "R s (snd (case f s of (x, s') \<Rightarrow> g x s'))"
  using assms trans [OF keeps_relD [OF assms(1)]] by (simp split: prod.split)

lemma resolve:
  assumes "\<And>f. principals = Some f \<Longrightarrow> keeps_rel R (f r)" "\<And>who. keeps_rel R (k who)"
  shows "keeps_rel R (resolvePrincipal principals r k)"
  unfolding keeps_rel_def
proof
  fix s
  show "R s (snd (resolvePrincipal principals r k s))"
  proof (cases principals)
    case None
    then show ?thesis by (simp add: resolvePrincipal_def refl)
  next
    case (Some f)
    obtain a s1 where a: "f r s = (a, s1)" by fastforce
    have "R s s1" using keeps_relD [OF assms(1) [OF Some] a] .
    moreover have "R s1 (snd (k who s1))" for who using assms(2) by (simp add: keeps_rel_def)
    ultimately show ?thesis
      using Some a by (auto simp: resolvePrincipal_def intro: trans split: sum.split)
  qed
qed

lemma access:
  assumes "deps_keep R deps"
  shows "keeps_rel R (dep_access deps a sp act)"
proof (rule keeps_relI)
  fix s r s' assume run: "dep_access deps a sp act s = (r, s')"
  show "R s s'"
  proof (cases "dp_Memberships deps")
    case None
    then show ?thesis using run refl by (simp add: dep_access_def spaceaccess_Allows_def)
  next
    case (Some f)
    obtain x s1 where x: "f a sp s = (x, s1)" by fastforce
    have "keeps_rel R (f a sp)" using assms Some by (simp add: deps_keep_def)
    from keeps_relD [OF this x] show ?thesis
      using run Some x refl by (auto simp: dep_access_def spaceaccess_Allows_def split: if_splits sum.splits)
  qed
qed

lemma allowed:
  assumes "deps_keep R deps"
  shows "keeps_rel R (allowed (dep_nodes deps) a sp act)"
  using access [OF assms, of a sp act] refl
  by (auto simp: allowed_def dep_nodes_def keeps_rel_def)

lemma guarded:
  assumes deps: "deps_keep R deps"
    and call: "\<And>repo. dp_Nodes deps = Some repo \<Longrightarrow> keeps_rel R (call repo)"
  shows "R s (snd (case allowed (dep_nodes deps) a sp act s of
      (False, s1) \<Rightarrow> (Inl e, s1) | (True, s1) \<Rightarrow> with_repo (dep_nodes deps) call s1))"
proof -
  have "R s1 (snd (with_repo (dep_nodes deps) call s1))" for s1
    using call refl by (auto simp: with_repo_def dep_nodes_def keeps_rel_def split: option.split)
  then have "R s' (snd (if x then with_repo (dep_nodes deps) call s' else (Inl e, s')))" for x s'
    using refl by simp
  from bind [OF allowed [OF deps, of a sp act], of "\<lambda>x s'. if x then with_repo (dep_nodes deps) call s' else (Inl e, s')" s, OF this]
  show ?thesis by (auto split: prod.split bool.split)
qed

lemma nodes_ops:
  assumes deps: "deps_keep R deps"
  shows "keeps_rel R (nodes_List (dep_nodes deps) a sp p)" "keeps_rel R (nodes_Get (dep_nodes deps) a sp i)"
    "keeps_rel R (nodes_Create (dep_nodes deps) a sp p kind name)"
    "keeps_rel R (nodes_Rename (dep_nodes deps) a sp i name)" "keeps_rel R (nodes_Trash (dep_nodes deps) a sp i)"
proof -
  have repo: "repo_keeps R repo" if "dp_Nodes deps = Some repo" for repo using deps that by (simp add: deps_keep_def)
  have rand: "keeps_rel R (ns_rand (dep_nodes deps))" using deps by (simp add: deps_keep_def dep_nodes_def)
  show "keeps_rel R (nodes_List (dep_nodes deps) a sp p)" "keeps_rel R (nodes_Get (dep_nodes deps) a sp i)"
    "keeps_rel R (nodes_Trash (dep_nodes deps) a sp i)"
    using repo
    by (auto simp: keeps_rel_def [of R "nodes_List _ _ _ _"] keeps_rel_def [of R "nodes_Get _ _ _ _"]
        keeps_rel_def [of R "nodes_Trash _ _ _ _"] nodes_List_def nodes_Get_def nodes_Trash_def repo_keeps_def
        intro!: guarded [OF deps])
  show "keeps_rel R (nodes_Rename (dep_nodes deps) a sp i name)"
    unfolding keeps_rel_def [of R "nodes_Rename _ _ _ _ _"] nodes_Rename_def
    using repo refl by (auto simp: repo_keeps_def intro!: guarded [OF deps])
  have "keeps_rel R (\<lambda>s2. let (rand, s3) = ns_rand (dep_nodes deps) s2 in
          case nodes_newUUID rand of Inl err \<Rightarrow> (Inl (f err), s3) | Inr i \<Rightarrow> nr_Create repo (x i) s3)"
    if r: "dp_Nodes deps = Some repo" for f repo x
  proof (rule keeps_relI)
    fix s v s'
    assume run: "(let (rand, s3) = ns_rand (dep_nodes deps) s in
          case nodes_newUUID rand of Inl err \<Rightarrow> (Inl (f err), s3) | Inr i \<Rightarrow> nr_Create repo (x i) s3) = (v, s')"
    obtain b s3 where b: "ns_rand (dep_nodes deps) s = (b, s3)" by fastforce
    have "keeps_rel R (nr_Create repo y)" for y using repo [OF r] by (simp add: repo_keeps_def)
    then show "R s s'"
      using run b keeps_relD [OF rand b] by (auto split: sum.splits intro: trans dest: keeps_relD)
  qed
  then show "keeps_rel R (nodes_Create (dep_nodes deps) a sp p kind name)"
    unfolding keeps_rel_def [of R "nodes_Create _ _ _ _ _ _"] nodes_Create_def
    using refl by (auto simp: Let_def intro!: guarded [OF deps])
qed


lemma node_handlers:
  assumes deps: "deps_keep R deps"
  shows "keeps_rel R (capabilityHandler (default_principals deps) (dep_access deps) r)"
    "keeps_rel R (listNodesHandler (default_principals deps) (dep_nodes deps) r)"
    "keeps_rel R (createNodeHandler (default_principals deps) (dep_nodes deps) r)"
    "keeps_rel R (getNodeHandler (default_principals deps) (dep_nodes deps) r)"
    "keeps_rel R (renameNodeHandler (default_principals deps) (dep_nodes deps) r)"
    "keeps_rel R (trashNodeHandler (default_principals deps) (dep_nodes deps) r)"
proof -
  have who: "keeps_rel R (f r)" if "default_principals deps = Some f" for f
    using that deps refl
    by (auto simp: default_principals_def deps_keep_def DenyAllResolver_def keeps_rel_def split: option.splits)
  have answer: "keeps_rel R (\<lambda>s. answer_node st (f s))" if "keeps_rel R f" for st f
    unfolding keeps_rel_def answer_node_def
  proof
    fix s
    show "R s (snd (case f s of (Inl err, s) \<Rightarrow> writeNodeError err s | (Inr node, s) \<Rightarrow> writeJSON st (NodeValue node) s))"
      using keeps_relD [OF that] by (auto split: prod.split sum.split)
  qed
  note node = nodes_ops(2-5) [OF deps, THEN answer]
  show "keeps_rel R (capabilityHandler (default_principals deps) (dep_access deps) r)"
    unfolding capabilityHandler_def
    by (intro resolve who keeps_relI) (auto simp: Let_def writeJSON_def split: prod.splits bool.splits
        dest!: keeps_relD [OF access [OF deps]])
  show "keeps_rel R (listNodesHandler (default_principals deps) (dep_nodes deps) r)"
    unfolding listNodesHandler_def
    by (intro resolve who keeps_relI) (auto simp: Let_def writeJSON_def writeNodeError_def split: prod.splits sum.splits if_splits
        dest!: keeps_relD [OF nodes_ops(1) [OF deps]])
  show "keeps_rel R (createNodeHandler (default_principals deps) (dep_nodes deps) r)"
    "keeps_rel R (renameNodeHandler (default_principals deps) (dep_nodes deps) r)"
    unfolding createNodeHandler_def renameNodeHandler_def
    by (intro resolve who, assumption, use node(2,3) refl in \<open>simp add: keeps_rel_def split: option.split\<close>)+
  show "keeps_rel R (getNodeHandler (default_principals deps) (dep_nodes deps) r)"
    "keeps_rel R (trashNodeHandler (default_principals deps) (dep_nodes deps) r)"
    unfolding getNodeHandler_def trashNodeHandler_def by (rule resolve, erule who, rule node)+
qed

lemma create_upload_handler:
  assumes deps: "deps_keep R deps" and api: "api_keeps R api"
  shows "keeps_rel R (createUploadHandler (dp_Principals deps) (dep_access deps) (dep_nodes deps) api r)"
  unfolding createUploadHandler_def
proof (rule resolve, use deps in \<open>simp add: deps_keep_def\<close>, rule keeps_relI)
  fix who s v s'
  let ?a = "AccountID who" and ?sp = "hq_PathValue r ''spaceID''"
  assume run: "(let spaceID = ?sp; accountID = ?a in
     case dep_access deps accountID spaceID ActionCreateFile s of
       (False, s1) \<Rightarrow> writeJSON 403 (ErrorMap ''access denied'') s1
     | (True, s1) \<Rightarrow>
     (case decodeJSON node_id_fields \<lparr>ni_NodeID = []\<rparr> r of
        None \<Rightarrow> writeJSON 400 (ErrorMap ''invalid request body'') s1
      | Some body \<Rightarrow>
     (case nodes_Get (dep_nodes deps) accountID spaceID (ni_NodeID body) s1 of
        (Inl err, s2) \<Rightarrow> writeNodeError err s2
      | (Inr node, s2) \<Rightarrow>
     if nd_Kind node \<noteq> KindFile then writeJSON 400 (ErrorMap ''uploads require a file node'') s2
     else
     (let parentNodeID = (case nd_ParentID node of None \<Rightarrow> [] | Some p \<Rightarrow> p) in
      case ua_Create api accountID spaceID (nd_ID node) parentNodeID (nd_Name node) s2 of
        ((session, Some err), s3) \<Rightarrow> writeUploadError [] err s3
      | ((session, None), s3) \<Rightarrow>
          writeJSON_with [(''Upload-Offset'', ''0''),
            (''Location'', ''/api/v1/spaces/'' @ spaceID @ ''/uploads/'' @ us_ID session)]
            201 (SessionValue session) s3)))) = (v, s')"
  have create: "keeps_rel R (ua_Create api a sp n p name)" for a sp n p name using api by (simp add: api_keeps_def)
  obtain ok s1 where ok: "dep_access deps ?a ?sp ActionCreateFile s = (ok, s1)" by fastforce
  have r1: "R s s1" using keeps_relD [OF access [OF deps] ok] .
  show "R s s'"
  proof (cases "decodeJSON node_id_fields \<lparr>ni_NodeID = []\<rparr> r")
    case None
    then show ?thesis using run ok r1 by (cases ok) (simp_all add: writeJSON_def)
  next
    case (Some body)
    obtain g s2 where g: "nodes_Get (dep_nodes deps) ?a ?sp (ni_NodeID body) s1 = (g, s2)" by fastforce
    have r2: "R s s2" using trans [OF r1 keeps_relD [OF nodes_ops(2) [OF deps] g]] .
    show ?thesis
      using run ok r1 r2 Some g
      by (cases ok) (auto simp: writeJSON_def writeNodeError_def writeUploadError_def writeJSON_with_def Let_def
          split: sum.splits if_splits prod.splits option.splits intro: trans dest!: keeps_relD [OF create])
  qed
qed

lemma upload_handlers:
  assumes deps: "deps_keep R deps" and api: "api_keeps R api"
  shows "keeps_rel R (createUploadHandler (dp_Principals deps) (dep_access deps) (dep_nodes deps) api r)"
    "keeps_rel R (getUploadHandler (dp_Principals deps) api r)"
    "keeps_rel R (appendUploadHandler (dp_Principals deps) api r)"
    "keeps_rel R (completeUploadHandler (dp_Principals deps) api r)"
proof -
  have who: "keeps_rel R (f r)" if "dp_Principals deps = Some f" for f using that deps by (simp add: deps_keep_def)
  have get: "keeps_rel R (ua_Get api a sp up)"
    and append: "keeps_rel R (ua_Append api a sp up off rd)" and complete: "keeps_rel R (ua_Complete api a sp up)"
    for a sp up off rd
    using api by (simp_all add: api_keeps_def)
  show "keeps_rel R (getUploadHandler (dp_Principals deps) api r)"
    unfolding getUploadHandler_def keeps_rel_def [of R "\<lambda>s. case ua_Get api _ _ _ s of _ \<Rightarrow> _"]
    by (intro resolve who keeps_relI) (auto simp: writeUploadError_def writeJSON_with_def split: prod.splits sum.splits if_splits
        dest!: keeps_relD [OF get])
  show "keeps_rel R (appendUploadHandler (dp_Principals deps) api r)"
    unfolding appendUploadHandler_def
    by (intro resolve who keeps_relI) (auto simp: writeUploadError_def writeJSON_with_def writeJSON_def refl
        split: prod.splits option.splits if_splits dest!: keeps_relD [OF append])
  show "keeps_rel R (completeUploadHandler (dp_Principals deps) api r)"
    unfolding completeUploadHandler_def
    by (intro resolve who keeps_relI) (auto simp: writeUploadError_def writeJSON_with_def writeJSON_def
        split: prod.splits option.splits if_splits dest!: keeps_relD [OF complete])
  show "keeps_rel R (createUploadHandler (dp_Principals deps) (dep_access deps) (dep_nodes deps) api r)"
    by (rule create_upload_handler [OF deps api])
qed

text \<open>The routes: the quarantine target's apply is left to the caller.\<close>

lemma drive_route:
  assumes deps: "deps_keep R deps" and found: "mux_find (drive_routes deps) m p = Some (vs, h)"
    and app: "m = ''POST'' \<Longrightarrow> p = quarantine_apply_path \<Longrightarrow>
      keeps_rel R (quarantineApplyHandler (dp_Quarantine deps) (dp_WardveilServiceToken deps) r)"
    and rd: "keeps_rel R (quarantineReadHandler (dp_Quarantine deps) (dp_WardveilServiceToken deps) r)"
  shows "keeps_rel R (h r)"
proof -
  obtain m' pat where h: "(m', pat, h) \<in> set (drive_routes deps)" "match_path pat p = Some vs" "m' = m \<or> m' = ''GET''"
    using mux_find_method [OF found] by blast
  have quiet: "keeps_rel R (writeJSON st v)" for st v using refl by (simp add: keeps_rel_def)
  let ?ap = "[Lit ''internal'', Lit ''v1'', Lit ''wardveil'', Lit ''quarantine'', Lit ''apply'']"
  have taken: "m = ''POST'' \<and> p = quarantine_apply_path" if "m' = ''POST''" "pat = ?ap"
    using that h(2,3) by (auto simp: match_path_Lit match_path_Nil quarantine_apply_path_def)
  note keeps = node_handlers [OF deps, of r] rd quiet
  have "list_all (\<lambda>(m', pat, h). (m' = ''POST'' \<longrightarrow> pat = ?ap \<longrightarrow> m = ''POST'' \<and> p = quarantine_apply_path)
      \<longrightarrow> keeps_rel R (h r)) (drive_routes deps)"
    unfolding drive_routes_def Let_def list.pred_inject prod.case statusHandler_def
    by (intro conjI impI keeps list.pred_inject(1)) (rule app; simp)
  then show ?thesis using h(1) taken by (auto simp: list_all_iff)
qed

lemma upload_route:
  assumes "deps_keep R deps" "api_keeps R api" "mux_find (upload_routes deps api) m p = Some (vs, h)"
  shows "keeps_rel R (h r)"
proof -
  have "list_all (\<lambda>(m', pat, h). keeps_rel R (h r)) (upload_routes deps api)"
    unfolding upload_routes_def list.pred_inject prod.case
    by (intro conjI list.pred_inject(1) upload_handlers [OF assms(1,2)])
  then show ?thesis using mux_find_method [OF assms(3)] by (auto simp: list_all_iff)
qed

lemma middleware_keeps:
  assumes "keeps_rel R rand" "keeps_rel R (nxt w)"
  shows "keeps_rel R (middleware rand nxt w)"
  unfolding keeps_rel_def middleware_snd using assms trans by (simp add: keeps_rel_def) blast

lemma ServeMux_keeps:
  assumes "\<And>vs h. mux_find rs (wq_Method w) (wq_Path w) = Some (vs, h) \<Longrightarrow> keeps_rel R (h (bind_path vs (wq_Request w)))"
    and "keeps_rel R (other w)"
  shows "keeps_rel R (ServeMux rs other w)"
  unfolding keeps_rel_def ServeMux_snd using assms by (auto simp: keeps_rel_def split: option.split)

lemma server_keeps:
  assumes deps: "deps_keep R deps" and api: "api_keeps R api" and files: "keeps_rel R (files (cf_WebDir cfg) w)"
    and app: "\<And>vs. wq_Method w = ''POST'' \<Longrightarrow> wq_Path w = quarantine_apply_path \<Longrightarrow>
      keeps_rel R (quarantineApplyHandler (dp_Quarantine deps) (dp_WardveilServiceToken deps) (bind_path vs (wq_Request w)))"
    and rd: "\<And>r. keeps_rel R (quarantineReadHandler (dp_Quarantine deps) (dp_WardveilServiceToken deps) r)"
  shows "keeps_rel R (sv_Handler (NewWithUploads files cfg deps (Some api)) w)"
proof -
  have rand: "keeps_rel R (dp_rand deps)" using deps by (simp add: deps_keep_def)
  have drive: "keeps_rel R (ServeMux (drive_routes deps) (files (cf_WebDir cfg)) w)"
    by (rule ServeMux_keeps, erule drive_route [OF deps _ app rd]) (simp_all add: files)
  have upload: "keeps_rel R (ServeMux (upload_routes deps api) other w)" if "keeps_rel R (other w)" for other
    by (rule ServeMux_keeps, erule upload_route [OF deps api]) (rule that)
  show ?thesis
    unfolding NewWithUploads_handler NewWithDependencies_handler
    by (intro middleware_keeps rand upload drive)
qed

end

end
