(* ===== verification/Quarantine_Files.thy ===== *)
theory Quarantine_Files
  imports Upload_Reachable Quarantine_Recovery
begin

text \<open>
  What an operation of \<^verbatim>\<open>internal/storage/quarantine.go\<close> does to the other files: on a reliable
  system without second names it leaves a system without second names, and every published object but
  the one it takes away keeps its bytes. This is what the upload service's invariant needs of the
  quarantine operations that run between its requests.
\<close>

section \<open>Orderly steps\<close>

text \<open>
  A step that preserves the consistency of the files and the bytes under the names in \<open>K\<close>, of which
  \<open>ob\<close> may disappear.
\<close>

definition orderly :: "string set \<Rightarrow> string \<Rightarrow> os \<Rightarrow> os \<Rightarrow> bool" where
  "orderly K ob s s' \<longleftrightarrow>
     reliable s' = reliable s
     \<and> (os_wf s \<and> no_links s \<longrightarrow> os_wf s' \<and> no_links s'
         \<and> (\<forall>p \<in> K. content_at s' p = content_at s p \<or> p = ob \<and> content_at s' p = None))"

lemma orderly_trans [trans]: "orderly K ob s t \<Longrightarrow> orderly K ob t u \<Longrightarrow> orderly K ob s u"
  unfolding orderly_def by metis

lemma orderly_same: "same_files s t \<Longrightarrow> orderly K ob s t"
  by (simp add: orderly_def same_filesD same_files_wf same_files_no_links)

lemma orderly_refl [simp, intro]: "orderly K ob s s"
  by (simp add: orderly_same)

lemma no_links_tick [simp]: "no_links (tick s) = no_links s"
  by (simp add: no_links_def)

lemma orderly_tick [simp]: "orderly K ob s (tick t) = orderly K ob s t" "orderly K ob (tick s) t = orderly K ob s t"
  by (simp_all add: orderly_def)

lemma orderly_Quiet [simp]: "orderly K ob s (snd (sys_Quiet t)) = orderly K ob s t"
  by (simp add: sys_Quiet_def)

lemma content_cong:
  "file_at t q = file_at s q \<Longrightarrow> (\<And>i. file_at s q = Some i \<Longrightarrow> os_data t i = os_data s i) \<Longrightarrow>
   content_at t q = content_at s q"
  by (cases "file_at s q") (simp_all add: content_at_def)

lemma orderly_new_file:
  assumes p: "p \<notin> K" "os_nodes s p = None"
  shows "orderly K ob s (new_file p s)"
proof -
  have "no_links (new_file p s)" if "no_links s" "os_wf s"
    using that by (auto simp: no_links_def os_wf_file_at split: if_splits)
  moreover have "content_at (new_file p s) q = content_at s q" if "q \<in> K" "os_wf s" for q
    by (rule content_cong) (use that p in \<open>auto simp: os_wf_file_at\<close>)
  ultimately show ?thesis by (auto simp: orderly_def)
qed

lemma orderly_OpenCreate:
  "sys_OpenCreate True p s = (r, s') \<Longrightarrow> p \<notin> K \<Longrightarrow> orderly K ob s s'"
  by (erule sys_OpenCreateE) (auto intro: orderly_new_file)

lemma orderly_set_data:
  assumes "p \<notin> K" "file_at s p = Some i"
  shows "orderly K ob s (set_data i d s)"
proof -
  have "content_at (set_data i d s) q = content_at s q" if "no_links s" "q \<in> K" for q
  proof -
    have "file_at s q \<noteq> Some i" using that assms unfolding no_links_def by metis
    then show ?thesis by (auto intro: content_cong)
  qed
  then show ?thesis by (simp add: orderly_def no_links_def)
qed

lemma orderly_Write:
  "sys_Write i off bs s = (r, s') \<Longrightarrow> p \<notin> K \<Longrightarrow> file_at s p = Some i \<Longrightarrow> orderly K ob s s' \<and> file_at s' p = Some i"
  by (erule sys_WriteE) (auto intro: orderly_set_data)

lemma orderly_Remove:
  assumes "sys_Remove p s = (r, s')" "p \<notin> K \<or> p = ob"
  shows "orderly K ob s s'"
  using assms(1)
proof (cases rule: sys_RemoveE)
  case (ok i)
  then show ?thesis
    using assms(2) by (auto simp: orderly_def no_links_def content_at_def os_wf_file_at split: if_splits)
qed simp

lemma orderly_Rename:
  assumes "sys_Rename old new s = (r, s')" "old \<notin> K" "new \<notin> K"
  shows "orderly K ob s s'"
  using assms(1)
proof (cases rule: sys_RenameE)
  case (ok i)
  have "no_links (add_name new i (del_name old s))" if "no_links s"
    using that ok(2) unfolding no_links_def by (auto split: if_splits)
  then show ?thesis
    using ok assms(2,3)
    by (auto simp: orderly_def content_at_def os_wf_file_at split: option.splits if_splits)
qed simp_all

text \<open>A payload that is linked into quarantine and loses its active name.\<close>

lemma orderly_move:
  assumes "file_at s ob = Some i" "os_nodes s q = None" "q \<notin> K" "ob \<noteq> q"
  shows "orderly K ob s (del_name ob (add_name q i s))"
proof -
  have "no_links (del_name ob (add_name q i s))" if "no_links s"
    using that assms(1) unfolding no_links_def by (auto split: if_splits)
  then show ?thesis
    using assms by (auto simp: orderly_def content_at_def os_wf_file_at split: option.splits if_splits)
qed

section \<open>The operations\<close>

lemma readQuarantineState_frame: "readQuarantineState p s = (r, s') \<Longrightarrow> same_files s s'"
  by (auto simp: readQuarantineState_def split: prod.splits sum.splits if_splits dest: sys_ReadFile_frame)

lemma exclusive_orderly:
  assumes run: "writeQuarantineStateExclusive p st s = (r, s')" and p: "p \<notin> K"
  shows "orderly K ob s s'"
proof -
  obtain w s1 where w: "sys_OpenCreate True p s = (w, s1)" by fastforce
  note o1 = orderly_OpenCreate [OF w p]
  show ?thesis
  proof (cases w)
    case (Inl e)
    then show ?thesis using run w o1 by (simp add: writeQuarantineStateExclusive_def)
  next
    case (Inr i)
    obtain x s2 where x: "sys_Write i 0 (state_file st) s1 = (x, s2)" by fastforce
    have "file_at s1 p = Some i" using w Inr by (cases rule: sys_OpenCreateE) auto
    then have "orderly K ob s s2" using orderly_trans [OF o1] orderly_Write [OF x p] by blast
    then show ?thesis
      using run w Inr x by (auto simp: writeQuarantineStateExclusive_def sys_Quiet_def split: sum.splits if_splits)
  qed
qed

lemma CreateTemp_orderly:
  assumes "sys_CreateTemp dir prefix s = (r, s')" "temp_names dir prefix \<inter> K = {}"
  shows "orderly K ob s s' \<and> (\<forall>p i. r = Inr (p, i) \<longrightarrow> p \<notin> K \<and> file_at s' p = Some i)"
  using assms(1) [unfolded sys_CreateTemp_def]
proof (cases rule: create_tempE)
  case (fail e)
  then show ?thesis by (simp add: orderly_same)
next
  case (ok w t)
  let ?p = "dir @ ''/'' @ prefix @ decimal (unat w)"
  have p: "?p \<notin> K" using assms(2) by (auto simp: temp_names_def temp_name_def)
  have "orderly K ob s (new_file ?p t)"
    using orderly_trans [OF orderly_same [OF ok(2)] orderly_new_file [OF p]] ok(3,4) by simp
  then show ?thesis using ok p by (auto simp: same_filesD)
qed

lemma atomic_orderly:
  assumes run: "writeQuarantineStateAtomic p st s = (r, s')" and p: "p \<notin> K"
    and tmp: "temp_names (filepath_Dir p) ''.quarantine-state-'' \<inter> K = {}"
  shows "orderly K ob s s'"
proof -
  obtain w s1 where w: "sys_CreateTemp (filepath_Dir p) ''.quarantine-state-'' s = (w, s1)" by fastforce
  note W = CreateTemp_orderly [OF w tmp]
  show ?thesis
  proof (cases w)
    case (Inl e)
    then show ?thesis using run w W by (simp add: writeQuarantineStateAtomic_def)
  next
    case (Inr c)
    obtain t i where c: "c = (t, i)" by fastforce
    have t: "t \<notin> K" "file_at (tick s1) t = Some i" using W Inr c by auto
    obtain b s3 where b: "sys_Write i 0 (state_file st) (tick s1) = (b, s3)" by fastforce
    have o3: "orderly K ob s s3" using orderly_trans [of K ob s "tick s1"] W orderly_Write [OF b t] by auto
    obtain e s6 where e: "sys_Rename t p (tick (tick s3)) = (e, s6)" by fastforce
    have o6: "orderly K ob s s6" using orderly_trans [of K ob s "tick (tick s3)"] o3 orderly_Rename [OF e t(1) p] by simp
    have rm: "orderly K ob s (snd (sys_Remove t u))" if "orderly K ob s u" for u
      using orderly_trans [OF that] orderly_Remove [of t u "fst (sys_Remove t u)" "snd (sys_Remove t u)" K ob] t(1)
      by simp
    have o1: "orderly K ob s s1" using W by simp
    show ?thesis
      using run w Inr c b e o1 o3 o6
      by (auto simp: writeQuarantineStateAtomic_def deferRemove_def sys_Quiet_def intro!: rm split: sum.splits if_splits)
  qed
qed


text \<open>On a reliable system the link into quarantine and the removal of the active name are one step.\<close>

lemma publish_remove_orderly:
  assumes a: "publishQuarantine ob q oe qe s = (a, s1)" and b: "is_ok a \<Longrightarrow> removeActive ob oe s1 = (b, s2)"
    and rel: "reliable s" and oe: "oe \<longleftrightarrow> os_nodes s ob \<noteq> None" and q: "q \<notin> K" "ob \<noteq> q"
  shows "orderly K ob s (if is_ok a then s2 else s1)"
proof -
  have rm: "orderly K ob s (if is_ok a then s2 else s1)" if "s1 = s \<or> s1 = tick s"
  proof -
    have "orderly K ob s1 (snd (sys_Remove ob s1))"
      using orderly_Remove [of ob s1 "fst (sys_Remove ob s1)" "snd (sys_Remove ob s1)"] by simp
    then show ?thesis
      using that b by (auto simp: removeActive_def split: prod.splits sum.splits if_splits)
  qed
  show ?thesis
  proof (cases "qe \<or> \<not> oe")
    case True
    then show ?thesis using a rm by (auto simp: publishQuarantine_def split: if_splits)
  next
    case False
    obtain k t where k: "sys_Link ob q s = (k, t)" by fastforce
    from k show ?thesis
    proof (cases rule: sys_LinkE)
      case (fail e)
      then show ?thesis using a False k rm by (auto simp: publishQuarantine_def split: if_splits)
    next
      case (ok i)
      let ?t = "tick (add_name q i s)"
      have s1: "s1 = ?t" "is_ok a" using a False k ok by (auto simp: publishQuarantine_def)
      have "sys_Remove ob ?t = (Inr (), tick (del_name ob ?t))"
        using ok(2) rel q(2) by (simp add: sys_Remove_def del_name_def file_at_iff)
      then have "s2 = tick (del_name ob ?t)" using b s1 False by (simp add: removeActive_def)
      then have "s2 = tick (tick (del_name ob (add_name q i s)))" by (simp add: del_name_def add_name_def tick_def)
      then show ?thesis using s1 orderly_move [OF ok(2,3) q] by simp
    qed
  qed
qed

lemma reconcileQuarantine_orderly:
  assumes run: "reconcileQuarantine ob q st state s = (r, s')" and rel: "reliable s"
    and K: "q \<notin> K" "st \<notin> K" "ob \<noteq> q" "temp_names (filepath_Dir st) ''.quarantine-state-'' \<inter> K = {}"
  shows "orderly K ob s s'"
proof -
  define oe where "oe = (os_nodes s ob \<noteq> None)"
  define qe where "qe = (os_nodes s q \<noteq> None)"
  let ?s2 = "tick (tick s)"
  have ex: "exists ob s = (oe, tick s)" "exists q (tick s) = (qe, ?s2)"
    using rel by (simp_all add: exists_stat_ok oe_def qe_def)
  obtain a s3 where a: "publishQuarantine ob q oe qe ?s2 = (a, s3)" by fastforce
  obtain b s4 where b: "removeActive ob oe s3 = (b, s4)" by fastforce
  have o: "orderly K ob s (if is_ok a then s4 else s3)"
    using publish_remove_orderly [OF a b, of K] rel K by (auto simp: oe_def)
  obtain c s5 where c: "writeQuarantineStateAtomic st (done_state state (os_clock s4 (os_tick s4))) (tick s4) = (c, s5)"
    by fastforce
  have "orderly K ob s s5" if "is_ok a"
    using orderly_trans [of K ob s "tick s4"] o that atomic_orderly [OF c K(2,4)] by simp
  then show ?thesis
    using run a b c o ex
    by (auto simp: reconcileQuarantine_def sys_Now_def Let_def simp flip: done_state_def
        split: if_splits sum.splits)
qed

text \<open>The names of published objects.\<close>

definition object_paths :: "Local option \<Rightarrow> string set" where
  "object_paths l = {area_path l ''objects'' x y | x y. validStorageID x \<and> validStorageID y}"

lemma object_paths_apart:
  assumes "wf_local l" "validStorageID sp" "validStorageID n"
  shows "qpayload l sp n \<notin> object_paths l" "qrecord l sp n \<notin> object_paths l"
    "temp_names (filepath_Dir (qrecord l sp n)) ''.quarantine-state-'' \<inter> object_paths l = {}"
  using assms area_not_temp [OF assms(1) _ _ _ _ assms(2), of "''objects''" _ _ "''quarantine-state''" "''quarantine-state-''"]
  by (auto simp: object_paths_def qdefs area_path_inj area_path_Dir plain_comp_def)

lemma resume_orderly:
  assumes "resumeQuarantine (qobject l sp n) (qpayload l sp n) (qrecord l sp n) oid cid state s = (r, s')"
    and "reliable s" "wf_local l" "validStorageID sp" "validStorageID n"
  shows "orderly (object_paths l) (qobject l sp n) s s'"
  using assms reconcileQuarantine_orderly [OF _ assms(2) object_paths_apart(1,2) [OF assms(3-5)] _
      object_paths_apart(3) [OF assms(3-5)]] qnames_qpaths [OF assms(3-5)]
  by (auto simp: resumeQuarantine_def qpaths_def split: if_splits)

lemma ApplyQuarantine_orderly:
  assumes run: "ApplyQuarantine l sp n oid cid s = (r, s')" and rel: "reliable s" and wf: "wf_local l"
  shows "orderly (object_paths l) (qobject l sp n) s s' \<and> (validStorageID sp \<and> validStorageID n \<or> s' = s)"
proof (cases "validStorageID sp \<and> validStorageID n")
  case False
  then obtain e where "ObjectPath l sp n = Inl e"
    using scopedPath_invalid [of sp n l "''objects''"] by (auto simp: ObjectPath_def)
  then show ?thesis using run by (auto simp: ApplyQuarantine_def split: if_splits)
next
  case True
  let ?ob = "qobject l sp n" and ?q = "qpayload l sp n" and ?st = "qrecord l sp n"
    and ?R = "orderly (object_paths l) (qobject l sp n)"
  have ids: "validStorageID sp" "validStorageID n" using True by auto
  have paths: "ObjectPath l sp n = Inr ?ob" "QuarantinePath l sp n = Inr ?q" "QuarantineStatePath l sp n = Inr ?st"
    using wf ids by (simp_all add: path_defs QuarantinePath_def QuarantineStatePath_def scopedPath_wf qdefs)
  obtain a s1 where a: "sys_MkdirAll (filepath_Dir ?q) s = (a, s1)" by fastforce
  obtain b s2 where b: "sys_MkdirAll (filepath_Dir ?st) s1 = (b, s2)" by fastforce
  obtain c s3 where c: "readQuarantineState ?st s2 = (c, s3)" by fastforce
  have f: "same_files s s1" "same_files s s2" "same_files s s3"
    using sys_MkdirAll_frame [OF a] sys_MkdirAll_frame [OF b] readQuarantineState_frame [OF c]
    by (auto intro: same_files_trans)
  have r3: "reliable s3" using same_filesD(5) [OF f(3)] rel by simp
  have res: "?R s s'" if "resumeQuarantine ?ob ?q ?st oid cid state t = (r, s')" "?R s t" for state t
    using orderly_trans [OF that(2)] resume_orderly [OF that(1) _ wf ids] that(2) rel by (simp add: orderly_def)
  have "?R s s'" if beg: "beginQuarantine sp n oid cid ?ob ?q ?st s3 = (r, s')"
  proof -
    obtain now where now: "sys_Now (tick (tick s3)) = (now, tick (tick (tick s3)))" by (simp add: sys_Now_def)
    obtain w s4 where w: "writeQuarantineStateExclusive ?st (pending_state sp n oid cid now) (tick (tick (tick s3))) = (w, s4)"
      by fastforce
    have o4: "?R s s4"
      using orderly_trans [OF orderly_same [OF f(3)]] exclusive_orderly [OF w object_paths_apart(2) [OF wf ids]] by simp
    obtain d s5 where d: "readQuarantineState ?st s4 = (d, s5)" by fastforce
    have o5: "?R s s5" using orderly_trans [OF o4 orderly_same [OF readQuarantineState_frame [OF d]]] .
    have rec: "?R s s'" if "reconcileQuarantine ?ob ?q ?st state s4 = (r, s')" for state
      using orderly_trans [OF o4] reconcileQuarantine_orderly [OF that _ object_paths_apart(1,2) [OF wf ids] _
          object_paths_apart(3) [OF wf ids]] qnames_qpaths [OF wf ids] o4 rel
      by (simp add: orderly_def qpaths_def)
    have "?R s (tick s3)" "?R s (tick (tick s3))" using orderly_same [OF f(3)] by simp_all
    then show ?thesis
      using beg now w d o4 o5 res rec
      by (auto simp: beginQuarantine_def exists_stat_ok r3 Let_def split: if_splits sum.splits option.splits)
  qed
  then show ?thesis
    using run paths a b c res f True
    by (auto simp: ApplyQuarantine_def intro: orderly_same split: if_splits sum.splits option.splits)
qed

section \<open>Seen from the upload service\<close>

lemma quarantine_apply_objects:
  assumes inv: "fs_inv l s" and run: "on_fs (ApplyQuarantine l sp n oid cid) s = (r, s')"
  shows "fs_inv l s' \<and> sessions s' = sessions s
    \<and> (\<forall>k. object_view l s' k = object_view l s k \<or> k = (sp, n) \<and> object_view l s' k = None)"
proof -
  obtain o2 where o2: "ApplyQuarantine l sp n oid cid (fs s) = (r, o2)" "s' = s\<lparr>fs := o2\<rparr>"
    using run by (auto simp: on_fs_def split: prod.splits)
  have wf: "wf_local l" "reliable (fs s)" "os_wf (fs s)" "no_links (fs s)"
    using inv by (simp_all add: fs_inv_def usys_inv_def)
  note O = ApplyQuarantine_orderly [OF o2(1) wf(2,1)]
  have "object_view l s' k = object_view l s k \<or> k = (sp, n) \<and> object_view l s' k = None" for k
  proof (cases "validStorageID (fst k) \<and> validStorageID (snd k) \<and> validStorageID sp \<and> validStorageID n")
    case True
    then have "area_path l ''objects'' (fst k) (snd k) \<in> object_paths l" by (auto simp: object_paths_def)
    moreover have "area_path l ''objects'' (fst k) (snd k) = qobject l sp n \<Longrightarrow> k = (sp, n)"
      using True wf(1) by (auto simp: qobject_def area_path_inj prod_eq_iff)
    ultimately show ?thesis using O True wf o2(2) by (auto simp: orderly_def object_view_wf)
  next
    case False
    then show ?thesis using O o2(2) wf(1) by (auto simp: object_view_wf)
  qed
  then show ?thesis using O inv o2(2) by (auto simp: orderly_def fs_inv_def usys_inv_def)
qed

lemma quarantine_read_same:
  assumes "on_fs (ReadQuarantine l sp n) s = (r, s')"
  shows "same_usys s s'"
  using assms
proof (rule on_fs_same)
  fix a o' assume run: "ReadQuarantine l sp n (fs s) = (a, o')"
  have r: "same_files t u" if "readQuarantineState p t = (x, u)" for p t x u
    using readQuarantineState_frame [OF that] .
  have e: "same_files t u" if "exists p t = (x, u)" for p t x u
    using that exists_state [of p t] by auto
  show "same_files (fs s) o'"
    using run
    by (auto simp: ReadQuarantine_def Let_def split: sum.splits prod.splits option.splits if_splits
        dest!: r e intro: same_files_trans)
qed

end
