(* ===== verification/Server_Properties.thy ===== *)
theory Server_Properties
  imports Server Sample_System
begin

text \<open>
  Properties of the server as it is started and of its boundaries: who is let in without a resolver,
  what \<^verbatim>\<open>main\<close> guarantees of the server it builds, and what the scan client's envelopes rest on.
\<close>

section \<open>What the server starts with\<close>

lemma main_builds:
  assumes run: "server_main su s = (Inr server, s')"
    and cwd: "IsAbs (os_cwd (fs s))"
  shows "\<exists>cfg l. config_Load (su_ParseDuration su) (su_ParseIP su) (su_Getenv su) = Inr cfg \<and> wf_local (Some l)
    \<and> 0 < cf_ShutdownTimeout cfg
    \<and> (\<exists>host port. SplitHostPort (sv_Addr server) = Some (host, port)
         \<and> (cf_AllowPublicBind cfg \<or> isLoopbackHost (su_ParseIP su) host))
    \<and> (if cf_UploadsEnabled cfg
       then \<exists>c. scanner_wf (su_ParseIP su) c \<and> 0 < cf_UploadMaxChunkBytes cfg \<and> 0 < cf_UploadSessionTTL cfg
         \<and> server = NewWithUploads (su_FileServer su) cfg (main_deps (Some l) cfg)
             (Some (upload_api (upload_service (Some l) (http_scanner c) (cf_UploadMaxChunkBytes cfg) (cf_UploadSessionTTL cfg))))
         \<and> usys_inv (Some l) s'
       else server = NewWithDependencies (su_FileServer su) cfg (main_deps (Some l) cfg))"
proof -
  obtain cfg where cfg: "config_Load (su_ParseDuration su) (su_ParseIP su) (su_Getenv su) = Inr cfg"
    using run by (auto simp: server_main_def split: sum.splits)
  obtain l s1 where l: "on_fs (NewLocal (cf_DataDir cfg)) s = (Inr l, s1)"
    using run by (auto simp: server_main_def cfg split: sum.splits prod.splits)
  obtain s2 where s2: "on_fs (EnsureLayout (Some l)) s1 = (Inr (), s2)"
    using run by (auto simp: server_main_def cfg l split: sum.splits prod.splits)
  have wf: "wf_local (Some l)"
    using l cwd by (auto simp: on_fs_def split: prod.splits intro: NewLocal_wf)
  note c = config_Load_ok [OF cfg]
  have addr: "sv_Addr server = cf_Bind cfg"
    using run by (auto simp: server_main_def cfg l s2 Let_def NewWithUploads_def NewWithDependencies_def split: if_splits sum.splits)
  have up: "if cf_UploadsEnabled cfg
       then \<exists>c. scanner_wf (su_ParseIP su) c \<and> 0 < cf_UploadMaxChunkBytes cfg \<and> 0 < cf_UploadSessionTTL cfg
         \<and> server = NewWithUploads (su_FileServer su) cfg (main_deps (Some l) cfg)
             (Some (upload_api (upload_service (Some l) (http_scanner c) (cf_UploadMaxChunkBytes cfg) (cf_UploadSessionTTL cfg))))
         \<and> usys_inv (Some l) s'
       else server = NewWithDependencies (su_FileServer su) cfg (main_deps (Some l) cfg)"
  proof (cases "cf_UploadsEnabled cfg")
    case False
    then show ?thesis using run by (simp add: server_main_def cfg l s2 Let_def)
  next
    case True
    then obtain sc where sc: "main_scanner su cfg = Inr sc"
      using run by (auto simp: server_main_def cfg l s2 Let_def split: sum.splits)
    then have "scanner_wf (su_ParseIP su) sc"
      by (auto simp: main_scanner_def split: sum.splits intro: NewHTTPScanner_wf)
    then show ?thesis using run c wf True by (auto simp: server_main_def cfg l s2 sc Let_def usys_inv_def keyed_def)
  qed
  show ?thesis by (intro exI [of _ cfg] exI [of _ l] conjI up) (use c wf cfg addr in auto)
qed

section \<open>A server that starts\<close>

lemma ensure_dirs_reliable:
  "reliable s \<Longrightarrow> \<forall>p. not_file s p \<Longrightarrow> \<exists>s'. ensure_dirs rt names s = (Inr (), s')"
proof (induction names arbitrary: s)
  case (Cons name names)
  let ?d = "filepath_Join [rt, name]"
  have m: "sys_MkdirAll ?d s = (Inr (), tick (make_dirs (path_ancestors ?d) s))"
    by (rule reliable_MkdirAll) (use Cons.prems in \<open>auto simp: mkdir_ok_def list_all_iff\<close>)
  have "\<forall>p. not_file (tick (make_dirs (path_ancestors ?d) s)) p"
    using Cons.prems(2) by (simp add: not_file_def make_dirs_def)
  then show ?case using Cons.IH [of "tick (make_dirs (path_ancestors ?d) s)"] Cons.prems(1) m
    by (simp add: make_dirs_def reliable_def)
qed simp

definition bare_usys :: usys where
  "bare_usys = \<lparr>fs = calm\<lparr>os_nodes := map_of [(''/'', Dir)]\<rparr>, sessions = Map.empty\<rparr>"

definition loopback_url :: URL where
  "loopback_url =
     \<lparr>url_String = ''http://127.0.0.1:8791/v1/scan'', url_Scheme = ''http'', url_User = False, url_RawQuery = [],
      url_Fragment = [], url_Path = ''/v1/scan'', url_Port = ''8791'', url_Hostname = ''127.0.0.1''\<rparr>"

definition sample_ip :: "string \<Rightarrow> IP option" where
  "sample_ip h = (if h = ''127.0.0.1'' then Some \<lparr>ip_IsLoopback = True, ip_To4 = True\<rparr> else None)"

definition sample_surroundings :: surroundings where
  "sample_surroundings =
     \<lparr>su_Getenv = (\<lambda>k. if k = ''GC_DRIVE_UPLOADS_ENABLED'' then ''1'' else if k = ''GC_DRIVE_DATA_DIR'' then ''/d''
        else if k = ''GC_DRIVE_WARDVEIL_SCAN_SECRET_FILE'' then ''/s'' else []),
      su_ParseDuration = (\<lambda>_. None), su_ParseIP = sample_ip, su_ParseURL = (\<lambda>_. Inr loopback_url),
      su_Stat = (\<lambda>_. Inr \<lparr>fm_regular = True, fm_perm = 384\<rparr>), su_ReadFile = (\<lambda>_. Inr (replicate 32 (CHR ''k''))),
      su_Transport = (\<lambda>d q h s. (Inl EIO, s)), su_FileServer = (\<lambda>dir w s. (None, s))\<rparr>"

definition sample_config :: Config where
  "sample_config =
     \<lparr>cf_Bind = ''127.0.0.1:8080'', cf_DataDir = ''/d'', cf_WebDir = ''./web'', cf_AllowPublicBind = False,
      cf_ShutdownTimeout = 10 * second, cf_WardveilServiceToken = [], cf_UploadsEnabled = True,
      cf_UploadMaxChunkBytes = 8 * 2 ^ 20, cf_UploadSessionTTL = 24 * hour,
      cf_WardveilScanEndpoint = ''http://127.0.0.1:8791/v1/scan'', cf_WardveilScanCallerID = ''goreecloud-drive'',
      cf_WardveilScanKeyID = ''scan-current'', cf_WardveilScanSecretFile = ''/s''\<rparr>"

lemma sample_config_loads: "config_Load (\<lambda>_. None) sample_ip (su_Getenv sample_surroundings) = Inr sample_config"
proof -
  have h: "SplitHostPort ''127.0.0.1:8080'' = Some (''127.0.0.1'', ''8080'')" by code_simp
  show ?thesis
    by (simp add: config_Load_def sample_surroundings_def bool_setting_def positive_setting_def ParseBool_def envOr_def
        validate_config_def h isLoopbackHost_def sample_ip_def sample_config_def)
qed

lemma TrimSpace_k: "TrimSpace (replicate 32 (CHR ''k'')) = replicate 32 (CHR ''k'')"
  by (rule TrimSpace_printable) (auto simp: printable_def)

lemma sample_secret: "loadWardveilScanSecret (su_Stat sample_surroundings p) (su_ReadFile sample_surroundings p)
    = Inr (replicate 32 (CHR ''k''))"
  by (simp add: loadWardveilScanSecret_def sample_surroundings_def TrimSpace_k ContainsAny_iff Let_def)

lemma sample_scanner: "\<exists>c. main_scanner sample_surroundings sample_config = Inr c"
proof -
  have t: "validScanToken ''goreecloud-drive''" "validScanToken ''scan-current''" by code_simp+
  show ?thesis
    unfolding main_scanner_def sample_secret sum.case
    by (simp add: NewHTTPScanner_def main_scanner_config_def sample_config_def validateScanEndpoint_def
        sample_surroundings_def loopback_url_def WardveilScanPath_def sample_ip_def t TrimSpace_k
        minimumScanCallerSecretBytes_def defaultScanTimeout_def defaultMaxScanResponseBytes_def Let_def)
qed

lemma sample_starts: "\<exists>server s'. server_main sample_surroundings bare_usys = (Inr server, s')"
proof -
  have "TrimSpace ''/d'' \<noteq> []" "IsAbs ''/d''" "Clean (Clean ''/d'') \<noteq> []" by code_simp+
  then obtain l where l: "on_fs (NewLocal ''/d'') bare_usys = (Inr l, bare_usys)" "root l \<noteq> []"
    by (auto simp: on_fs_def NewLocal_def filepath_Abs_def)
  have "reliable (fs bare_usys)" "\<forall>p. not_file (fs bare_usys) p"
    using sample_reliable(1) by (auto simp: bare_usys_def reliable_def not_file_def)
  then obtain t where "EnsureLayout (Some l) (fs bare_usys) = (Inr (), t)"
    using ensure_dirs_reliable l(2) by (fastforce simp: EnsureLayout_def)
  then have e: "on_fs (EnsureLayout (Some l)) bare_usys = (Inr (), bare_usys\<lparr>fs := t\<rparr>)" by (simp add: on_fs_def)
  obtain c where c: "main_scanner sample_surroundings sample_config = Inr c" using sample_scanner by blast
  have "su_ParseDuration sample_surroundings = (\<lambda>_. None)" "su_ParseIP sample_surroundings = sample_ip"
    by (simp_all add: sample_surroundings_def)
  moreover have "cf_DataDir sample_config = ''/d''" "cf_UploadsEnabled sample_config" by (simp_all add: sample_config_def)
  ultimately show ?thesis by (simp add: server_main_def sample_config_loads l(1) e c Let_def)
qed

text \<open>
  C22. What the server starts with: when \<^verbatim>\<open>main\<close> gets as far as listening, the configuration was
  accepted, the address is a loopback address or a public bind was allowed, the storage root is a clean
  absolute path; and with uploads enabled the upload service has positive limits and asks a scan client
  whose endpoint is plain HTTP on an IPv4 loopback address with a port and whose secret has at least 32
  bytes.
\<close>

theorem started_server_configured:
  assumes run: "server_main su s = (Inr server, s')"
    and cwd: "IsAbs (os_cwd (fs s))"
  shows "\<exists>cfg l. config_Load (su_ParseDuration su) (su_ParseIP su) (su_Getenv su) = Inr cfg \<and> wf_local (Some l)
    \<and> 0 < cf_ShutdownTimeout cfg
    \<and> (\<exists>host port. SplitHostPort (sv_Addr server) = Some (host, port)
         \<and> (cf_AllowPublicBind cfg \<or> isLoopbackHost (su_ParseIP su) host))
    \<and> (if cf_UploadsEnabled cfg
       then \<exists>c. scanner_wf (su_ParseIP su) c \<and> 0 < cf_UploadMaxChunkBytes cfg \<and> 0 < cf_UploadSessionTTL cfg
         \<and> server = NewWithUploads (su_FileServer su) cfg (main_deps (Some l) cfg)
             (Some (upload_api (upload_service (Some l) (http_scanner c) (cf_UploadMaxChunkBytes cfg) (cf_UploadSessionTTL cfg))))
         \<and> usys_inv (Some l) s'
       else server = NewWithDependencies (su_FileServer su) cfg (main_deps (Some l) cfg))"
  using main_builds [OF assms] .

theorem started_server_configured_witness:
  "\<exists>server s' c. server_main sample_surroundings bare_usys = (Inr server, s') \<and> scanner_wf sample_ip (c :: (usys, fsnode) HTTPScanner)
     \<and> sv_Addr server = ''127.0.0.1:8080''"
proof -
  obtain server s' where run: "server_main sample_surroundings bare_usys = (Inr server, s')" using sample_starts by blast
  have "IsAbs (os_cwd (fs bare_usys))" by (simp add: bare_usys_def calm_def sample_os_def) code_simp
  moreover have "su_ParseDuration sample_surroundings = (\<lambda>_. None)" "su_ParseIP sample_surroundings = sample_ip"
    by (simp_all add: sample_surroundings_def)
  moreover have "cf_UploadsEnabled sample_config" "cf_Bind sample_config = ''127.0.0.1:8080''" by (simp_all add: sample_config_def)
  ultimately obtain c l where c: "scanner_wf sample_ip c"
    and "server = NewWithUploads (su_FileServer sample_surroundings) sample_config (main_deps (Some l) sample_config)
      (Some (upload_api (upload_service (Some l) (http_scanner c) (cf_UploadMaxChunkBytes sample_config)
        (cf_UploadSessionTTL sample_config))))"
    using started_server_configured [OF run] by (simp add: sample_config_loads) blast
  then have "sv_Addr server = ''127.0.0.1:8080''"
    by (simp add: NewWithUploads_def NewWithDependencies_def Let_def sample_config_def)
  then show ?thesis using run c by blast
qed

section \<open>Requests without a resolver\<close>

definition space_path :: "string \<Rightarrow> string list" where
  "space_path sp = [''api'', ''v1'', ''spaces'', sp]"

text \<open>
  C26. Without a configured resolver the metadata routes let nobody in: for every set of dependencies that
  names no resolver, each route of the node and capability interface answers 401 to every request and
  changes nothing but the random source, from which the middleware draws the request id.
\<close>

theorem default_denies_everyone:
  assumes "dp_Principals deps = None" "sp \<noteq> ''/''" "x \<noteq> ''/''"
    and "(wq_Method w, wq_Path w) \<in>
      {(''GET'', space_path sp @ [''capabilities'', x]), (''GET'', space_path sp @ [''nodes'']),
       (''POST'', space_path sp @ [''nodes'']), (''GET'', space_path sp @ [''nodes'', x]),
       (''PATCH'', space_path sp @ [''nodes'', x]), (''DELETE'', space_path sp @ [''nodes'', x])}"
  shows "\<exists>hs. sv_Handler (NewWithDependencies files cfg deps) w s
    = (Some \<lparr>rs_status = 401, rs_headers = hs, rs_payload = ErrorMap ''authentication required''\<rparr>, snd (dp_rand deps s))"
proof -
  let ?resp = "\<lparr>rs_status = 401, rs_headers = [], rs_payload = ErrorMap ''authentication required''\<rparr>"
  have "ServeMux (drive_routes deps) (files (cf_WebDir cfg)) w t = (Some ?resp, t)" for t
    using assms
    by (auto simp: ServeMux_def mux_find_def drive_routes_def node_path_def space_path_def Let_def default_principals_def
      DenyAllResolver_def resolvePrincipal_def writeJSON_def capabilityHandler_def
      listNodesHandler_def createNodeHandler_def getNodeHandler_def renameNodeHandler_def trashNodeHandler_def)
  then show ?thesis using middleware_answers [of _ w "dp_rand deps" s ?resp]
    unfolding NewWithDependencies_handler answers_def by fastforce
qed

definition anonymous_request :: "string \<Rightarrow> string list \<Rightarrow> web_request" where
  "anonymous_request m p =
     \<lparr>wq_Method = m, wq_Path = p,
      wq_Request = \<lparr>hq_PathValue = (\<lambda>_. []), hq_Query = (\<lambda>_. []), hq_Header = (\<lambda>_. []),
        hq_Body = \<lparr>rd_data = [], rd_fail = False\<rparr>\<rparr>\<rparr>"

theorem default_denies_everyone_witness:
  "\<exists>hs. sv_Handler (NewWithDependencies (su_FileServer sample_surroundings) sample_config (main_deps sample_local sample_config))
      (anonymous_request ''DELETE'' (space_path sample_space @ [''nodes'', sample_node])) bare_usys
    = (Some \<lparr>rs_status = 401, rs_headers = hs, rs_payload = ErrorMap ''authentication required''\<rparr>,
       snd (dp_rand (main_deps sample_local sample_config) bare_usys))"
  using default_denies_everyone [of "main_deps sample_local sample_config" sample_space sample_node
      "anonymous_request ''DELETE'' (space_path sample_space @ [''nodes'', sample_node])"]
  by (simp add: main_deps_def anonymous_request_def sample_space_def sample_node_def)

text \<open>
  The upload routes miss that default: \<^verbatim>\<open>NewWithUploads\<close> hands the resolver of the
  dependencies to its handlers without the replacement that \<^verbatim>\<open>NewWithDependencies\<close> makes in its
  own copy, so when none is configured, as in the server's \<^verbatim>\<open>main\<close>, every upload request panics in
  the handler instead of being answered with 401.
\<close>

theorem upload_routes_panic_without_resolver:
  assumes "dp_Principals deps = None" "sp \<noteq> ''/''" "x \<noteq> ''/''"
    and "(wq_Method w, wq_Path w) \<in>
      {(''POST'', space_path sp @ [''uploads'']), (''GET'', space_path sp @ [''uploads'', x]),
       (''PATCH'', space_path sp @ [''uploads'', x]), (''POST'', space_path sp @ [''uploads'', x, ''complete''])}"
  shows "sv_Handler (NewWithUploads files cfg deps (Some api)) w s = (None, snd (dp_rand deps s))"
proof -
  have "ServeMux (upload_routes deps api) h w t = (None, t)" for t h
    using assms
    by (auto simp: ServeMux_def mux_find_def upload_routes_def upload_path_def space_path_def resolvePrincipal_def
      createUploadHandler_def getUploadHandler_def appendUploadHandler_def completeUploadHandler_def)
  then show ?thesis unfolding NewWithUploads_handler by (rule middleware_panics)
qed
theorem upload_routes_panic_without_resolver_witness:
  "\<exists>server s' w. server_main sample_surroundings bare_usys = (Inr server, s') \<and> wq_Method w = ''POST''
     \<and> sv_Handler server w s' = (None, snd (on_fs sys_RandRead s'))"
proof -
  obtain server s' where run: "server_main sample_surroundings bare_usys = (Inr server, s')" using sample_starts by blast
  have "IsAbs (os_cwd (fs bare_usys))" by (simp add: bare_usys_def calm_def sample_os_def) code_simp
  moreover have "su_ParseDuration sample_surroundings = (\<lambda>_. None)" "su_ParseIP sample_surroundings = sample_ip"
    by (simp_all add: sample_surroundings_def)
  moreover have "cf_UploadsEnabled sample_config" by (simp add: sample_config_def)
  ultimately obtain c :: "(usys, fsnode) HTTPScanner" and l
    where "server = NewWithUploads (su_FileServer sample_surroundings) sample_config (main_deps (Some l) sample_config)
      (Some (upload_api (upload_service (Some l) (http_scanner c) (cf_UploadMaxChunkBytes sample_config)
        (cf_UploadSessionTTL sample_config))))"
    using main_builds [OF run] by (simp add: sample_config_loads) blast
  then have "sv_Handler server (anonymous_request ''POST'' (space_path sample_space @ [''uploads''])) s'
      = (None, snd (on_fs sys_RandRead s'))"
    using upload_routes_panic_without_resolver [of "main_deps (Some l) sample_config" sample_space sample_node
        "anonymous_request ''POST'' (space_path sample_space @ [''uploads''])"]
    by (simp add: main_deps_def anonymous_request_def sample_space_def sample_node_def)
  moreover have "wq_Method (anonymous_request ''POST'' (space_path sample_space @ [''uploads''])) = ''POST''"
    by (simp add: anonymous_request_def)
  ultimately show ?thesis using run by blast
qed

section \<open>The scan client\<close>

text \<open>
  C23. What an envelope of the scan client rests on: one exchange with the configured loopback endpoint
  whose signature is the HMAC, under the configured secret, of the contract version and of exactly the
  header values that were sent; an answer of status 200 within the size limit that names the correlation
  id of this exchange; and the envelope is the decoded answer.
\<close>

theorem scan_exchange:
  assumes c: "NewHTTPScanner url_Parse ParseIP now rand transport cfg = Inr c"
    and run: "http_scanner c req h s = (Inr env, s')"
  shows "\<exists>endpoint timeout hs corr s3 resp wire.
    url_Parse (hc_Endpoint cfg) = Inr endpoint \<and> 0 < timeout
    \<and> transport timeout \<lparr>sh_URL = url_String endpoint, sh_ContentLength = rq_SizeBytes req, sh_Header = hs\<rparr> h s3
        = (Inr resp, s')
    \<and> map_of hs ''X-Wardveil-Signature'' = Some (EncodeToString (hmac_sha256 (hc_Secret cfg)
        (Join [newline] (''0.1.0'' # map (\<lambda>k. the (map_of hs (''X-Wardveil-'' @ k))) [''Caller-ID'', ''Key-ID'', ''Timestamp'',
          ''Nonce'', ''Action'', ''Resource-Type'', ''Resource-ID'', ''Correlation-ID'', ''Size-Bytes'', ''Digest-SHA256'']))))
    \<and> map_of hs ''X-Wardveil-Resource-ID'' = Some (rq_ResourceID req)
    \<and> map_of hs ''X-Wardveil-Correlation-ID'' = Some corr
    \<and> sp_StatusCode resp = 200
    \<and> json_Decode_one True scan_envelope_fields zero_envelope_wire (limited (sp_Body resp) (wrap64 (hs_maxResponseBytes c + 1)))
        = Some wire
    \<and> int (length (limited (sp_Body resp) (wrap64 (hs_maxResponseBytes c + 1)))) \<le> hs_maxResponseBytes c
    \<and> sw_CorrelationID (ew_ScanRecord wire) = corr \<and> env = envelope_of_wire wire"
proof -
  obtain timeout where cl: "hs_client c = Some \<lparr>cl_Timeout = timeout, cl_Do = transport\<rparr>" "0 < timeout"
    using NewHTTPScanner_client [OF c] NewHTTPScanner_wf [OF c] by (auto simp: scanner_wf_def)
  have sec: "hs_secret c = hc_Secret cfg" and ep: "\<exists>e. url_Parse (hc_Endpoint cfg) = Inr e \<and> hs_endpoint c = Some e"
    using NewHTTPScanner_fields [OF c] by blast+
  show ?thesis
  proof (rule Scan_success [OF run], goal_cases)
    case (1 endpoint client clock nonce_source correlation_source t s1 nonce s2 corr s3 resp)
    let ?hs = "scan_headers c (format_RFC3339Nano t) nonce corr (ToLower (rq_DigestSHA256 req)) req"
    have "map_of ?hs ''X-Wardveil-Signature'' = Some (EncodeToString (hmac_sha256 (hc_Secret cfg)
        (Join [newline] (''0.1.0'' # map (\<lambda>k. the (map_of ?hs (''X-Wardveil-'' @ k))) [''Caller-ID'', ''Key-ID'', ''Timestamp'',
          ''Nonce'', ''Action'', ''Resource-Type'', ''Resource-ID'', ''Correlation-ID'', ''Size-Bytes'', ''Digest-SHA256'']))))"
      by (simp add: scan_headers_def signScanRequest_def sign_material_def WardveilScanContractVersion_def sec)
    moreover have "map_of ?hs ''X-Wardveil-Resource-ID'' = Some (rq_ResourceID req)"
      "map_of ?hs ''X-Wardveil-Correlation-ID'' = Some corr" by (simp_all add: scan_headers_def)
    moreover have e: "url_Parse (hc_Endpoint cfg) = Inr endpoint" using ep 1(1) by auto
    moreover have "transport timeout \<lparr>sh_URL = url_String endpoint, sh_ContentLength = rq_SizeBytes req, sh_Header = ?hs\<rparr> h s3
        = (Inr resp, s')" using 1(2,15) cl(1) by auto
    moreover obtain wire where "sp_StatusCode resp = 200" "json_Decode_one True scan_envelope_fields zero_envelope_wire
        (limited (sp_Body resp) (wrap64 (hs_maxResponseBytes c + 1))) = Some wire"
      "int (length (limited (sp_Body resp) (wrap64 (hs_maxResponseBytes c + 1)))) \<le> hs_maxResponseBytes c"
      "sw_CorrelationID (ew_ScanRecord wire) = corr" "env = envelope_of_wire wire"
      using scan_answer_ok [OF 1(16)] by blast
    ultimately show ?case using cl(2)
      by (intro exI [of _ endpoint] exI [of _ timeout] exI [of _ ?hs] exI [of _ corr] exI [of _ s3] exI [of _ resp]
          exI [of _ wire] conjI)
  qed
qed

text \<open>
  Two scan requests that the client signs with the same material agree in every signed field: the
  fields are joined by newlines, and none of them can hold one as long as the resource identifier does not.
\<close>

theorem sign_material_injective:
  assumes "\<forall>v \<in> {c, k, n, r, c', k', n', r'}. validScanToken v" "validAction a" "validAction a'"
    and "newline \<notin> set i" "newline \<notin> set i'" "0 \<le> z" "0 \<le> z'" "validSHA256 d" "validSHA256 d'"
    and eq: "sign_material c k (format_RFC3339Nano t) n a DriveFileResourceType i r z (ToLower d)
      = sign_material c' k' (format_RFC3339Nano t') n' a' DriveFileResourceType i' r' z' (ToLower d')"
  shows "c = c' \<and> k = k' \<and> format_RFC3339Nano t = format_RFC3339Nano t' \<and> n = n' \<and> a = a' \<and> i = i' \<and> r = r'
    \<and> z = z' \<and> ToLower d = ToLower d'"
proof -
  have fixed: "newline \<notin> set WardveilScanContractVersion" "newline \<notin> set DriveFileResourceType"
    by (simp_all add: WardveilScanContractVersion_def DriveFileResourceType_def)
  let ?l = "\<lambda>c k t n a i r z d. [WardveilScanContractVersion, c, k, format_RFC3339Nano t, n, a, DriveFileResourceType, i, r,
    FormatInt z, ToLower d]"
  have "Split newline (Join [newline] (?l c k t n a i r z d)) = ?l c k t n a i r z d"
    "Split newline (Join [newline] (?l c' k' t' n' a' i' r' z' d')) = ?l c' k' t' n' a' i' r' z' d'"
    by (rule Split_Join; use assms fixed validScanToken_no_newline validAction_no_newline time_no_newline
        FormatInt_no_newline digest_no_newline in simp)+
  then have "?l c k t n a i r z d = ?l c' k' t' n' a' i' r' z' d'" using eq unfolding sign_material_def by metis
  then show ?thesis using FormatInt_inject [OF assms(6,7)] by simp
qed

definition sample_scan_cfg :: "unit HTTPScannerConfig" where
  "sample_scan_cfg =
     \<lparr>hc_Endpoint = ''http://127.0.0.1:8791/v1/scan'', hc_CallerID = [], hc_KeyID = [], hc_Secret = replicate 32 (CHR ''k''),
      hc_Timeout = 0, hc_MaxResponseBytes = 0, hc_Now = None, hc_Nonce = Some (\<lambda>s. (Inr ''n'', s)),
      hc_CorrelationID = Some (\<lambda>s. (Inr ''a'', s))\<rparr>"

definition sample_transport ::
  "duration \<Rightarrow> scan_http_request \<Rightarrow> unit \<Rightarrow> unit \<Rightarrow> (goerr + scan_http_response) \<times> unit" where
  "sample_transport d q h s =
     (Inr \<lparr>sp_StatusCode = 200, sp_ContentType = ''application/json'',
       sp_Body = \<lparr>rd_data = ''{\"scan_record\":{\"correlation_id\":\"a\"}}'', rd_fail = False\<rparr>\<rparr>, s)"

definition sample_scan_client :: "(unit, unit) HTTPScanner" where
  "sample_scan_client =
     \<lparr>hs_endpoint = Some loopback_url, hs_callerID = ''goreecloud-drive'', hs_keyID = ''scan-current'',
      hs_secret = replicate 32 (CHR ''k''),
      hs_client = Some \<lparr>cl_Timeout = 35 * second, cl_Do = sample_transport\<rparr>, hs_maxResponseBytes = 2 ^ 20,
      hs_now = Some (\<lambda>s. (0, s)), hs_nonce = Some (\<lambda>s. (Inr ''n'', s)), hs_correlationID = Some (\<lambda>s. (Inr ''a'', s))\<rparr>"

lemma sample_scan_client_made:
  "NewHTTPScanner (\<lambda>_. Inr loopback_url) sample_ip (\<lambda>s. (0, s)) (\<lambda>s. (Inl EIO, s)) sample_transport sample_scan_cfg
    = Inr sample_scan_client"
proof -
  have t: "validScanToken ''goreecloud-drive''" "validScanToken ''scan-current''" by code_simp+
  show ?thesis
    by (simp add: NewHTTPScanner_def sample_scan_cfg_def validateScanEndpoint_def sample_scan_client_def
        loopback_url_def WardveilScanPath_def sample_ip_def t TrimSpace_k defaultScanCallerID_def defaultScanKeyID_def
        minimumScanCallerSecretBytes_def defaultScanTimeout_def defaultMaxScanResponseBytes_def Let_def)
qed

definition sample_scan_request :: ScanRequest where
  "sample_scan_request =
     \<lparr>rq_ResourceType = ''drive_file'', rq_ResourceID = ''r'', rq_DigestSHA256 = replicate 64 (CHR ''a''), rq_SizeBytes = 3,
      rq_Action = ActionUploadFinalize\<rparr>"

lemma sample_digest: "validSHA256 (replicate 64 (CHR ''a''))"
  by (simp add: validSHA256_def hex_decodes_def list_all_iff is_hex_def is_lower_hex_def)

lemma sample_answer:
  "json_Decode_one True scan_envelope_fields zero_envelope_wire ''{\"scan_record\":{\"correlation_id\":\"a\"}}''
    = Some (zero_envelope_wire\<lparr>ew_ScanRecord := zero_record_wire\<lparr>sw_CorrelationID := ''a''\<rparr>\<rparr>)"
  by code_simp

theorem scan_exchange_witness:
  "\<exists>env hs resp timeout (endpoint :: URL). http_scanner sample_scan_client sample_scan_request () () = (Inr env, ())
     \<and> sample_transport timeout \<lparr>sh_URL = url_String endpoint, sh_ContentLength = rq_SizeBytes sample_scan_request, sh_Header = hs\<rparr> () ()
       = (Inr resp, ()) \<and> map_of hs ''X-Wardveil-Resource-ID'' = Some (rq_ResourceID sample_scan_request) \<and> sp_StatusCode resp = 200"
proof -
  have t: "validScanToken ''n''" "validScanToken ''a''" "TrimSpace ''r'' \<noteq> []" "validAction ActionUploadFinalize"
    "ToLower ''application/json'' = ''application/json''" by code_simp+
  have w: "wrap64 1048577 = 1048577" by (simp add: wrap64_def)
  have l: "limited \<lparr>rd_data = d, rd_fail = False\<rparr> 1048577 = d" if "length d < 100" for d
    using that by (simp add: limited_def)
  have run: "http_scanner sample_scan_client sample_scan_request () ()
      = (Inr (envelope_of_wire (zero_envelope_wire\<lparr>ew_ScanRecord := zero_record_wire\<lparr>sw_CorrelationID := ''a''\<rparr>\<rparr>)), ())"
    by (simp add: http_scanner_def HTTPScanner_Scan_def sample_scan_client_def sample_scan_request_def sample_digest t
        DriveFileResourceType_def sample_transport_def Let_def scan_answer_def w l limited_fails_def sample_answer HasPrefix_def del: ToLower.simps)
  obtain endpoint :: URL and timeout hs s3 resp where
    "sample_transport timeout \<lparr>sh_URL = url_String endpoint, sh_ContentLength = rq_SizeBytes sample_scan_request, sh_Header = hs\<rparr> () s3
       = (Inr resp, ())" "map_of hs ''X-Wardveil-Resource-ID'' = Some (rq_ResourceID sample_scan_request)" "sp_StatusCode resp = 200"
    using scan_exchange [OF sample_scan_client_made run] by blast
  moreover have "s3 = ()" by simp
  ultimately show ?thesis using run by blast
qed

theorem sign_material_injective_witness:
  "\<exists>m. m = sign_material ''c'' ''k'' (format_RFC3339Nano 0) ''n'' ActionOpen DriveFileResourceType ''i'' ''r'' 3 (ToLower (replicate 64 (CHR ''a'')))
     \<and> (\<forall>z \<ge> 0. m = sign_material ''c'' ''k'' (format_RFC3339Nano 0) ''n'' ActionOpen DriveFileResourceType ''i'' ''r'' z (ToLower (replicate 64 (CHR ''a'')))
        \<longrightarrow> z = 3)"
proof -
  have t: "validScanToken ''c''" "validScanToken ''k''" "validScanToken ''n''" "validScanToken ''r''" "validAction ActionOpen" by code_simp+
  show ?thesis
    using sign_material_injective [of "''c''" "''k''" "''n''" "''r''" "''c''" "''k''" "''n''" "''r''" ActionOpen ActionOpen "''i''" "''i''" 3 _
        "replicate 64 (CHR ''a'')" "replicate 64 (CHR ''a'')" 0 0] t sample_digest by auto
qed

end
