(* ===== verification/Http_History.thy ===== *)
theory Http_History
  imports Http_Frame Quarantine_Files Http_Properties Server_Properties
begin

text \<open>
  The running server as a state machine: one HTTP request after another, of any kind and from anybody,
  through the routes of \<^verbatim>\<open>NewWithUploads\<close> to the upload service, the storage backend and the
  quarantine target that share one state. On a reliable file system every published object was cleared by
  the scanner in every state the server reaches, and no request but an authorized quarantine operation
  takes an object away. Requests are handled one at a time here.
\<close>

section \<open>What a request keeps\<close>

text \<open>
  The invariant of the upload service, and the bytes of the published objects except those in \<open>X\<close>.
\<close>

definition keeps_objects ::
  "Local option \<Rightarrow> (usys, fsnode) Scanner \<Rightarrow> (string \<times> string) set \<Rightarrow> usys \<Rightarrow> usys \<Rightarrow> bool" where
  "keeps_objects l scan X s s' \<longleftrightarrow>
     (upload_inv l scan s \<longrightarrow> upload_inv l scan s'
        \<and> (\<forall>k bs. k \<notin> X \<and> object_view l s k = Some bs \<longrightarrow> object_view l s' k = Some bs))"

interpretation ko: step_relation "keeps_objects l scan X" for l scan X
  by unfold_locales (auto simp: keeps_objects_def)

lemma same_keeps_objects: "same_usys s t \<Longrightarrow> keeps_objects l scan X s t"
  using fs_inv_same [of s t l] same_usys_views(2) [of s t l]
  by (auto simp: keeps_objects_def upload_inv_def fs_inv_def)

lemma deps_keep_objects: "deps_keep same_usys deps \<Longrightarrow> deps_keep (keeps_objects l scan X) deps"
  unfolding deps_keep_def repo_keeps_def by (blast intro: keeps_rel_mono same_keeps_objects)

lemma upload_api_keeps:
  assumes "scanner_quiet scan"
  shows "api_keeps (keeps_objects l scan X) (upload_api (upload_service l scan mx ttl))"
proof -
  have step: "keeps_objects l scan X s s'" if "upload_step (upload_service l scan mx ttl) s s'" for s s'
    using upload_step_inv [OF assms _ that] by (auto simp: keeps_objects_def)
  show ?thesis
    unfolding api_keeps_def upload_api_def
    by (auto intro!: keeps_relI intro: step upload_step.intros)
qed

text \<open>
  The objects an apply request may take away: the one its body names, when its bearer token has the
  digest of the configured token.
\<close>

definition quarantine_targets :: "string \<Rightarrow> http_request \<Rightarrow> (string \<times> string) set" where
  "quarantine_targets token r =
     {k. TrimSpace token \<noteq> [] \<and> (\<exists>t. hq_Header r ''Authorization'' = ''Bearer '' @ t
           \<and> sha256_Sum256 t = sha256_Sum256 token)
       \<and> (\<exists>request. decodeJSON apply_fields \<lparr>aq_OperationID = [], aq_CorrelationID = [], aq_Scope = zero_scope\<rparr> r
             = Some request \<and> parseScope (aq_Scope request) = Some k)}"

lemma quarantine_targets_bind [simp]: "quarantine_targets token (bind_path vs r) = quarantine_targets token r"
  by (simp add: quarantine_targets_def bind_path_def decodeJSON_def)

lemma HasPrefix_drop: "HasPrefix h p \<Longrightarrow> h = p @ drop (length p) h"
  unfolding HasPrefix_def by (metis append_take_drop_id)

lemma authorize_keeps:
  assumes "\<And>t. TrimSpace token \<noteq> [] \<Longrightarrow> hq_Header r ''Authorization'' = ''Bearer '' @ t \<Longrightarrow>
      sha256_Sum256 t = sha256_Sum256 token \<Longrightarrow> keeps_rel (keeps_objects l scan X) k"
  shows "keeps_rel (keeps_objects l scan X) (authorizeWardveilService r token k)"
proof (rule keeps_relI)
  fix s v s' assume run: "authorizeWardveilService r token k s = (v, s')"
  let ?h = "hq_Header r ''Authorization''"
  show "keeps_objects l scan X s s'"
  proof (cases "TrimSpace token \<noteq> [] \<and> HasPrefix ?h ''Bearer '' \<and> sha256_Sum256 (drop 7 ?h) = sha256_Sum256 token")
    case True
    then have "?h = ''Bearer '' @ drop 7 ?h" using HasPrefix_drop [of ?h "''Bearer ''"] by (simp add: eval_nat_numeral)
    then have "keeps_rel (keeps_objects l scan X) k" using assms True by blast
    moreover have "k s = (v, s')" using run True by (simp add: authorizeWardveilService_def Let_def)
    ultimately show ?thesis by (rule keeps_relD)
  next
    case False
    then show ?thesis
      using run by (auto simp: authorizeWardveilService_def Let_def writeJSON_def ko.refl split: if_splits)
  qed
qed

lemma quarantine_Apply_keeps:
  assumes q: "quarantine_Apply (Some (Some (usys_store l))) request s = (result, s')"
    and X: "\<And>k. parseScope (aq_Scope request) = Some k \<Longrightarrow> k \<in> X"
  shows "keeps_objects l scan X s s'"
proof (cases "parseScope (aq_Scope request)")
  case None
  then show ?thesis using q by (simp add: quarantine_Apply_def ko.refl)
next
  case sc: (Some k)
  obtain sp n where k: "k = (sp, n)" by fastforce
  obtain x where x: "on_fs (ApplyQuarantine l sp n (aq_OperationID request) (aq_CorrelationID request)) s = (x, s')"
    using q sc k by (auto simp: quarantine_Apply_def usys_store_def split: sum.splits prod.splits)
  have target: "(sp, n) \<in> X" using X sc k by simp
  show ?thesis
    unfolding keeps_objects_def
  proof (intro impI)
    assume inv: "upload_inv l scan s"
    then have "fs_inv l s" by (simp add: upload_inv_def fs_inv_def)
    note O = quarantine_apply_objects [OF this x]
    have "scan_cleared l scan a b bs" if "object_view l s' (a, b) = Some bs" for a b bs
    proof -
      have "object_view l s (a, b) = Some bs" using that O by (metis option.distinct(1))
      then show ?thesis using inv by (simp add: upload_inv_def)
    qed
    then have "upload_inv l scan s'" using O by (simp add: upload_inv_def fs_inv_def)
    moreover have "object_view l s' k' = Some bs" if "k' \<notin> X" "object_view l s k' = Some bs" for k' bs
      using that O target by metis
    ultimately show "upload_inv l scan s' \<and> (\<forall>k bs. k \<notin> X \<and> object_view l s k = Some bs \<longrightarrow> object_view l s' k = Some bs)"
      by simp
  qed
qed

lemma apply_keeps:
  "keeps_rel (keeps_objects l scan (quarantine_targets token r))
     (quarantineApplyHandler (Some (Some (Some (usys_store l)))) token r)"
  unfolding quarantineApplyHandler_def
proof (rule authorize_keeps, rule keeps_relI)
  fix t s v s'
  assume auth: "TrimSpace token \<noteq> []" "hq_Header r ''Authorization'' = ''Bearer '' @ t" "sha256_Sum256 t = sha256_Sum256 token"
    and run: "(case Some (Some (Some (usys_store l))) of
         None \<Rightarrow> writeJSON 503 (ErrorMap ''quarantine target unavailable'') s
       | Some service \<Rightarrow>
       (case decodeJSON apply_fields \<lparr>aq_OperationID = [], aq_CorrelationID = [], aq_Scope = zero_scope\<rparr> r of
          None \<Rightarrow> writeJSON 400 (ErrorMap ''invalid request body'') s
        | Some request \<Rightarrow>
       (case quarantine_Apply service request s of
          (result, s1) \<Rightarrow>
            if ar_Status result = ''applied'' \<or> ar_Status result = ''already_applied''
            then writeJSON 200 (ApplyValue result) s1
            else if ar_Status result = ''failed'' then writeJSON 409 (ApplyValue result) s1
            else writeJSON 503 (ApplyValue result) s1))) = (v, s')"
  show "keeps_objects l scan (quarantine_targets token r) s s'"
  proof (cases "decodeJSON apply_fields \<lparr>aq_OperationID = [], aq_CorrelationID = [], aq_Scope = zero_scope\<rparr> r")
    case None
    then show ?thesis using run by (simp add: writeJSON_def ko.refl)
  next
    case (Some request)
    obtain result s1 where q: "quarantine_Apply (Some (Some (usys_store l))) request s = (result, s1)" by fastforce
    have "s' = s1" using run Some q by (simp add: writeJSON_def split: if_splits)
    moreover have "k \<in> quarantine_targets token r" if "parseScope (aq_Scope request) = Some k" for k
      using auth Some that by (auto simp: quarantine_targets_def)
    ultimately show ?thesis using quarantine_Apply_keeps [OF q] by blast
  qed
qed

lemma read_keeps:
  "keeps_rel (keeps_objects l scan X) (quarantineReadHandler (Some (Some (Some (usys_store l)))) token r)"
  unfolding quarantineReadHandler_def
proof (rule authorize_keeps, rule keeps_relI)
  fix s v s'
  assume run: "(case Some (Some (Some (usys_store l))) of
         None \<Rightarrow> writeJSON 503 (ErrorMap ''quarantine target unavailable'') s
       | Some service \<Rightarrow>
       (case decodeJSON read_fields \<lparr>rq_Scope = zero_scope\<rparr> r of
          None \<Rightarrow> writeJSON 400 (ErrorMap ''invalid request body'') s
        | Some request \<Rightarrow>
       (case quarantine_Read service (rq_Scope request) s of
          (result, s1) \<Rightarrow>
            if rr_Status result = ''unknown'' then writeJSON 503 (ReadValue result) s1
            else writeJSON 200 (ReadValue result) s1))) = (v, s')"
  have "same_usys s t" if "quarantine_Read (Some (Some (usys_store l))) scope s = (x, t)" for scope x t
    using that quarantine_read_same [of l _ _ s]
    by (auto simp: quarantine_Read_def usys_store_def split: option.splits prod.splits sum.splits)
  then show "keeps_objects l scan X s s'"
    using run by (auto simp: writeJSON_def ko.refl intro: same_keeps_objects split: option.splits prod.splits if_splits)
qed

lemma request_keeps:
  assumes "scanner_quiet scan" "deps_keep same_usys deps" "dp_Quarantine deps = Some (Some (Some (usys_store l)))"
    and "keeps_rel same_usys (files (cf_WebDir cfg) w)"
    and X: "wq_Method w = ''POST'' \<and> wq_Path w = quarantine_apply_path \<Longrightarrow>
      X = quarantine_targets (dp_WardveilServiceToken deps) (wq_Request w)"
  shows "keeps_rel (keeps_objects l scan X)
    (sv_Handler (NewWithUploads files cfg deps (Some (upload_api (upload_service l scan mx ttl)))) w)"
proof (rule ko.server_keeps)
  show "deps_keep (keeps_objects l scan X) deps" by (rule deps_keep_objects) (rule assms)
  show "api_keeps (keeps_objects l scan X) (upload_api (upload_service l scan mx ttl))"
    by (rule upload_api_keeps) (rule assms)
  show "keeps_rel (keeps_objects l scan X) (files (cf_WebDir cfg) w)"
    using assms(4) same_keeps_objects by (rule keeps_rel_mono)
  show "keeps_rel (keeps_objects l scan X)
      (quarantineApplyHandler (dp_Quarantine deps) (dp_WardveilServiceToken deps) (bind_path vs (wq_Request w)))"
    if "wq_Method w = ''POST''" "wq_Path w = quarantine_apply_path" for vs
    using apply_keeps [of l scan "dp_WardveilServiceToken deps" "bind_path vs (wq_Request w)"] X that assms(3) by simp
  show "keeps_rel (keeps_objects l scan X) (quarantineReadHandler (dp_Quarantine deps) (dp_WardveilServiceToken deps) r)" for r
    using read_keeps assms(3) by simp
qed

section \<open>Histories of requests\<close>


definition ann_deps :: "usys Dependencies" where
  "ann_deps = (main_deps sample_local sample_config)\<lparr>dp_Principals := Some ann\<rparr>"

abbreviation ann_server :: "usys Server" where
  "ann_server \<equiv> NewWithUploads (su_FileServer sample_surroundings) sample_config ann_deps (Some (upload_api sample_service))"

lemma ann_deps_quiet:
  "deps_keep same_usys ann_deps" "dp_Quarantine ann_deps = Some (Some (Some (usys_store sample_local)))"
  "keeps_rel same_usys (su_FileServer sample_surroundings d w)"
  using on_fs_same [of sys_RandRead] sys_RandRead_frame
  by (auto simp: deps_keep_def ann_deps_def main_deps_def ann_def same_usys_def sample_surroundings_def
      intro!: keeps_relI)

definition ann_completes :: web_request where
  "ann_completes =
     \<lparr>wq_Method = ''POST'', wq_Path = [''api'', ''v1'', ''spaces'', sample_space, ''uploads'', sample_upload, ''complete''],
      wq_Request = sample_complete_request\<rparr>"

lemma ann_server_publishes:
  "\<exists>answer s'. sv_Handler ann_server ann_completes sample_usys = (answer, s')
     \<and> object_view sample_local s' (sample_space, sample_target) = Some ''abc''"
proof -
  let ?s = "sample_usys\<lparr>fs := tick fresh_os\<rparr>"
  have mk: "mkdir_ok (tick s) d = mkdir_ok s d" for s d by (simp add: mkdir_ok_def not_file_def [abs_def])
  obtain s' where c: "uploads_Complete sample_service ''ann'' sample_space sample_upload ?s
      = ((sample_session\<lparr>us_State := StateCompleted\<rparr>, None), s')"
    and o: "object_view sample_local s' (sample_space, sample_target) = Some ''abc''"
    using uploads_Complete_reliable [OF sample_wf sample_ids(1,3) sample_target_ok(1), of ?s sample_session "''ann''" 1
        sample_scan 5 hour] fresh_facts sample_target_free sample_clears
    by (auto simp: sample_usys_def sample_session_def mk)
  have seg: "sample_space \<noteq> ''/''" "sample_upload \<noteq> ''/''" by (simp_all add: sample_space_def sample_upload_def)
  have rand: "snd (dp_rand ann_deps sample_usys) = ?s"
    by (simp add: ann_deps_def main_deps_def on_fs_def sys_RandRead_def sample_usys_def)
  have "snd (ServeMux (upload_routes ann_deps (upload_api sample_service)) other ann_completes ?s) = s'" for other
    using c seg
    by (simp add: ServeMux_def mux_find_def upload_routes_def upload_path_def ann_completes_def bind_path_def
        completeUploadHandler_def resolvePrincipal_def ann_deps_def ann_def upload_api_def writeJSON_def)
  then have "snd (sv_Handler ann_server ann_completes sample_usys) = s'"
    unfolding NewWithUploads_handler middleware_snd rand by simp
  then show ?thesis using o by (metis prod.collapse)
qed



text \<open>
  C12. Only an authorized quarantine operation takes a published object away: on a reliable file system a
  request of any kind leaves the bytes of every published object as they are, unless it is a POST to the
  quarantine target's apply route whose bearer token has the digest of the configured service token and
  whose body names that object.
\<close>

theorem published_objects_kept:
  assumes "scanner_quiet scan" "deps_keep same_usys deps" "dp_Quarantine deps = Some (Some (Some (usys_store l)))"
    and "keeps_rel same_usys (files (cf_WebDir cfg) w)" "upload_inv l scan s"
    and "sv_Handler (NewWithUploads files cfg deps (Some (upload_api (upload_service l scan mx ttl)))) w s = (answer, s')"
    and "object_view l s k = Some bs"
  shows "object_view l s' k = Some bs
    \<or> wq_Method w = ''POST'' \<and> wq_Path w = quarantine_apply_path
      \<and> k \<in> quarantine_targets (dp_WardveilServiceToken deps) (wq_Request w)"
proof -
  let ?X = "if wq_Method w = ''POST'' \<and> wq_Path w = quarantine_apply_path
    then quarantine_targets (dp_WardveilServiceToken deps) (wq_Request w) else {}"
  have "keeps_objects l scan ?X s s'"
    by (rule keeps_relD [OF request_keeps [where files = files and cfg = cfg and w = w, OF assms(1-4)] assms(6)]) simp
  then have "k \<in> ?X \<or> object_view l s' k = Some bs" using assms(5,7) unfolding keeps_objects_def by blast
  then show ?thesis by (auto split: if_splits)
qed

theorem published_objects_kept_witness:
  "\<exists>s1 answer s2. object_view sample_local s1 (sample_space, sample_target) = Some ''abc''
     \<and> sv_Handler ann_server (anonymous_request ''POST'' quarantine_apply_path) s1 = (answer, s2)
     \<and> object_view sample_local s2 (sample_space, sample_target) = Some ''abc''"
proof -
  obtain a1 s1 where run: "sv_Handler ann_server ann_completes sample_usys = (a1, s1)"
    and o: "object_view sample_local s1 (sample_space, sample_target) = Some ''abc''"
    using ann_server_publishes by blast
  have "upload_inv sample_local sample_scan sample_usys"
    using sample_usys_inv by (simp add: upload_inv_def fs_inv_def)
  moreover have "keeps_objects sample_local sample_scan
      (quarantine_targets (dp_WardveilServiceToken ann_deps) (wq_Request ann_completes)) sample_usys s1"
    by (rule keeps_relD [OF request_keeps [OF sample_quiet ann_deps_quiet] run]) simp
  ultimately have inv: "upload_inv sample_local sample_scan s1" by (simp add: keeps_objects_def)
  let ?w = "anonymous_request ''POST'' quarantine_apply_path"
  obtain a2 s2 where run2: "sv_Handler ann_server ?w s1 = (a2, s2)" by fastforce
  have "quarantine_targets t (wq_Request ?w) = {}" for t by (simp add: quarantine_targets_def anonymous_request_def)
  then show ?thesis
    using published_objects_kept [OF sample_quiet ann_deps_quiet inv run2 o] o run2 by auto
qed

end
