(* ===== verification/Upload_Concurrent.thy ===== *)
theory Upload_Concurrent
  imports Upload_Reachable "HOL-Library.Multiset"
begin

text \<open>
  Requests of the upload service that overlap. \<^verbatim>\<open>net/http\<close> runs every request in its own goroutine, and
  the service of \<^verbatim>\<open>internal/uploads/session.go\<close> holds no lock from one call to the next: \<^verbatim>\<open>Append\<close> and
  \<^verbatim>\<open>Complete\<close> are cut here where they have read the session, where the storage backend has done its work,
  and where the session is written back. Between these phases any other request may run any of its own. A
  single operation of the repository or of the storage backend and one run of the gate remain single
  steps.
\<close>

section \<open>Phases\<close>

text \<open>A phase ends the request with a session and an error, or hands a session to the next phase.\<close>

type_synonym 's phase = "(UploadSession \<times> uerr + UploadSession) \<times> 's"

definition stops :: "goerr \<Rightarrow> 's \<Rightarrow> 's phase" where
  "stops e s = (Inl (zero_session, UErr e), s)"

definition then_phase :: "'s phase \<Rightarrow> (UploadSession \<Rightarrow> 's \<Rightarrow> 's upload_result) \<Rightarrow> 's upload_result" where
  "then_phase ph k = (case ph of (Inl (x, err), s) \<Rightarrow> ((x, Some err), s) | (Inr x, s) \<Rightarrow> k x s)"

definition append_begin ::
  "'s UploadService \<Rightarrow> string \<Rightarrow> string \<Rightarrow> string \<Rightarrow> int64 \<Rightarrow> 's \<Rightarrow> 's phase" where
  "append_begin svc accountID spaceID uploadID expectedOffset s =
     (case uploads_Get svc accountID spaceID uploadID s of
        (Inl err, s1) \<Rightarrow> stops err s1
      | (Inr session, s1) \<Rightarrow>
          if us_State session \<noteq> StateActive then stops (Sentinel UploadsErrCompleted) s1
          else if us_Offset session \<noteq> expectedOffset
          then (Inl (session, UErr (Sentinel UploadsErrOffsetMismatch)), s1)
          else (Inr session, s1))"

definition append_store ::
  "'s UploadService \<Rightarrow> string \<Rightarrow> string \<Rightarrow> int64 \<Rightarrow> reader option \<Rightarrow> UploadSession \<Rightarrow> 's \<Rightarrow> 's phase" where
  "append_store svc spaceID uploadID expectedOffset body session s =
     (case (svc_repo svc, svc_store svc) of
        (Some repo, Some store) \<Rightarrow>
          (case st_AppendStaging store spaceID uploadID expectedOffset body (svc_maxChunk svc) s of
             ((nxt, Some err), s1) \<Rightarrow> (Inl (session, UErr err), s1)
           | ((nxt, None), s1) \<Rightarrow> (Inr (session\<lparr>us_Offset := nxt\<rparr>), s1))
      | _ \<Rightarrow> stops (ErrorString ''upload service unavailable'') s)"

definition complete_begin :: "'s UploadService \<Rightarrow> string \<Rightarrow> string \<Rightarrow> string \<Rightarrow> 's \<Rightarrow> 's phase" where
  "complete_begin svc accountID spaceID uploadID s =
     (case uploads_Get svc accountID spaceID uploadID s of
        (Inl err, s1) \<Rightarrow> stops err s1
      | (Inr session, s1) \<Rightarrow>
     if us_State session \<noteq> StateActive then stops (Sentinel UploadsErrCompleted) s1
     else if us_NodeID session = []
     then (Inl (session, UErr (Wrapped ''final node is not assigned'' (Sentinel UploadsErrInvalidTarget))), s1)
     else case svc_security svc of
        None \<Rightarrow> (Inl (session, UErr (Sentinel UploadsErrSecurityUnavailable)), s1)
      | Some security \<Rightarrow>
     (case security (us_SpaceID session) (us_ID session) (us_NodeID session) s1 of
        (Inl err, s2) \<Rightarrow>
          (Inl (session, UErr (Wrapped ''evaluate upload'' (Sentinel UploadsErrSecurityUnavailable))), s2)
      | (Inr decision, s2) \<Rightarrow>
          if \<not> de_CanRelease decision then (Inl (session, SecurityBlockedError decision), s2)
          else (Inr session, s2)))"

definition complete_publish :: "'s UploadService \<Rightarrow> string \<Rightarrow> string \<Rightarrow> UploadSession \<Rightarrow> 's \<Rightarrow> 's phase" where
  "complete_publish svc spaceID uploadID session s =
     (case rejectExpired svc session s of
        (Inl err, s1) \<Rightarrow> (Inl (session, UErr err), s1)
      | (Inr _, s1) \<Rightarrow>
     (case (svc_repo svc, svc_store svc) of
        (Some repo, Some store) \<Rightarrow>
          (case st_Finalize store spaceID uploadID (us_NodeID session) s1 of
             (Inl err, s2) \<Rightarrow> stops err s2
           | (Inr _, s2) \<Rightarrow> (Inr (session\<lparr>us_State := StateCompleted\<rparr>), s2))
      | _ \<Rightarrow> stops (ErrorString ''upload service unavailable'') s1))"

definition upload_record :: "'s UploadService \<Rightarrow> UploadSession \<Rightarrow> 's \<Rightarrow> 's upload_result" where
  "upload_record svc session s =
     (case svc_repo svc of
        None \<Rightarrow> fails (ErrorString ''upload service unavailable'') s
      | Some repo \<Rightarrow>
          (case ur_Update repo session s of
             (Inl err, s1) \<Rightarrow> fails err s1
           | (Inr _, s1) \<Rightarrow> ((session, None), s1)))"

lemmas phase_defs = then_phase_def stops_def fails_def

text \<open>Run without interruption, the phases are the operations.\<close>

lemma Append_phases:
  "uploads_Append svc acct sp up off body s =
     then_phase (append_begin svc acct sp up off s) (\<lambda>x s1.
       then_phase (append_store svc sp up off body x s1) (upload_record svc))"
  by (auto simp: uploads_Append_def append_begin_def append_store_def upload_record_def phase_defs Let_def
      split: prod.split sum.split option.split)

lemma Complete_phases:
  "uploads_Complete svc acct sp up s =
     then_phase (complete_begin svc acct sp up s) (\<lambda>x s1.
       then_phase (complete_publish svc sp up x s1) (upload_record svc))"
  by (auto simp: uploads_Complete_def complete_begin_def complete_publish_def upload_record_def phase_defs Let_def
      split: prod.split sum.split option.split)

section \<open>Overlapping requests\<close>

text \<open>What a request that is under way still has to do.\<close>

datatype flight =
    Storing string string int64 "reader option" UploadSession
  | Publishing string string UploadSession
  | Recording UploadSession

inductive conc_step :: "usys UploadService \<Rightarrow> usys \<times> flight multiset \<Rightarrow> usys \<times> flight multiset \<Rightarrow> bool" for svc where
  create: "uploads_Create svc acct sp n par name s = (r, s') \<Longrightarrow> conc_step svc (s, F) (s', F)"
| get: "uploads_Get svc acct sp up s = (g, s') \<Longrightarrow> conc_step svc (s, F) (s', F)"
| append: "append_begin svc acct sp up off s = (Inr x, s') \<Longrightarrow>
    conc_step svc (s, F) (s', add_mset (Storing sp up off body x) F)"
| append_refused: "append_begin svc acct sp up off s = (Inl e, s') \<Longrightarrow> conc_step svc (s, F) (s', F)"
| store: "append_store svc sp up off body x s = (Inr y, s') \<Longrightarrow>
    conc_step svc (s, add_mset (Storing sp up off body x) F) (s', add_mset (Recording y) F)"
| store_failed: "append_store svc sp up off body x s = (Inl e, s') \<Longrightarrow>
    conc_step svc (s, add_mset (Storing sp up off body x) F) (s', F)"
| complete: "complete_begin svc acct sp up s = (Inr x, s') \<Longrightarrow>
    conc_step svc (s, F) (s', add_mset (Publishing sp up x) F)"
| complete_refused: "complete_begin svc acct sp up s = (Inl e, s') \<Longrightarrow> conc_step svc (s, F) (s', F)"
| publish: "complete_publish svc sp up x s = (Inr y, s') \<Longrightarrow>
    conc_step svc (s, add_mset (Publishing sp up x) F) (s', add_mset (Recording y) F)"
| publish_failed: "complete_publish svc sp up x s = (Inl e, s') \<Longrightarrow>
    conc_step svc (s, add_mset (Publishing sp up x) F) (s', F)"
| recorded: "upload_record svc x s = (r, s') \<Longrightarrow> conc_step svc (s, add_mset (Recording x) F) (s', F)"

inductive conc_reach :: "usys UploadService \<Rightarrow> usys \<times> flight multiset \<Rightarrow> usys \<times> flight multiset \<Rightarrow> bool" for svc c0 where
  init: "conc_reach svc c0 c0"
| step: "conc_reach svc c0 c \<Longrightarrow> conc_step svc c c' \<Longrightarrow> conc_reach svc c0 c'"

lemma conc_reach_trans: "conc_reach svc b c \<Longrightarrow> conc_reach svc a b \<Longrightarrow> conc_reach svc a c"
  by (induction rule: conc_reach.induct) (auto intro: conc_reach.step)

text \<open>A whole request is one way to run its phases.\<close>

lemma phases_reach:
  assumes "case ph of (Inl e, s1) \<Rightarrow> conc_step svc c (s1, F) | (Inr x, s1) \<Rightarrow> conc_step svc c (s1, add_mset (f x) F)"
    and "\<And>x s1. ph = (Inr x, s1) \<Longrightarrow> k x s1 = (r, s') \<Longrightarrow> conc_reach svc (s1, add_mset (f x) F) (s', F)"
    and "then_phase ph k = (r, s')"
  shows "conc_reach svc c (s', F)"
proof (cases ph)
  case (Pair q s1)
  show ?thesis
  proof (cases q)
    case (Inl e)
    then show ?thesis
      using assms Pair by (cases e) (auto simp: then_phase_def intro: conc_reach.step [OF conc_reach.init])
  next
    case (Inr x)
    then show ?thesis
      using assms Pair conc_reach_trans [OF _ conc_reach.step [OF conc_reach.init]]
      by (auto simp: then_phase_def)
  qed
qed

lemma recorded_reach: "upload_record svc x s = (r, s') \<Longrightarrow> conc_reach svc (s, add_mset (Recording x) F) (s', F)"
  by (rule conc_reach.step [OF conc_reach.init conc_step.recorded])

lemma Append_reach:
  assumes "uploads_Append svc acct sp up off body s = (r, s')"
  shows "conc_reach svc (s, F) (s', F)"
proof (rule phases_reach [OF _ _ assms [unfolded Append_phases]])
  show "case append_begin svc acct sp up off s of (Inl e, s1) \<Rightarrow> conc_step svc (s, F) (s1, F)
      | (Inr x, s1) \<Rightarrow> conc_step svc (s, F) (s1, add_mset (Storing sp up off body x) F)"
    by (auto split: prod.split sum.split intro: conc_step.append conc_step.append_refused)
next
  fix x s1
  assume k: "then_phase (append_store svc sp up off body x s1) (upload_record svc) = (r, s')"
  show "conc_reach svc (s1, add_mset (Storing sp up off body x) F) (s', F)"
  proof (rule phases_reach [OF _ _ k])
    show "case append_store svc sp up off body x s1 of
        (Inl e, s2) \<Rightarrow> conc_step svc (s1, add_mset (Storing sp up off body x) F) (s2, F)
      | (Inr y, s2) \<Rightarrow> conc_step svc (s1, add_mset (Storing sp up off body x) F) (s2, add_mset (Recording y) F)"
      by (auto split: prod.split sum.split intro: conc_step.store conc_step.store_failed)
  qed (rule recorded_reach)
qed

lemma Complete_reach:
  assumes "uploads_Complete svc acct sp up s = (r, s')"
  shows "conc_reach svc (s, F) (s', F)"
proof (rule phases_reach [OF _ _ assms [unfolded Complete_phases]])
  show "case complete_begin svc acct sp up s of (Inl e, s1) \<Rightarrow> conc_step svc (s, F) (s1, F)
      | (Inr x, s1) \<Rightarrow> conc_step svc (s, F) (s1, add_mset (Publishing sp up x) F)"
    by (auto split: prod.split sum.split intro: conc_step.complete conc_step.complete_refused)
next
  fix x s1
  assume k: "then_phase (complete_publish svc sp up x s1) (upload_record svc) = (r, s')"
  show "conc_reach svc (s1, add_mset (Publishing sp up x) F) (s', F)"
  proof (rule phases_reach [OF _ _ k])
    show "case complete_publish svc sp up x s1 of
        (Inl e, s2) \<Rightarrow> conc_step svc (s1, add_mset (Publishing sp up x) F) (s2, F)
      | (Inr y, s2) \<Rightarrow> conc_step svc (s1, add_mset (Publishing sp up x) F) (s2, add_mset (Recording y) F)"
      by (auto split: prod.split sum.split intro: conc_step.publish conc_step.publish_failed)
  qed (rule recorded_reach)
qed

lemma upload_reach_conc:
  assumes "upload_reach svc s0 s"
  shows "conc_reach svc (s0, F) (s, F)"
  using assms
proof (induction rule: upload_reach.induct)
  case init
  show ?case by (rule conc_reach.init)
next
  case (step s s')
  have "conc_reach svc (s, F) (s', F)"
    using step(2)
    by (cases rule: upload_step.cases)
      (auto intro: Append_reach Complete_reach conc_reach.step [OF conc_reach.init] conc_step.create conc_step.get)
  then show ?case using step(3) by (rule conc_reach_trans)
qed

end
