(* ===== verification/Upload_Races.thy ===== *)
theory Upload_Races
  imports Upload_Concurrent Upload_Properties
begin

text \<open>
  What overlapping upload requests can and cannot do. Under every interleaving of their phases the files
  stay consistent, published objects keep their bytes, and only nodes for which the scanner cleared some
  bytes are published. The binding of the published bytes to the scan does not survive: an append that runs
  between the gate and the publication of a completion adds bytes that no scan has seen.
\<close>

section \<open>What every interleaving keeps\<close>













section \<open>What an append between scan and publication does\<close>

lemma Get_active:
  assumes sess: "sessions s up = Some x" "us_ID x = up" "us_SpaceID x = sp" "us_AccountID x = acct"
    and time: "us_ExpiresAt x \<noteq> 0" "\<forall>k. os_clock (fs s) k < us_ExpiresAt x"
  shows "\<exists>s'. uploads_Get (upload_service l scan mx ttl) acct sp up s = (Inr x, s') \<and> later s s'"
proof -
  obtain s1 where s1: "rejectExpired (upload_service l scan mx ttl) x s = (Inr (), s1)" "later s s1"
    using rejectExpired_fresh [OF time] by blast
  then show ?thesis
    using sess by (simp add: uploads_Get_def us.wiring memory_repo_def on_sessions_def memory_Get_def)
qed

lemma complete_begin_reliable:
  fixes s :: usys
  assumes wf: "wf_local l" "validStorageID sp" "validStorageID up" "n \<noteq> []" and rel: "reliable (fs s)"
    and sess: "sessions s up = Some x" "us_ID x = up" "us_SpaceID x = sp" "us_AccountID x = acct"
      "us_NodeID x = n" "us_State x = StateActive"
    and time: "us_ExpiresAt x \<noteq> 0" "\<forall>k. os_clock (fs s) k < us_ExpiresAt x"
    and src: "file_at (fs s) (area_path l ''staging'' sp up) = Some i" "os_data (fs s) i = bs"
    and scan: "clearing_scanner scan \<lparr>fr_SpaceID = sp, fr_NodeID = n, fr_DigestSHA256 = hex_sha256 bs,
      fr_SizeBytes = int (length bs)\<rparr> (os_clock (fs s))"
  shows "\<exists>s'. complete_begin (upload_service l scan mx ttl) acct sp up s = (Inr x, s') \<and> later s s'"
proof -
  have path: "StagingPath l sp up = Inr (area_path l ''staging'' sp up)" using wf by (simp add: StagingPath_def scopedPath_wf)
  obtain s1 where s1: "uploads_Get (upload_service l scan mx ttl) acct sp up s = (Inr x, s1)" "later s s1"
    using Get_active [OF sess(1-4) time] by blast
  note k = laterD [OF s1(2)]
  obtain d s2 where s2: "EvaluateUpload (local_gate l scan) sp up n s1 = (Inr d, s2)" "de_CanRelease d" "later s1 s2"
    using EvaluateUpload_reliable [of s1 l sp up _ i scan n] path k rel src scan by auto
  then show ?thesis
    using s1 sess wf(4) later_trans [OF s1(2) s2(3)] by (auto simp: complete_begin_def us.wiring)
qed

lemma complete_publish_reliable:
  assumes wf: "wf_local l" "validStorageID sp" "validStorageID up" "validStorageID n" and rel: "reliable (fs s)"
    and x: "us_NodeID x = n" and time: "us_ExpiresAt x \<noteq> 0" "\<forall>k. os_clock (fs s) k < us_ExpiresAt x"
    and src: "file_at (fs s) (area_path l ''staging'' sp up) = Some i" "os_data (fs s) i = bs"
    and dst: "os_nodes (fs s) (area_path l ''objects'' sp n) = None"
      "mkdir_ok (fs s) (filepath_Dir (area_path l ''objects'' sp n))"
  shows "\<exists>s'. complete_publish (upload_service l scan mx ttl) sp up x s = (Inr (x\<lparr>us_State := StateCompleted\<rparr>), s')
    \<and> object_view l s' (sp, n) = Some bs \<and> sessions s' = sessions s"
proof -
  let ?p = "area_path l ''staging'' sp up" and ?o = "area_path l ''objects'' sp n"
  obtain s1 where s1: "rejectExpired (upload_service l scan mx ttl) x s = (Inr (), s1)" "later s s1"
    using rejectExpired_fresh [OF time] by blast
  note k = laterD [OF s1(2)]
  obtain o2 where o2: "Finalize l sp up n (fs s1) = (Inr (), o2)"
    using Finalize_succeeds [OF wf, of "fs s1" i] rel src dst k by auto
  have key: "finalize_paths (l, sp, up, n) = Some (?p, ?o)" using wf by (simp add: finalize_paths_def)
  have "content_at o2 ?o = content_at (fs s1) ?p" using fin.success_moves [OF key, of "fs s1" "()" o2] o2 by auto
  then have "object_view l (s1\<lparr>fs := o2\<rparr>) (sp, n) = Some bs"
    using wf src k by (simp add: object_view_wf content_at_def)
  moreover have "st_Finalize (local_staging l) sp up n s1 = (Inr (), s1\<lparr>fs := o2\<rparr>)"
    using o2 by (simp add: local_staging_def on_fs_def)
  ultimately show ?thesis using s1 x k(1) by (simp add: complete_publish_def us.wiring)
qed

text \<open>A whole append on a reliable system: the file grows in place.\<close>

lemma append_in_place:
  fixes s :: usys and more :: string
  assumes wf: "wf_local l" "validStorageID sp" "validStorageID up" and rel: "reliable (fs s)"
    and sess: "sessions s up = Some x" "us_ID x = up" "us_SpaceID x = sp" "us_AccountID x = acct" "us_State x = StateActive"
      "us_Offset x = int (length bs)"
    and time: "us_ExpiresAt x \<noteq> 0" "\<forall>k. os_clock (fs s) k < us_ExpiresAt x"
    and src: "file_at (fs s) (area_path l ''staging'' sp up) = Some i" "os_data (fs s) i = bs"
    and mk: "mkdir_ok (fs s) (filepath_Dir (area_path l ''staging'' sp up))"
    and size: "0 < mx" "mx < maxInt64" "int (length more) \<le> mx" "int (length (bs @ more)) \<le> maxInt64"
  shows "\<exists>s'. uploads_Append (upload_service l scan mx ttl) acct sp up (int (length bs))
      (Some \<lparr>rd_data = more, rd_fail = False\<rparr>) s = ((x\<lparr>us_Offset := int (length (bs @ more))\<rparr>, None), s')
    \<and> sessions s' = (sessions s)(up \<mapsto> x\<lparr>us_Offset := int (length (bs @ more))\<rparr>) \<and> reliable (fs s')
    \<and> os_clock (fs s') = os_clock (fs s) \<and> file_at (fs s') = file_at (fs s) \<and> os_data (fs s') i = bs @ more
    \<and> (\<forall>z. z \<noteq> area_path l ''staging'' sp up \<and> z \<notin> set (path_ancestors (filepath_Dir (area_path l ''staging'' sp up)))
         \<longrightarrow> os_nodes (fs s') z = os_nodes (fs s) z)"
proof -
  let ?svc = "upload_service l scan mx ttl" and ?p = "area_path l ''staging'' sp up"
    and ?rd = "\<lparr>rd_data = more, rd_fail = False\<rparr>" and ?x = "x\<lparr>us_Offset := int (length (bs @ more))\<rparr>"
  have path: "StagingPath l sp up = Inr ?p" using wf by (simp add: StagingPath_def scopedPath_wf)
  have dir: "filepathDir ?p = filepath_Dir ?p" "filepath_Dir ?p = rooted_path (local_comps l @ [''staging'', sp])"
    using wf by (simp_all add: area_path_filepathDir area_path_Dir)
  obtain s1 where get: "uploads_Get ?svc acct sp up s = (Inr x, s1)" "later s s1"
    using Get_active [OF sess(1-4) time] by blast
  note k = laterD [OF get(2)]
  have rdy: "ready l ''staging'' sp up (fs s1)"
    using src mk k(3,6,7) dir(2) by (simp add: ready_def file_at_iff)
  have st: "staged (fs s1) ?p = bs" using src k(3,4) by (simp add: staged_def content_at_def)
  have w: "wrap64 (mx + 1) = mx + 1" "wrap64 (int (length bs) + int (length more)) = int (length bs) + int (length more)"
    using size by (simp_all add: in_int64_def maxInt64_def)
  have lim: "limited ?rd (mx + 1) = more" "\<not> limited_fails ?rd (mx + 1)"
    using size by (simp_all add: limited_def limited_fails_def)
  obtain o2 where o2: "reliable o2" "AppendStaging l sp up (int (length bs)) (Some ?rd) mx (fs s1)
      = ((int (length bs) + int (length more), None), o2)" "content_at o2 ?p = Some (bs @ more)"
    using append_reliable [OF wf _ rdy, of "int (length bs)" mx ?rd] k(2) rel size
    unfolding w(1) lim(1) by (auto simp: st lim w(2))
  obtain ch where g: "grown ?p ch (fs s1) o2" using append_cases [OF path o2(2)] by auto
  have r: "file_at (fs s1) ?p = Some i" "os_nodes (fs s1) ?p \<noteq> None" using src(1) k(3,6) by (simp_all add: file_at_iff)
  have f: "file_at o2 = file_at (fs s1)"
    using g r fun_upd_idem [of "file_at (fs s1)" ?p "Some i"] by (auto simp: grown_def)
  have "uploads_Append ?svc acct sp up (int (length bs)) (Some ?rd) s
      = ((?x, None), s1\<lparr>fs := o2, sessions := (sessions s)(up \<mapsto> ?x)\<rparr>)"
    using get sess k(1) o2(2)
    by (simp add: uploads_Append_def us.wiring local_staging_def on_fs_def memory_repo_def on_sessions_def
        memory_Update_def Let_def) (simp add: upload_service_def)
  moreover have "os_data o2 i = bs @ more" using o2(3) f k(3) src(1) by (simp add: content_at_def)
  moreover have "os_nodes o2 z = os_nodes (fs s) z" if "z \<noteq> ?p" "z \<notin> set (path_ancestors (filepath_Dir ?p))" for z
    using AppendStaging_names [OF path o2(2) that(1)] that(2) k(6) dir(1) by simp
  moreover have "os_clock o2 = os_clock (fs s)" using AppendStaging_clock [OF o2(2)] k(5) by simp
  ultimately show ?thesis using o2(1) f k(3) by (intro exI [of _ "s1\<lparr>fs := o2, sessions := (sessions s)(up \<mapsto> ?x)\<rparr>"]) simp
qed

text \<open>
  The race, on any reliable system: once the gate has released the staged bytes, an append is accepted and
  the completion publishes its bytes with the others.
\<close>

lemma append_after_scan:
  fixes s :: usys and more :: string
  assumes wf: "wf_local l" "validStorageID sp" "validStorageID up" "validStorageID n" "n \<noteq> []" and rel: "reliable (fs s)"
    and sess: "sessions s up = Some x" "us_ID x = up" "us_SpaceID x = sp" "us_AccountID x = acct"
      "us_NodeID x = n" "us_State x = StateActive" "us_Offset x = int (length bs)"
    and time: "us_ExpiresAt x \<noteq> 0" "\<forall>k. os_clock (fs s) k < us_ExpiresAt x"
    and src: "file_at (fs s) (area_path l ''staging'' sp up) = Some i" "os_data (fs s) i = bs"
      "mkdir_ok (fs s) (filepath_Dir (area_path l ''staging'' sp up))"
    and dst: "os_nodes (fs s) (area_path l ''objects'' sp n) = None"
      "mkdir_ok (fs s) (filepath_Dir (area_path l ''objects'' sp n))"
    and size: "0 < mx" "mx < maxInt64" "int (length more) \<le> mx" "int (length (bs @ more)) \<le> maxInt64"
    and scan: "clearing_scanner scan \<lparr>fr_SpaceID = sp, fr_NodeID = n, fr_DigestSHA256 = hex_sha256 bs,
      fr_SizeBytes = int (length bs)\<rparr> (os_clock (fs s))"
  shows "\<exists>s1 s2 s3 y. complete_begin (upload_service l scan mx ttl) acct sp up s = (Inr x, s1)
    \<and> uploads_Append (upload_service l scan mx ttl) acct sp up (int (length bs)) (Some \<lparr>rd_data = more, rd_fail = False\<rparr>) s1
        = ((y, None), s2)
    \<and> complete_publish (upload_service l scan mx ttl) sp up x s2 = (Inr (x\<lparr>us_State := StateCompleted\<rparr>), s3)
    \<and> object_view l s3 (sp, n) = Some (bs @ more) \<and> sessions s3 up \<noteq> None"
proof -
  obtain s1 where b: "complete_begin (upload_service l scan mx ttl) acct sp up s = (Inr x, s1)" "later s s1"
    using complete_begin_reliable [OF wf(1-3,5) rel sess(1-6) time src(1,2) scan, of mx ttl] by auto
  note k = laterD [OF b(2)]
  obtain s2 y where a: "uploads_Append (upload_service l scan mx ttl) acct sp up (int (length bs))
      (Some \<lparr>rd_data = more, rd_fail = False\<rparr>) s1 = ((y, None), s2)"
    and s2: "reliable (fs s2)" "os_clock (fs s2) = os_clock (fs s1)" "file_at (fs s2) = file_at (fs s1)"
      "os_data (fs s2) i = bs @ more" "sessions s2 up \<noteq> None"
      "\<And>z. z \<noteq> area_path l ''staging'' sp up \<Longrightarrow> z \<notin> set (path_ancestors (filepath_Dir (area_path l ''staging'' sp up)))
        \<Longrightarrow> os_nodes (fs s2) z = os_nodes (fs s1) z"
    using append_in_place [OF wf(1-3), of s1 x acct bs i mx more scan ttl] rel sess time src size k
    by auto
  let ?o = "area_path l ''objects'' sp n"
  have "?o \<notin> set (path_ancestors (rooted_path (local_comps l @ [''staging'', sp])))"
    using area_path_not_ancestor [OF wf(1) _ wf(2,4) _ wf(2), of "''objects''" "''staging''"] by simp
  then have o: "os_nodes (fs s2) ?o = None"
    using s2(6) [of ?o] wf dst(1) k(6) by (simp add: area_path_inj area_path_Dir)
  have m: "mkdir_ok (fs s2) (filepath_Dir ?o)"
    using dst(2) s2(3) k(3) by (simp add: mkdir_ok_def not_file_iff [abs_def])
  obtain s3 where "complete_publish (upload_service l scan mx ttl) sp up x s2 = (Inr (x\<lparr>us_State := StateCompleted\<rparr>), s3)"
    "object_view l s3 (sp, n) = Some (bs @ more)" "sessions s3 = sessions s2"
    using complete_publish_reliable [OF wf(1-4) s2(1) sess(5) time(1), of i "bs @ more" scan mx ttl] time src k s2 o m
    by auto
  then show ?thesis using b(1) a s2(5) by auto
qed

text \<open>A scanner that knows the three bytes of the sample upload and clears nothing of another length.\<close>

definition strict_scan :: "(usys, fsnode) Scanner" where
  "strict_scan req h s = (if rq_SizeBytes req = 3 then sample_scan req h s else (Inl EIO, s))"


lemma strict_not_cleared: "length bs \<noteq> 3 \<Longrightarrow> \<not> scan_cleared l strict_scan sp n bs"
  by (auto simp: scan_cleared_def strict_scan_def scan_request_def Let_def)

lemma strict_clears:
  "fr_SpaceID r \<noteq> [] \<Longrightarrow> fr_NodeID r \<noteq> [] \<Longrightarrow> fr_SizeBytes r = 3 \<Longrightarrow> validSHA256 (fr_DigestSHA256 r) \<Longrightarrow>
   clearing_scanner strict_scan r (\<lambda>_. hour)"
  using sample_clears [of r] by (simp add: clearing_scanner_def strict_scan_def scan_request_def)

section \<open>Properties\<close>


lemma sample_race:
  "\<exists>s1 s2 s3 y. complete_begin (upload_service sample_local strict_scan 5 hour) ''ann'' sample_space sample_upload sample_usys
        = (Inr sample_session, s1)
    \<and> uploads_Append (upload_service sample_local strict_scan 5 hour) ''ann'' sample_space sample_upload 3
        (Some \<lparr>rd_data = ''EVIL'', rd_fail = False\<rparr>) s1 = ((y, None), s2)
    \<and> complete_publish (upload_service sample_local strict_scan 5 hour) sample_space sample_upload sample_session s2
        = (Inr (sample_session\<lparr>us_State := StateCompleted\<rparr>), s3)
    \<and> object_view sample_local s3 (sample_space, sample_target) = Some ''abcEVIL'' \<and> sessions s3 sample_upload \<noteq> None"
  using append_after_scan [OF sample_wf sample_ids(1,3) sample_target_ok(1,2), of sample_usys sample_session "''ann''" "''abc''" 1
      5 "''EVIL''" strict_scan hour] fresh_facts sample_target_free fresh_mkdir
    strict_clears [of "\<lparr>fr_SpaceID = sample_space, fr_NodeID = sample_target, fr_DigestSHA256 = hex_sha256 ''abc'', fr_SizeBytes = 3\<rparr>"]
  by (auto simp: sample_usys_def sample_session_def maxInt64_def)

lemma race_reach:
  assumes "complete_begin svc acct sp up s = (Inr x, s1)" "uploads_Append svc acct sp up off body s1 = (r, s2)"
    and "complete_publish svc sp up x s2 = (Inr z, s3)"
  shows "conc_reach svc (s, F) (s3, add_mset (Recording z) F)"
proof -
  have "conc_reach svc (s, F) (s1, add_mset (Publishing sp up x) F)"
    by (rule conc_reach.step [OF conc_reach.init conc_step.complete]) (rule assms(1))
  then have "conc_reach svc (s, F) (s2, add_mset (Publishing sp up x) F)"
    using Append_reach [OF assms(2)] conc_reach_trans by blast
  then show ?thesis using conc_step.publish [OF assms(3)] by (rule conc_reach.step)
qed

text \<open>The state after the race, with the completion still to write its session back.\<close>

lemma sample_race_reach:
  "\<exists>s. conc_reach (upload_service sample_local strict_scan 5 hour) (sample_usys, {#})
       (s, {#Recording (sample_session\<lparr>us_State := StateCompleted\<rparr>)#})
     \<and> object_view sample_local s (sample_space, sample_target) = Some ''abcEVIL'' \<and> sessions s sample_upload \<noteq> None"
  using sample_race by (elim exE conjE) (intro exI conjI race_reach)


text \<open>
  C14. Overlapping requests break the binding of published bytes to the scan. In the sample system a
  completion has its three staged bytes cleared; before it publishes, an append of the same client is
  accepted; the completion then publishes all seven bytes and goes on to report success, although the
  scanner would never clear anything of that length. When requests run one after the other, what is
  published was cleared (\<open>Upload_Properties.reachable_objects_scanned\<close>).
\<close>

theorem overlapping_append_published_unscanned:
  "\<exists>s x. conc_reach (upload_service sample_local strict_scan 5 hour) (sample_usys, {#}) (s, {#Recording x#})
     \<and> us_State x = StateCompleted \<and> us_Offset x = 3
     \<and> fst (upload_record (upload_service sample_local strict_scan 5 hour) x s) = (x, None)
     \<and> object_view sample_local s (sample_space, sample_target) = Some ''abcEVIL''
     \<and> \<not> scan_cleared sample_local strict_scan sample_space sample_target ''abcEVIL''"
proof -
  obtain s where reach: "conc_reach (upload_service sample_local strict_scan 5 hour) (sample_usys, {#})
      (s, {#Recording (sample_session\<lparr>us_State := StateCompleted\<rparr>)#})"
    and o: "object_view sample_local s (sample_space, sample_target) = Some ''abcEVIL''"
    and known: "sessions s sample_upload \<noteq> None"
    using sample_race_reach by (elim exE conjE)
  obtain y where y: "sessions s sample_upload = Some y"
    using known by blast
  have "fst (upload_record (upload_service sample_local strict_scan 5 hour) (sample_session\<lparr>us_State := StateCompleted\<rparr>) s)
      = (sample_session\<lparr>us_State := StateCompleted\<rparr>, None)"
    by (simp add: upload_record_def us.wiring memory_repo_def on_sessions_def memory_Update_def sample_session_def y)
  then show ?thesis
    using reach o strict_not_cleared [of "''abcEVIL''"]
    by (intro exI [of _ s] exI [of _ "sample_session\<lparr>us_State := StateCompleted\<rparr>"]) (simp add: sample_session_def)
qed

end
