(* ===== verification/Server_Lifecycle.thy ===== *)
theory Server_Lifecycle
  imports Server
begin

text \<open>
  The end of \<^verbatim>\<open>main\<close> in \<^verbatim>\<open>cmd/server/main.go\<close>: the goroutine that serves, the signals, the
  \<^verbatim>\<open>select\<close> between the two and the shutdown, as a transition system. One event is one step of one of the
  two goroutines or of the environment; their order is free. Of \<^verbatim>\<open>net/http\<close> the model uses that
  \<^verbatim>\<open>ListenAndServe\<close> returns \<^verbatim>\<open>ErrServerClosed\<close> only after \<^verbatim>\<open>Shutdown\<close> was called, and that
  \<^verbatim>\<open>Shutdown\<close> returns (its context has a deadline).
\<close>

section \<open>States and steps\<close>

text \<open>
  The serving goroutine: inside \<^verbatim>\<open>ListenAndServe\<close>, before \<^verbatim>\<open>close(errCh)\<close>, or finished. The main
  goroutine: at the \<^verbatim>\<open>select\<close>, in \<^verbatim>\<open>Shutdown\<close>, or gone with an exit code.
\<close>

datatype serving = Listening | Returned | Finished

datatype main_state = Selecting | ShuttingDown | Exited nat

text \<open>\<open>errCh\<close> is the buffered channel of capacity one, \<open>signalled\<close> whether the context is done.\<close>

record process =
  pc_serving :: serving
  pc_errCh :: "goerr list"
  pc_closed :: bool
  pc_signalled :: bool
  pc_main :: main_state

datatype event =
    ServeFails goerr | ServeClosed | CloseErrCh
  | Signal
  | ReceiveError | ReceiveClosed | ReceiveDone
  | ShutdownReturns "goerr + unit"

definition started :: process where
  "started = \<lparr>pc_serving = Listening, pc_errCh = [], pc_closed = False, pc_signalled = False, pc_main = Selecting\<rparr>"

definition running :: "process \<Rightarrow> bool" where
  "running p \<longleftrightarrow> (case pc_main p of Exited _ \<Rightarrow> False | _ \<Rightarrow> True)"

text \<open>
  What an event does where it can happen. A receive from \<open>errCh\<close> takes a buffered value first; a closed
  and empty channel delivers \<^verbatim>\<open>nil\<close>. \<^verbatim>\<open>os.Exit\<close> ends both goroutines.
\<close>

definition lifecycle_next :: "event \<Rightarrow> process \<Rightarrow> process option" where
  "lifecycle_next e p =
     (if \<not> running p then None
      else case e of
        ServeFails err \<Rightarrow>
          if pc_serving p = Listening \<and> length (pc_errCh p) < 1
          then Some (p\<lparr>pc_serving := Returned, pc_errCh := pc_errCh p @ [err]\<rparr>) else None
      | ServeClosed \<Rightarrow>
          if pc_serving p = Listening \<and> pc_main p = ShuttingDown then Some (p\<lparr>pc_serving := Returned\<rparr>) else None
      | CloseErrCh \<Rightarrow>
          if pc_serving p = Returned then Some (p\<lparr>pc_serving := Finished, pc_closed := True\<rparr>) else None
      | Signal \<Rightarrow> if \<not> pc_signalled p then Some (p\<lparr>pc_signalled := True\<rparr>) else None
      | ReceiveError \<Rightarrow>
          if pc_main p = Selecting \<and> pc_errCh p \<noteq> []
          then Some (p\<lparr>pc_errCh := tl (pc_errCh p), pc_main := Exited 1\<rparr>) else None
      | ReceiveClosed \<Rightarrow>
          if pc_main p = Selecting \<and> pc_errCh p = [] \<and> pc_closed p then Some (p\<lparr>pc_main := ShuttingDown\<rparr>) else None
      | ReceiveDone \<Rightarrow>
          if pc_main p = Selecting \<and> pc_signalled p then Some (p\<lparr>pc_main := ShuttingDown\<rparr>) else None
      | ShutdownReturns r \<Rightarrow>
          if pc_main p = ShuttingDown then Some (p\<lparr>pc_main := Exited (case r of Inl err \<Rightarrow> 1 | Inr _ \<Rightarrow> 0)\<rparr>) else None)"

inductive lifecycle_step :: "process \<Rightarrow> process \<Rightarrow> bool" where
  step: "lifecycle_next e p = Some q \<Longrightarrow> lifecycle_step p q"

inductive lifecycle_reach :: "nat \<Rightarrow> process \<Rightarrow> bool" where
  start: "lifecycle_reach 0 started"
| next_state: "lifecycle_reach n p \<Longrightarrow> lifecycle_step p q \<Longrightarrow> lifecycle_reach (Suc n) q"

inductive_cases lifecycle_stepE: "lifecycle_step p q"

section \<open>What holds in every state\<close>

text \<open>
  Before the shutdown nothing closes the channel without a value in it, so the \<^verbatim>\<open>select\<close> falls through to
  the shutdown only for a signal.
\<close>

definition lifecycle_inv :: "process \<Rightarrow> bool" where
  "lifecycle_inv p \<longleftrightarrow>
     (pc_serving p = Listening \<longrightarrow> pc_errCh p = [] \<and> \<not> pc_closed p)
     \<and> (pc_serving p = Returned \<longrightarrow> \<not> pc_closed p)
     \<and> (pc_main p = Selecting \<longrightarrow> pc_serving p \<noteq> Listening \<longrightarrow> pc_errCh p \<noteq> [])
     \<and> (pc_main p \<in> {ShuttingDown, Exited 0} \<longrightarrow> pc_signalled p)"

lemma lifecycle_step_inv: "lifecycle_step p q \<Longrightarrow> lifecycle_inv p \<Longrightarrow> lifecycle_inv q"
  by (erule lifecycle_stepE)
    (auto simp: lifecycle_next_def lifecycle_inv_def running_def split: event.splits if_splits main_state.splits sum.splits)

lemma lifecycle_reach_inv: "lifecycle_reach n p \<Longrightarrow> lifecycle_inv p"
proof (induction rule: lifecycle_reach.induct)
  case start
  show ?case by (simp add: started_def lifecycle_inv_def)
next
  case (next_state n p q)
  then show ?case using lifecycle_step_inv by blast
qed

text \<open>Every step uses something up: a state of one of the goroutines or the signal.\<close>

definition lifecycle_measure :: "process \<Rightarrow> nat" where
  "lifecycle_measure p =
     (case pc_serving p of Listening \<Rightarrow> 2 | Returned \<Rightarrow> 1 | Finished \<Rightarrow> 0)
     + (case pc_main p of Selecting \<Rightarrow> 2 | ShuttingDown \<Rightarrow> 1 | Exited _ \<Rightarrow> 0)
     + (if pc_signalled p then 0 else 1)"

lemma lifecycle_step_measure: "lifecycle_step p q \<Longrightarrow> lifecycle_measure q < lifecycle_measure p"
  by (erule lifecycle_stepE)
    (auto simp: lifecycle_next_def lifecycle_measure_def running_def split: event.splits if_splits main_state.splits serving.splits)

lemma lifecycle_reach_measure: "lifecycle_reach n p \<Longrightarrow> n + lifecycle_measure p \<le> 5"
proof (induction rule: lifecycle_reach.induct)
  case start
  show ?case by (simp add: started_def lifecycle_measure_def)
next
  case (next_state n p q)
  then show ?case using lifecycle_step_measure [of p q] by simp
qed

lemma lifecycle_live:
  assumes "lifecycle_inv p" "running p" "pc_signalled p \<or> pc_serving p \<noteq> Listening"
  shows "\<exists>q. lifecycle_step p q"
proof (cases "pc_main p")
  case Selecting
  show ?thesis
  proof (cases "pc_signalled p")
    case True
    then show ?thesis using assms(2) Selecting lifecycle_step.step [of ReceiveDone p] by (auto simp: lifecycle_next_def)
  next
    case False
    then have "pc_errCh p \<noteq> []" using assms(1,3) Selecting by (auto simp: lifecycle_inv_def)
    then show ?thesis using assms(2) Selecting lifecycle_step.step [of ReceiveError p] by (auto simp: lifecycle_next_def)
  qed
next
  case ShuttingDown
  then show ?thesis using assms(2) lifecycle_step.step [of "ShutdownReturns (Inr ())" p] by (auto simp: lifecycle_next_def)
next
  case (Exited n)
  then show ?thesis using assms(2) by (simp add: running_def)
qed

section \<open>Properties\<close>

text \<open>
  C33. The server comes to an end: no run of the process has more than five steps, whatever the order of
  serving, signals and shutdown; a run that cannot go on after a signal or a failed listener has exited; and
  exit code 0 means that a signal asked for the shutdown, so a listener that fails by itself never ends the
  process quietly.
\<close>

theorem lifecycle_terminates:
  assumes "lifecycle_reach n p"
  shows "n \<le> 5 \<and> wfP (\<lambda>q p. lifecycle_step p q)
    \<and> ((\<nexists>q. lifecycle_step p q) \<and> (pc_signalled p \<or> pc_serving p \<noteq> Listening) \<longrightarrow> \<not> running p)
    \<and> (pc_main p = Exited 0 \<longrightarrow> pc_signalled p)"
proof -
  have "wfP (\<lambda>q p. lifecycle_step p q)"
    by (rule wfp_if_convertible_to_nat [of _ lifecycle_measure]) (rule lifecycle_step_measure)
  then show ?thesis
    using lifecycle_reach_measure [OF assms] lifecycle_live [OF lifecycle_reach_inv [OF assms]]
      lifecycle_reach_inv [OF assms] by (auto simp: lifecycle_inv_def)
qed

definition after_failure :: process where
  "after_failure =
     \<lparr>pc_serving = Returned, pc_errCh = [], pc_closed = False, pc_signalled = False, pc_main = Exited 1\<rparr>"

lemma failure_reached: "lifecycle_reach 2 after_failure"
proof -
  let ?p = "started\<lparr>pc_serving := Returned, pc_errCh := [EIO]\<rparr>"
  have "lifecycle_step started ?p"
    by (rule lifecycle_step.step [of "ServeFails EIO"]) (simp add: lifecycle_next_def started_def running_def)
  moreover have "lifecycle_step ?p after_failure"
    by (rule lifecycle_step.step [of ReceiveError]) (simp add: lifecycle_next_def started_def running_def after_failure_def)
  ultimately show ?thesis
    using lifecycle_reach.next_state [OF lifecycle_reach.next_state [OF lifecycle_reach.start]]
    by (simp add: numeral_2_eq_2)
qed

theorem lifecycle_terminates_witness:
  "lifecycle_reach 2 after_failure \<and> \<not> running after_failure"
proof -
  have none: "\<nexists>q. lifecycle_step after_failure q"
    by (auto elim!: lifecycle_stepE simp: lifecycle_next_def running_def after_failure_def)
  have "pc_serving after_failure \<noteq> Listening" by (simp add: after_failure_def)
  then show ?thesis using lifecycle_terminates [OF failure_reached] none failure_reached by blast
qed

end
