(* ===== verification/Restart_Evidence.thy ===== *)
theory Restart_Evidence
  imports Wardveil_Scan Go_Decode Go_Path
begin

text \<open>
  \<^verbatim>\<open>cmd/wardveil-negative-acceptance/restart_evidence.go\<close>: the validator of the evidence file on the
  scanner's restart. What \<^verbatim>\<open>os.Lstat\<close> and \<^verbatim>\<open>os.ReadFile\<close> deliver are arguments.
  \<^verbatim>\<open>time.Parse(time.RFC3339Nano, s)\<close> is more lenient than the reading of JSON timestamps: an hour of
  one digit, a comma before the fraction, and zone offsets of up to 24 hours and 60 minutes are accepted.
\<close>

section \<open>Lenient timestamps\<close>

definition lenient_hour :: "string \<Rightarrow> (int \<times> string) option" where
  "lenient_hour s =
     (if 2 \<le> length s \<and> is_digit (s ! 1) then fixed_num 2 0 23 s else fixed_num 1 0 9 s)"

definition lenient_fraction :: "string \<Rightarrow> int \<times> string" where
  "lenient_fraction s =
     second_fraction (case s of [] \<Rightarrow> [] | c # s1 \<Rightarrow> if c = CHR '','' \<and> s1 \<noteq> [] \<and> is_digit (hd s1) then CHR ''.'' # s1 else s)"

definition lenient_zone :: "string \<Rightarrow> int option" where
  "lenient_zone s =
     (if s = ''Z'' then Some 0
      else case s of
        [] \<Rightarrow> None
      | sg # s1 \<Rightarrow>
          if sg \<noteq> CHR ''+'' \<and> sg \<noteq> CHR ''-'' then None
          else Option.bind (fixed_num 2 0 24 s1) (\<lambda>(h, s2).
            Option.bind (expect (CHR '':'') s2) (\<lambda>s3.
            Option.bind (fixed_num 2 0 60 s3) (\<lambda>(m, s4).
              if s4 \<noteq> [] then None
              else Some ((if sg = CHR ''-'' then - 1 else 1) * (h * hour + m * minute))))))"

definition time_Parse :: "string \<Rightarrow> time option" where
  "time_Parse s =
     Option.bind (fixed_num 4 0 9999 s) (\<lambda>(y, s). Option.bind (expect (CHR ''-'') s) (\<lambda>s.
     Option.bind (fixed_num 2 1 12 s) (\<lambda>(mo, s). Option.bind (expect (CHR ''-'') s) (\<lambda>s.
     Option.bind (fixed_num 2 1 (days_in y mo) s) (\<lambda>(d, s). Option.bind (expect (CHR ''T'') s) (\<lambda>s.
     Option.bind (lenient_hour s) (\<lambda>(h, s). Option.bind (expect (CHR '':'') s) (\<lambda>s.
     Option.bind (fixed_num 2 0 59 s) (\<lambda>(mi, s). Option.bind (expect (CHR '':'') s) (\<lambda>s.
     Option.bind (fixed_num 2 0 59 s) (\<lambda>(sec, s).
       let (ns, rest) = lenient_fraction s in
       Option.bind (lenient_zone rest) (\<lambda>off.
         Some (day_number y mo d * (24 * hour) + h * hour + mi * minute + sec * second + ns - off)))))))))))))"

section \<open>The evidence\<close>

definition maxWardveilRestartEvidenceBytes :: nat where
  "maxWardveilRestartEvidenceBytes = 65536"

record wardveilRestartEvidence =
  ev_Component :: string
  ev_WardveilRevision :: string
  ev_WardveilEndpoint :: string
  ev_Service :: string
  ev_CallerID :: string
  ev_KeyID :: string
  ev_ResourceType :: string
  ev_InitialAuthenticatedCleanRequest :: string
  ev_ServiceRestart :: string
  ev_SystemdInvocationChanged :: bool
  ev_ExactReplayAfterRestart :: string
  ev_CachedEnvelopeIdentical :: bool
  ev_ConflictingReplayAfterRestart :: string
  ev_PostAcceptanceHealth :: string
  ev_ReplayDatabase :: string
  ev_ReplayDatabaseMode :: string
  ev_ReplayStateDirectoryMode :: string
  ev_TransientRequestStatePrivate :: bool
  ev_TransientRequestStateRemoved :: bool
  ev_RawResourceContentInEvidence :: bool
  ev_CallerSecretInEvidence :: bool
  ev_SingleHostRestartDurability :: string
  ev_MultiHostReplayDurability :: string
  ev_ProductionServiceIdentity :: string
  ev_ProductionRuntimeAcceptance :: string
  ev_ProtectionClaimAuthority :: bool
  ev_ObservedAt :: string

definition evidence_fields :: "wardveilRestartEvidence setters" where
  "evidence_fields =
     [(''component'', set_string (\<lambda>v r. r\<lparr>ev_Component := v\<rparr>)),
      (''wardveil_revision'', set_string (\<lambda>v r. r\<lparr>ev_WardveilRevision := v\<rparr>)),
      (''wardveil_endpoint'', set_string (\<lambda>v r. r\<lparr>ev_WardveilEndpoint := v\<rparr>)),
      (''service'', set_string (\<lambda>v r. r\<lparr>ev_Service := v\<rparr>)),
      (''caller_id'', set_string (\<lambda>v r. r\<lparr>ev_CallerID := v\<rparr>)),
      (''key_id'', set_string (\<lambda>v r. r\<lparr>ev_KeyID := v\<rparr>)),
      (''resource_type'', set_string (\<lambda>v r. r\<lparr>ev_ResourceType := v\<rparr>)),
      (''initial_authenticated_clean_request'', set_string (\<lambda>v r. r\<lparr>ev_InitialAuthenticatedCleanRequest := v\<rparr>)),
      (''service_restart'', set_string (\<lambda>v r. r\<lparr>ev_ServiceRestart := v\<rparr>)),
      (''systemd_invocation_changed'', set_bool (\<lambda>v r. r\<lparr>ev_SystemdInvocationChanged := v\<rparr>)),
      (''exact_replay_after_restart'', set_string (\<lambda>v r. r\<lparr>ev_ExactReplayAfterRestart := v\<rparr>)),
      (''cached_envelope_identical'', set_bool (\<lambda>v r. r\<lparr>ev_CachedEnvelopeIdentical := v\<rparr>)),
      (''conflicting_replay_after_restart'', set_string (\<lambda>v r. r\<lparr>ev_ConflictingReplayAfterRestart := v\<rparr>)),
      (''post_acceptance_health'', set_string (\<lambda>v r. r\<lparr>ev_PostAcceptanceHealth := v\<rparr>)),
      (''replay_database'', set_string (\<lambda>v r. r\<lparr>ev_ReplayDatabase := v\<rparr>)),
      (''replay_database_mode'', set_string (\<lambda>v r. r\<lparr>ev_ReplayDatabaseMode := v\<rparr>)),
      (''replay_state_directory_mode'', set_string (\<lambda>v r. r\<lparr>ev_ReplayStateDirectoryMode := v\<rparr>)),
      (''transient_request_state_private'', set_bool (\<lambda>v r. r\<lparr>ev_TransientRequestStatePrivate := v\<rparr>)),
      (''transient_request_state_removed'', set_bool (\<lambda>v r. r\<lparr>ev_TransientRequestStateRemoved := v\<rparr>)),
      (''raw_resource_content_in_evidence'', set_bool (\<lambda>v r. r\<lparr>ev_RawResourceContentInEvidence := v\<rparr>)),
      (''caller_secret_in_evidence'', set_bool (\<lambda>v r. r\<lparr>ev_CallerSecretInEvidence := v\<rparr>)),
      (''single_host_restart_durability'', set_string (\<lambda>v r. r\<lparr>ev_SingleHostRestartDurability := v\<rparr>)),
      (''multi_host_replay_durability'', set_string (\<lambda>v r. r\<lparr>ev_MultiHostReplayDurability := v\<rparr>)),
      (''production_service_identity'', set_string (\<lambda>v r. r\<lparr>ev_ProductionServiceIdentity := v\<rparr>)),
      (''production_runtime_acceptance'', set_string (\<lambda>v r. r\<lparr>ev_ProductionRuntimeAcceptance := v\<rparr>)),
      (''protection_claim_authority'', set_bool (\<lambda>v r. r\<lparr>ev_ProtectionClaimAuthority := v\<rparr>)),
      (''observed_at'', set_string (\<lambda>v r. r\<lparr>ev_ObservedAt := v\<rparr>))]"

definition zero_evidence :: wardveilRestartEvidence where
  "zero_evidence =
     \<lparr>ev_Component = [], ev_WardveilRevision = [], ev_WardveilEndpoint = [], ev_Service = [], ev_CallerID = [],
      ev_KeyID = [], ev_ResourceType = [], ev_InitialAuthenticatedCleanRequest = [], ev_ServiceRestart = [],
      ev_SystemdInvocationChanged = False, ev_ExactReplayAfterRestart = [], ev_CachedEnvelopeIdentical = False,
      ev_ConflictingReplayAfterRestart = [], ev_PostAcceptanceHealth = [], ev_ReplayDatabase = [],
      ev_ReplayDatabaseMode = [], ev_ReplayStateDirectoryMode = [], ev_TransientRequestStatePrivate = False,
      ev_TransientRequestStateRemoved = False, ev_RawResourceContentInEvidence = False,
      ev_CallerSecretInEvidence = False, ev_SingleHostRestartDurability = [], ev_MultiHostReplayDurability = [],
      ev_ProductionServiceIdentity = [], ev_ProductionRuntimeAcceptance = [], ev_ProtectionClaimAuthority = False,
      ev_ObservedAt = []\<rparr>"

section \<open>The validator\<close>

record replayEvidenceBinding =
  rb_WardveilRevision :: string
  rb_EvidenceSHA256 :: string
  rb_ObservedAt :: time
  rb_ReplayDurability :: string
  rb_MultiHostReplayStatus :: string

text \<open>What \<^verbatim>\<open>os.Lstat\<close> says of a name.\<close>

record lstat_info =
  ls_symlink :: bool
  ls_regular :: bool
  ls_perm :: nat
  ls_size :: int64

text \<open>The checks on the decoded evidence, in the order of the code.\<close>

definition check_evidence ::
  "string \<Rightarrow> string \<Rightarrow> string \<Rightarrow> string \<Rightarrow> time \<Rightarrow> wardveilRestartEvidence \<Rightarrow> goerr + time" where
  "check_evidence expectedRevision expectedEndpoint callerID keyID now e =
     (if ev_Component e \<noteq> ''Wardveil Scan durable same-host replay restart acceptance''
      then Inl (ErrorString ''unexpected Wardveil restart evidence component'')
      else if ev_WardveilRevision e \<noteq> expectedRevision
      then Inl (ErrorString ''Wardveil restart evidence revision mismatch'')
      else if ev_WardveilEndpoint e \<noteq> expectedEndpoint
      then Inl (ErrorString ''Wardveil restart evidence endpoint mismatch'')
      else if ev_Service e \<noteq> ''wardveil-scan.service''
      then Inl (ErrorString ''Wardveil restart evidence service mismatch'')
      else if ev_CallerID e \<noteq> callerID \<or> ev_KeyID e \<noteq> keyID \<or> ev_ResourceType e \<noteq> DriveFileResourceType
      then Inl (ErrorString ''Wardveil restart evidence caller, key, or resource scope mismatch'')
      else if ev_InitialAuthenticatedCleanRequest e \<noteq> ''passed'' \<or> ev_ServiceRestart e \<noteq> ''passed''
        \<or> \<not> ev_SystemdInvocationChanged e \<or> ev_ExactReplayAfterRestart e \<noteq> ''passed''
        \<or> \<not> ev_CachedEnvelopeIdentical e \<or> ev_ConflictingReplayAfterRestart e \<noteq> ''passed''
        \<or> ev_PostAcceptanceHealth e \<noteq> ''passed''
      then Inl (ErrorString ''Wardveil restart evidence does not prove the required restart replay behavior'')
      else if ev_ReplayDatabase e \<noteq> ''/var/lib/wardveil-scan/replay.sqlite3'' \<or> ev_ReplayDatabaseMode e \<noteq> ''0600''
        \<or> ev_ReplayStateDirectoryMode e \<noteq> ''0700''
      then Inl (ErrorString ''Wardveil restart evidence does not prove the accepted private replay-state contract'')
      else if \<not> ev_TransientRequestStatePrivate e \<or> \<not> ev_TransientRequestStateRemoved e
        \<or> ev_RawResourceContentInEvidence e \<or> ev_CallerSecretInEvidence e
      then Inl (ErrorString ''Wardveil restart evidence violates the accepted transient-state or evidence-minimization contract'')
      else if ev_SingleHostRestartDurability e \<noteq> ''passed''
      then Inl (ErrorString ''Wardveil restart evidence does not prove single-host restart durability'')
      else if ev_MultiHostReplayDurability e \<noteq> ''not_proven''
      then Inl (ErrorString ''Wardveil restart evidence unexpectedly claims multi-host replay durability'')
      else if ev_ProductionServiceIdentity e \<noteq> ''not_proven_by_acceptance''
        \<or> ev_ProductionRuntimeAcceptance e \<noteq> ''unaccepted'' \<or> ev_ProtectionClaimAuthority e
      then Inl (ErrorString ''Wardveil restart evidence exceeds the accepted production claim boundary'')
      else case time_Parse (ev_ObservedAt e) of
        None \<Rightarrow> Inl (Wrapped ''parse Wardveil restart evidence observation time'' (ErrorString ''parsing time''))
      | Some observedAt \<Rightarrow>
          if observedAt > now + 5 * minute
          then Inl (ErrorString ''Wardveil restart evidence observation time is unexpectedly in the future'')
          else if time_Sub now observedAt > 24 * hour
          then Inl (ErrorString ''Wardveil restart evidence is older than the 24-hour Drive revalidation window'')
          else Inr observedAt)"

definition validateWardveilRestartEvidence ::
  "string \<Rightarrow> goerr + lstat_info \<Rightarrow> goerr + string \<Rightarrow> string \<Rightarrow> string \<Rightarrow> string \<Rightarrow> string \<Rightarrow> time
   \<Rightarrow> goerr + replayEvidenceBinding" where
  "validateWardveilRestartEvidence path lstat content expectedRevision expectedEndpoint callerID keyID now =
     (if \<not> IsAbs path then Inl (ErrorString ''Wardveil restart evidence path must be absolute'')
      else case lstat of
        Inl err \<Rightarrow> Inl err
      | Inr info \<Rightarrow>
     if ls_symlink info \<or> \<not> ls_regular info
     then Inl (ErrorString ''Wardveil restart evidence must be a regular non-symlink file'')
     else if ls_perm info \<noteq> 384 then Inl (ErrorString ''Wardveil restart evidence must be mode 0600'')
     else if ls_size info \<le> 0 \<or> ls_size info > int maxWardveilRestartEvidenceBytes
     then Inl (ErrorString ''Wardveil restart evidence size is outside the accepted bound'')
     else case content of
        Inl err \<Rightarrow> Inl err
      | Inr raw \<Rightarrow>
     if length raw > maxWardveilRestartEvidenceBytes
     then Inl (ErrorString ''Wardveil restart evidence exceeds the accepted bound'')
     else case json_Decode_one False evidence_fields zero_evidence raw of
        None \<Rightarrow> Inl (Wrapped ''decode Wardveil restart evidence'' (ErrorString ''invalid JSON''))
      | Some evidence \<Rightarrow>
     (case check_evidence expectedRevision expectedEndpoint callerID keyID now evidence of
        Inl err \<Rightarrow> Inl err
      | Inr observedAt \<Rightarrow>
          Inr \<lparr>rb_WardveilRevision = expectedRevision, rb_EvidenceSHA256 = hex_sha256 raw, rb_ObservedAt = observedAt,
            rb_ReplayDurability = ''single_host_restart_durability_passed_by_validated_wardveil_runtime_evidence'',
            rb_MultiHostReplayStatus = ''not_proven''\<rparr>))"

section \<open>The one evidence that is accepted\<close>

text \<open>
  A reference for the checks: for given expectations there is one acceptable record, up to the time of
  observation.
\<close>

definition expected_evidence :: "string \<Rightarrow> string \<Rightarrow> string \<Rightarrow> string \<Rightarrow> string \<Rightarrow> wardveilRestartEvidence" where
  "expected_evidence revision endpoint callerID keyID observed =
     \<lparr>ev_Component = ''Wardveil Scan durable same-host replay restart acceptance'', ev_WardveilRevision = revision,
      ev_WardveilEndpoint = endpoint, ev_Service = ''wardveil-scan.service'', ev_CallerID = callerID,
      ev_KeyID = keyID, ev_ResourceType = ''drive_file'', ev_InitialAuthenticatedCleanRequest = ''passed'',
      ev_ServiceRestart = ''passed'', ev_SystemdInvocationChanged = True, ev_ExactReplayAfterRestart = ''passed'',
      ev_CachedEnvelopeIdentical = True, ev_ConflictingReplayAfterRestart = ''passed'',
      ev_PostAcceptanceHealth = ''passed'', ev_ReplayDatabase = ''/var/lib/wardveil-scan/replay.sqlite3'',
      ev_ReplayDatabaseMode = ''0600'', ev_ReplayStateDirectoryMode = ''0700'',
      ev_TransientRequestStatePrivate = True, ev_TransientRequestStateRemoved = True,
      ev_RawResourceContentInEvidence = False, ev_CallerSecretInEvidence = False,
      ev_SingleHostRestartDurability = ''passed'', ev_MultiHostReplayDurability = ''not_proven'',
      ev_ProductionServiceIdentity = ''not_proven_by_acceptance'', ev_ProductionRuntimeAcceptance = ''unaccepted'',
      ev_ProtectionClaimAuthority = False, ev_ObservedAt = observed\<rparr>"

lemma time_Sub_limit: "time_Sub t u \<le> 24 * hour \<longleftrightarrow> t - u \<le> 24 * hour"
  by (auto simp: time_Sub_def min_def max_def maxInt64_def)

lemma if_Inl: "(if P then Inl e else r) = Inr v \<longleftrightarrow> \<not> P \<and> r = Inr v"
  by simp

lemma case_option_Inl: "(case o' of None \<Rightarrow> Inl e | Some x \<Rightarrow> f x) = Inr v \<longleftrightarrow> (\<exists>x. o' = Some x \<and> f x = Inr v)"
  by (cases o') simp_all

lemma check_evidence_iff:
  "check_evidence revision endpoint callerID keyID now e = Inr t
    \<longleftrightarrow> e = expected_evidence revision endpoint callerID keyID (ev_ObservedAt e)
      \<and> time_Parse (ev_ObservedAt e) = Some t \<and> t \<le> now + 5 * minute \<and> now - t \<le> 24 * hour"
proof (cases e)
  case (fields a1 a2 a3 a4 a5 a6 a7 a8 a9 a10 a11 a12 a13 a14 a15 a16 a17 a18 a19 a20 a21 a22 a23 a24 a25 a26 a27)
  show ?thesis
    unfolding check_evidence_def if_Inl case_option_Inl expected_evidence_def fields wardveilRestartEvidence.select_convs
      wardveilRestartEvidence.ext_inject DriveFileResourceType_def de_Morgan_disj not_not not_less sum.inject time_Sub_limit
    by blast
qed

end
