(* ===== verification/Acceptance.thy ===== *)
theory Acceptance
  imports Server Restart_Evidence
begin

text \<open>
  The acceptance programs \<^verbatim>\<open>cmd/wardveil-acceptance\<close> and \<^verbatim>\<open>cmd/wardveil-negative-acceptance\<close>:
  each case runs an upload through the real service, storage backend and scan gate, with a fresh session
  repository, and judges the outcome. Command-line flags, temporary directories, context deadlines and
  the printing of the evidence as JSON are outside the model; the flags' values and the directory are
  arguments. Both programs have the same \<^verbatim>\<open>recordingGate\<close>, \<^verbatim>\<open>readSecretFile\<close>,
  \<^verbatim>\<open>newUUID\<close> and \<^verbatim>\<open>exists\<close>, up to the texts of errors.
\<close>

section \<open>The recording gate\<close>

text \<open>
  The gate remembers the last decision in a variable of its own, so the service runs over pairs of a
  state and that variable.
\<close>

definition on_fst :: "('s \<Rightarrow> 'r \<times> 's) \<Rightarrow> 's \<times> 'd \<Rightarrow> 'r \<times> ('s \<times> 'd)" where
  "on_fst f sd = (case f (fst sd) of (r, s') \<Rightarrow> (r, (s', snd sd)))"

definition recordingGate :: "'s SecurityGate \<Rightarrow> ('s \<times> Decision) SecurityGate" where
  "recordingGate delegate spaceID uploadID nodeID sd =
     (case delegate spaceID uploadID nodeID (fst sd) of
        (Inl err, s') \<Rightarrow> (Inl err, (s', snd sd))
      | (Inr decision, s') \<Rightarrow> (Inr decision, (s', decision)))"

definition zero_decision :: Decision where
  "zero_decision =
     \<lparr>de_Action = [], de_Disposition = [], de_CanRelease = False, de_QuarantineRequired = False,
      de_ReasonCodes = [], de_EvidenceRefs = [], de_ScanRecordID = []\<rparr>"

definition recorded_repo :: "'s UploadRepository \<Rightarrow> ('s \<times> Decision) UploadRepository" where
  "recorded_repo r =
     \<lparr>ur_Create = (\<lambda>x. on_fst (ur_Create r x)), ur_Get = (\<lambda>i. on_fst (ur_Get r i)),
      ur_Update = (\<lambda>x. on_fst (ur_Update r x))\<rparr>"

definition recorded_store :: "'s StagingStore \<Rightarrow> ('s \<times> Decision) StagingStore" where
  "recorded_store st =
     \<lparr>st_AppendStaging = (\<lambda>sp up off rd mx. on_fst (st_AppendStaging st sp up off rd mx)),
      st_DiscardStaging = (\<lambda>sp up. on_fst (st_DiscardStaging st sp up)),
      st_Finalize = (\<lambda>sp up n. on_fst (st_Finalize st sp up n))\<rparr>"

text \<open>\<^verbatim>\<open>uploads.New(uploads.NewMemoryRepository(), store, gate, 8<<20, 10*time.Minute)\<close>.\<close>

definition acceptance_service ::
  "Local option \<Rightarrow> (usys, fsnode) StagedFileGate \<Rightarrow> (usys \<times> Decision) UploadService" where
  "acceptance_service l gate =
     \<lparr>svc_repo = Some (recorded_repo memory_repo), svc_store = Some (recorded_store (local_staging l)),
      svc_security = Some (recordingGate (EvaluateUpload gate)), svc_maxChunk = 8 * 2 ^ 20, svc_ttl = 10 * minute,
      svc_now = on_fst (on_fs sys_Now), svc_rand = on_fst (on_fs sys_RandRead)\<rparr>"

section \<open>Shared steps\<close>

definition acceptance_newUUID :: "goerr + byte list \<Rightarrow> goerr + string" where
  "acceptance_newUUID rand =
     (case rand of
        Inl err \<Rightarrow> Inl (Wrapped ''generate acceptance UUID'' err)
      | Inr b \<Rightarrow> Inr (uuid_of_bytes b))"

text \<open>The space and the node of a case.\<close>

definition case_ids :: "usys \<Rightarrow> (goerr + string \<times> string) \<times> usys" where
  "case_ids s =
     (case on_fs sys_RandRead s of
        (r1, s1) \<Rightarrow>
     (case acceptance_newUUID r1 of
        Inl err \<Rightarrow> (Inl err, s1)
      | Inr spaceID \<Rightarrow>
     (case on_fs sys_RandRead s1 of
        (r2, s2) \<Rightarrow>
     (case acceptance_newUUID r2 of
        Inl err \<Rightarrow> (Inl err, s2)
      | Inr nodeID \<Rightarrow> (Inr (spaceID, nodeID), s2)))))"

definition readSecretFile :: "goerr + file_mode \<Rightarrow> goerr + string \<Rightarrow> goerr + string" where
  "readSecretFile stat content =
     (case stat of
        Inl err \<Rightarrow> Inl err
      | Inr info \<Rightarrow>
     if \<not> fm_regular info then Inl (ErrorString ''secret file must be regular'')
     else if fm_perm info AND 63 \<noteq> 0
     then Inl (ErrorString ''secret file must not be readable or writable by group or others'')
     else case content of
        Inl err \<Rightarrow> Inl err
      | Inr raw \<Rightarrow>
     if length raw > 4096 then Inl (ErrorString ''secret file exceeds 4096 bytes'')
     else let secret = TrimSpace raw in
     if secret = [] \<or> ContainsAny secret [CHR 0x0D, CHR 0x0A]
     then Inl (ErrorString ''secret file must contain one non-empty credential value'')
     else Inr secret)"

text \<open>
  The beginning of every case: a session for the node and one chunk of content, over a new memory
  repository.
\<close>

definition acceptance_account :: string where
  "acceptance_account = ''acceptance-account''"

definition begin_case ::
  "(usys \<times> Decision) UploadService \<Rightarrow> string \<Rightarrow> string \<Rightarrow> string \<Rightarrow> string \<Rightarrow> usys
   \<Rightarrow> (uerr + UploadSession) \<times> (usys \<times> Decision)" where
  "begin_case service spaceID nodeID name content s =
     (case uploads_Create service acceptance_account spaceID nodeID [] name (s\<lparr>sessions := Map.empty\<rparr>, zero_decision) of
        ((session, Some err), s1) \<Rightarrow> (Inl err, s1)
      | ((session, None), s1) \<Rightarrow>
     (case uploads_Append service acceptance_account spaceID (us_ID session) 0
             (Some \<lparr>rd_data = content, rd_fail = False\<rparr>) s1 of
        ((_, Some err), s2) \<Rightarrow> (Inl err, s2)
      | ((_, None), s2) \<Rightarrow> (Inr session, s2)))"

text \<open>Whether the object and the staged upload of a case exist, by the acceptance programs' \<^verbatim>\<open>exists\<close>.\<close>

definition case_files ::
  "Local option \<Rightarrow> string \<Rightarrow> string \<Rightarrow> string \<Rightarrow> usys \<Rightarrow> (goerr + bool \<times> bool) \<times> usys" where
  "case_files l spaceID nodeID uploadID s =
     (case ObjectPath l spaceID nodeID of
        Inl err \<Rightarrow> (Inl err, s)
      | Inr objectPath \<Rightarrow>
     (case StagingPath l spaceID uploadID of
        Inl err \<Rightarrow> (Inl err, s)
      | Inr stagingPath \<Rightarrow>
     (case on_fs (exists objectPath) s of
        (objectPublished, s1) \<Rightarrow>
     (case on_fs (exists stagingPath) s1 of
        (stagingHeld, s2) \<Rightarrow> (Inr (objectPublished, stagingHeld), s2)))))"

section \<open>Live acceptance\<close>

record caseEvidence =
  ce_Completed :: bool
  ce_Disposition :: Disposition
  ce_CanRelease :: bool
  ce_QuarantineRequired :: bool
  ce_ObjectPublished :: bool
  ce_StagingHeld :: bool
  ce_PublishedBytesMatch :: bool
  ce_QuarantineHandoffGenerated :: bool
  ce_RequiresExplicitExecutorAuthority :: bool
  ce_DestructiveAction :: bool
  ce_ReasonCodes :: "string list"

definition case_evidence :: "Decision \<Rightarrow> bool \<Rightarrow> bool \<Rightarrow> caseEvidence" where
  "case_evidence decision objectPublished stagingHeld =
     \<lparr>ce_Completed = False, ce_Disposition = de_Disposition decision, ce_CanRelease = de_CanRelease decision,
      ce_QuarantineRequired = de_QuarantineRequired decision, ce_ObjectPublished = objectPublished,
      ce_StagingHeld = stagingHeld, ce_PublishedBytesMatch = False, ce_QuarantineHandoffGenerated = False,
      ce_RequiresExplicitExecutorAuthority = False, ce_DestructiveAction = False,
      ce_ReasonCodes = de_ReasonCodes decision\<rparr>"

definition fails_with :: "string \<Rightarrow> uerr + 'a" where
  "fails_with m = Inl (UErr (ErrorString m))"

text \<open>The judgement on an upload that should have been completed.\<close>

definition judge_clean ::
  "Local option \<Rightarrow> string \<Rightarrow> string \<Rightarrow> string \<Rightarrow> UploadSession \<Rightarrow> uerr option \<Rightarrow> Decision \<Rightarrow> caseEvidence \<Rightarrow> usys
   \<Rightarrow> (uerr + caseEvidence) \<times> usys" where
  "judge_clean l spaceID nodeID content completed completeErr decision result s =
     (case completeErr of
        Some err \<Rightarrow> (Inl err, s)
      | None \<Rightarrow>
     if us_State completed \<noteq> StateCompleted \<or> de_Disposition decision \<noteq> DispositionAllow \<or> \<not> de_CanRelease decision
        \<or> \<not> ce_ObjectPublished result \<or> ce_StagingHeld result
     then (fails_with ''clean upload did not complete with exact release semantics'', s)
     else case on_fs (OpenObject l spaceID nodeID) s of
        (Inl err, s1) \<Rightarrow> (Inl (UErr err), s1)
      | (Inr opened, s1) \<Rightarrow>
     (case on_fs (sys_ReadAll opened) s1 of
        (copied, s2) \<Rightarrow>
     (case on_fs sys_Quiet s2 of
        (closed, s3) \<Rightarrow>
     (case copied of
        Inl readErr \<Rightarrow> (Inl (UErr readErr), s3)
      | Inr published \<Rightarrow>
     (case closed of
        Inl closeErr \<Rightarrow> (Inl (UErr closeErr), s3)
      | Inr _ \<Rightarrow>
          if published \<noteq> content then (fails_with ''published clean bytes did not match staged bytes'', s3)
          else (Inr (result\<lparr>ce_Completed := True, ce_PublishedBytesMatch := True\<rparr>), s3))))))"

text \<open>The judgement on an upload that should have been blocked as malicious.\<close>

definition judge_malicious ::
  "string \<Rightarrow> string \<Rightarrow> string \<Rightarrow> uerr option \<Rightarrow> caseEvidence \<Rightarrow> uerr + caseEvidence" where
  "judge_malicious spaceID nodeID content completeErr result =
     (case completeErr of
        None \<Rightarrow> fails_with ''malicious upload did not fail with security block''
      | Some err \<Rightarrow>
     if \<not> uerr_Is err UploadsErrSecurityBlocked
     then fails_with ''malicious upload did not fail with security block''
     else case err of
        UErr _ \<Rightarrow> fails_with ''malicious upload did not preserve Wardveil decision''
      | SecurityBlockedError decision \<Rightarrow>
     if de_Disposition decision \<noteq> DispositionBlockQuarantine \<or> de_CanRelease decision
        \<or> \<not> de_QuarantineRequired decision \<or> ce_ObjectPublished result \<or> \<not> ce_StagingHeld result
     then fails_with ''malicious upload enforcement semantics were not preserved''
     else case decision_QuarantineHandoff decision
             \<lparr>fr_SpaceID = spaceID, fr_NodeID = nodeID, fr_DigestSHA256 = hex_sha256 content,
              fr_SizeBytes = int (length content)\<rparr> of
        None \<Rightarrow> fails_with ''quarantine handoff did not preserve explicit-authority non-destructive boundary''
      | Some handoff \<Rightarrow>
          if \<not> qh_RequiresExplicitExecutorAuthority handoff \<or> qh_DestructiveAction handoff
          then fails_with ''quarantine handoff did not preserve explicit-authority non-destructive boundary''
          else Inr (result\<lparr>ce_QuarantineHandoffGenerated := True,
                 ce_RequiresExplicitExecutorAuthority := qh_RequiresExplicitExecutorAuthority handoff,
                 ce_DestructiveAction := qh_DestructiveAction handoff\<rparr>))"

definition runUploadCase ::
  "Local option \<Rightarrow> (usys, fsnode) Scanner \<Rightarrow> string \<Rightarrow> bool \<Rightarrow> usys \<Rightarrow> (uerr + caseEvidence) \<times> usys" where
  "runUploadCase l scanner content expectClean s =
     (case case_ids s of
        (Inl err, s1) \<Rightarrow> (Inl (UErr err), s1)
      | (Inr (spaceID, nodeID), s1) \<Rightarrow>
     (let service = acceptance_service l (local_gate l scanner) in
      case begin_case service spaceID nodeID ''acceptance.bin'' content s1 of
        (Inl err, (s2, _)) \<Rightarrow> (Inl err, s2)
      | (Inr session, st2) \<Rightarrow>
     (case uploads_Complete service acceptance_account spaceID (us_ID session) st2 of
        ((completed, completeErr), (s3, decision)) \<Rightarrow>
     (case case_files l spaceID nodeID (us_ID session) s3 of
        (Inl err, s4) \<Rightarrow> (Inl (UErr err), s4)
      | (Inr (objectPublished, stagingHeld), s4) \<Rightarrow>
     (let result = case_evidence decision objectPublished stagingHeld in
      if expectClean then judge_clean l spaceID nodeID content completed completeErr decision result s4
      else (judge_malicious spaceID nodeID content completeErr result, s4))))))"

text \<open>What the programs pass to the scan client: the surroundings, and the limits of a case.\<close>

definition case_scanner ::
  "surroundings \<Rightarrow> string \<Rightarrow> string \<Rightarrow> string \<Rightarrow> string \<Rightarrow> duration \<Rightarrow> goerr + (usys, fsnode) HTTPScanner" where
  "case_scanner su endpoint callerID keyID secret timeout =
     NewHTTPScanner (su_ParseURL su) (su_ParseIP su) (on_fs sys_Now) (on_fs sys_RandRead) (su_Transport su)
       \<lparr>hc_Endpoint = endpoint, hc_CallerID = callerID, hc_KeyID = keyID, hc_Secret = secret, hc_Timeout = timeout,
        hc_MaxResponseBytes = 0, hc_Now = None, hc_Nonce = None, hc_CorrelationID = None\<rparr>"

abbreviation millisecond :: duration where
  "millisecond \<equiv> 1000000"

text \<open>An upload that must fail because the scanner gave no answer, and must not be published.\<close>

definition runNegativeCase ::
  "surroundings \<Rightarrow> Local option \<Rightarrow> string \<Rightarrow> string \<Rightarrow> string \<Rightarrow> string \<Rightarrow> usys \<Rightarrow> (uerr + string) \<times> usys" where
  "runNegativeCase su l endpoint callerID keyID secret s =
     (case case_scanner su endpoint callerID keyID secret (2 * second) of
        Inl err \<Rightarrow> (Inl (UErr err), s)
      | Inr scanner \<Rightarrow>
     (case case_ids s of
        (Inl err, s1) \<Rightarrow> (Inl (UErr err), s1)
      | (Inr (spaceID, nodeID), s1) \<Rightarrow>
     (let service = acceptance_service l (local_gate l (http_scanner scanner)) in
      case begin_case service spaceID nodeID ''negative.bin''
             (''GoreeCloud Drive Wardveil negative acceptance control'' @ [newline]) s1 of
        (Inl err, (s2, _)) \<Rightarrow> (Inl err, s2)
      | (Inr session, st2) \<Rightarrow>
     (case uploads_Complete service acceptance_account spaceID (us_ID session) st2 of
        ((_, completeErr), (s3, _)) \<Rightarrow>
     if \<not> (case completeErr of None \<Rightarrow> False | Some err \<Rightarrow> uerr_Is err UploadsErrSecurityUnavailable)
     then (fails_with ''expected fail-closed security unavailable'', s3)
     else case ObjectPath l spaceID nodeID of
        Inl err \<Rightarrow> (Inl (UErr err), s3)
      | Inr objectPath \<Rightarrow>
     (case on_fs (exists objectPath) s3 of
        (True, s4) \<Rightarrow> (fails_with ''negative-path upload published content'', s4)
      | (False, s4) \<Rightarrow> (Inr ''passed'', s4))))))"

record acceptance_evidence =
  ae_Component :: string
  ae_DriveRevision :: string
  ae_WardveilEndpoint :: string
  ae_ApplicationConsumerIntegration :: string
  ae_CleanUploadFinalize :: caseEvidence
  ae_MaliciousUploadFinalize :: caseEvidence
  ae_InvalidCredentialFailClosed :: string
  ae_ScannerUnavailableFailClosed :: string
  ae_DirectClamAVAccess :: bool
  ae_QuarantineExecution :: string
  ae_ProductionServiceIdentity :: string
  ae_ProductionRuntimeAcceptance :: string
  ae_ObservedAt :: time

record acceptance_flags =
  fl_endpoint :: string
  fl_secretFile :: string
  fl_callerID :: string
  fl_keyID :: string
  fl_revision :: string

definition eicar :: string where
  "eicar = ''X5O!P%@AP[4'' @ [CHR 0x5C] @ ''PZX54(P^)7CC)7}$EICAR-STANDARD-ANTIVIRUS-TEST-FILE!$H+H*''"

text \<open>
  \<^verbatim>\<open>main\<close> of the live acceptance, up to the encoding of the evidence. \<open>tempdir\<close> is the result of
  \<^verbatim>\<open>os.MkdirTemp\<close>. An error is what \<^verbatim>\<open>fatalf\<close> reports.
\<close>

definition acceptance_main ::
  "surroundings \<Rightarrow> acceptance_flags \<Rightarrow> goerr + string \<Rightarrow> usys \<Rightarrow> (uerr + acceptance_evidence) \<times> usys" where
  "acceptance_main su flags tempdir s =
     (if fl_secretFile flags = [] \<or> fl_revision flags = []
      then (fails_with ''--secret-file and --source-revision are required'', s)
      else case readSecretFile (su_Stat su (fl_secretFile flags)) (su_ReadFile su (fl_secretFile flags)) of
        Inl err \<Rightarrow> (Inl (UErr err), s)
      | Inr secret \<Rightarrow>
     (let endpoint = fl_endpoint flags; callerID = fl_callerID flags; keyID = fl_keyID flags in
      case case_scanner su endpoint callerID keyID secret (10 * second) of
        Inl err \<Rightarrow> (Inl (UErr err), s)
      | Inr scanner \<Rightarrow>
     (case tempdir of
        Inl err \<Rightarrow> (Inl (UErr err), s)
      | Inr dir \<Rightarrow>
     (case on_fs (NewLocal dir) s of
        (Inl err, s1) \<Rightarrow> (Inl (UErr err), s1)
      | (Inr lc, s1) \<Rightarrow>
     (let l = Some lc in
      case on_fs (EnsureLayout l) s1 of
        (Inl err, s2) \<Rightarrow> (Inl (UErr err), s2)
      | (Inr _, s2) \<Rightarrow>
     (case runUploadCase l (http_scanner scanner)
             (''GoreeCloud Drive live Wardveil clean acceptance control'' @ [newline]) True s2 of
        (Inl err, s3) \<Rightarrow> (Inl err, s3)
      | (Inr cleanEvidence, s3) \<Rightarrow>
     (case runUploadCase l (http_scanner scanner) eicar False s3 of
        (Inl err, s4) \<Rightarrow> (Inl err, s4)
      | (Inr maliciousEvidence, s4) \<Rightarrow>
     (case runNegativeCase su l endpoint callerID keyID (replicate 64 (CHR ''0'')) s4 of
        (Inl err, s5) \<Rightarrow> (Inl err, s5)
      | (Inr invalidCredential, s5) \<Rightarrow>
     (case runNegativeCase su l ''http://127.0.0.1:8792/v1/scan'' callerID keyID secret s5 of
        (Inl err, s6) \<Rightarrow> (Inl err, s6)
      | (Inr unavailableEndpoint, s6) \<Rightarrow>
     (case on_fs sys_Now s6 of
        (now, s7) \<Rightarrow>
          (Inr \<lparr>ae_Component = ''GoreeCloud Drive Wardveil Scan live application acceptance'',
             ae_DriveRevision = fl_revision flags, ae_WardveilEndpoint = endpoint,
             ae_ApplicationConsumerIntegration = ''passed'', ae_CleanUploadFinalize = cleanEvidence,
             ae_MaliciousUploadFinalize = maliciousEvidence, ae_InvalidCredentialFailClosed = invalidCredential,
             ae_ScannerUnavailableFailClosed = unavailableEndpoint, ae_DirectClamAVAccess = False,
             ae_QuarantineExecution = ''not_proven'', ae_ProductionServiceIdentity = ''not_proven'',
             ae_ProductionRuntimeAcceptance = ''unaccepted'', ae_ObservedAt = now\<rparr>, s7)))))))))))"

end
