(* ===== verification/Negative_Acceptance.thy ===== *)
theory Negative_Acceptance
  imports Acceptance
begin

text \<open>
  \<^verbatim>\<open>cmd/wardveil-negative-acceptance/main.go\<close>: cases in which the scanner times out, answers with
  evidence that must not release the upload, or the content changes during the scan, and the replay of a
  signed request.
\<close>

section \<open>Scanners under control\<close>

text \<open>\<^verbatim>\<open>os.WriteFile\<close>: open, truncating an existing file, write, close.\<close>

definition sys_WriteFile :: "string \<Rightarrow> string \<Rightarrow> os \<Rightarrow> (goerr + unit) \<times> os" where
  "sys_WriteFile p bs s =
     (case sys_OpenCreate False p s of
        (Inl err, s1) \<Rightarrow> (Inl err, s1)
      | (Inr i, s1) \<Rightarrow>
     (case sys_Write i 0 bs (set_data i [] s1) of
        (written, s2) \<Rightarrow>
     (case sys_Quiet s2 of
        (closed, s3) \<Rightarrow>
          (case written of Inl err \<Rightarrow> (Inl err, s3) | Inr _ \<Rightarrow> (closed, s3)))))"

definition authoritativeEnvelope :: "ScanRequest \<Rightarrow> time \<Rightarrow> time \<Rightarrow> Result \<Rightarrow> ScanEnvelope" where
  "authoritativeEnvelope request observedAt validUntil result =
     \<lparr>se_ResourceID = rq_ResourceID request, se_ResourceDigestSHA256 = rq_DigestSHA256 request,
      se_ScanRecord =
        \<lparr>sr_ContractVersion = RuntimeContractVersion, sr_RecordID = ''controlled-acceptance-record'',
         sr_RecordType = ScanRecordType,
         sr_Producer = \<lparr>pr_ID = ''controlled-acceptance'', pr_Authoritative = True\<rparr>,
         sr_Scope = \<lparr>sp_ResourceType = DriveFileResourceType, sp_ResourceID = rq_ResourceID request\<rparr>,
         sr_ObservedAt = observedAt, sr_ValidUntil = validUntil, sr_Result = result,
         sr_EvidenceRefs = [''controlled:wardveil-negative-acceptance'']\<rparr>\<rparr>"

text \<open>A scanner that reads the body and answers what it is told.\<close>

definition controlled_scanner :: "(ScanRequest \<Rightarrow> ScanEnvelope) \<Rightarrow> (usys, fsnode) Scanner" where
  "controlled_scanner makeEnvelope request body s =
     (case on_fs (sys_ReadAll body) s of
        (Inl err, s1) \<Rightarrow> (Inl err, s1)
      | (Inr _, s1) \<Rightarrow> (Inr (makeEnvelope request), s1))"

text \<open>A scanner that reads the body, then overwrites the staged file, then clears what it read.\<close>

definition changing_scanner :: "string \<Rightarrow> time \<Rightarrow> (usys, fsnode) Scanner" where
  "changing_scanner stagingPath now request body s =
     (case on_fs (sys_ReadAll body) s of
        (Inl err, s1) \<Rightarrow> (Inl err, s1)
      | (Inr _, s1) \<Rightarrow>
     if stagingPath = [] then (Inl (ErrorString ''changed-during-scan staging path unavailable''), s1)
     else case on_fs (sys_WriteFile stagingPath (''changed after Wardveil inspection'' @ [newline])) s1 of
        (Inl err, s2) \<Rightarrow> (Inl err, s2)
      | (Inr _, s2) \<Rightarrow> (Inr (authoritativeEnvelope request (now - second) (now + minute) ResultClean), s2))"

text \<open>The gate of the controlled cases has a fixed clock.\<close>

definition fixed_gate :: "Local option \<Rightarrow> (usys, fsnode) Scanner \<Rightarrow> time \<Rightarrow> (usys, fsnode) StagedFileGate" where
  "fixed_gate l scanner now = (local_gate l scanner)\<lparr>g_Now := (\<lambda>s. (now, s))\<rparr>"

section \<open>Cases\<close>

record decisionCase =
  dc_Status :: string
  dc_Disposition :: Disposition
  dc_CanRelease :: bool
  dc_ObjectPublished :: bool
  dc_StagingHeld :: bool
  dc_ReasonCodes :: "string list"

definition validateBlockedDecision ::
  "Local option \<Rightarrow> string \<Rightarrow> string \<Rightarrow> string \<Rightarrow> uerr option \<Rightarrow> Disposition \<Rightarrow> string \<Rightarrow> usys
   \<Rightarrow> (uerr + decisionCase) \<times> usys" where
  "validateBlockedDecision l spaceID nodeID uploadID completeErr expectedDisposition expectedReason s =
     (case completeErr of
        None \<Rightarrow> (fails_with ''expected security block'', s)
      | Some err \<Rightarrow>
     if \<not> uerr_Is err UploadsErrSecurityBlocked then (fails_with ''expected security block'', s)
     else case err of
        UErr _ \<Rightarrow> (fails_with ''security block did not preserve Wardveil decision'', s)
      | SecurityBlockedError decision \<Rightarrow>
     if de_Disposition decision \<noteq> expectedDisposition \<or> de_CanRelease decision
        \<or> expectedReason \<notin> set (de_ReasonCodes decision)
     then (fails_with ''unexpected Wardveil decision'', s)
     else case case_files l spaceID nodeID uploadID s of
        (Inl err, s1) \<Rightarrow> (Inl (UErr err), s1)
      | (Inr (objectPublished, stagingHeld), s1) \<Rightarrow>
     if objectPublished \<or> \<not> stagingHeld
     then (fails_with ''blocked upload did not remain unpublished and staged'', s1)
     else (Inr \<lparr>dc_Status = ''passed'', dc_Disposition = de_Disposition decision,
              dc_CanRelease = de_CanRelease decision, dc_ObjectPublished = objectPublished,
              dc_StagingHeld = stagingHeld, dc_ReasonCodes = de_ReasonCodes decision\<rparr>, s1))"

definition runControlledDecisionCase ::
  "Local option \<Rightarrow> time \<Rightarrow> string \<Rightarrow> (ScanRequest \<Rightarrow> ScanEnvelope) \<Rightarrow> Disposition \<Rightarrow> string \<Rightarrow> usys
   \<Rightarrow> (uerr + decisionCase) \<times> usys" where
  "runControlledDecisionCase l now name makeEnvelope expectedDisposition expectedReason s =
     (case case_ids s of
        (Inl err, s1) \<Rightarrow> (Inl (UErr err), s1)
      | (Inr (spaceID, nodeID), s1) \<Rightarrow>
     (let service = acceptance_service l (fixed_gate l (controlled_scanner makeEnvelope) now) in
      case begin_case service spaceID nodeID (name @ ''.bin'')
             (''GoreeCloud Drive controlled Wardveil '' @ name @ '' acceptance control'' @ [newline]) s1 of
        (Inl err, (s2, _)) \<Rightarrow> (Inl err, s2)
      | (Inr session, st2) \<Rightarrow>
     (case uploads_Complete service acceptance_account spaceID (us_ID session) st2 of
        ((_, completeErr), (s3, _)) \<Rightarrow>
          validateBlockedDecision l spaceID nodeID (us_ID session) completeErr expectedDisposition expectedReason s3)))"

text \<open>
  The scanner's staging path is assigned between the creation of the session and the scan, so the
  service that appends and completes is the one with the path.
\<close>

definition runChangedDuringScanCase ::
  "Local option \<Rightarrow> time \<Rightarrow> usys \<Rightarrow> (uerr + decisionCase) \<times> usys" where
  "runChangedDuringScanCase l now s =
     (case case_ids s of
        (Inl err, s1) \<Rightarrow> (Inl (UErr err), s1)
      | (Inr (spaceID, nodeID), s1) \<Rightarrow>
     (let service = (\<lambda>path. acceptance_service l (fixed_gate l (changing_scanner path now) now)) in
      case uploads_Create (service []) acceptance_account spaceID nodeID [] ''changed-during-scan.bin''
             (s1\<lparr>sessions := Map.empty\<rparr>, zero_decision) of
        ((session, Some err), (s2, _)) \<Rightarrow> (Inl err, s2)
      | ((session, None), st2) \<Rightarrow>
     (case StagingPath l spaceID (us_ID session) of
        Inl err \<Rightarrow> (Inl (UErr err), fst st2)
      | Inr stagingPath \<Rightarrow>
     (case uploads_Append (service stagingPath) acceptance_account spaceID (us_ID session) 0
             (Some \<lparr>rd_data = ''GoreeCloud Drive changed-during-scan acceptance control'' @ [newline], rd_fail = False\<rparr>) st2 of
        ((_, Some err), (s3, _)) \<Rightarrow> (Inl err, s3)
      | ((_, None), st3) \<Rightarrow>
     (case uploads_Complete (service stagingPath) acceptance_account spaceID (us_ID session) st3 of
        ((_, completeErr), (s4, _)) \<Rightarrow>
          validateBlockedDecision l spaceID nodeID (us_ID session) completeErr DispositionBlockedUnverified
            ''drive_content_changed_during_scan'' s4)))))"

definition runUnavailableCase ::
  "Local option \<Rightarrow> (usys, fsnode) Scanner \<Rightarrow> usys \<Rightarrow> (uerr + string) \<times> usys" where
  "runUnavailableCase l scanner s =
     (case case_ids s of
        (Inl err, s1) \<Rightarrow> (Inl (UErr err), s1)
      | (Inr (spaceID, nodeID), s1) \<Rightarrow>
     (let service = acceptance_service l (local_gate l scanner) in
      case begin_case service spaceID nodeID ''timeout.bin''
             (''GoreeCloud Drive Wardveil timeout acceptance control'' @ [newline]) s1 of
        (Inl err, (s2, _)) \<Rightarrow> (Inl err, s2)
      | (Inr session, st2) \<Rightarrow>
     (case uploads_Complete service acceptance_account spaceID (us_ID session) st2 of
        ((_, completeErr), (s3, _)) \<Rightarrow>
     if \<not> (case completeErr of None \<Rightarrow> False | Some err \<Rightarrow> uerr_Is err UploadsErrSecurityUnavailable)
     then (fails_with ''expected fail-closed security unavailable'', s3)
     else case case_files l spaceID nodeID (us_ID session) s3 of
        (Inl err, s4) \<Rightarrow> (Inl (UErr err), s4)
      | (Inr (objectPublished, stagingHeld), s4) \<Rightarrow>
          if objectPublished \<or> \<not> stagingHeld
          then (fails_with ''timeout path did not preserve unpublished staged content'', s4)
          else (Inr ''passed'', s4))))"

text \<open>\<open>listener\<close> is the address of the local server that sleeps, or the error of opening it.\<close>

definition runTimeoutCase ::
  "surroundings \<Rightarrow> Local option \<Rightarrow> goerr + string \<Rightarrow> string \<Rightarrow> string \<Rightarrow> string \<Rightarrow> usys \<Rightarrow> (uerr + string) \<times> usys" where
  "runTimeoutCase su l listener callerID keyID secret s =
     (case listener of
        Inl err \<Rightarrow> (Inl (UErr err), s)
      | Inr addr \<Rightarrow>
     (case case_scanner su (''http://'' @ addr @ WardveilScanPath) callerID keyID secret (100 * millisecond) of
        Inl err \<Rightarrow> (Inl (UErr err), s)
      | Inr scanner \<Rightarrow> runUnavailableCase l (http_scanner scanner) s))"

section \<open>Replay\<close>

text \<open>\<^verbatim>\<open>err.Error()\<close>, as far as the model keeps texts; a sentinel's own text is left out.\<close>

fun goerr_text :: "goerr \<Rightarrow> string" where
  "goerr_text (Sentinel t) = []"
| "goerr_text (ErrorString m) = m"
| "goerr_text (Wrapped m e) = m @ '': '' @ goerr_text e"

fun strings_Contains :: "string \<Rightarrow> string \<Rightarrow> bool" where
  "strings_Contains [] t \<longleftrightarrow> t = []"
| "strings_Contains (c # s) t \<longleftrightarrow> HasPrefix (c # s) t \<or> strings_Contains s t"

text \<open>
  The replayed requests have their bodies in memory, so the transport is one that takes bytes. The
  scanner's clock and tokens are the fixed values drawn first.
\<close>

type_synonym memory_transport =
  "duration \<Rightarrow> scan_http_request \<Rightarrow> string \<Rightarrow> usys \<Rightarrow> (goerr + scan_http_response) \<times> usys"

definition replay_scanner ::
  "surroundings \<Rightarrow> memory_transport \<Rightarrow> string \<Rightarrow> string \<Rightarrow> string \<Rightarrow> string \<Rightarrow> time \<Rightarrow> string \<Rightarrow> string
   \<Rightarrow> goerr + (usys, string) HTTPScanner" where
  "replay_scanner su transport endpoint callerID keyID secret fixedTime nonce correlationID =
     NewHTTPScanner (su_ParseURL su) (su_ParseIP su) (on_fs sys_Now) (on_fs sys_RandRead) transport
       \<lparr>hc_Endpoint = endpoint, hc_CallerID = callerID, hc_KeyID = keyID, hc_Secret = secret,
        hc_Timeout = 10 * second, hc_MaxResponseBytes = 0, hc_Now = Some (\<lambda>s. (fixedTime, s)),
        hc_Nonce = Some (\<lambda>s. (Inr nonce, s)), hc_CorrelationID = Some (\<lambda>s. (Inr correlationID, s))\<rparr>"

definition replay_request :: "string \<Rightarrow> string \<Rightarrow> string \<Rightarrow> ScanRequest" where
  "replay_request spaceID nodeID content =
     \<lparr>rq_ResourceType = DriveFileResourceType, rq_ResourceID = ''drive:'' @ spaceID @ '':file:'' @ nodeID,
      rq_DigestSHA256 = hex_sha256 content, rq_SizeBytes = int (length content), rq_Action = ActionUploadFinalize\<rparr>"

definition replay_content :: string where
  "replay_content = ''GoreeCloud Drive exact replay acceptance control'' @ [newline]"

definition conflicting_content :: string where
  "conflicting_content = ''GoreeCloud Drive conflicting replay acceptance control'' @ [newline]"

text \<open>
  The three scans, once the scanner and the identifiers are there. \<^verbatim>\<open>reflect.DeepEqual\<close> on the two
  envelopes is equality of the records; it also tells apart the zones of equal instants and an absent list
  from an empty one, which the records do not hold.
\<close>

definition replay_exchange ::
  "(usys, string) HTTPScanner \<Rightarrow> string \<Rightarrow> string \<Rightarrow> usys \<Rightarrow> (goerr + string \<times> string) \<times> usys" where
  "replay_exchange scanner spaceID nodeID s =
     (let request = replay_request spaceID nodeID replay_content in
      case http_scanner scanner request replay_content s of
        (Inl err, s1) \<Rightarrow> (Inl (Wrapped ''first replay request'' err), s1)
      | (Inr first, s1) \<Rightarrow>
     (case http_scanner scanner request replay_content s1 of
        (Inl err, s2) \<Rightarrow> (Inl (Wrapped ''exact replay request'' err), s2)
      | (Inr second_answer, s2) \<Rightarrow>
     if first \<noteq> second_answer
     then (Inl (ErrorString ''exact replay did not return the cached equivalent envelope''), s2)
     else
     (case http_scanner scanner (replay_request spaceID nodeID conflicting_content) conflicting_content s2 of
        (Inr _, s3) \<Rightarrow> (Inl (ErrorString ''conflicting replay was not rejected with HTTP 409''), s3)
      | (Inl conflictErr, s3) \<Rightarrow>
          if \<not> strings_Contains (goerr_text conflictErr) ''HTTP 409''
          then (Inl (ErrorString ''conflicting replay was not rejected with HTTP 409''), s3)
          else (Inr (''passed'', ''passed''), s3))))"

definition runReplayCases ::
  "surroundings \<Rightarrow> memory_transport \<Rightarrow> string \<Rightarrow> string \<Rightarrow> string \<Rightarrow> string \<Rightarrow> usys
   \<Rightarrow> (goerr + string \<times> string) \<times> usys" where
  "runReplayCases su transport endpoint callerID keyID secret s =
     (case on_fs sys_Now s of
        (fixedTime, s1) \<Rightarrow>
     (case randomScanToken (on_fs sys_RandRead) ''drive-replay-nonce'' s1 of
        (Inl err, s2) \<Rightarrow> (Inl err, s2)
      | (Inr nonce, s2) \<Rightarrow>
     (case randomScanToken (on_fs sys_RandRead) ''drive-replay-correlation'' s2 of
        (Inl err, s3) \<Rightarrow> (Inl err, s3)
      | (Inr correlationID, s3) \<Rightarrow>
     (case replay_scanner su transport endpoint callerID keyID secret fixedTime nonce correlationID of
        Inl err \<Rightarrow> (Inl err, s3)
      | Inr scanner \<Rightarrow>
     (case case_ids s3 of
        (Inl err, s4) \<Rightarrow> (Inl err, s4)
      | (Inr (spaceID, nodeID), s4) \<Rightarrow> replay_exchange scanner spaceID nodeID s4)))))"

section \<open>The program\<close>

record negative_evidence =
  ne_Component :: string
  ne_DriveRevision :: string
  ne_WardveilEndpoint :: string
  ne_WardveilRevision :: string
  ne_WardveilRestartEvidenceSHA256 :: string
  ne_WardveilRestartEvidenceAt :: time
  ne_RuntimeNegativeMatrix :: string
  ne_LiveWardveilCases :: "string list"
  ne_ValidatedWardveilRuntimeCases :: "string list"
  ne_ControlledDriveCases :: "string list"
  ne_ScannerTimeoutFailClosed :: string
  ne_ExpiredEvidenceFailClosed :: decisionCase
  ne_DigestMismatchFailClosed :: decisionCase
  ne_ChangedDuringScanFailClosed :: decisionCase
  ne_SuspiciousContentHeld :: decisionCase
  ne_UnknownResultFailClosed :: decisionCase
  ne_UnsupportedResultFailClosed :: decisionCase
  ne_ExactReplayCached :: string
  ne_ConflictingReplayRejected :: string
  ne_ReplayDurability :: string
  ne_MultiHostReplayDurability :: string
  ne_RevokedCredential :: string
  ne_StaleSignatures :: string
  ne_CapacityExhaustion :: string
  ne_ProductionRuntimeAcceptance :: string
  ne_ObservedAt :: time

record negative_flags = acceptance_flags +
  fl_wardveilRevision :: string
  fl_wardveilRestartEvidence :: string

text \<open>The seven cases under the program's own control, in the order of the code.\<close>

record controlled_results =
  cr_timeout :: string
  cr_expired :: decisionCase
  cr_digestMismatch :: decisionCase
  cr_changed :: decisionCase
  cr_suspicious :: decisionCase
  cr_unknown :: decisionCase
  cr_unsupported :: decisionCase

definition current_envelope :: "time \<Rightarrow> Result \<Rightarrow> ScanRequest \<Rightarrow> ScanEnvelope" where
  "current_envelope now result request = authoritativeEnvelope request (now - second) (now + minute) result"

definition controlled_cases ::
  "surroundings \<Rightarrow> Local option \<Rightarrow> goerr + string \<Rightarrow> string \<Rightarrow> string \<Rightarrow> string \<Rightarrow> time \<Rightarrow> usys
   \<Rightarrow> (uerr + controlled_results) \<times> usys" where
  "controlled_cases su l listener callerID keyID secret now s =
     (case runTimeoutCase su l listener callerID keyID secret s of
        (Inl err, s1) \<Rightarrow> (Inl err, s1)
      | (Inr timeoutStatus, s1) \<Rightarrow>
     (case runControlledDecisionCase l now ''expired''
             (\<lambda>request. authoritativeEnvelope request (now - 2 * minute) (now - minute) ResultClean)
             DispositionBlockedUnverified ''wardveil_evidence_expired'' s1 of
        (Inl err, s2) \<Rightarrow> (Inl err, s2)
      | (Inr expired, s2) \<Rightarrow>
     (case runControlledDecisionCase l now ''digest-mismatch''
             (\<lambda>request. (current_envelope now ResultClean request)\<lparr>se_ResourceDigestSHA256 := replicate 64 (CHR ''f'')\<rparr>)
             DispositionBlockedUnverified ''wardveil_digest_mismatch'' s2 of
        (Inl err, s3) \<Rightarrow> (Inl err, s3)
      | (Inr digestMismatch, s3) \<Rightarrow>
     (case runChangedDuringScanCase l now s3 of
        (Inl err, s4) \<Rightarrow> (Inl err, s4)
      | (Inr changedDuringScan, s4) \<Rightarrow>
     (case runControlledDecisionCase l now ''suspicious'' (current_envelope now ResultSuspicious)
             DispositionHoldReview ''wardveil_suspicious_review_required'' s4 of
        (Inl err, s5) \<Rightarrow> (Inl err, s5)
      | (Inr suspicious, s5) \<Rightarrow>
     (case runControlledDecisionCase l now ''unknown'' (current_envelope now ResultUnknown)
             DispositionBlockedUnverified ''wardveil_result_unknown'' s5 of
        (Inl err, s6) \<Rightarrow> (Inl err, s6)
      | (Inr unknown, s6) \<Rightarrow>
     (case runControlledDecisionCase l now ''unsupported'' (current_envelope now ResultUnsupported)
             DispositionBlockedUnverified ''wardveil_result_unsupported'' s6 of
        (Inl err, s7) \<Rightarrow> (Inl err, s7)
      | (Inr unsupported, s7) \<Rightarrow>
          (Inr \<lparr>cr_timeout = timeoutStatus, cr_expired = expired, cr_digestMismatch = digestMismatch,
             cr_changed = changedDuringScan, cr_suspicious = suspicious, cr_unknown = unknown,
             cr_unsupported = unsupported\<rparr>, s7))))))))"

definition negative_result ::
  "negative_flags \<Rightarrow> replayEvidenceBinding \<Rightarrow> controlled_results \<Rightarrow> string \<Rightarrow> string \<Rightarrow> time \<Rightarrow> negative_evidence" where
  "negative_result flags binding results exactReplay conflictingReplay observedAt =
     \<lparr>ne_Component = ''GoreeCloud Drive Wardveil Scan runtime negative acceptance'',
      ne_DriveRevision = fl_revision flags, ne_WardveilEndpoint = fl_endpoint flags,
      ne_WardveilRevision = rb_WardveilRevision binding, ne_WardveilRestartEvidenceSHA256 = rb_EvidenceSHA256 binding,
      ne_WardveilRestartEvidenceAt = rb_ObservedAt binding, ne_RuntimeNegativeMatrix = ''passed'',
      ne_LiveWardveilCases = [''exact_replay_cached'', ''conflicting_replay_rejected''],
      ne_ValidatedWardveilRuntimeCases = [''single_host_restart_durability''],
      ne_ControlledDriveCases = [''scanner_timeout_fail_closed'', ''expired_evidence_fail_closed'',
        ''digest_mismatch_fail_closed'', ''changed_during_scan_fail_closed'', ''suspicious_content_held'',
        ''unknown_result_fail_closed'', ''unsupported_result_fail_closed''],
      ne_ScannerTimeoutFailClosed = cr_timeout results, ne_ExpiredEvidenceFailClosed = cr_expired results,
      ne_DigestMismatchFailClosed = cr_digestMismatch results, ne_ChangedDuringScanFailClosed = cr_changed results,
      ne_SuspiciousContentHeld = cr_suspicious results, ne_UnknownResultFailClosed = cr_unknown results,
      ne_UnsupportedResultFailClosed = cr_unsupported results, ne_ExactReplayCached = exactReplay,
      ne_ConflictingReplayRejected = conflictingReplay, ne_ReplayDurability = rb_ReplayDurability binding,
      ne_MultiHostReplayDurability = rb_MultiHostReplayStatus binding, ne_RevokedCredential = ''not_proven'',
      ne_StaleSignatures = ''not_proven'', ne_CapacityExhaustion = ''not_proven'',
      ne_ProductionRuntimeAcceptance = ''unaccepted'', ne_ObservedAt = observedAt\<rparr>"

definition negative_main ::
  "surroundings \<Rightarrow> memory_transport \<Rightarrow> (string \<Rightarrow> goerr + lstat_info) \<Rightarrow> goerr + string \<Rightarrow> goerr + string \<Rightarrow> negative_flags
   \<Rightarrow> usys \<Rightarrow> (uerr + negative_evidence) \<times> usys" where
  "negative_main su transport lstat listener tempdir flags s =
     (if fl_secretFile flags = [] \<or> fl_revision flags = [] \<or> fl_wardveilRevision flags = []
         \<or> fl_wardveilRestartEvidence flags = []
      then (fails_with ''--secret-file, --source-revision, --wardveil-revision, and --wardveil-restart-evidence are required'', s)
      else case readSecretFile (su_Stat su (fl_secretFile flags)) (su_ReadFile su (fl_secretFile flags)) of
        Inl err \<Rightarrow> (Inl (UErr err), s)
      | Inr secret \<Rightarrow>
     (let endpoint = fl_endpoint flags; callerID = fl_callerID flags; keyID = fl_keyID flags;
          evidence = fl_wardveilRestartEvidence flags in
      case on_fs sys_Now s of
        (now, s0) \<Rightarrow>
     (case validateWardveilRestartEvidence evidence (lstat evidence) (su_ReadFile su evidence)
             (fl_wardveilRevision flags) endpoint callerID keyID now of
        Inl err \<Rightarrow> (Inl (UErr err), s0)
      | Inr binding \<Rightarrow>
     (case tempdir of
        Inl err \<Rightarrow> (Inl (UErr err), s0)
      | Inr dir \<Rightarrow>
     (case on_fs (NewLocal dir) s0 of
        (Inl err, s1) \<Rightarrow> (Inl (UErr err), s1)
      | (Inr lc, s1) \<Rightarrow>
     (case on_fs (EnsureLayout (Some lc)) s1 of
        (Inl err, s2) \<Rightarrow> (Inl (UErr err), s2)
      | (Inr _, s2) \<Rightarrow>
     (case controlled_cases su (Some lc) listener callerID keyID secret now s2 of
        (Inl err, s3) \<Rightarrow> (Inl err, s3)
      | (Inr results, s3) \<Rightarrow>
     (case runReplayCases su transport endpoint callerID keyID secret s3 of
        (Inl err, s4) \<Rightarrow> (Inl (UErr err), s4)
      | (Inr (exactReplay, conflictingReplay), s4) \<Rightarrow>
     (case on_fs sys_Now s4 of
        (observedAt, s5) \<Rightarrow>
          (Inr (negative_result flags binding results exactReplay conflictingReplay observedAt), s5))))))))))"

end
