(* ===== verification/Acceptance_Lemmas.thy ===== *)
theory Acceptance_Lemmas
  imports Negative_Acceptance
begin

text \<open>
  What the acceptance cases do to the system: the recording gate is invisible, refused uploads publish
  nothing, and the scanners of the cases respect the published objects.
\<close>

section \<open>The recording gate changes nothing\<close>

text \<open>The service of a case without the recording.\<close>

definition plain_service :: "Local option \<Rightarrow> (usys, fsnode) StagedFileGate \<Rightarrow> usys UploadService" where
  "plain_service l gate =
     (upload_service l undefined (8 * 2 ^ 20) (10 * minute))\<lparr>svc_security := Some (EvaluateUpload gate)\<rparr>"

lemma plain_service_fields:
  "svc_repo (plain_service l gate) = Some memory_repo" "svc_store (plain_service l gate) = Some (local_staging l)"
  "svc_security (plain_service l gate) = Some (EvaluateUpload gate)"
  "svc_maxChunk (plain_service l gate) = 8 * 2 ^ 20" "svc_ttl (plain_service l gate) = 10 * minute"
  "svc_now (plain_service l gate) = on_fs sys_Now" "svc_rand (plain_service l gate) = on_fs sys_RandRead"
  by (simp_all add: plain_service_def upload_service_def)

lemma acceptance_service_fields:
  "svc_repo (acceptance_service l gate) = Some (recorded_repo memory_repo)"
  "svc_store (acceptance_service l gate) = Some (recorded_store (local_staging l))"
  "svc_security (acceptance_service l gate) = Some (recordingGate (EvaluateUpload gate))"
  "svc_maxChunk (acceptance_service l gate) = 8 * 2 ^ 20" "svc_ttl (acceptance_service l gate) = 10 * minute"
  "svc_now (acceptance_service l gate) = on_fst (on_fs sys_Now)"
  "svc_rand (acceptance_service l gate) = on_fst (on_fs sys_RandRead)"
  by (simp_all add: acceptance_service_def)

lemmas recorded_defs = acceptance_service_fields plain_service_fields recorded_repo_def recorded_store_def

lemma rejectExpired_recorded:
  "rejectExpired (acceptance_service l gate) x st = on_fst (rejectExpired (plain_service l gate) x) st"
  by (simp add: rejectExpired_def isExpired_def on_fst_def recorded_defs split: prod.splits sum.splits)

lemma Get_recorded:
  "uploads_Get (acceptance_service l gate) acct sp up st = on_fst (uploads_Get (plain_service l gate) acct sp up) st"
  by (simp add: uploads_Get_def rejectExpired_recorded on_fst_def recorded_defs split: prod.splits sum.splits)

lemma Create_recorded:
  "uploads_Create (acceptance_service l gate) acct sp n par name st
    = on_fst (uploads_Create (plain_service l gate) acct sp n par name) st"
  by (simp add: uploads_Create_def fails_def Let_def on_fst_def recorded_defs split: prod.splits sum.splits)

lemma Append_recorded:
  "uploads_Append (acceptance_service l gate) acct sp up off body st
    = on_fst (uploads_Append (plain_service l gate) acct sp up off body) st"
  by (simp add: uploads_Append_def Get_recorded fails_def Let_def on_fst_def recorded_defs
      split: prod.splits sum.splits option.splits)

lemma Complete_recorded:
  assumes run: "uploads_Complete (acceptance_service l gate) acct sp up st = (r, st')"
  shows "uploads_Complete (plain_service l gate) acct sp up (fst st) = (r, fst st')"
proof -
  obtain g s1 where g: "uploads_Get (plain_service l gate) acct sp up (fst st) = (g, s1)" by fastforce
  show ?thesis
  proof (cases g)
    case (Inl e)
    then show ?thesis using run g by (auto simp: uploads_Complete_def Get_recorded on_fst_def fails_def)
  next
    case (Inr x)
    obtain d s2 where d: "EvaluateUpload gate (us_SpaceID x) (us_ID x) (us_NodeID x) s1 = (d, s2)" by fastforce
    obtain e s3 where e: "rejectExpired (plain_service l gate) x s2 = (e, s3)" by fastforce
    obtain f s4 where f: "st_Finalize (local_staging l) sp up (us_NodeID x) s3 = (f, s4)" by fastforce
    obtain u s5 where u: "ur_Update memory_repo (x\<lparr>us_State := StateCompleted\<rparr>) s4 = (u, s5)" by fastforce
    show ?thesis using run g Inr d e f u
      by (cases d; cases e; cases f; cases u)
        (auto simp: uploads_Complete_def Get_recorded rejectExpired_recorded recordingGate_def fails_def on_fst_def
          recorded_defs split: if_splits)
  qed
qed

text \<open>Only completing asks the gate.\<close>

lemma upload_service_fields:
  "svc_repo (upload_service l scan mx ttl) = Some memory_repo" "svc_store (upload_service l scan mx ttl) = Some (local_staging l)"
  "svc_maxChunk (upload_service l scan mx ttl) = mx" "svc_ttl (upload_service l scan mx ttl) = ttl"
  "svc_now (upload_service l scan mx ttl) = on_fs sys_Now" "svc_rand (upload_service l scan mx ttl) = on_fs sys_RandRead"
  by (simp_all add: upload_service_def)

lemma plain_rejectExpired:
  "rejectExpired (plain_service l gate) x s = rejectExpired (upload_service l scan (8 * 2 ^ 20) (10 * minute)) x s"
  unfolding rejectExpired_def isExpired_def plain_service_fields upload_service_fields by (rule refl)

lemma plain_Get:
  "uploads_Get (plain_service l gate) acct sp up s = uploads_Get (upload_service l scan (8 * 2 ^ 20) (10 * minute)) acct sp up s"
  unfolding uploads_Get_def plain_rejectExpired [of _ _ _ _ scan] plain_service_fields upload_service_fields by (rule refl)

lemma plain_Create:
  "uploads_Create (plain_service l gate) acct sp n par name s
    = uploads_Create (upload_service l scan (8 * 2 ^ 20) (10 * minute)) acct sp n par name s"
  unfolding uploads_Create_def plain_service_fields upload_service_fields by (rule refl)

lemma plain_Append:
  "uploads_Append (plain_service l gate) acct sp up off body s
    = uploads_Append (upload_service l scan (8 * 2 ^ 20) (10 * minute)) acct sp up off body s"
  unfolding uploads_Append_def plain_Get [of _ _ _ _ _ _ scan] plain_service_fields upload_service_fields by (rule refl)

lemma plain_service_local: "plain_service l (local_gate l scan) = upload_service l scan (8 * 2 ^ 20) (10 * minute)"
  by (simp add: plain_service_def upload_service_def)

section \<open>Refused uploads publish nothing\<close>

definition refusal :: "uerr option \<Rightarrow> bool" where
  "refusal err \<longleftrightarrow> (\<exists>e. err = Some e \<and> (uerr_Is e UploadsErrSecurityBlocked \<or> uerr_Is e UploadsErrSecurityUnavailable))"

lemma scopedPath_error:
  assumes "wf_local l" "plain_comp area" "scopedPath l area x y = Inl e"
  shows "\<exists>m. e = ErrorString m"
proof (cases "validStorageID x \<and> validStorageID y")
  case True
  then show ?thesis using assms by (simp add: scopedPath_wf)
next
  case False
  then show ?thesis using assms by (auto simp: scopedPath_def split: option.splits if_splits)
qed

lemma Finalize_not_refusal:
  assumes "wf_local l" "Finalize l sp up n s = (Inl e, s')" shows "\<not> refusal (Some (UErr e))"
  using assms(2) scopedPath_error [OF assms(1), of "''staging''" sp up e] scopedPath_error [OF assms(1), of "''objects''" sp n e]
  by (auto simp: refusal_def Finalize_def path_defs sys_MkdirAll_def sys_Link_def sys_Remove_def Let_def
      split: sum.splits prod.splits if_splits option.splits fsnode.splits)

lemma rejectExpired_not_refusal:
  "rejectExpired (upload_service l scan mx ttl) x s = (Inl e, s') \<Longrightarrow> \<not> refusal (Some (UErr e))"
  by (auto simp: rejectExpired_def us.wiring refusal_def split: prod.splits sum.splits if_splits)

lemma Update_not_refusal: "ur_Update memory_repo x s = (Inl e, s') \<Longrightarrow> \<not> refusal (Some (UErr e))"
  by (auto simp: memory_repo_def on_sessions_def memory_Update_def refusal_def split: if_splits)

definition gate_keeps :: "Local option \<Rightarrow> (usys, fsnode) StagedFileGate \<Rightarrow> bool" where
  "gate_keeps l gate \<longleftrightarrow> (\<forall>sp up n s r s'. fs_inv l s \<and> EvaluateUpload gate sp up n s = (r, s')
     \<longrightarrow> fs_inv l s' \<and> object_view l s' = object_view l s)"

lemma Complete_refused:
  assumes gate: "gate_keeps l gate" and inv: "fs_inv l s"
    and run: "uploads_Complete (plain_service l gate) acct sp up s = ((x, err), s')" and ref: "refusal err"
  shows "fs_inv l s' \<and> object_view l s' = object_view l s"
proof -
  let ?svc = "upload_service l undefined (8 * 2 ^ 20) (10 * minute)"
  obtain g s1 where g: "uploads_Get ?svc acct sp up s = (g, s1)" by fastforce
  note G = uploads_Get_inv [OF inv g]
  show ?thesis
  proof (cases g)
    case (Inl e)
    then show ?thesis using run g G by (auto simp: uploads_Complete_def fails_def plain_Get [of _ _ _ _ _ _ undefined] plain_rejectExpired [of _ _ _ _ undefined])
  next
    case (Inr y)
    obtain d s2 where d: "EvaluateUpload gate (us_SpaceID y) (us_ID y) (us_NodeID y) s1 = (d, s2)" by fastforce
    have D: "fs_inv l s2 \<and> object_view l s2 = object_view l s"
      using gate [unfolded gate_keeps_def] G d by metis
    obtain e s3 where e: "rejectExpired ?svc y s2 = (e, s3)" by fastforce
    obtain f s4 where f: "st_Finalize (local_staging l) sp up (us_NodeID y) s3 = (f, s4)" by fastforce
    have nf: "\<not> refusal (Some (UErr z))" if "f = Inl z" for z
      using f that Finalize_not_refusal [of l] G by (auto simp: local_staging_def on_fs_def simp: fs_inv_def usys_inv_def split: prod.splits)
    show ?thesis
      using run ref g G Inr d D e f nf rejectExpired_not_refusal [of l undefined "8 * 2 ^ 20" "10 * minute" y s2]
        Update_not_refusal
      by (auto simp: uploads_Complete_def plain_Get [of _ _ _ _ _ _ undefined] plain_rejectExpired [of _ _ _ _ undefined] plain_service_fields fails_def Let_def refusal_def
          split: sum.splits prod.splits if_splits)
  qed
qed

section \<open>The scanners of the cases respect the published objects\<close>

definition scanner_keeps :: "Local option \<Rightarrow> (usys, fsnode) Scanner \<Rightarrow> bool" where
  "scanner_keeps l scan \<longleftrightarrow> (\<forall>req h s r s'. fs_inv l s \<and> scan req h s = (r, s')
     \<longrightarrow> fs_inv l s' \<and> object_view l s' = object_view l s)"

lemma same_keeps: "same_usys s s' \<Longrightarrow> fs_inv l s \<Longrightarrow> fs_inv l s' \<and> object_view l s' = object_view l s"
  using fs_inv_same same_usys_views by auto

lemma quiet_keeps: "scanner_quiet scan \<Longrightarrow> scanner_keeps l scan"
  unfolding scanner_keeps_def scanner_quiet_def using same_keeps by (metis snd_conv)

lemma gate_keeps_clock:
  assumes "scanner_keeps l scan" "\<And>s t s'. clk s = (t, s') \<Longrightarrow> same_usys s s'"
  shows "gate_keeps l ((local_gate l scan)\<lparr>g_Now := clk\<rparr>)"
  unfolding gate_keeps_def
proof (intro allI impI)
  fix sp up n s r s'
  assume a: "fs_inv l s \<and> EvaluateUpload ((local_gate l scan)\<lparr>g_Now := clk\<rparr>) sp up n s = (r, s')"
  show "fs_inv l s' \<and> object_view l s' = object_view l s"
  proof (rule EvaluateUpload_preserves [where P = "\<lambda>t. fs_inv l t \<and> object_view l t = object_view l s"])
    show "fs_inv l u \<and> object_view l u = object_view l s"
      if "fs_inv l t \<and> object_view l t = object_view l s" "same_usys t u" for t u
      using same_keeps [OF that(2)] that(1) by simp
    show "fs_inv l u \<and> object_view l u = object_view l s"
      if "fs_inv l t \<and> object_view l t = object_view l s" "scan req h t = (x, u)" for req h t x u
      using assms(1) that unfolding scanner_keeps_def by metis
  qed (use a assms(2) in auto)
qed

lemma gate_keeps_local: "scanner_keeps l scan \<Longrightarrow> gate_keeps l (local_gate l scan)"
  using gate_keeps_clock [of l scan "on_fs sys_Now"] on_fs_Now_same by (simp add: local_gate_clock)

lemma gate_keeps_fixed: "scanner_keeps l scan \<Longrightarrow> gate_keeps l (fixed_gate l scan now)"
  unfolding fixed_gate_def by (rule gate_keeps_clock) auto

lemma on_fs_ReadAll_same: "on_fs (sys_ReadAll h) s = (r, s') \<Longrightarrow> same_usys s s'"
  by (erule on_fs_same) (rule sys_ReadAll_frame)

lemma controlled_quiet: "scanner_quiet (controlled_scanner answer)"
  unfolding scanner_quiet_def controlled_scanner_def
  by (auto split: prod.splits sum.splits dest: on_fs_ReadAll_same)

lemma WriteFile_effect:
  assumes run: "sys_WriteFile p bs s = (r, s')" and wf: "os_wf s" "no_links s"
  shows "os_wf s' \<and> no_links s' \<and> sched s' = sched s \<and> (\<forall>q. q \<noteq> p \<longrightarrow> content_at s' q = content_at s q)"
proof -
  obtain a s1 where a: "sys_OpenCreate False p s = (a, s1)" by fastforce
  have opened: "os_wf s1 \<and> no_links s1 \<and> sched s1 = sched s \<and> (\<forall>q. q \<noteq> p \<longrightarrow> content_at s1 q = content_at s q)
    \<and> (\<forall>i. a = Inr i \<longrightarrow> file_at s1 p = Some i)"
    using a
  proof (cases rule: sys_OpenCreateE)
    case new
    have fresh: "file_at s q \<noteq> Some (os_next s)" for q using wf(1) by (auto simp: os_wf_file_at)
    then have "no_links s1" using new(3) wf(2) by (auto simp: no_links_def file_at_def)
    then show ?thesis using new wf fresh by (auto simp: content_at_def map_option_case split: option.splits)
  qed (use wf in \<open>simp_all add: no_links_def\<close>)
  show ?thesis
  proof (cases a)
    case (Inl e)
    then show ?thesis using run a opened by (simp add: sys_WriteFile_def)
  next
    case (Inr i)
    obtain w s2 where w: "sys_Write i 0 bs (set_data i [] s1) = (w, s2)" by fastforce
    then obtain d where d: "s2 = tick (set_data i d (set_data i [] s1))" by (cases rule: sys_WriteE) auto
    obtain c s3 where c: "sys_Quiet s2 = (c, s3)" by fastforce
    have s': "s' = s3" "s3 = tick s2" using run a Inr w c by (auto simp: sys_WriteFile_def sys_Quiet_def split: sum.splits)
    have "file_at s1 q \<noteq> Some i" if "q \<noteq> p" for q using that opened Inr unfolding no_links_def by blast
    then have "content_at s' q = content_at s1 q" if "q \<noteq> p" for q
      using that s' d by (auto simp: content_at_def map_option_case split: option.splits)
    moreover have "no_links s'" using opened s' d by (simp add: no_links_def)
    ultimately show ?thesis using opened s' d by simp
  qed
qed

lemma changing_keeps:
  assumes path: "StagingPath l sp up = Inr p" shows "scanner_keeps l (changing_scanner p now)"
  unfolding scanner_keeps_def
proof (intro allI impI, elim conjE)
  fix req h s r s'
  assume inv: "fs_inv l s" and run: "changing_scanner p now req h s = (r, s')"
  obtain a s1 where a: "on_fs (sys_ReadAll h) s = (a, s1)" by fastforce
  have k1: "fs_inv l s1" "object_view l s1 = object_view l s" using same_keeps [OF on_fs_ReadAll_same [OF a] inv] by auto
  have wf: "wf_local l" using inv by (simp add: fs_inv_def usys_inv_def)
  obtain sp' up' where p: "p = area_path l ''staging'' sp' up'" "validStorageID sp'" "validStorageID up'"
    using scopedPath_Inr [OF wf, of "''staging''" sp up p] path by (auto simp: path_defs)
  have w: "fs_inv l s2 \<and> object_view l s2 = object_view l s" if wr: "on_fs (sys_WriteFile p bs) s1 = (w, s2)" for bs w s2
  proof -
    obtain o2 where o2: "sys_WriteFile p bs (fs s1) = (w, o2)" "s2 = s1\<lparr>fs := o2\<rparr>"
      using wr by (cases "sys_WriteFile p bs (fs s1)") (auto simp: on_fs_def)
    have W: "os_wf o2 \<and> no_links o2 \<and> sched o2 = sched (fs s1) \<and> (\<forall>q. q \<noteq> p \<longrightarrow> content_at o2 q = content_at (fs s1) q)"
      using WriteFile_effect [OF o2(1)] k1(1) by (simp add: fs_inv_def)
    have "area_path l ''objects'' x y \<noteq> p" if "validStorageID x" "validStorageID y" for x y
      using that p wf by (simp add: area_path_inj)
    then have "object_view l s2 k = object_view l s1 k" for k
      using W o2(2) by (simp add: object_view_wf [OF wf])
    then show ?thesis using W k1 o2(2) by (auto simp: fs_inv_def usys_inv_def reliable_sched)
  qed
  show "fs_inv l s' \<and> object_view l s' = object_view l s"
    using run a k1 w by (auto simp: changing_scanner_def split: sum.splits if_splits prod.splits)
qed

section \<open>Cases\<close>

text \<open>A transport that only reads: the files and sessions of the program are left alone.\<close>

definition transport_quiet :: "surroundings \<Rightarrow> bool" where
  "transport_quiet su \<longleftrightarrow> (\<forall>d q h s. same_usys s (snd (su_Transport su d q h s)))"

lemma on_fs_Rand_same: "on_fs sys_RandRead s = (r, s') \<Longrightarrow> same_usys s s'"
  by (erule on_fs_same) (rule sys_RandRead_frame)

lemma randomScanToken_same: "randomScanToken (on_fs sys_RandRead) prefix s = (r, s') \<Longrightarrow> same_usys s s'"
  by (auto simp: randomScanToken_def split: prod.splits sum.splits dest: on_fs_Rand_same)

lemma http_scanner_quiet:
  assumes tr: "transport_quiet su"
    and c: "NewHTTPScanner up ip (on_fs sys_Now) (on_fs sys_RandRead) (su_Transport su) cfg = Inr c"
    and cfg: "hc_Now cfg = None" "hc_Nonce cfg = None" "hc_CorrelationID cfg = None"
  shows "scanner_quiet (http_scanner c)"
proof -
  obtain endpoint where e: "validateScanEndpoint up ip (hc_Endpoint cfg) = Inr endpoint"
    using c by (auto simp: NewHTTPScanner_def split: sum.splits)
  have f: "hs_now c = Some (on_fs sys_Now)" "hs_nonce c = Some (randomScanToken (on_fs sys_RandRead) ''drive-nonce'')"
    "hs_correlationID c = Some (randomScanToken (on_fs sys_RandRead) ''drive-scan'')"
    using c cfg by (auto simp: NewHTTPScanner_def e Let_def split: if_splits)
  obtain timeout where cl: "hs_client c = Some \<lparr>cl_Timeout = timeout, cl_Do = su_Transport su\<rparr>"
    using NewHTTPScanner_client [OF c] by blast
  have do: "same_usys t t'" if "su_Transport su d q h t = (a, t')" for d q h t a t'
    using tr that unfolding transport_quiet_def by (metis snd_conv)
  have refl: "same_usys t t" for t by (simp add: same_usys_def)
  have "same_usys s s'" if run: "http_scanner c req h s = (r, s')" for req h s r s'
    by (rule Scan_keeps [where R = same_usys, OF refl lr.same_trans _ _ _ _ run])
      (auto simp: f cl dest: do on_fs_Now_same randomScanToken_same)
  then show ?thesis unfolding scanner_quiet_def by (metis prod.collapse)
qed

lemma case_scanner_quiet:
  "transport_quiet su \<Longrightarrow> case_scanner su endpoint callerID keyID secret timeout = Inr c \<Longrightarrow> scanner_quiet (http_scanner c)"
  unfolding case_scanner_def by (erule http_scanner_quiet) auto

lemma case_ids_same: "case_ids s = (r, s') \<Longrightarrow> same_usys s s'"
  by (auto simp: case_ids_def split: prod.splits sum.splits dest!: on_fs_Rand_same intro: lr.same_trans)

lemma begin_case_keeps:
  assumes inv: "fs_inv l s" and run: "begin_case (acceptance_service l gate) sp n name content s = (r, st)"
  shows "fs_inv l (fst st) \<and> object_view l (fst st) = object_view l s"
proof -
  let ?s = "s\<lparr>sessions := Map.empty\<rparr>" and ?svc = "plain_service l gate"
  have i0: "fs_inv l ?s" using fs_inv_sessions [OF inv] by (simp add: keyed_def)
  obtain a s1 where a: "uploads_Create ?svc acceptance_account sp n [] name ?s = (a, s1)" by fastforce
  have k1: "fs_inv l s1" "object_view l s1 = object_view l s"
    using uploads_Create_inv [OF i0 a [unfolded plain_Create [of _ _ _ _ _ _ _ _ undefined]]] by auto
  have k2: "fs_inv l s2 \<and> object_view l s2 = object_view l s"
    if "uploads_Append ?svc acceptance_account sp up 0 body s1 = (b, s2)" for up body b s2
    using uploads_Append_inv [OF k1(1) that [unfolded plain_Append [of _ _ _ _ _ _ _ _ undefined]]] k1(2) by auto
  show ?thesis
    using run a k1 k2
    by (auto simp: begin_case_def Create_recorded Append_recorded on_fst_def split: prod.splits option.splits)
qed

lemma exists_same: "on_fs (exists p) s = (b, s') \<Longrightarrow> same_usys s s'"
  by (erule on_fs_same) (auto simp: exists_def split: prod.splits dest: sys_Stat_frame)

lemma case_files_same: "case_files l sp n up s = (r, s') \<Longrightarrow> same_usys s s'"
  by (auto simp: case_files_def split: prod.splits sum.splits dest!: exists_same intro: lr.same_trans)

section \<open>The session of a case\<close>

lemma Append_session:
  assumes inv: "fs_inv l s" and run: "uploads_Append (upload_service l scan mx ttl) acct sp up off body s = (r, s')"
    and node: "\<forall>y. sessions s up = Some y \<longrightarrow> us_NodeID y = n"
  shows "\<forall>y. sessions s' up = Some y \<longrightarrow> us_NodeID y = n"
proof -
  let ?svc = "upload_service l scan mx ttl"
  obtain g s1 where g: "uploads_Get ?svc acct sp up s = (g, s1)" by fastforce
  note G = uploads_Get_inv [OF inv g]
  obtain a b s2 where a: "st_AppendStaging (local_staging l) sp up off body mx s1 = ((a, b), s2)" by (metis prod.collapse)
  have s2: "sessions s2 = sessions s1" using a by (auto simp: local_staging_def on_fs_def split: prod.splits)
  have u: "sessions s3 = (sessions s2)(up \<mapsto> y\<lparr>us_Offset := off'\<rparr>) \<or> sessions s3 = sessions s2"
    if y: "g = Inr y" and up: "ur_Update memory_repo (y\<lparr>us_Offset := off'\<rparr>) s2 = (u, s3)" for y off' u s3
  proof -
    have "us_ID y = up" using G y by blast
    then show ?thesis using up
      by (cases "sessions s2 up = None") (auto simp: memory_repo_def on_sessions_def memory_Update_def)
  qed
  show ?thesis
  proof (cases g)
    case (Inl e)
    then show ?thesis using run g G node by (auto simp: uploads_Append_def fails_def)
  next
    case (Inr y)
    then have n: "us_NodeID y = n" using G node by auto
    obtain w s3 where w: "ur_Update memory_repo (y\<lparr>us_Offset := a\<rparr>) s2 = (w, s3)" by fastforce
    show ?thesis
      using run g G Inr a s2 w u [OF Inr w] n node
      by (auto simp: uploads_Append_def upload_service_fields fails_def Let_def split: if_splits option.splits sum.splits)
  qed
qed

lemma Complete_session:
  assumes inv: "fs_inv l s" and run: "uploads_Complete (plain_service l gate) acct sp up s = ((x, None), s')"
  shows "\<exists>y d t t'. sessions s up = Some y \<and> us_NodeID x = us_NodeID y
    \<and> EvaluateUpload gate sp up (us_NodeID y) t = (Inr d, t') \<and> de_CanRelease d"
proof -
  let ?svc = "plain_service l gate"
  obtain g s1 where g: "uploads_Get ?svc acct sp up s = (g, s1)" by fastforce
  note G = uploads_Get_inv [OF inv g [unfolded plain_Get [of _ _ _ _ _ _ undefined]]]
  obtain y where y: "g = Inr y" using run g by (cases g) (auto simp: uploads_Complete_def fails_def)
  show ?thesis
    using run g y G
    by (auto simp: uploads_Complete_def fails_def plain_service_fields Let_def split: sum.splits prod.splits if_splits)
qed

lemma Create_session:
  assumes "uploads_Create (upload_service l scan mx ttl) acct sp n par name s = ((x, None), s')"
  shows "us_NodeID x = n \<and> sessions s' (us_ID x) = Some x"
  using assms
  by (auto simp: uploads_Create_def upload_service_fields fails_def Let_def memory_repo_def on_sessions_def memory_Create_def
      split: if_splits sum.splits prod.splits)

lemma begin_case_session:
  assumes inv: "fs_inv l s" and run: "begin_case (acceptance_service l gate) sp n name content s = (Inr x, st)"
  shows "\<forall>y. sessions (fst st) (us_ID x) = Some y \<longrightarrow> us_NodeID y = n"
proof -
  let ?s = "s\<lparr>sessions := Map.empty\<rparr>" and ?svc = "upload_service l undefined (8 * 2 ^ 20) (10 * minute)"
  have i0: "fs_inv l ?s" using fs_inv_sessions [OF inv] by (simp add: keyed_def)
  obtain s1 where c: "uploads_Create ?svc acceptance_account sp n [] name ?s = ((x, None), s1)"
    using run
    by (auto simp: begin_case_def Create_recorded on_fst_def plain_Create [of _ _ _ _ _ _ _ _ undefined]
        split: prod.splits option.splits)
  note i1 = uploads_Create_inv [OF i0 c, THEN conjunct1]
  obtain r s2 where a: "uploads_Append ?svc acceptance_account sp (us_ID x) 0 (Some \<lparr>rd_data = content, rd_fail = False\<rparr>) s1 = (r, s2)"
    by fastforce
  have "fst st = s2"
    using run c a
    by (auto simp: begin_case_def Create_recorded Append_recorded on_fst_def plain_Create [of _ _ _ _ _ _ _ _ undefined]
        plain_Append [of _ _ _ _ _ _ _ _ undefined] split: prod.splits option.splits)
  then show ?thesis using Append_session [OF i1 a, of n] Create_session [OF c] by auto
qed

end
