(* ===== verification/Acceptance_Cases.thy ===== *)
theory Acceptance_Cases
  imports Acceptance_Lemmas
begin

text \<open>
  What a passing acceptance case guarantees: the clean control publishes exactly its bytes, cleared by
  the scanner, and every other case publishes nothing. From the cases to the two programs.
\<close>

section \<open>What a passing case means\<close>

lemma OpenObject_reads:
  assumes "on_fs (OpenObject l sp n) s = (Inr h, s1)" "on_fs (sys_ReadAll h) s1 = (Inr bs, s2)"
  shows "object_view l s (sp, n) = Some bs \<and> same_usys s s2"
proof -
  obtain p o1 where p: "ObjectPath l sp n = Inr p" "sys_Open p (fs s) = (Inr h, o1)" "s1 = s\<lparr>fs := o1\<rparr>"
    using assms(1) by (auto simp: on_fs_def OpenObject_def split: prod.splits sum.splits)
  have f: "same_files (fs s) o1" using sys_Open_frame [OF p(2)] .
  obtain o2 where r: "sys_ReadAll h o1 = (Inr bs, o2)" "s2 = s\<lparr>fs := o2\<rparr>"
    using assms(2) p(3) by (auto simp: on_fs_def split: prod.splits)
  have "os_nodes (fs s) p = Some h" using p(2) by (auto simp: sys_Open_def split: option.splits if_splits)
  moreover obtain i where "h = File i" "bs = os_data o1 i"
    using r(1) by (cases h) (auto simp: sys_ReadAll_def split: option.splits if_splits)
  moreover have "same_files (fs s) o2" using same_files_trans [OF f sys_ReadAll_frame [OF r(1)]] .
  ultimately show ?thesis
    using p(1) r(2) same_filesD [OF f] by (auto simp: object_view_def content_at_def file_at_iff same_usys_def)
qed

lemma judge_clean_ok:
  assumes "judge_clean l sp n content c err d res s = (Inr ev, s')"
  shows "err = None \<and> same_usys s s' \<and> object_view l s (sp, n) = Some content"
proof -
  obtain h s1 s2 u where o: "err = None" "on_fs (OpenObject l sp n) s = (Inr h, s1)" "on_fs (sys_ReadAll h) s1 = (Inr content, s2)"
    "on_fs sys_Quiet s2 = (Inr u, s')"
    using assms unfolding judge_clean_def fails_with_def
    by (auto split: option.splits if_splits prod.splits sum.splits)
  have "same_usys s2 s'" using o(4) by (rule on_fs_same) (rule sys_Quiet_frame)
  then show ?thesis using o(1) OpenObject_reads [OF o(2,3)] lr.same_trans by blast
qed

lemma clean_case_sound:
  assumes quiet: "scanner_quiet scan" and inv: "fs_inv l s" and run: "runUploadCase l scan content True s = (Inr ev, s')"
  shows "\<exists>sp n. fs_inv l s' \<and> object_view l s' = (object_view l s)((sp, n) \<mapsto> content) \<and> scan_cleared l scan sp n content"
proof -
  let ?gate = "local_gate l scan" and ?svc = "upload_service l scan (8 * 2 ^ 20) (10 * minute)"
  obtain sp n s1 where ids: "case_ids s = (Inr (sp, n), s1)"
    using run by (auto simp: runUploadCase_def split: sum.splits prod.splits)
  obtain x st2 where b: "begin_case (acceptance_service l ?gate) sp n ''acceptance.bin'' content s1 = (Inr x, st2)"
    using run by (auto simp: runUploadCase_def ids Let_def split: sum.splits prod.splits)
  obtain c err s3 d where k: "uploads_Complete (acceptance_service l ?gate) acceptance_account sp (us_ID x) st2 = ((c, err), (s3, d))"
    by (metis prod.collapse)
  obtain op sh s4 where f: "case_files l sp n (us_ID x) s3 = (Inr (op, sh), s4)"
    using run by (auto simp: runUploadCase_def ids b k Let_def split: sum.splits prod.splits)
  have j: "judge_clean l sp n content c err d (case_evidence d op sh) s4 = (Inr ev, s')"
    using run by (simp add: runUploadCase_def ids b k f Let_def)
  note J = judge_clean_ok [OF j]
  have i1: "fs_inv l s1" "object_view l s1 = object_view l s" using same_keeps [OF case_ids_same [OF ids] inv] by auto
  have i2: "fs_inv l (fst st2)" "object_view l (fst st2) = object_view l s" using begin_case_keeps [OF i1(1) b] i1(2) by auto
  have plain: "uploads_Complete (plain_service l ?gate) acceptance_account sp (us_ID x) (fst st2) = ((c, None), s3)"
    using Complete_recorded [OF k] J by simp
  then have svc: "uploads_Complete ?svc acceptance_account sp (us_ID x) (fst st2) = ((c, None), s3)"
    by (simp add: plain_service_local)
  have i3: "fs_inv l s3" using uploads_Complete_inv [OF quiet i2(1) svc] .
  have u2: "usys_inv l (fst st2)" using i2(1) by (simp add: fs_inv_def)
  have node: "us_NodeID c = n"
    using Complete_session [OF i2(1) plain] begin_case_session [OF i1(1) b] by auto
  obtain bs where bs: "object_view l s3 = (object_view l s)((sp, n) \<mapsto> bs)" "scan_cleared l scan sp n bs"
    using us.Complete_success [OF scanner_quiet_ok [OF quiet] u2 svc] node i2(2) by auto
  have same: "same_usys s3 s'" using lr.same_trans [OF case_files_same [OF f]] J by blast
  have "object_view l s' = object_view l s3" "object_view l s4 = object_view l s3"
    using same_usys_views(2) [OF same] same_usys_views(2) [OF case_files_same [OF f]] by simp_all
  moreover then have "bs = content" using J bs(1) by simp
  ultimately show ?thesis using bs fs_inv_same [OF same i3] by auto
qed

section \<open>Passing cases that publish nothing\<close>

definition unchanged :: "Local option \<Rightarrow> usys \<Rightarrow> usys \<Rightarrow> bool" where
  "unchanged l s s' \<longleftrightarrow> (fs_inv l s \<longrightarrow> fs_inv l s' \<and> object_view l s' = object_view l s)"

lemma unchanged_trans: "unchanged l s t \<Longrightarrow> unchanged l t u \<Longrightarrow> unchanged l s u"
  by (auto simp: unchanged_def)

lemma same_unchanged: "same_usys s s' \<Longrightarrow> unchanged l s s'"
  using same_keeps by (auto simp: unchanged_def)

lemma begin_case_unchanged:
  "begin_case (acceptance_service l gate) sp n name content s = (r, st) \<Longrightarrow> unchanged l s (fst st)"
  using begin_case_keeps by (auto simp: unchanged_def)

lemma refused_unchanged:
  assumes "gate_keeps l gate" "uploads_Complete (acceptance_service l gate) acct sp up st = ((c, err), st')" "refusal err"
  shows "unchanged l (fst st) (fst st')"
  using Complete_refused [OF assms(1) _ Complete_recorded [OF assms(2)] assms(3)] by (simp add: unchanged_def)

lemma refused_case:
  assumes gate: "gate_keeps l gate" and ids: "case_ids s = (r, s1)"
    and b: "begin_case (acceptance_service l gate) sp n name content s1 = (Inr x, st2)"
    and k: "uploads_Complete (acceptance_service l gate) acct sp (us_ID x) st2 = ((c, err), (s3, d))" and ref: "refusal err"
  shows "unchanged l s s3"
  using unchanged_trans [OF same_unchanged [OF case_ids_same [OF ids]] unchanged_trans [OF begin_case_unchanged [OF b]]]
    refused_unchanged [OF gate k ref] by simp

lemma judge_malicious_refusal: "judge_malicious sp n content err res = Inr ev \<Longrightarrow> refusal err"
  unfolding judge_malicious_def fails_with_def refusal_def by (auto split: option.splits if_splits)

lemma refused_upload_case:
  assumes gate: "scanner_keeps l scan" and run: "runUploadCase l scan content False s = (Inr ev, s')"
  shows "unchanged l s s'"
proof -
  let ?svc = "acceptance_service l (local_gate l scan)"
  obtain sp n s1 where ids: "case_ids s = (Inr (sp, n), s1)"
    using run by (auto simp: runUploadCase_def split: sum.splits prod.splits)
  obtain x st2 where b: "begin_case ?svc sp n ''acceptance.bin'' content s1 = (Inr x, st2)"
    using run by (auto simp: runUploadCase_def ids Let_def split: sum.splits prod.splits)
  obtain c err s3 d where k: "uploads_Complete ?svc acceptance_account sp (us_ID x) st2 = ((c, err), (s3, d))"
    by (metis prod.collapse)
  obtain op sh where f: "case_files l sp n (us_ID x) s3 = (Inr (op, sh), s')" "judge_malicious sp n content err (case_evidence d op sh) = Inr ev"
    using run by (auto simp: runUploadCase_def ids b k Let_def split: sum.splits prod.splits)
  show ?thesis
    using unchanged_trans [OF refused_case [OF gate_keeps_local [OF gate] ids b k judge_malicious_refusal [OF f(2)]]
        same_unchanged [OF case_files_same [OF f(1)]]] .
qed

lemma negative_case:
  assumes su: "transport_quiet su" and run: "runNegativeCase su l endpoint callerID keyID secret s = (Inr ev, s')"
  shows "unchanged l s s'"
proof -
  obtain scanner where c: "case_scanner su endpoint callerID keyID secret (2 * second) = Inr scanner"
    using run by (auto simp: runNegativeCase_def split: sum.splits)
  let ?svc = "acceptance_service l (local_gate l (http_scanner scanner))"
  obtain sp n s1 where ids: "case_ids s = (Inr (sp, n), s1)"
    using run unfolding runNegativeCase_def c by (auto simp: Let_def split: sum.splits prod.splits)
  obtain x st2 where b: "begin_case ?svc sp n ''negative.bin''
      (''GoreeCloud Drive Wardveil negative acceptance control'' @ [newline]) s1 = (Inr x, st2)"
    using run unfolding runNegativeCase_def c ids sum.case prod.case Let_def by (rule case_run_InrE) (auto split: prod.splits)
  obtain y err s3 d where k: "uploads_Complete ?svc acceptance_account sp (us_ID x) st2 = ((y, err), (s3, d))"
    by (metis prod.collapse)
  have "refusal err \<and> unchanged l s3 s'"
    using run unfolding runNegativeCase_def fails_with_def c ids sum.case prod.case Let_def b k
    by (auto simp: refusal_def split: sum.splits prod.splits option.splits if_splits bool.splits
        dest!: exists_same intro: same_unchanged)
  then show ?thesis
    using unchanged_trans [OF refused_case [OF gate_keeps_local [OF quiet_keeps [OF case_scanner_quiet [OF su c]]] ids b k]] by blast
qed

lemma unavailable_case:
  assumes gate: "scanner_keeps l scan" and run: "runUnavailableCase l scan s = (Inr ev, s')"
  shows "unchanged l s s'"
proof -
  let ?svc = "acceptance_service l (local_gate l scan)"
  obtain sp n s1 where ids: "case_ids s = (Inr (sp, n), s1)"
    using run by (auto simp: runUnavailableCase_def split: sum.splits prod.splits)
  obtain x st2 where b: "begin_case ?svc sp n ''timeout.bin''
      (''GoreeCloud Drive Wardveil timeout acceptance control'' @ [newline]) s1 = (Inr x, st2)"
    using run unfolding runUnavailableCase_def by (auto simp: ids Let_def split: sum.splits prod.splits)
  obtain y err s3 d where k: "uploads_Complete ?svc acceptance_account sp (us_ID x) st2 = ((y, err), (s3, d))"
    by (metis prod.collapse)
  have "refusal err \<and> unchanged l s3 s'"
    using run b k unfolding runUnavailableCase_def fails_with_def
    by (auto simp: ids Let_def refusal_def split: sum.splits prod.splits option.splits if_splits
        dest!: case_files_same intro: same_unchanged)
  then show ?thesis
    using unchanged_trans [OF refused_case [OF gate_keeps_local [OF gate] ids b k]] by blast
qed

lemma validateBlockedDecision_ok:
  assumes "validateBlockedDecision l sp n up err disp reason s = (Inr ev, s')"
  shows "refusal err \<and> same_usys s s' \<and> dc_Status ev = ''passed'' \<and> dc_Disposition ev = disp \<and> \<not> dc_CanRelease ev
    \<and> \<not> dc_ObjectPublished ev \<and> dc_StagingHeld ev \<and> reason \<in> set (dc_ReasonCodes ev)"
proof -
  obtain d where d: "err = Some (SecurityBlockedError d)" "de_Disposition d = disp" "\<not> de_CanRelease d" "reason \<in> set (de_ReasonCodes d)"
    "uerr_Is (SecurityBlockedError d) UploadsErrSecurityBlocked"
    using assms unfolding validateBlockedDecision_def fails_with_def by (auto split: option.splits if_splits uerr.splits)
  obtain op sh where f: "case_files l sp n up s = (Inr (op, sh), s')"
    using assms unfolding validateBlockedDecision_def fails_with_def by (auto simp: d split: prod.splits sum.splits if_splits)
  have "ev = \<lparr>dc_Status = ''passed'', dc_Disposition = disp, dc_CanRelease = False, dc_ObjectPublished = False,
      dc_StagingHeld = True, dc_ReasonCodes = de_ReasonCodes d\<rparr>"
    using assms unfolding validateBlockedDecision_def fails_with_def by (auto simp: d f split: if_splits)
  then show ?thesis using d case_files_same [OF f] by (auto simp: refusal_def)
qed

lemma controlled_case:
  assumes run: "runControlledDecisionCase l now name answer disp reason s = (Inr ev, s')"
  shows "unchanged l s s' \<and> dc_Disposition ev = disp \<and> \<not> dc_ObjectPublished ev \<and> dc_StagingHeld ev \<and> reason \<in> set (dc_ReasonCodes ev)"
proof -
  let ?gate = "fixed_gate l (controlled_scanner answer) now"
  obtain sp n s1 where ids: "case_ids s = (Inr (sp, n), s1)"
    using run by (auto simp: runControlledDecisionCase_def split: sum.splits prod.splits)
  obtain x st2 where b: "begin_case (acceptance_service l ?gate) sp n (name @ ''.bin'')
      (''GoreeCloud Drive controlled Wardveil '' @ name @ '' acceptance control'' @ [newline]) s1 = (Inr x, st2)"
    using run unfolding runControlledDecisionCase_def by (auto simp: ids Let_def split: sum.splits prod.splits)
  obtain y err s3 d where k: "uploads_Complete (acceptance_service l ?gate) acceptance_account sp (us_ID x) st2 = ((y, err), (s3, d))"
    by (metis prod.collapse)
  have v: "validateBlockedDecision l sp n (us_ID x) err disp reason s3 = (Inr ev, s')"
    using run b k unfolding runControlledDecisionCase_def by (simp add: ids Let_def)
  note V = validateBlockedDecision_ok [OF v]
  show ?thesis
    using unchanged_trans [OF refused_case [OF gate_keeps_fixed [OF quiet_keeps [OF controlled_quiet]] ids b k]] same_unchanged V
    by blast
qed

lemma Create_unchanged:
  assumes "uploads_Create (acceptance_service l gate) acct sp n par name (s\<lparr>sessions := Map.empty\<rparr>, d) = (r, st')"
  shows "unchanged l s (fst st')"
proof -
  have "uploads_Create (upload_service l undefined (8 * 2 ^ 20) (10 * minute)) acct sp n par name (s\<lparr>sessions := Map.empty\<rparr>)
      = (r, fst st')"
    using assms unfolding Create_recorded on_fst_def fst_conv plain_Create [of _ _ _ _ _ _ _ _ undefined]
    by (auto split: prod.splits)
  then show ?thesis
    using uploads_Create_inv fs_inv_sessions [of l s Map.empty] by (fastforce simp: unchanged_def keyed_def)
qed

lemma Append_unchanged:
  assumes "uploads_Append (acceptance_service l gate) acct sp up off body st = (r, st')"
  shows "unchanged l (fst st) (fst st')"
proof -
  have "uploads_Append (upload_service l undefined (8 * 2 ^ 20) (10 * minute)) acct sp up off body (fst st) = (r, fst st')"
    using assms unfolding Append_recorded on_fst_def plain_Append [of _ _ _ _ _ _ _ _ undefined]
    by (auto split: prod.splits)
  then show ?thesis using uploads_Append_inv by (fastforce simp: unchanged_def)
qed

lemma changed_case:
  assumes run: "runChangedDuringScanCase l now s = (Inr ev, s')"
  shows "unchanged l s s' \<and> \<not> dc_ObjectPublished ev \<and> dc_StagingHeld ev
    \<and> ''drive_content_changed_during_scan'' \<in> set (dc_ReasonCodes ev)"
proof -
  let ?gate = "\<lambda>path. fixed_gate l (changing_scanner path now) now"
  let ?svc = "\<lambda>path. acceptance_service l (?gate path)"
  obtain sp n s1 where ids: "case_ids s = (Inr (sp, n), s1)"
    using run unfolding runChangedDuringScanCase_def by (rule case_run_InrE) auto
  obtain x err0 st2 where c: "uploads_Create (?svc []) acceptance_account sp n [] ''changed-during-scan.bin''
      (s1\<lparr>sessions := Map.empty\<rparr>, zero_decision) = ((x, err0), st2)" by (metis prod.collapse)
  have e0: "err0 = None"
    using run unfolding runChangedDuringScanCase_def ids sum.case prod.case Let_def c by (auto split: option.splits prod.splits)
  obtain path where p: "StagingPath l sp (us_ID x) = Inr path"
    using run unfolding runChangedDuringScanCase_def ids sum.case prod.case Let_def c e0 option.case
    by (auto split: sum.splits)
  obtain y err1 st3 where a: "uploads_Append (?svc path) acceptance_account sp (us_ID x) 0
      (Some \<lparr>rd_data = ''GoreeCloud Drive changed-during-scan acceptance control'' @ [newline], rd_fail = False\<rparr>) st2
      = ((y, err1), st3)" by (metis prod.collapse)
  have e1: "err1 = None"
    using run unfolding runChangedDuringScanCase_def ids sum.case prod.case Let_def c e0 option.case p a
    by (auto split: option.splits prod.splits)
  obtain z err s4 d where k: "uploads_Complete (?svc path) acceptance_account sp (us_ID x) st3 = ((z, err), (s4, d))"
    by (metis prod.collapse)
  have v: "validateBlockedDecision l sp n (us_ID x) err DispositionBlockedUnverified ''drive_content_changed_during_scan'' s4 = (Inr ev, s')"
    using run unfolding runChangedDuringScanCase_def ids sum.case prod.case Let_def c e0 option.case p a e1 k by simp
  note V = validateBlockedDecision_ok [OF v]
  have "unchanged l (fst st3) s4"
    using refused_unchanged [OF gate_keeps_fixed [OF changing_keeps [OF p]] k] V by auto
  moreover have "unchanged l s1 (fst st2)" using Create_unchanged [OF c] .
  moreover have "unchanged l (fst st2) (fst st3)" using Append_unchanged [OF a] .
  ultimately have "unchanged l s1 s4" using unchanged_trans by meson
  then have "unchanged l s s'"
    using unchanged_trans [OF same_unchanged [OF case_ids_same [OF ids]] unchanged_trans [OF _ same_unchanged]] V by blast
  then show ?thesis using V by blast
qed

lemma timeout_case:
  assumes su: "transport_quiet su" and run: "runTimeoutCase su l listener callerID keyID secret s = (Inr ev, s')"
  shows "unchanged l s s'"
proof -
  obtain addr where l: "listener = Inr addr" using run by (auto simp: runTimeoutCase_def split: sum.splits)
  obtain c where c: "case_scanner su (''http://'' @ addr @ WardveilScanPath) callerID keyID secret (100 * millisecond) = Inr c"
    using run unfolding runTimeoutCase_def l sum.case by (auto split: sum.splits)
  have "runUnavailableCase l (http_scanner c) s = (Inr ev, s')"
    using run unfolding runTimeoutCase_def l sum.case c by simp
  then show ?thesis using unavailable_case [OF quiet_keeps [OF case_scanner_quiet [OF su c]]] by blast
qed

text \<open>A decision case that passed: nothing published, the upload still staged, the reason on record.\<close>

definition held :: "decisionCase \<Rightarrow> Disposition \<Rightarrow> string \<Rightarrow> bool" where
  "held ev disp reason \<longleftrightarrow> dc_Disposition ev = disp \<and> \<not> dc_ObjectPublished ev \<and> dc_StagingHeld ev
     \<and> reason \<in> set (dc_ReasonCodes ev)"

lemma controlled_case_held:
  assumes "runControlledDecisionCase l now name answer disp reason s = (Inr ev, s')"
  shows "unchanged l s s'" "held ev disp reason"
  using controlled_case [OF assms] by (auto simp: held_def)

lemma controlled_cases_sound:
  assumes su: "transport_quiet su"
    and run: "controlled_cases su l listener callerID keyID secret now s = (Inr res, s')"
  shows "unchanged l s s' \<and> held (cr_expired res) DispositionBlockedUnverified ''wardveil_evidence_expired''
    \<and> held (cr_digestMismatch res) DispositionBlockedUnverified ''wardveil_digest_mismatch''
    \<and> \<not> dc_ObjectPublished (cr_changed res) \<and> dc_StagingHeld (cr_changed res)
    \<and> ''drive_content_changed_during_scan'' \<in> set (dc_ReasonCodes (cr_changed res))
    \<and> held (cr_suspicious res) DispositionHoldReview ''wardveil_suspicious_review_required''
    \<and> held (cr_unknown res) DispositionBlockedUnverified ''wardveil_result_unknown''
    \<and> held (cr_unsupported res) DispositionBlockedUnverified ''wardveil_result_unsupported''"
proof -
  note steps = run [unfolded controlled_cases_def]
  obtain a1 t1 where r1: "runTimeoutCase su l listener callerID keyID secret s = (Inr a1, t1)"
    using steps by (rule case_run_InrE) auto
  obtain a2 t2 where r2: "runControlledDecisionCase l now ''expired''
      (\<lambda>request. authoritativeEnvelope request (now - 2 * minute) (now - minute) ResultClean) DispositionBlockedUnverified ''wardveil_evidence_expired'' t1 = (Inr a2, t2)"
    using steps unfolding r1 sum.case prod.case by (rule case_run_InrE) auto
  obtain a3 t3 where r3: "runControlledDecisionCase l now ''digest-mismatch''
      (\<lambda>request. (current_envelope now ResultClean request)\<lparr>se_ResourceDigestSHA256 := replicate 64 (CHR ''f'')\<rparr>) DispositionBlockedUnverified ''wardveil_digest_mismatch'' t2 = (Inr a3, t3)"
    using steps unfolding r1 r2 sum.case prod.case by (rule case_run_InrE) auto
  obtain a4 t4 where r4: "runChangedDuringScanCase l now t3 = (Inr a4, t4)"
    using steps unfolding r1 r2 r3 sum.case prod.case by (rule case_run_InrE) auto
  obtain a5 t5 where r5: "runControlledDecisionCase l now ''suspicious''
      (current_envelope now ResultSuspicious) DispositionHoldReview ''wardveil_suspicious_review_required'' t4 = (Inr a5, t5)"
    using steps unfolding r1 r2 r3 r4 sum.case prod.case by (rule case_run_InrE) auto
  obtain a6 t6 where r6: "runControlledDecisionCase l now ''unknown''
      (current_envelope now ResultUnknown) DispositionBlockedUnverified ''wardveil_result_unknown'' t5 = (Inr a6, t6)"
    using steps unfolding r1 r2 r3 r4 r5 sum.case prod.case by (rule case_run_InrE) auto
  obtain a7 t7 where r7: "runControlledDecisionCase l now ''unsupported''
      (current_envelope now ResultUnsupported) DispositionBlockedUnverified ''wardveil_result_unsupported'' t6 = (Inr a7, t7)"
    using steps unfolding r1 r2 r3 r4 r5 r6 sum.case prod.case by (rule case_run_InrE) auto
  have res: "res = \<lparr>cr_timeout = a1, cr_expired = a2, cr_digestMismatch = a3, cr_changed = a4, cr_suspicious = a5, cr_unknown = a6,
      cr_unsupported = a7\<rparr>" "s' = t7"
    using steps unfolding r1 r2 r3 r4 r5 r6 r7 sum.case prod.case by simp_all
  note cc = controlled_case_held [OF r2] controlled_case_held [OF r3] controlled_case_held [OF r5]
    controlled_case_held [OF r6] controlled_case_held [OF r7]
  have "unchanged l s t7"
    using timeout_case [OF su r1] changed_case [OF r4] cc(1,3,5,7,9) unchanged_trans by blast
  then show ?thesis using cc(2,4,6,8,10) changed_case [OF r4] by (simp add: res)
qed

section \<open>The programs\<close>

lemma NewLocal_same: "on_fs (NewLocal rt) s = (r, s') \<Longrightarrow> same_usys s s'"
  by (erule on_fs_same)
    (auto simp: NewLocal_def filepath_Abs_def split: if_splits sum.splits prod.splits dest!: sys_Quiet_frame)

lemma ensure_dirs_same: "ensure_dirs rt names s = (r, s') \<Longrightarrow> same_files s s'"
proof (induction names arbitrary: s)
  case (Cons name names)
  then show ?case
    by (auto split: sum.splits prod.splits dest!: sys_MkdirAll_frame intro: same_files_trans)
qed simp

lemma EnsureLayout_same: "on_fs (EnsureLayout l) s = (r, s') \<Longrightarrow> same_usys s s'"
  by (erule on_fs_same) (auto simp: EnsureLayout_def split: option.splits if_splits dest: ensure_dirs_same)

text \<open>A usable machine: a reliable file system, sessions under their own identifiers.\<close>

definition usable :: "usys \<Rightarrow> bool" where
  "usable s \<longleftrightarrow> os_wf (fs s) \<and> reliable (fs s) \<and> no_links (fs s) \<and> keyed (sessions s) \<and> IsAbs (os_cwd (fs s))"

lemma storage_root:
  assumes "usable s" "on_fs (NewLocal dir) s0 = (Inr lc, s1)" "on_fs (EnsureLayout (Some lc)) s1 = (r, s2)"
    and "same_usys s s0" "os_cwd (fs s0) = os_cwd (fs s)"
  shows "fs_inv (Some lc) s2 \<and> object_view (Some lc) s2 = object_view (Some lc) s"
proof -
  have "wf_local (Some lc)"
    using assms(1,2,5) by (auto simp: on_fs_def usable_def split: prod.splits intro: NewLocal_wf)
  then have "fs_inv (Some lc) s" using assms(1) by (simp add: usable_def fs_inv_def usys_inv_def)
  moreover have "same_usys s s2"
    using lr.same_trans [OF assms(4) lr.same_trans [OF NewLocal_same [OF assms(2)] EnsureLayout_same [OF assms(3)]]] .
  ultimately show ?thesis using same_keeps by blast
qed

definition clean_control :: string where
  "clean_control = ''GoreeCloud Drive live Wardveil clean acceptance control'' @ [newline]"

lemma acceptance_main_passes:
  assumes su: "transport_quiet su" and ok: "usable s" and run: "acceptance_main su flags tempdir s = (Inr ev, s')"
  shows "\<exists>lc sp n secret scanner dir. tempdir = Inr dir \<and> fst (on_fs (NewLocal dir) s) = Inr lc
    \<and> readSecretFile (su_Stat su (fl_secretFile flags)) (su_ReadFile su (fl_secretFile flags)) = Inr secret
    \<and> case_scanner su (fl_endpoint flags) (fl_callerID flags) (fl_keyID flags) secret (10 * second) = Inr scanner
    \<and> object_view (Some lc) s' = (object_view (Some lc) s)((sp, n) \<mapsto> clean_control)
    \<and> scan_cleared (Some lc) (http_scanner scanner) sp n clean_control"
proof -
  let ?case = "\<lambda>l c. runUploadCase l (http_scanner c)"
  note steps = run [unfolded acceptance_main_def fails_with_def Let_def]
  have f: "\<not> (fl_secretFile flags = [] \<or> fl_revision flags = [])" using steps by (auto split: if_splits)
  obtain secret where sec: "readSecretFile (su_Stat su (fl_secretFile flags)) (su_ReadFile su (fl_secretFile flags)) = Inr secret"
    using steps f by (cases "readSecretFile (su_Stat su (fl_secretFile flags)) (su_ReadFile su (fl_secretFile flags))") auto
  obtain c where c: "case_scanner su (fl_endpoint flags) (fl_callerID flags) (fl_keyID flags) secret (10 * second) = Inr c"
    using steps unfolding if_not_P [OF f] sec sum.case
    by (cases "case_scanner su (fl_endpoint flags) (fl_callerID flags) (fl_keyID flags) secret (10 * second)") auto
  obtain dir where dir: "tempdir = Inr dir"
    using steps unfolding if_not_P [OF f] sec sum.case c by (cases tempdir) auto
  obtain lc s1 where n: "on_fs (NewLocal dir) s = (Inr lc, s1)"
    using steps unfolding if_not_P [OF f] sec sum.case c dir by (rule case_run_InrE) auto
  obtain u s2 where e: "on_fs (EnsureLayout (Some lc)) s1 = (Inr u, s2)"
    using steps unfolding if_not_P [OF f] sec sum.case c dir n prod.case by (rule case_run_InrE) auto
  obtain clean s3 where r1: "?case (Some lc) c
      (''GoreeCloud Drive live Wardveil clean acceptance control'' @ [newline]) True s2 = (Inr clean, s3)"
    using steps unfolding if_not_P [OF f] sec sum.case c dir n e prod.case by (rule case_run_InrE) auto
  obtain mal s4 where r2: "?case (Some lc) c eicar False s3 = (Inr mal, s4)"
    using steps unfolding if_not_P [OF f] sec sum.case c dir n e r1 prod.case by (rule case_run_InrE) auto
  obtain i s5 where r3: "runNegativeCase su (Some lc) (fl_endpoint flags) (fl_callerID flags) (fl_keyID flags)
      (replicate 64 (CHR ''0'')) s4 = (Inr i, s5)"
    using steps unfolding if_not_P [OF f] sec sum.case c dir n e r1 r2 prod.case by (rule case_run_InrE) auto
  obtain d s6 where r4: "runNegativeCase su (Some lc) ''http://127.0.0.1:8792/v1/scan'' (fl_callerID flags) (fl_keyID flags)
      secret s5 = (Inr d, s6)"
    using steps unfolding if_not_P [OF f] sec sum.case c dir n e r1 r2 r3 prod.case by (rule case_run_InrE) auto
  obtain now s7 where t: "on_fs sys_Now s6 = (now, s7)" by fastforce
  have "s' = s7" using steps unfolding if_not_P [OF f] sec sum.case c dir n e r1 r2 r3 r4 t prod.case by simp
  note quiet = case_scanner_quiet [OF su c]
  note root = storage_root [OF ok n e] 
  obtain sp nd where clean: "fs_inv (Some lc) s3" "object_view (Some lc) s3 = (object_view (Some lc) s)((sp, nd) \<mapsto> clean_control)"
    "scan_cleared (Some lc) (http_scanner c) sp nd clean_control"
    using clean_case_sound [OF quiet _ r1] root by (auto simp: clean_control_def)
  have "unchanged (Some lc) s3 s7"
    using unchanged_trans [OF refused_upload_case [OF quiet_keeps [OF quiet] r2] unchanged_trans [OF negative_case [OF su r3]
          unchanged_trans [OF negative_case [OF su r4] same_unchanged [OF on_fs_Now_same [OF t]]]]] .
  then have "object_view (Some lc) s' = (object_view (Some lc) s)((sp, nd) \<mapsto> clean_control)"
    using clean \<open>s' = s7\<close> by (simp add: unchanged_def)
  then show ?thesis using clean(3) dir n sec c by auto
qed

section \<open>The negative acceptance\<close>

definition memory_transport_quiet :: "memory_transport \<Rightarrow> bool" where
  "memory_transport_quiet tr \<longleftrightarrow> (\<forall>d q h s. same_usys s (snd (tr d q h s)))"

lemma replay_scan_same:
  assumes tr: "memory_transport_quiet tr"
    and c: "replay_scanner su tr endpoint callerID keyID secret t nonce corr = Inr c"
    and run: "http_scanner c req h s = (r, s')"
  shows "same_usys s s'"
proof -
  note made = c [unfolded replay_scanner_def]
  obtain e where e: "validateScanEndpoint (su_ParseURL su) (su_ParseIP su) endpoint = Inr e"
    using made by (auto simp: NewHTTPScanner_def split: sum.splits)
  have f: "hs_now c = Some (\<lambda>s. (t, s))" "hs_nonce c = Some (\<lambda>s. (Inr nonce, s))" "hs_correlationID c = Some (\<lambda>s. (Inr corr, s))"
    using made by (auto simp: NewHTTPScanner_def e Let_def split: if_splits)
  obtain timeout where cl: "hs_client c = Some \<lparr>cl_Timeout = timeout, cl_Do = tr\<rparr>"
    using NewHTTPScanner_client [OF made] by blast
  have do: "same_usys u u'" if "tr d q h u = (a, u')" for d q h u a u'
    using tr that unfolding memory_transport_quiet_def by (metis snd_conv)
  show ?thesis
    by (rule Scan_keeps [where R = same_usys, OF same_usys_refl lr.same_trans _ _ _ _ run]) (auto simp: f cl dest: do)
qed

lemma runReplayCases_same:
  assumes tr: "memory_transport_quiet tr" and run: "runReplayCases su tr endpoint callerID keyID secret s = (Inr v, s')"
  shows "same_usys s s'"
proof -
  obtain t s1 where t: "on_fs sys_Now s = (t, s1)" by fastforce
  note steps = run [unfolded runReplayCases_def t prod.case]
  obtain nonce s2 where a: "randomScanToken (on_fs sys_RandRead) ''drive-replay-nonce'' s1 = (Inr nonce, s2)"
    using steps by (rule case_run_InrE) auto
  obtain corr s3 where b: "randomScanToken (on_fs sys_RandRead) ''drive-replay-correlation'' s2 = (Inr corr, s3)"
    using steps unfolding a prod.case sum.case by (rule case_run_InrE) auto
  obtain c where c: "replay_scanner su tr endpoint callerID keyID secret t nonce corr = Inr c"
    using steps unfolding a b prod.case sum.case
    by (cases "replay_scanner su tr endpoint callerID keyID secret t nonce corr") auto
  obtain ids s4 where i: "case_ids s3 = (Inr ids, s4)"
    using steps unfolding a b c prod.case sum.case by (rule case_run_InrE) auto
  obtain sp n where "ids = (sp, n)" by fastforce
  then have x: "replay_exchange c sp n s4 = (Inr v, s')"
    using steps unfolding a b c i prod.case sum.case by simp
  note scan = replay_scan_same [OF tr c]
  have "same_usys s4 s'"
    using x unfolding replay_exchange_def Let_def
    by (auto split: prod.splits sum.splits if_splits dest!: scan intro: lr.same_trans)
  then show ?thesis
    using lr.same_trans [OF on_fs_Now_same [OF t] lr.same_trans [OF randomScanToken_same [OF a]
          lr.same_trans [OF randomScanToken_same [OF b] lr.same_trans [OF case_ids_same [OF i]]]]] by blast
qed

lemma negative_main_passes:
  assumes su: "transport_quiet su" "memory_transport_quiet tr" and ok: "usable s"
    and run: "negative_main su tr lstat listener tempdir flags s = (Inr ev, s')"
  shows "\<exists>lc dir binding now. tempdir = Inr dir \<and> fst (on_fs (NewLocal dir) (snd (on_fs sys_Now s))) = Inr lc
    \<and> object_view (Some lc) s' = object_view (Some lc) s
    \<and> validateWardveilRestartEvidence (fl_wardveilRestartEvidence flags) (lstat (fl_wardveilRestartEvidence flags))
        (su_ReadFile su (fl_wardveilRestartEvidence flags)) (fl_wardveilRevision flags) (fl_endpoint flags)
        (fl_callerID flags) (fl_keyID flags) now = Inr binding
    \<and> ne_WardveilRestartEvidenceSHA256 ev = rb_EvidenceSHA256 binding
    \<and> held (ne_ExpiredEvidenceFailClosed ev) DispositionBlockedUnverified ''wardveil_evidence_expired''
    \<and> held (ne_DigestMismatchFailClosed ev) DispositionBlockedUnverified ''wardveil_digest_mismatch''
    \<and> \<not> dc_ObjectPublished (ne_ChangedDuringScanFailClosed ev)
    \<and> held (ne_SuspiciousContentHeld ev) DispositionHoldReview ''wardveil_suspicious_review_required''
    \<and> held (ne_UnknownResultFailClosed ev) DispositionBlockedUnverified ''wardveil_result_unknown''
    \<and> held (ne_UnsupportedResultFailClosed ev) DispositionBlockedUnverified ''wardveil_result_unsupported''"
proof -
  let ?e = "fl_wardveilRestartEvidence flags"
  note steps = run [unfolded negative_main_def fails_with_def Let_def]
  have f: "\<not> (fl_secretFile flags = [] \<or> fl_revision flags = [] \<or> fl_wardveilRevision flags = [] \<or> ?e = [])"
    using steps by (auto split: if_splits)
  obtain secret where sec: "readSecretFile (su_Stat su (fl_secretFile flags)) (su_ReadFile su (fl_secretFile flags)) = Inr secret"
    using steps f by (cases "readSecretFile (su_Stat su (fl_secretFile flags)) (su_ReadFile su (fl_secretFile flags))") auto
  obtain now s0 where t0: "on_fs sys_Now s = (now, s0)" by fastforce
  let ?v = "validateWardveilRestartEvidence ?e (lstat ?e) (su_ReadFile su ?e)
             (fl_wardveilRevision flags) (fl_endpoint flags) (fl_callerID flags) (fl_keyID flags) now"
  obtain binding where b: "?v = Inr binding"
    using steps unfolding if_not_P [OF f] sec sum.case t0 prod.case by (cases ?v) auto
  obtain dir where dir: "tempdir = Inr dir"
    using steps unfolding if_not_P [OF f] sec sum.case t0 prod.case b by (cases tempdir) auto
  obtain lc s1 where n: "on_fs (NewLocal dir) s0 = (Inr lc, s1)"
    using steps unfolding if_not_P [OF f] sec sum.case t0 prod.case b dir by (rule case_run_InrE) auto
  obtain u s2 where e: "on_fs (EnsureLayout (Some lc)) s1 = (Inr u, s2)"
    using steps unfolding if_not_P [OF f] sec sum.case t0 prod.case b dir n by (rule case_run_InrE) auto
  obtain res s3 where r1: "controlled_cases su (Some lc) listener (fl_callerID flags) (fl_keyID flags) secret now s2 = (Inr res, s3)"
    using steps unfolding if_not_P [OF f] sec sum.case t0 prod.case b dir n e by (rule case_run_InrE) auto
  obtain v s4 where r2: "runReplayCases su tr (fl_endpoint flags) (fl_callerID flags) (fl_keyID flags) secret s3 = (Inr v, s4)"
    using steps unfolding if_not_P [OF f] sec sum.case t0 prod.case b dir n e r1 by (rule case_run_InrE) auto
  obtain obs s5 where t1: "on_fs sys_Now s4 = (obs, s5)" by fastforce
  obtain x y where v: "v = (x, y)" by fastforce
  have ev: "ev = negative_result flags binding res x y obs" "s' = s5"
    using steps unfolding if_not_P [OF f] sec sum.case t0 prod.case b dir n e r1 r2 t1 v by simp_all
  have cwd: "os_cwd (fs s0) = os_cwd (fs s)" using t0 by (auto simp: on_fs_def sys_Now_def)
  note root = storage_root [OF ok n e on_fs_Now_same [OF t0] cwd]
  note C = controlled_cases_sound [OF su(1) r1]
  have "unchanged (Some lc) s2 s5"
    using unchanged_trans [OF _ unchanged_trans [OF same_unchanged [OF runReplayCases_same [OF su(2) r2]]
          same_unchanged [OF on_fs_Now_same [OF t1]]]] C by blast
  then have "object_view (Some lc) s' = object_view (Some lc) s" using root ev(2) by (simp add: unchanged_def)
  then show ?thesis using C dir n b t0 ev(1)
    by (intro exI [of _ lc] exI [of _ dir] exI [of _ binding] exI [of _ now]) (simp add: negative_result_def)
qed

end
