(* ===== verification/Acceptance_Live.thy ===== *)
theory Acceptance_Live
  imports Acceptance_Cases
begin

text \<open>
  The clean acceptance case passes on a new, reliable storage root when the scanner clears the control:
  every step of the case, with the state it leaves.
\<close>

section \<open>The steps of a case on a reliable system\<close>

lemma later_random: "later s s' \<Longrightarrow> os_random (fs s') = os_random (fs s)"
  by (auto simp: later_def ticked_def)

lemma Rand_reliable:
  assumes "reliable (fs s)" "\<forall>k. length (os_random (fs s) k) = 16"
  shows "\<exists>b s'. on_fs sys_RandRead s = (Inr b, s') \<and> length b = 16 \<and> later s s'"
proof -
  obtain s' where "on_fs sys_RandRead s = (Inr (os_random (fs s) (os_tick (fs s))), s')" "later s s'"
    using on_fs_tick [of sys_RandRead s] assms(1) by (auto simp: sys_RandRead_def reliable_def)
  then show ?thesis using assms(2) by blast
qed

lemma case_ids_reliable:
  assumes "reliable (fs s)" "\<forall>k. length (os_random (fs s) k) = 16"
  shows "\<exists>sp n s'. case_ids s = (Inr (sp, n), s') \<and> later s s' \<and> validStorageID sp \<and> validStorageID n"
proof -
  obtain b s1 where b: "on_fs sys_RandRead s = (Inr b, s1)" "length b = 16" "later s s1"
    using Rand_reliable [OF assms] by blast
  obtain c s2 where c: "on_fs sys_RandRead s1 = (Inr c, s2)" "length c = 16" "later s1 s2"
    using Rand_reliable [of s1] assms laterD(2) [OF b(3)] later_random [OF b(3)] by auto
  show ?thesis
    using b c later_trans [OF b(3) c(3)] uuid_of_bytes_valid by (auto simp: case_ids_def acceptance_newUUID_def)
qed

definition usable_name :: "string \<Rightarrow> bool" where
  "usable_name name \<longleftrightarrow> TrimSpace name = name \<and> name \<notin> {[], ''.'', ''..''} \<and> length name \<le> 255
     \<and> \<not> ContainsAny name [CHR ''/'', CHR 0x5C, CHR 0x00]"

lemma case_names: "usable_name ''acceptance.bin''" "usable_name ''timeout.bin''"
proof -
  have "TrimSpace ''acceptance.bin'' = ''acceptance.bin''" "TrimSpace ''timeout.bin'' = ''timeout.bin''"
    by (rule TrimSpace_printable; simp add: printable_def)+
  moreover have "\<not> ContainsAny ''acceptance.bin'' [CHR ''/'', CHR 0x5C, CHR 0x00]"
    "\<not> ContainsAny ''timeout.bin'' [CHR ''/'', CHR 0x5C, CHR 0x00]" by code_simp+
  ultimately show "usable_name ''acceptance.bin''" "usable_name ''timeout.bin''" by (simp_all add: usable_name_def)
qed

lemma Create_reliable:
  assumes name: "usable_name name" and "reliable (fs s)" "\<forall>k. length (os_random (fs s) k) = 16" "sessions s = Map.empty" "n \<noteq> []"
  shows "\<exists>x s1. uploads_Create (upload_service l scan (8 * 2 ^ 20) (10 * minute)) acct sp n [] name s
      = ((x, None), s1\<lparr>sessions := [us_ID x \<mapsto> x]\<rparr>) \<and> later s s1 \<and> validStorageID (us_ID x) \<and> us_SpaceID x = sp
    \<and> us_AccountID x = acct \<and> us_NodeID x = n \<and> us_Offset x = 0 \<and> us_State x = StateActive
    \<and> (\<exists>k. us_ExpiresAt x = os_clock (fs s) k + 10 * minute)"
proof -
  obtain b s1 where b: "on_fs sys_RandRead s = (Inr b, s1)" "length b = 16" "later s s1"
    using Rand_reliable [OF assms(2,3)] by blast
  obtain s2 where t: "on_fs sys_Now s1 = (os_clock (fs s1) (os_tick (fs s1)), s2)" "later s1 s2"
    using on_fs_tick [of sys_Now s1] by (auto simp: sys_Now_def)
  let ?x = "\<lparr>us_ID = uuid_of_bytes b, us_SpaceID = sp, us_AccountID = acct, us_ParentNodeID = [],
      us_TargetName = name, us_NodeID = n, us_Offset = 0, us_State = StateActive,
      us_ExpiresAt = os_clock (fs s1) (os_tick (fs s1)) + 10 * minute\<rparr>"
  have s: "sessions s2 = Map.empty" "os_clock (fs s1) = os_clock (fs s)"
    using assms(4) laterD(1,5) [OF b(3)] laterD(1) [OF t(2)] by simp_all
  have "uploads_Create (upload_service l scan (8 * 2 ^ 20) (10 * minute)) acct sp n [] name s
      = ((?x, None), s2\<lparr>sessions := [us_ID ?x \<mapsto> ?x]\<rparr>)"
    using b(1) t(1) assms(5) s(1) name
    by (simp add: usable_name_def uploads_Create_def upload_service_fields uploads_newUUID_def Let_def memory_repo_def on_sessions_def memory_Create_def)
  then show ?thesis
    using later_trans [OF b(3) t(2)] b(2) uuid_of_bytes_valid s(2) by (intro exI [of _ ?x] exI [of _ s2]) auto
qed

section \<open>Appending to a new root\<close>

text \<open>A new storage root on a machine without faults whose clock moves less than a case's lifetime.\<close>

definition fresh_root :: "Local option \<Rightarrow> usys \<Rightarrow> bool" where
  "fresh_root l s \<longleftrightarrow> wf_local l \<and> os_wf (fs s) \<and> reliable (fs s) \<and> (\<forall>p. file_at (fs s) p = None) \<and> (\<forall>k. length (os_random (fs s) k) = 16)
     \<and> (\<forall>j k. os_clock (fs s) j < os_clock (fs s) k + 10 * minute) \<and> (\<forall>k. 0 < os_clock (fs s) k)
     \<and> (\<forall>x y. validStorageID x \<and> validStorageID y \<longrightarrow> os_nodes (fs s) (area_path l ''objects'' x y) = None
          \<and> os_nodes (fs s) (area_path l ''staging'' x y) = None)"

lemma case_append:
  fixes s :: usys and content :: string
  defines "len \<equiv> int (length content)"
  assumes wf: "wf_local l" "validStorageID sp" "validStorageID up" and rel: "reliable (fs s)"
    and new: "\<forall>p. file_at (fs s) p = None" "os_nodes (fs s) (area_path l ''staging'' sp up) = None"
    and size: "len \<le> 8 * 2 ^ 20"
    and sess: "sessions s = [up \<mapsto> x]" "us_ID x = up" "us_SpaceID x = sp" "us_AccountID x = acct" "us_State x = StateActive"
      "us_Offset x = 0"
    and time: "us_ExpiresAt x \<noteq> 0" "\<forall>k. os_clock (fs s) k < us_ExpiresAt x"
  shows "\<exists>s'. uploads_Append (upload_service l scan (8 * 2 ^ 20) (10 * minute)) acct sp up 0
      (Some \<lparr>rd_data = content, rd_fail = False\<rparr>) s = ((x\<lparr>us_Offset := len\<rparr>, None), s')
    \<and> sessions s' = [up \<mapsto> x\<lparr>us_Offset := len\<rparr>] \<and> reliable (fs s') \<and> os_clock (fs s') = os_clock (fs s)
    \<and> content_at (fs s') (area_path l ''staging'' sp up) = Some content
    \<and> (\<forall>z. z \<noteq> area_path l ''staging'' sp up \<longrightarrow> file_at (fs s') z = None
         \<and> (z \<notin> set (path_ancestors (rooted_path (local_comps l @ [''staging'', sp]))) \<longrightarrow> os_nodes (fs s') z = os_nodes (fs s) z))"
proof -
  let ?svc = "upload_service l scan (8 * 2 ^ 20) (10 * minute)" and ?p = "area_path l ''staging'' sp up"
    and ?rd = "\<lparr>rd_data = content, rd_fail = False\<rparr>" and ?x = "x\<lparr>us_Offset := len\<rparr>"
  have path: "StagingPath l sp up = Inr ?p" using wf by (simp add: StagingPath_def scopedPath_wf)
  have dir: "filepathDir ?p = rooted_path (local_comps l @ [''staging'', sp])" using wf by (simp add: area_path_filepathDir)
  obtain s1 where s1: "rejectExpired ?svc x s = (Inr (), s1)" "later s s1"
    using rejectExpired_fresh [OF time, of l scan "8 * 2 ^ 20" "10 * minute"] by blast
  note k = laterD [OF s1(2)]
  have found: "sessions s up = Some x" using sess(1) by simp
  have get: "uploads_Get ?svc acct sp up s = (Inr x, s1)"
    using s1(1) found sess(2-) by (simp add: uploads_Get_def us.wiring memory_repo_def on_sessions_def memory_Get_def)
  have rdy: "ready l ''staging'' sp up (fs s1)"
    using new k(3,6) by (simp add: ready_def mkdir_ok_def list_all_iff not_file_iff)
  have st: "staged (fs s1) ?p = []" using new(1) k(3) by (simp add: staged_def content_at_def)
  have w: "wrap64 (8 * 2 ^ 20 + 1) = 8388609" "wrap64 len = len"
    using size by (simp_all add: wrap64_def len_def)
  have lim: "limited ?rd 8388609 = content" "\<not> limited_fails ?rd 8388609"
    using size by (simp_all add: limited_def limited_fails_def len_def)
  obtain o2 where o2: "reliable o2" "AppendStaging l sp up 0 (Some ?rd) (8 * 2 ^ 20) (fs s1) = ((len, None), o2)"
    "content_at o2 ?p = Some content"
    using append_reliable [OF wf(1,2,3) _ rdy, of 0 "8 * 2 ^ 20" ?rd] k(2) rel size
    unfolding w(1) lim(1) by (auto simp: st lim w(2) [unfolded len_def] len_def)
  have "uploads_Append ?svc acct sp up 0 (Some ?rd) s = ((?x, None), s1\<lparr>fs := o2, sessions := [up \<mapsto> ?x]\<rparr>)"
    using get sess k(1) o2(2)
    by (simp add: uploads_Append_def us.wiring upload_service_fields local_staging_def on_fs_def memory_repo_def on_sessions_def
        memory_Update_def Let_def)
  moreover have "file_at o2 z = None" if "z \<noteq> ?p" for z
    using append_cases [OF path o2(2)] that new(1) k(3) grown_names by auto
  moreover have "os_nodes o2 z = os_nodes (fs s) z"
    if "z \<noteq> ?p" "z \<notin> set (path_ancestors (rooted_path (local_comps l @ [''staging'', sp])))" for z
    using AppendStaging_names [OF path o2(2) that(1)] that(2) k(6) by (simp add: dir)
  moreover have "os_clock o2 = os_clock (fs s)" using AppendStaging_clock [OF o2(2)] k(5) by simp
  ultimately show ?thesis using o2(1,3) by (intro exI [of _ "s1\<lparr>fs := o2, sessions := [up \<mapsto> ?x]\<rparr>"]) simp
qed

lemma begin_case_reliable:
  assumes name: "usable_name name" and root: "fresh_root l s" and ids: "validStorageID sp" "n \<noteq> []" and size: "int (length content) \<le> 8 * 2 ^ 20"
  shows "\<exists>x y s'. begin_case (acceptance_service l gate) sp n name content s = (Inr x, (s', zero_decision))
    \<and> validStorageID (us_ID x) \<and> sessions s' (us_ID x) = Some y \<and> us_ID y = us_ID x \<and> us_SpaceID y = sp
    \<and> us_AccountID y = acceptance_account \<and> us_NodeID y = n \<and> us_State y = StateActive
    \<and> us_ExpiresAt y \<noteq> 0 \<and> (\<forall>k. os_clock (fs s') k < us_ExpiresAt y)
    \<and> reliable (fs s') \<and> os_clock (fs s') = os_clock (fs s)
    \<and> content_at (fs s') (area_path l ''staging'' sp (us_ID x)) = Some content
    \<and> (\<forall>z. z \<noteq> area_path l ''staging'' sp (us_ID x) \<longrightarrow> file_at (fs s') z = None
         \<and> (z \<notin> set (path_ancestors (rooted_path (local_comps l @ [''staging'', sp]))) \<longrightarrow> os_nodes (fs s') z = os_nodes (fs s) z))"
proof -
  let ?svc = "upload_service l undefined (8 * 2 ^ 20) (10 * minute)" and ?s = "s\<lparr>sessions := Map.empty\<rparr>"
  have r: "wf_local l" "reliable (fs s)" "\<forall>p. file_at (fs s) p = None" "\<forall>k. length (os_random (fs s) k) = 16"
    "\<forall>j k. os_clock (fs s) j < os_clock (fs s) k + 10 * minute" "\<forall>k. 0 < os_clock (fs s) k"
    using root by (simp_all add: fresh_root_def)
  obtain x s1 k0 where c: "uploads_Create ?svc acceptance_account sp n [] name ?s
      = ((x, None), s1\<lparr>sessions := [us_ID x \<mapsto> x]\<rparr>)" and l1: "later ?s s1"
    and x: "validStorageID (us_ID x)" "us_SpaceID x = sp" "us_AccountID x = acceptance_account" "us_NodeID x = n"
      "us_Offset x = 0" "us_State x = StateActive" "us_ExpiresAt x = os_clock (fs s) k0 + 10 * minute"
    using Create_reliable [OF name, of ?s n l undefined acceptance_account sp] r ids by auto
  note k = laterD [OF l1]
  let ?s1 = "s1\<lparr>sessions := [us_ID x \<mapsto> x]\<rparr>" and ?y = "x\<lparr>us_Offset := int (length content)\<rparr>"
    and ?p = "area_path l ''staging'' sp (us_ID x)"
  have e: "us_ExpiresAt x \<noteq> 0" "\<forall>k. os_clock (fs s) k < us_ExpiresAt x"
    using r(5) r(6) [rule_format, of k0] by (auto simp: x(7))
  have free: "os_nodes (fs s) ?p = None" using root ids(1) x(1) by (simp add: fresh_root_def)
  obtain s2 where a: "uploads_Append ?svc acceptance_account sp (us_ID x) 0 (Some \<lparr>rd_data = content, rd_fail = False\<rparr>) ?s1
      = ((?y, None), s2)" and S: "sessions s2 = [us_ID x \<mapsto> ?y]" "reliable (fs s2)" "os_clock (fs s2) = os_clock (fs s)"
      "content_at (fs s2) ?p = Some content"
      "\<forall>z. z \<noteq> ?p \<longrightarrow> file_at (fs s2) z = None
         \<and> (z \<notin> set (path_ancestors (rooted_path (local_comps l @ [''staging'', sp]))) \<longrightarrow> os_nodes (fs s2) z = os_nodes (fs s) z)"
    using case_append [OF r(1) ids(1) x(1), of ?s1 content x acceptance_account undefined] r k free size x e by auto
  have "begin_case (acceptance_service l gate) sp n name content s = (Inr x, (s2, zero_decision))"
    using c a unfolding begin_case_def Create_recorded Append_recorded on_fst_def plain_Create [of _ _ _ _ _ _ _ _ undefined]
      plain_Append [of _ _ _ _ _ _ _ _ undefined] by simp
  then show ?thesis using S x e by (intro exI [of _ x] exI [of _ ?y] exI [of _ s2]) simp
qed

section \<open>The clean case passes\<close>

lemma Complete_decided:
  assumes run: "uploads_Complete (acceptance_service l gate) acct sp up st = ((x, None), st')"
  shows "\<exists>(y :: UploadSession) t t'. EvaluateUpload gate (us_SpaceID y) (us_ID y) (us_NodeID y) t = (Inr (snd st'), t') \<and> de_CanRelease (snd st')"
proof -
  obtain g s1 where g: "uploads_Get (plain_service l gate) acct sp up (fst st) = (g, s1)" by fastforce
  obtain y where y: "g = Inr y" using run g by (cases g) (auto simp: uploads_Complete_def Get_recorded on_fst_def fails_def)
  obtain d s2 where d: "EvaluateUpload gate (us_SpaceID y) (us_ID y) (us_NodeID y) s1 = (d, s2)" by fastforce
  obtain dec where dec: "d = Inr dec" "de_CanRelease dec" "snd st' = dec"
    using run g y d
    by (cases d) (auto simp: uploads_Complete_def Get_recorded rejectExpired_recorded recordingGate_def fails_def on_fst_def
        recorded_defs Let_def split: if_splits prod.splits sum.splits)
  then show ?thesis using d by (intro exI [of _ y] exI [of _ s1] exI [of _ s2]) simp
qed

lemma released_Allow:
  assumes "EvaluateUpload gate sp up n s = (Inr d, s')" "de_CanRelease d"
  shows "de_Disposition d = DispositionAllow"
proof -
  have "\<exists>r a e t. d = Evaluate r a e t"
    using assms by (auto simp: EvaluateUpload_def Let_def split: option.splits sum.splits prod.splits if_splits)
  then show ?thesis using assms(2) Evaluate_Disposition unfolding Let_def by metis
qed

text \<open>A case judged on what a reliable system shows of it.\<close>

lemma judge_clean_passes:
  assumes rel: "reliable (fs s)" and wf: "wf_local l" "validStorageID sp" "validStorageID n"
    and ob: "file_at (fs s) (area_path l ''objects'' sp n) = Some i" "os_data (fs s) i = content"
    and c: "us_State c = StateCompleted" "de_Disposition d = DispositionAllow" "de_CanRelease d"
  shows "\<exists>ev s'. judge_clean l sp n content c None d (case_evidence d True False) s = (Inr ev, s') \<and> later s s'
    \<and> ce_Completed ev \<and> ce_PublishedBytesMatch ev \<and> ce_ObjectPublished ev \<and> \<not> ce_StagingHeld ev"
proof -
  let ?o = "area_path l ''objects'' sp n"
  have path: "ObjectPath l sp n = Inr ?o" using wf by (simp add: ObjectPath_def scopedPath_wf)
  obtain s1 where s1: "on_fs (OpenObject l sp n) s = (Inr (File i), s1)" "later s s1"
    using on_fs_tick [of "OpenObject l sp n" s "Inr (File i)"] path ob(1) reliable_calls(2) [OF rel, of ?o]
    by (auto simp: OpenObject_def file_at_iff)
  note k1 = laterD [OF s1(2)]
  obtain s2 where s2: "on_fs (sys_ReadAll (File i)) s1 = (Inr content, s2)" "later s1 s2"
    using on_fs_tick [of "sys_ReadAll (File i)" s1] k1(2,4) rel ob(2) by (auto simp: sys_ReadAll_def reliable_def)
  note k2 = laterD [OF s2(2)]
  obtain s3 where s3: "on_fs sys_Quiet s2 = (Inr (), s3)" "later s2 s3"
    using on_fs_tick [of sys_Quiet s2] k2(2) k1(2) rel reliable_calls(4) [of "fs s2"] by auto
  show ?thesis
    using s1(1) s2(1) s3(1) later_trans [OF s1(2) later_trans [OF s2(2) s3(2)]] c
    by (simp add: judge_clean_def case_evidence_def)
qed

lemma case_files_reliable:
  assumes rel: "reliable (fs s)" and wf: "wf_local l" "validStorageID sp" "validStorageID n" "validStorageID up"
  shows "\<exists>s'. case_files l sp n up s = (Inr (os_nodes (fs s) (area_path l ''objects'' sp n) \<noteq> None,
      os_nodes (fs s) (area_path l ''staging'' sp up) \<noteq> None), s') \<and> later s s'"
proof -
  have ex: "\<exists>t'. on_fs (exists p) t = (os_nodes (fs t) p \<noteq> None, t') \<and> later t t'" if "reliable (fs t)" for p t
    using on_fs_tick [of "exists p" t] reliable_calls(1) [OF that, of p]
    by (auto simp: exists_def split: option.splits)
  obtain s1 where s1: "on_fs (exists (area_path l ''objects'' sp n)) s = (os_nodes (fs s) (area_path l ''objects'' sp n) \<noteq> None, s1)"
    "later s s1" using ex [OF rel] by blast
  note k = laterD [OF s1(2)]
  obtain s2 where s2: "on_fs (exists (area_path l ''staging'' sp up)) s1 = (os_nodes (fs s1) (area_path l ''staging'' sp up) \<noteq> None, s2)"
    "later s1 s2" using ex [of s1] k(2) rel by blast
  have "ObjectPath l sp n = Inr (area_path l ''objects'' sp n)" "StagingPath l sp up = Inr (area_path l ''staging'' sp up)"
    using wf by (simp_all add: path_defs scopedPath_wf)
  then show ?thesis using s1 s2 k(6) later_trans [OF s1(2) s2(2)] by (simp add: case_files_def)
qed

text \<open>A case after its first steps: a session with the content staged and its target free.\<close>

definition opened :: "Local option \<Rightarrow> usys \<Rightarrow> string \<Rightarrow> string \<Rightarrow> string \<Rightarrow> string \<Rightarrow> UploadSession \<Rightarrow> nat \<Rightarrow> usys \<Rightarrow> bool" where
  "opened l s content sp n up y i s2 \<longleftrightarrow>
     validStorageID sp \<and> validStorageID n \<and> validStorageID up
     \<and> sessions s2 up = Some y \<and> us_ID y = up \<and> us_SpaceID y = sp \<and> us_AccountID y = acceptance_account \<and> us_NodeID y = n
     \<and> us_State y = StateActive \<and> us_ExpiresAt y \<noteq> 0 \<and> (\<forall>k. os_clock (fs s2) k < us_ExpiresAt y)
     \<and> reliable (fs s2) \<and> os_clock (fs s2) = os_clock (fs s)
     \<and> file_at (fs s2) (area_path l ''staging'' sp up) = Some i \<and> os_data (fs s2) i = content
     \<and> os_nodes (fs s2) (area_path l ''objects'' sp n) = None
     \<and> mkdir_ok (fs s2) (filepath_Dir (area_path l ''objects'' sp n))"

lemma case_opens:
  assumes root: "fresh_root l s" and name: "usable_name name" and size: "int (length content) \<le> 8 * 2 ^ 20"
  shows "\<exists>sp n s1 x y i s2. case_ids s = (Inr (sp, n), s1)
    \<and> begin_case (acceptance_service l gate) sp n name content s1 = (Inr x, (s2, zero_decision))
    \<and> opened l s content sp n (us_ID x) y i s2"
proof -
  have r: "wf_local l" "reliable (fs s)" "\<forall>k. length (os_random (fs s) k) = 16"
    using root by (simp_all add: fresh_root_def)
  obtain sp n s1 where ids: "case_ids s = (Inr (sp, n), s1)" and l1: "later s s1" and v: "validStorageID sp" "validStorageID n"
    using case_ids_reliable [OF r(2,3)] by blast
  have n: "n \<noteq> []" using v(2) by auto
  have root1: "fresh_root l s1" using root laterD [OF l1] later_random [OF l1] by (simp add: fresh_root_def)
  obtain x y s2 where b: "begin_case (acceptance_service l gate) sp n name content s1 = (Inr x, (s2, zero_decision))"
    and up: "validStorageID (us_ID x)" and y: "sessions s2 (us_ID x) = Some y" "us_ID y = us_ID x" "us_SpaceID y = sp"
      "us_AccountID y = acceptance_account" "us_NodeID y = n" "us_State y = StateActive" "us_ExpiresAt y \<noteq> 0"
      "\<forall>k. os_clock (fs s2) k < us_ExpiresAt y"
    and r2: "reliable (fs s2)" "os_clock (fs s2) = os_clock (fs s1)"
    and st: "content_at (fs s2) (area_path l ''staging'' sp (us_ID x)) = Some content"
    and oth: "\<forall>z. z \<noteq> area_path l ''staging'' sp (us_ID x) \<longrightarrow> file_at (fs s2) z = None
         \<and> (z \<notin> set (path_ancestors (rooted_path (local_comps l @ [''staging'', sp]))) \<longrightarrow> os_nodes (fs s2) z = os_nodes (fs s1) z)"
    using begin_case_reliable [OF name root1 v(1) n size, of gate] by (elim exE conjE) (rule that; assumption)
  let ?p = "area_path l ''staging'' sp (us_ID x)" and ?o = "area_path l ''objects'' sp n"
  obtain i where i: "file_at (fs s2) ?p = Some i" "os_data (fs s2) i = content"
    using st by (auto simp: content_at_def split: option.splits)
  have ne: "?o \<noteq> ?p" using r(1) v up by (simp add: area_path_inj)
  have "?o \<notin> set (path_ancestors (rooted_path (local_comps l @ [''staging'', sp])))"
    using area_path_not_ancestor [OF r(1) _ v(1,2) _ v(1), of "''objects''" "''staging''"] by simp
  then have dst: "os_nodes (fs s2) ?o = None" using oth ne root1 v by (simp add: fresh_root_def)
  have "?p \<notin> set (path_ancestors (filepath_Dir ?o))"
    using area_path_not_ancestor [OF r(1) _ v(1) up _ v(1), of "''staging''" "''objects''"] r(1) v by (simp add: area_path_Dir)
  then have "file_at (fs s2) z = None" if "z \<in> set (path_ancestors (filepath_Dir ?o))" for z
    using oth that by metis
  then have "mkdir_ok (fs s2) (filepath_Dir ?o)" by (simp add: mkdir_ok_def list_all_iff not_file_iff)
  then have "opened l s content sp n (us_ID x) y i s2"
    using v up y r2 i dst laterD(5) [OF l1] by (simp add: opened_def)
  with ids b show ?thesis by blast
qed

lemma clean_case_passes:
  assumes root: "fresh_root l s" and size: "int (length content) \<le> 8 * 2 ^ 20"
    and scan: "\<forall>sp n. validStorageID sp \<and> validStorageID n \<longrightarrow> clearing_scanner scan \<lparr>fr_SpaceID = sp, fr_NodeID = n,
      fr_DigestSHA256 = hex_sha256 content, fr_SizeBytes = int (length content)\<rparr> (os_clock (fs s))"
  shows "\<exists>ev s' sp n. runUploadCase l scan content True s = (Inr ev, s') \<and> ce_Completed ev \<and> ce_PublishedBytesMatch ev
    \<and> ce_ObjectPublished ev \<and> \<not> ce_StagingHeld ev \<and> object_view l s' (sp, n) = Some content"
proof -
  let ?gate = "local_gate l scan" and ?svc = "upload_service l scan (8 * 2 ^ 20) (10 * minute)"
  have wf: "wf_local l" using root by (simp add: fresh_root_def)
  obtain sp n s1 x y i s2 where ids: "case_ids s = (Inr (sp, n), s1)"
    and b: "begin_case (acceptance_service l ?gate) sp n ''acceptance.bin'' content s1 = (Inr x, (s2, zero_decision))"
    and o: "opened l s content sp n (us_ID x) y i s2"
    using case_opens [OF root case_names(1) size, of ?gate] by blast
  note O = o [unfolded opened_def]
  let ?p = "area_path l ''staging'' sp (us_ID x)" and ?o = "area_path l ''objects'' sp n"
  obtain s3 where c: "uploads_Complete ?svc acceptance_account sp (us_ID x) s2 = ((y\<lparr>us_State := StateCompleted\<rparr>, None), s3)"
    and s3: "object_view l s3 (sp, n) = Some content" "reliable (fs s3)" "os_nodes (fs s3) ?p = None"
    using uploads_Complete_reliable [OF wf, of sp "us_ID x" n s2 y acceptance_account i scan "8 * 2 ^ 20" "10 * minute"] O scan by auto
  obtain q s3' d where q: "uploads_Complete (acceptance_service l ?gate) acceptance_account sp (us_ID x) (s2, zero_decision)
      = (q, (s3', d))" by (metis prod.collapse)
  have q': "q = (y\<lparr>us_State := StateCompleted\<rparr>, None)" "s3' = s3"
    using Complete_recorded [OF q] c by (simp_all add: plain_service_local)
  have d: "de_CanRelease d" "de_Disposition d = DispositionAllow"
    using Complete_decided [OF q [unfolded q']] released_Allow by auto
  obtain j where j: "file_at (fs s3) ?o = Some j" "os_data (fs s3) j = content"
    using s3(1) wf O by (auto simp: object_view_wf content_at_def split: option.splits)
  obtain s4 where f: "case_files l sp n (us_ID x) s3 = (Inr (True, False), s4)" "later s3 s4"
    using case_files_reliable [OF s3(2) wf, of sp n "us_ID x"] O s3(3) j(1) by (auto simp: file_at_iff)
  note k4 = laterD [OF f(2)]
  obtain ev s' where e: "judge_clean l sp n content (y\<lparr>us_State := StateCompleted\<rparr>) None d (case_evidence d True False) s4 = (Inr ev, s')"
    "later s4 s'" "ce_Completed ev" "ce_PublishedBytesMatch ev" "ce_ObjectPublished ev" "\<not> ce_StagingHeld ev"
    using judge_clean_passes [of s4 l sp n j content "y\<lparr>us_State := StateCompleted\<rparr>" d] k4 s3(2) wf O j d by auto
  have run: "runUploadCase l scan content True s = (Inr ev, s')"
    using e(1) by (simp add: runUploadCase_def ids b q q' f Let_def)
  have "object_view l s' (sp, n) = Some content"
    using j wf O laterD(3,4) [OF later_trans [OF f(2) e(2)]] by (simp add: object_view_wf content_at_def)
  with run e show ?thesis by blast
qed

section \<open>A case without an answer passes\<close>

lemma EvaluateUpload_unanswered:
  fixes s :: usys
  assumes fs: "reliable (fs s)" "StagingPath l sp up = Inr p" "file_at (fs s) p = Some i"
    and scan: "\<And>req h t. scan req h t = (Inl err, t)"
  shows "\<exists>s'. EvaluateUpload (local_gate l scan) sp up n s = (Inl (Wrapped ''Wardveil Scan failed'' err), s') \<and> later s s'"
proof -
  let ?bs = "os_data (fs s) i"
  obtain s1 where s1: "hashStaging (local_reader l) sp up s = (Inr (hex_sha256 ?bs, int (length ?bs)), s1)" "later s s1"
    using hashStaging_reliable [OF fs] by auto
  obtain s2 where s2: "rd_OpenStaging (local_reader l) sp up s1 = (Inr (File i), s2)" "later s1 s2"
    using local_reader_reliable(1) [of s1 l sp up p i] laterD [OF s1(2)] fs by auto
  note k2 = laterD [OF later_trans [OF s1(2) s2(2)]]
  obtain s3 where s3: "rd_Close (local_reader l) (File i) s2 = (Inr (), s3)" "later s2 s3"
    using local_reader_reliable(3) [of s2 l sp up p i] k2 fs by auto
  show ?thesis
    using s1(1) s2(1) s3(1) scan later_trans [OF later_trans [OF s1(2) s2(2)] s3(2)]
    by (simp add: EvaluateUpload_def local_gate_def)
qed

lemma unavailable_case_passes:
  assumes root: "fresh_root l s" and scan: "\<And>req h t. scan req h t = (Inl err, t)"
  shows "\<exists>s'. runUnavailableCase l scan s = (Inr ''passed'', s')"
proof -
  let ?gate = "local_gate l scan" and ?svc = "upload_service l scan (8 * 2 ^ 20) (10 * minute)"
    and ?body = "''GoreeCloud Drive Wardveil timeout acceptance control'' @ [newline]"
  have wf: "wf_local l" using root by (simp add: fresh_root_def)
  obtain sp n s1 x y i s2 where ids: "case_ids s = (Inr (sp, n), s1)"
    and b: "begin_case (acceptance_service l ?gate) sp n ''timeout.bin'' ?body s1 = (Inr x, (s2, zero_decision))"
    and o: "opened l s ?body sp n (us_ID x) y i s2"
    using case_opens [OF root case_names(2), of ?body ?gate] by auto
  note O = o [unfolded opened_def]
  have n: "n \<noteq> []" using O by auto
  let ?p = "area_path l ''staging'' sp (us_ID x)"
  have path: "StagingPath l sp (us_ID x) = Inr ?p" using wf O by (simp add: StagingPath_def scopedPath_wf)
  obtain s3 where g: "rejectExpired ?svc y s2 = (Inr (), s3)" "later s2 s3"
    using rejectExpired_fresh [of y s2 l scan "8 * 2 ^ 20" "10 * minute"] O by auto
  note k3 = laterD [OF g(2)]
  have get: "uploads_Get ?svc acceptance_account sp (us_ID x) s2 = (Inr y, s3)"
    using g(1) O by (simp add: uploads_Get_def us.wiring memory_repo_def on_sessions_def memory_Get_def)
  obtain s4 where e: "EvaluateUpload ?gate sp (us_ID x) n s3 = (Inl (Wrapped ''Wardveil Scan failed'' err), s4)" "later s3 s4"
    using EvaluateUpload_unanswered [of s3 l sp "us_ID x" ?p i scan err n] path k3 O scan by auto
  obtain q s4' d where q: "uploads_Complete (acceptance_service l ?gate) acceptance_account sp (us_ID x) (s2, zero_decision)
      = (q, (s4', d))" by (metis prod.collapse)
  have c: "uploads_Complete ?svc acceptance_account sp (us_ID x) s2 = (q, s4')"
    using Complete_recorded [OF q] by (simp add: plain_service_local)
  have q': "\<exists>z f. q = (z, Some f) \<and> uerr_Is f UploadsErrSecurityUnavailable" "s4' = s4"
    using c get e(1) O n by (auto simp: uploads_Complete_def us.wiring)
  then obtain z f where f: "q = (z, Some f)" "uerr_Is f UploadsErrSecurityUnavailable" by blast
  have k4: "reliable (fs s4)" "os_nodes (fs s4) = os_nodes (fs s2)"
    using laterD(2,6) [OF later_trans [OF g(2) e(2)]] O by simp_all
  obtain s5 where "case_files l sp n (us_ID x) s4 = (Inr (False, True), s5)"
    using case_files_reliable [OF k4(1) wf, of sp n "us_ID x"] O k4(2) by (auto simp: file_at_iff)
  then show ?thesis
    using q q'(2) f unfolding runUnavailableCase_def ids sum.case prod.case Let_def b by simp
qed

end
