(* ===== verification/Acceptance_Properties.thy ===== *)
theory Acceptance_Properties
  imports Acceptance_Live Upload_Properties
begin

text \<open>
  The properties of the acceptance programs: what their evidence is worth. A case that reports success is
  a run of the real upload service, so its verdict has consequences for what is published.
\<close>

section \<open>A new storage root\<close>

definition blank_usys :: usys where
  "blank_usys =
     \<lparr>fs = calm\<lparr>os_nodes := map_of [(''/'', Dir), (''/d'', Dir)], os_clock := (\<lambda>_. hour)\<rparr>, sessions = Map.empty\<rparr>"

lemma sample_area_path:
  assumes "plain_comp area" "validStorageID x" "validStorageID y"
  shows "area_path sample_local area x y \<notin> {''/'', ''/d''}"
proof
  assume a: "area_path sample_local area x y \<in> {''/'', ''/d''}"
  have l: "local_comps sample_local = [''d'']" by (simp add: local_comps_def sample_local_def) code_simp
  then have "plain_comps (local_comps sample_local @ [area, x, y])"
    using assms wf_local_root [OF sample_wf] by (simp add: validStorageID_plain)
  then have "path_comps (area_path sample_local area x y) = [''d'', area, x, y]" by (simp add: area_path_def l)
  moreover have "path_comps ''/'' = []" "path_comps ''/d'' = [''d'']" by code_simp+
  ultimately show False using a by auto
qed

lemma blank_fresh: "fresh_root sample_local blank_usys"
proof -
  have n: "os_nodes (fs blank_usys) = map_of [(''/'', Dir), (''/d'', Dir)]" by (simp add: blank_usys_def)
  have "os_wf (fs blank_usys)" by (auto simp: os_wf_def blank_usys_def calm_def sample_os_def dest!: map_of_SomeD)
  moreover have "reliable (fs blank_usys)" using sample_reliable(1) by (simp add: blank_usys_def reliable_def)
  moreover have "file_at (fs blank_usys) p = None" for p by (simp add: file_at_def n)
  moreover have "os_nodes (fs blank_usys) (area_path sample_local area x y) = None"
    if "plain_comp area" "validStorageID x" "validStorageID y" for area x y
    using sample_area_path [OF that] by (simp add: n)
  ultimately show ?thesis by (simp add: fresh_root_def blank_usys_def calm_def sample_os_def)
qed

lemma blank_inv: "fs_inv sample_local blank_usys"
  using blank_fresh by (simp add: fresh_root_def fs_inv_def usys_inv_def no_links_def keyed_def blank_usys_def)

lemma sample_clean_case: "\<exists>ev s' k. runUploadCase sample_local sample_scan ''abc'' True blank_usys = (Inr ev, s')
    \<and> object_view sample_local s' k = Some ''abc''"
proof -
  have clk: "os_clock (fs blank_usys) = (\<lambda>_. hour)" by (simp add: blank_usys_def)
  have "clearing_scanner sample_scan \<lparr>fr_SpaceID = sp, fr_NodeID = n, fr_DigestSHA256 = hex_sha256 ''abc'',
      fr_SizeBytes = int (length ''abc'')\<rparr> (os_clock (fs blank_usys))" if "validStorageID sp" "validStorageID n" for sp n
  proof -
    have "sp \<noteq> []" "n \<noteq> []" using that by auto
    then show ?thesis using sample_clears [of "\<lparr>fr_SpaceID = sp, fr_NodeID = n, fr_DigestSHA256 = hex_sha256 ''abc'',
      fr_SizeBytes = int (length ''abc'')\<rparr>"] clk by simp
  qed
  then show ?thesis
    using clean_case_passes [OF blank_fresh, of "''abc''" sample_scan] by (simp, blast)
qed

section \<open>Cases\<close>

text \<open>
  C20. A clean acceptance case that passes proves what it reports: on a reliable system the case has
  published exactly its control content, at one node and nowhere else, and only after the scanner was
  asked about these bytes and cleared them.
\<close>

theorem clean_case_evidence:
  assumes "scanner_quiet scan" "fs_inv l s" "runUploadCase l scan content True s = (Inr ev, s')"
  shows "\<exists>sp n. fs_inv l s' \<and> object_view l s' = (object_view l s)((sp, n) \<mapsto> content) \<and> scan_cleared l scan sp n content"
  using clean_case_sound [OF assms] .

theorem clean_case_evidence_witness:
  "\<exists>ev s' sp n. runUploadCase sample_local sample_scan ''abc'' True blank_usys = (Inr ev, s')
     \<and> object_view sample_local s' (sp, n) = Some ''abc'' \<and> scan_cleared sample_local sample_scan sp n ''abc''"
proof -
  obtain ev s' where run: "runUploadCase sample_local sample_scan ''abc'' True blank_usys = (Inr ev, s')"
    using sample_clean_case by blast
  obtain sp n where "object_view sample_local s' = (object_view sample_local blank_usys)((sp, n) \<mapsto> ''abc'')"
    "scan_cleared sample_local sample_scan sp n ''abc''"
    using clean_case_evidence [OF sample_quiet blank_inv run] by blast
  then have "object_view sample_local s' (sp, n) = Some ''abc''" by simp
  then show ?thesis using run \<open>scan_cleared _ _ _ _ _\<close> by blast
qed




section \<open>Restart evidence\<close>

text \<open>
  C32. The validator of the restart evidence accepts exactly one kind of file: an absolute path to a
  regular file, not a symbolic link, of mode 0600 and within the size bound, whose text decodes to the
  expected record for the expected revision, endpoint and caller, observed at most five minutes in the
  future and at most 24 hours ago. What it hands on is bound to the bytes of that file by their digest.
\<close>

theorem restart_evidence_accepted_iff:
  "validateWardveilRestartEvidence path lstat content revision endpoint callerID keyID now = Inr b
    \<longleftrightarrow> IsAbs path
      \<and> (\<exists>info raw evidence t. lstat = Inr info \<and> \<not> ls_symlink info \<and> ls_regular info \<and> ls_perm info = 384
          \<and> 0 < ls_size info \<and> ls_size info \<le> int maxWardveilRestartEvidenceBytes
          \<and> content = Inr raw \<and> length raw \<le> maxWardveilRestartEvidenceBytes
          \<and> json_Decode_one False evidence_fields zero_evidence raw = Some evidence
          \<and> evidence = expected_evidence revision endpoint callerID keyID (ev_ObservedAt evidence)
          \<and> time_Parse (ev_ObservedAt evidence) = Some t \<and> t \<le> now + 5 * minute \<and> now - t \<le> 24 * hour
          \<and> b = \<lparr>rb_WardveilRevision = revision, rb_EvidenceSHA256 = hex_sha256 raw, rb_ObservedAt = t,
            rb_ReplayDurability = ''single_host_restart_durability_passed_by_validated_wardveil_runtime_evidence'',
            rb_MultiHostReplayStatus = ''not_proven''\<rparr>)"
proof (cases lstat)
  case (Inl e)
  then show ?thesis by (simp add: validateWardveilRestartEvidence_def)
next
  case lstat: (Inr info)
  show ?thesis
  proof (cases content)
    case (Inl e)
    then show ?thesis by (simp add: validateWardveilRestartEvidence_def lstat)
  next
    case content: (Inr raw)
    let ?d = "json_Decode_one False evidence_fields zero_evidence raw"
    show ?thesis
    proof (cases ?d)
      case None
      then show ?thesis by (simp add: validateWardveilRestartEvidence_def lstat content)
    next
      case (Some e)
      note iff = check_evidence_iff [of revision endpoint callerID keyID now e]
      show ?thesis
      proof (cases "check_evidence revision endpoint callerID keyID now e")
        case (Inl m)
        then show ?thesis using iff
          by (simp add: validateWardveilRestartEvidence_def lstat content Some) blast
      next
        case (Inr t)
        then show ?thesis using iff [of t]
          by (auto simp add: validateWardveilRestartEvidence_def lstat content Some)
      qed
    qed
  qed
qed

end
