(* ===== verification/Spec2Isabelle.thy ===== *)
theory Spec2Isabelle
  imports Http_Properties Http_History Upload_Races Server_Properties Server_Lifecycle Acceptance_Properties
begin

text \<open>
  GoreeCloud Drive is a Go service that keeps files of shared spaces. Uploads are staged chunk by chunk,
  scanned by an external scanner (Wardveil), and published only when the scanner cleared them; published
  objects can be put under quarantine on the scanner's request; nodes, memberships, quotas and upload
  sessions are rows of a PostgreSQL database. This library models all packages of \<^verbatim>\<open>internal/\<close> and the
  three programs of \<^verbatim>\<open>cmd/\<close> and proves what makes them correct. Every definition keeps the name of the Go
  function, with its package in front where the name clashes.

  \<^bold>\<open>How the program is read.\<close> A struct is a record, a defined string type a string, an \<^verbatim>\<open>int64\<close> an
  integer with the wrap-around written out (\<open>wrap64\<close>), a time a number of nanoseconds. A result
  \<^verbatim>\<open>(T, error)\<close> is a sum whose left side is an error; errors keep the sentinels and the wrapping that
  \<^verbatim>\<open>errors.Is\<close> sees, and message texts without their formatted arguments. State is passed explicitly: the
  operating system (\<open>os\<close>), the database (\<open>db\<close>), and the files together with the memory repository
  (\<open>usys\<close>). Interfaces are records of functions over a state type, so that one service runs over several
  states. Requests are handled one at a time; interleavings are sequences of whole calls (\<open>upload_step\<close>,
  \<open>server_reach\<close>, \<open>node_step\<close>, \<open>quota_step\<close>), except in two places: overlapping upload requests (\<open>conc_step\<close>),
  and the server's shutdown, where the two goroutines interleave.

  \<^bold>\<open>The world below the program.\<close> \<open>Go_Strings\<close>, \<open>Go_Path\<close>, \<open>Go_Time\<close>, \<open>Go_Json\<close>, \<open>Go_Decode\<close> and
  \<open>Go_Crypto\<close> are the parts of Go's standard library the code uses: UTF-8 and trimming, \<^verbatim>\<open>path/filepath\<close>,
  time stamps, JSON, SHA-256 and HMAC (executable; no collision resistance is assumed anywhere).
  \<open>Identifiers\<close> holds UUIDs and the identifier checks. \<open>Go_OS\<close> is the file system: names, inodes, bytes, a
  clock, random bytes and a schedule that may let every single call fail or write only a part. A crash
  after the n-th call is the schedule that fails every call after the n-th, so a statement for all schedules
  covers crashes. \<open>Database\<close> holds the rows, the constraints of \<^verbatim>\<open>migrations/\<close> and a failure schedule for
  statements.

  \<^bold>\<open>Components.\<close>
  \<^item> \<open>Storage_Local\<close>, \<open>Storage_Session\<close>, \<open>Storage_Quarantine\<close>, \<open>Quarantine_Recovery\<close>:
    \<^verbatim>\<open>internal/storage\<close>. The locale \<open>link_move\<close> is the contract of a move by link and remove; publishing and
    trashing interpret it. \<open>Storage_Properties\<close>: no schedule loses or overwrites bytes, appends only append,
    an interrupted quarantine can be repeated, every path stays in its area.
  \<^item> \<open>Wardveil_Scan\<close>: \<^verbatim>\<open>internal/wardveil/scan.go\<close>, the decision and the gate that hashes the staged bytes
    before and after the scan, over any \<open>staging_reader\<close>.
  \<^item> \<open>Http_Scanner\<close>: \<^verbatim>\<open>internal/wardveil/http_scanner.go\<close>, the signed request and the treatment of the answer.
  \<^item> \<open>Uploads\<close>, \<open>Upload_System\<close>, \<open>Upload_Reachable\<close>: \<^verbatim>\<open>internal/uploads/session.go\<close> and \<^verbatim>\<open>memory.go\<close>. The locale
    \<open>upload_environment\<close> is what the service relies on; \<open>Upload_System\<close> interprets it on the storage backend,
    the memory repository and the gate. \<open>Upload_Properties\<close>: what is published was cleared, acknowledged
    chunks are stored, completion succeeds on a reliable system, objects are immutable.
  \<^item> \<open>Upload_Concurrent\<close>, \<open>Upload_Races\<close>: the same service with any number of requests under way. An append
    and a completion are cut where they have read the session, where the storage backend has worked and where
    the session is written back; run without interruption the phases are the operation (\<open>Append_phases\<close>,
    \<open>Complete_phases\<close>), and a sequential history is one of the interleavings (\<open>upload_reach_conc\<close>). Every
    interleaving keeps the files consistent and the published bytes; that the published bytes are the scanned
    ones holds only for requests that do not overlap, and an append between the gate and the publication is
    a counterexample.
  \<^item> \<open>Upload_Postgres\<close>: \<^verbatim>\<open>internal/uploads/postgres.go\<close>, refined by the memory repository.
  \<^item> \<open>Access_Control\<close>, \<open>Nodes\<close>, \<open>Postgres_Store\<close>, \<open>Node_System\<close>: \<^verbatim>\<open>internal/authn\<close>, \<^verbatim>\<open>authz\<close>, \<^verbatim>\<open>spaceaccess\<close>,
    \<^verbatim>\<open>nodes\<close> and \<^verbatim>\<open>postgres\<close>, with the locale \<open>node_environment\<close>. \<open>Quota\<close>: \<^verbatim>\<open>internal/quota\<close>, with the locale
    \<open>quota_store\<close>. \<open>Metadata_Properties\<close>: spaces are isolated, the schema's invariants and the limits hold in
    every history, a listing is exact.
  \<^item> \<open>Quarantine_Service\<close>: \<^verbatim>\<open>internal/quarantine\<close> over the locale \<open>quarantine_store\<close>. \<open>Security_Properties\<close>: when
    an upload is released, and what a quarantine answer means.
  \<^item> \<open>Config\<close>, \<open>Http_Api\<close>, \<open>Http_Routes\<close>: \<^verbatim>\<open>internal/config\<close> and \<^verbatim>\<open>internal/httpapi\<close>. \<open>Http_Properties\<close>: what
    answers 200 of the upload and quarantine endpoints mean. \<open>Http_Frame\<close>: a relation that every call below
    keeps is kept by every request (the locale \<open>step_relation\<close>). \<open>Quarantine_Files\<close>: what a quarantine
    operation does to the files of the others. \<open>Http_History\<close> interprets the locale on the upload service's
    invariant: in every history of requests of any kind the published objects were scanned, and only an
    authorized quarantine operation takes one away.
  \<^item> \<open>Server\<close>, \<open>Server_Lifecycle\<close>: \<^verbatim>\<open>cmd/server\<close>, up to the listener as a function, from there as a transition
    system. \<open>Server_Properties\<close>: what is checked before the server listens, who gets in without a resolver,
    what a scan answer rests on.
  \<^item> \<open>Acceptance\<close>, \<open>Restart_Evidence\<close>, \<open>Negative_Acceptance\<close>: \<^verbatim>\<open>cmd/wardveil-acceptance\<close> and
    \<^verbatim>\<open>cmd/wardveil-negative-acceptance\<close>, which drive the service through its cases and report evidence.
    \<open>Acceptance_Lemmas\<close> removes the recording gate and frames the cases, \<open>Acceptance_Cases\<close> says what a passing
    case and a passing run of either program mean, \<open>Acceptance_Live\<close> shows that cases do pass on a new storage
    root, and \<open>Acceptance_Properties\<close> holds the properties.

  \<^bold>\<open>Bounds.\<close> The JSON reader carries fuel twice the length of its text, which is enough
  (\<open>json_value_fuel\<close>). \<^verbatim>\<open>os.CreateTemp\<close> gives up after ten thousand attempts, as Go does. All other recursion
  is structural or has a measure; the server's life has at most five steps.

  \<^bold>\<open>Parameters.\<close> The scanner is any function of the request, an open handle and the state; where a theorem
  needs more of it, it says so: \<open>scanner_ok\<close> (publishes no objects and forges no sessions), \<open>scanner_quiet\<close>
  (only reads), \<open>clearing_scanner\<close> (clears one resource). \<^verbatim>\<open>url.Parse\<close>, \<^verbatim>\<open>net.ParseIP\<close>, \<^verbatim>\<open>time.ParseDuration\<close>,
  the HTTP transport, the static file server, the look-up of the secret file and PostgreSQL's folding, ordering
  and clock are arguments. Theorems on a reliable system assume that no call fails; all others hold under
  every schedule.

  \<^bold>\<open>Not modelled.\<close> Contexts and deadlines (a call that a deadline ends is a failing call), log lines, file
  permissions (except where they are checked), flag parsing, the life of temporary directories and the
  printing of the acceptance evidence; requests that overlap inside one operation of the storage backend, of
  the repository or of the gate; TLS and the HTTP server itself;
  the TypeScript worker under \<^verbatim>\<open>cloudflare/\<close>, the web page, the contracts, the API description, the scripts
  and the SQL tests, which are not part of the Go programs. The zone of a time is dropped, only the instant is
  kept. Look-ups of \<^verbatim>\<open>os.Stat\<close> have a schedule of their own, since the code takes their errors for absence;
  the theorems on quarantine that need them to succeed say so.
\<close>

end
